(* ===== verification/Go_Prelude.thy ===== *)
theory Go_Prelude
  imports Main "HOL-Library.Word" "HOL-Library.Char_ord" "HOL-Library.List_Lexorder"
begin

text \<open>
  The part of the Go language and of its standard library that the bridge uses, and the
  generic lemmas the components share.

  Go strings are byte sequences: a \<open>string\<close> of HOL is a list of 8-bit characters, so
  \<open>length\<close> is Go's \<open>len\<close>. The functions below are the byte-level behaviour of the
  packages \<open>strings\<close>, \<open>strconv\<close> and \<open>fmt\<close>; case conversion and white space are
  those of ASCII text (Go extends them to the multi-byte letters and spaces of Unicode,
  which the Shure protocol and the NMOS identifiers do not use).

  Integers: Go's \<open>int\<close> has 64 bits on the platforms of the bridge. A value is an \<open>int\<close>
  in \<open>[-2^63, 2^63)\<close>; \<open>wrap64\<close> is the wrap-around of its arithmetic.

  Control: an operation of a goroutine ends in an \<open>outcome\<close>: it returns, it blocks for
  ever, or the process dies.
\<close>

named_theorems go_eval \<open>equations that evaluate the string and number functions\<close>
named_theorems go_intro \<open>introduction rules for the shared invariants\<close>

subsection \<open>Characters and case\<close>

abbreviation code_of :: "char \<Rightarrow> nat" where
  "code_of c \<equiv> (of_char c :: nat)"

definition is_space :: "char \<Rightarrow> bool" where
  "is_space c \<longleftrightarrow> c = CHR '' '' \<or> (9 \<le> code_of c \<and> code_of c \<le> 13)"

definition upper_char :: "char \<Rightarrow> char" where
  "upper_char c = (if 97 \<le> code_of c \<and> code_of c \<le> 122 then char_of (code_of c - 32) else c)"

definition lower_char :: "char \<Rightarrow> char" where
  "lower_char c = (if 65 \<le> code_of c \<and> code_of c \<le> 90 then char_of (code_of c + 32) else c)"

definition to_upper :: "string \<Rightarrow> string" where
  "to_upper s = map upper_char s"

definition to_lower :: "string \<Rightarrow> string" where
  "to_lower s = map lower_char s"

definition equal_fold :: "string \<Rightarrow> string \<Rightarrow> bool" where
  "equal_fold s t \<longleftrightarrow> to_lower s = to_lower t"

lemma code_of_char_of: "n < 256 \<Longrightarrow> code_of (char_of n) = n"
  by simp

lemma code_of_less: "code_of c < 256"
proof -
  have "code_of c = code_of c mod 256" by simp
  then show ?thesis by (metis mod_less_divisor zero_less_numeral)
qed

subsection \<open>Prefixes, search, trimming, splitting\<close>

definition has_prefix :: "string \<Rightarrow> string \<Rightarrow> bool" where
  "has_prefix s p \<longleftrightarrow> take (length p) s = p"

definition has_suffix :: "string \<Rightarrow> string \<Rightarrow> bool" where
  "has_suffix s p \<longleftrightarrow> length p \<le> length s \<and> drop (length s - length p) s = p"

fun str_index :: "string \<Rightarrow> string \<Rightarrow> nat option" where
  "str_index [] sub = (if sub = [] then Some 0 else None)"
| "str_index (c # s) sub =
     (if has_prefix (c # s) sub then Some 0 else map_option Suc (str_index s sub))"

definition str_contains :: "string \<Rightarrow> string \<Rightarrow> bool" where
  "str_contains s sub \<longleftrightarrow> str_index s sub \<noteq> None"

definition trim_left :: "(char \<Rightarrow> bool) \<Rightarrow> string \<Rightarrow> string" where
  "trim_left p s = dropWhile p s"

definition trim_right :: "(char \<Rightarrow> bool) \<Rightarrow> string \<Rightarrow> string" where
  "trim_right p s = rev (dropWhile p (rev s))"

definition str_trim :: "string \<Rightarrow> string \<Rightarrow> string" where
  "str_trim cs s = trim_right (\<lambda>c. c \<in> set cs) (trim_left (\<lambda>c. c \<in> set cs) s)"

definition trim_space :: "string \<Rightarrow> string" where
  "trim_space s = trim_right is_space (trim_left is_space s)"

definition trim_suffix :: "string \<Rightarrow> string \<Rightarrow> string" where
  "trim_suffix s p = (if has_suffix s p then take (length s - length p) s else s)"

definition trim_prefix :: "string \<Rightarrow> string \<Rightarrow> string" where
  "trim_prefix s p = (if has_prefix s p then drop (length p) s else s)"

fun fields_acc :: "string \<Rightarrow> string \<Rightarrow> string list" where
  "fields_acc cur [] = (if cur = [] then [] else [cur])"
| "fields_acc cur (c # s) =
     (if is_space c
      then (if cur = [] then fields_acc [] s else cur # fields_acc [] s)
      else fields_acc (cur @ [c]) s)"

definition str_fields :: "string \<Rightarrow> string list" where
  "str_fields s = fields_acc [] s"

fun split_acc :: "char \<Rightarrow> string \<Rightarrow> string \<Rightarrow> string list" where
  "split_acc d cur [] = [cur]"
| "split_acc d cur (c # s) =
     (if c = d then cur # split_acc d [] s else split_acc d (cur @ [c]) s)"

definition split_byte :: "char \<Rightarrow> string \<Rightarrow> string list" where
  "split_byte d s = split_acc d [] s"

definition replace_byte :: "char \<Rightarrow> string \<Rightarrow> string \<Rightarrow> string" where
  "replace_byte c new s = concat (map (\<lambda>x. if x = c then new else [x]) s)"

fun str_join :: "string \<Rightarrow> string list \<Rightarrow> string" where
  "str_join sep [] = []"
| "str_join sep [x] = x"
| "str_join sep (x # y # xs) = x @ sep @ str_join sep (y # xs)"

subsection \<open>Numbers and text\<close>

definition int64_range :: "int \<Rightarrow> bool" where
  "int64_range i \<longleftrightarrow> - (2 ^ 63) \<le> i \<and> i < 2 ^ 63"

definition wrap64 :: "int \<Rightarrow> int" where
  "wrap64 i = (i + 2 ^ 63) mod 2 ^ 64 - 2 ^ 63"

definition digit_char :: "nat \<Rightarrow> char" where
  "digit_char n = char_of (if n < 10 then 48 + n else 87 + n)"

fun nat_text :: "nat \<Rightarrow> string" where
  "nat_text n = (if n < 10 then [digit_char n] else nat_text (n div 10) @ [digit_char (n mod 10)])"

declare nat_text.simps [simp del]

definition itoa :: "int \<Rightarrow> string" where
  "itoa i = (if i < 0 then CHR ''-'' # nat_text (nat (- i)) else nat_text (nat i))"

definition zero_pad :: "nat \<Rightarrow> string \<Rightarrow> string" where
  "zero_pad w s = replicate (w - length s) (CHR ''0'') @ s"

definition fmt_0d :: "nat \<Rightarrow> int \<Rightarrow> string" where
  "fmt_0d w i = (if i < 0 then CHR ''-'' # zero_pad (w - 1) (nat_text (nat (- i)))
                 else zero_pad w (nat_text (nat i)))"

definition dec_digit :: "char \<Rightarrow> int option" where
  "dec_digit c = (if 48 \<le> code_of c \<and> code_of c \<le> 57 then Some (int (code_of c) - 48) else None)"

definition hex_digit :: "char \<Rightarrow> int option" where
  "hex_digit c =
     (if 48 \<le> code_of c \<and> code_of c \<le> 57 then Some (int (code_of c) - 48)
      else if 97 \<le> code_of c \<and> code_of c \<le> 102 then Some (int (code_of c) - 87)
      else if 65 \<le> code_of c \<and> code_of c \<le> 70 then Some (int (code_of c) - 55)
      else None)"

fun digits_val :: "int \<Rightarrow> (char \<Rightarrow> int option) \<Rightarrow> int \<Rightarrow> string \<Rightarrow> int option" where
  "digits_val b d acc [] = Some acc"
| "digits_val b d acc (c # s) =
     (case d c of None \<Rightarrow> None | Some v \<Rightarrow> digits_val b d (acc * b + v) s)"

definition parse_uint :: "int \<Rightarrow> (char \<Rightarrow> int option) \<Rightarrow> string \<Rightarrow> int option" where
  "parse_uint b d s = (if s = [] then None else digits_val b d 0 s)"

definition parse_int64 :: "int \<Rightarrow> (char \<Rightarrow> int option) \<Rightarrow> string \<Rightarrow> int option" where
  "parse_int64 b d s =
     (case s of
        [] \<Rightarrow> None
      | c # t \<Rightarrow>
          (case parse_uint b d (if c = CHR ''+'' \<or> c = CHR ''-'' then t else s) of
             None \<Rightarrow> None
           | Some n \<Rightarrow>
               if c = CHR ''-''
               then (if n \<le> 2 ^ 63 then Some (- n) else None)
               else (if n < 2 ^ 63 then Some n else None)))"

text \<open>\<open>strconv.Atoi\<close>, and \<open>strconv.ParseInt(s, 16, 64)\<close>.\<close>

definition atoi :: "string \<Rightarrow> int option" where
  "atoi s = parse_int64 10 dec_digit s"

definition parse_hex :: "string \<Rightarrow> int option" where
  "parse_hex s = parse_int64 16 hex_digit s"

subsection \<open>Outcomes of an operation\<close>

datatype 'a outcome = Ret 'a | Blocked | Panic string

fun obind :: "'a outcome \<Rightarrow> ('a \<Rightarrow> 'b outcome) \<Rightarrow> 'b outcome" where
  "obind (Ret x) f = f x"
| "obind Blocked f = Blocked"
| "obind (Panic e) f = Panic e"

definition returns :: "'a outcome \<Rightarrow> bool" where
  "returns r \<longleftrightarrow> (case r of Ret _ \<Rightarrow> True | _ \<Rightarrow> False)"

subsection \<open>Lemmas on the 64-bit range\<close>

lemma wrap64_range [go_intro]: "int64_range (wrap64 i)"
proof -
  have "0 \<le> (i + 2 ^ 63) mod 2 ^ 64" "(i + 2 ^ 63) mod 2 ^ 64 < (2 :: int) ^ 64" by simp_all
  then show ?thesis unfolding int64_range_def wrap64_def by simp
qed

lemma wrap64_id: "int64_range i \<Longrightarrow> wrap64 i = i"
  unfolding int64_range_def wrap64_def by simp

lemma digits_val_nonneg:
  assumes "\<And>c v. d c = Some v \<Longrightarrow> 0 \<le> v" and "0 \<le> acc" and "0 \<le> b"
    and "digits_val b d acc s = Some n"
  shows "0 \<le> n"
  using assms(2,4)
proof (induction s arbitrary: acc)
  case Nil
  then show ?case by simp
next
  case (Cons c s)
  then obtain v where v: "d c = Some v" "digits_val b d (acc * b + v) s = Some n"
    by (auto split: option.splits)
  with assms(1,3) Cons.prems(1) have "0 \<le> acc * b + v" by simp
  then show ?case using Cons.IH v(2) by blast
qed

lemma dec_digit_nonneg: "dec_digit c = Some v \<Longrightarrow> 0 \<le> v"
  by (auto simp: dec_digit_def split: if_splits)

lemma hex_digit_nonneg: "hex_digit c = Some v \<Longrightarrow> 0 \<le> v"
  by (auto simp: hex_digit_def split: if_splits)

lemma parse_int64_in_range:
  assumes "\<And>c v. d c = Some v \<Longrightarrow> 0 \<le> v" and "0 \<le> b" and "parse_int64 b d s = Some i"
  shows "int64_range i"
proof -
  have "0 \<le> n" if "parse_uint b d t = Some n" for t n
  proof -
    from that have "digits_val b d 0 t = Some n" by (auto simp: parse_uint_def split: if_splits)
    with assms(1,2) show ?thesis by (auto elim!: digits_val_nonneg [rotated 3])
  qed
  with assms(3) show ?thesis
    by (fastforce simp: parse_int64_def int64_range_def split: list.splits option.splits if_splits)
qed

lemma atoi_range [go_intro]: "atoi s = Some i \<Longrightarrow> int64_range i"
  unfolding atoi_def by (rule parse_int64_in_range [of dec_digit 10]) (auto dest: dec_digit_nonneg)

lemma parse_hex_range [go_intro]: "parse_hex s = Some i \<Longrightarrow> int64_range i"
  unfolding parse_hex_def by (rule parse_int64_in_range [of hex_digit 16]) (auto dest: hex_digit_nonneg)

subsection \<open>Lemmas on decimal text\<close>

definition is_digit :: "char \<Rightarrow> bool" where
  "is_digit c \<longleftrightarrow> 48 \<le> code_of c \<and> code_of c \<le> 57"

lemma digit_char_is_digit: "n < 10 \<Longrightarrow> is_digit (digit_char n)"
  by (simp add: digit_char_def is_digit_def)

lemma dec_digit_digit_char: "n < 10 \<Longrightarrow> dec_digit (digit_char n) = Some (int n)"
  by (simp add: digit_char_def dec_digit_def)

lemma nat_text_nonempty: "nat_text n \<noteq> []"
  by (subst nat_text.simps) simp

lemma nat_text_digits: "c \<in> set (nat_text n) \<Longrightarrow> is_digit c"
proof (induction n rule: nat_text.induct)
  case (1 n)
  then show ?case
    by (subst (asm) (2) nat_text.simps) (auto split: if_splits intro: digit_char_is_digit)
qed

lemma digits_val_append:
  "digits_val b d acc (s @ t) =
     (case digits_val b d acc s of None \<Rightarrow> None | Some a \<Rightarrow> digits_val b d a t)"
  by (induction s arbitrary: acc) (auto split: option.splits)

lemma digits_val_nat_text: "digits_val 10 dec_digit 0 (nat_text n) = Some (int n)"
proof (induction n rule: nat_text.induct)
  case (1 n)
  show ?case
  proof (cases "n < 10")
    case True
    then show ?thesis by (subst nat_text.simps) (simp add: dec_digit_digit_char)
  next
    case False
    with 1 have "digits_val 10 dec_digit 0 (nat_text (n div 10)) = Some (int (n div 10))" by simp
    with False show ?thesis
      by (subst nat_text.simps)
        (simp add: digits_val_append dec_digit_digit_char zdiv_int zmod_int)
  qed
qed

lemma is_digit_not_sign: "is_digit c \<Longrightarrow> c \<noteq> CHR ''-'' \<and> c \<noteq> CHR ''+''"
  by (auto simp: is_digit_def)

lemma atoi_nat_text: "int n < 2 ^ 63 \<Longrightarrow> atoi (nat_text n) = Some (int n)"
proof -
  assume n: "int n < 2 ^ 63"
  obtain c t where ct: "nat_text n = c # t" using nat_text_nonempty by (cases "nat_text n") auto
  then have "is_digit c" using nat_text_digits [of c n] by simp
  then have "c \<noteq> CHR ''-''" "c \<noteq> CHR ''+''" by (simp_all add: is_digit_not_sign)
  with ct n digits_val_nat_text [of n] show ?thesis
    by (simp add: atoi_def parse_int64_def parse_uint_def del: digits_val.simps)
qed

lemma atoi_itoa: "int64_range i \<Longrightarrow> atoi (itoa i) = Some i"
proof (cases "i < 0")
  case True
  assume r: "int64_range i"
  have "parse_uint 10 dec_digit (nat_text (nat (- i))) = Some (- i)"
    using True digits_val_nat_text [of "nat (- i)"] nat_text_nonempty by (simp add: parse_uint_def)
  with True r show ?thesis
    by (simp add: itoa_def atoi_def parse_int64_def int64_range_def)
next
  case False
  assume "int64_range i"
  with False show ?thesis
    using atoi_nat_text [of "nat i"] by (simp add: itoa_def int64_range_def)
qed

lemma itoa_nonempty: "itoa i \<noteq> []"
  using nat_text_nonempty by (simp add: itoa_def)

lemma itoa_chars: "c \<in> set (itoa i) \<Longrightarrow> is_digit c \<or> c = CHR ''-''"
  by (auto simp: itoa_def dest: nat_text_digits split: if_splits)

lemma itoa_no_space: "c \<in> set (itoa i) \<Longrightarrow> \<not> is_space c"
  by (drule itoa_chars) (auto simp: is_digit_def is_space_def)

lemma nat_text_inj: "nat_text m = nat_text n \<Longrightarrow> m = n"
  by (metis digits_val_nat_text nat_int option.inject)

lemma itoa_inj: "itoa i = itoa j \<Longrightarrow> i = j"
proof -
  assume eq: "itoa i = itoa j"
  have sign: "CHR ''-'' \<notin> set (nat_text n)" for n
    using nat_text_digits is_digit_not_sign by blast
  have first: "nat_text n \<noteq> CHR ''-'' # t" for n t
    by (metis sign list.set_intros(1))
  show ?thesis
  proof (cases "i < 0")
    case True
    with eq first have "j < 0" by (metis itoa_def)
    with True eq have "nat (- i) = nat (- j)" by (auto simp: itoa_def intro: nat_text_inj)
    with True \<open>j < 0\<close> show ?thesis by simp
  next
    case False
    with eq first have "\<not> j < 0" by (metis itoa_def)
    with False eq have "nat i = nat j" by (auto simp: itoa_def intro: nat_text_inj)
    with False \<open>\<not> j < 0\<close> show ?thesis by simp
  qed
qed

subsection \<open>Lemmas on fields, search and trimming\<close>

text \<open>A token is a word that \<open>strings.Fields\<close> does not break.\<close>

definition token :: "string \<Rightarrow> bool" where
  "token w \<longleftrightarrow> w \<noteq> [] \<and> list_all (\<lambda>c. \<not> is_space c) w"

lemma fields_acc_token:
  "list_all (\<lambda>c. \<not> is_space c) w \<Longrightarrow> fields_acc cur (w @ s) = fields_acc (cur @ w) s"
  by (induction w arbitrary: cur) simp_all

lemma str_fields_token_space [simp]:
  "token w \<Longrightarrow> str_fields (w @ CHR '' '' # s) = w # str_fields s"
  by (simp add: str_fields_def token_def fields_acc_token is_space_def)

lemma str_fields_token [simp]: "token w \<Longrightarrow> str_fields w = [w]"
  using fields_acc_token [of w "[]" "[]"] by (simp add: str_fields_def token_def)

lemma str_fields_first:
  assumes "token w"
  shows "\<exists>ws. str_fields (w @ CHR '' '' # s) = w # ws"
  using assms by simp

lemma token_itoa [simp, go_intro]: "token (itoa i)"
  using itoa_nonempty itoa_no_space by (auto simp: token_def list_all_iff)

lemma zero_not_space [simp]: "\<not> is_space (CHR ''0'')" "\<not> is_space (CHR ''-'')"
  by (simp_all add: is_space_def)

lemma is_digit_not_space: "is_digit c \<Longrightarrow> \<not> is_space c"
  by (auto simp: is_digit_def is_space_def)

lemma token_fmt_0d [simp, go_intro]: "token (fmt_0d w i)"
proof -
  have "\<not> is_space c" if "c \<in> set (nat_text n)" for c n
    using that by (intro is_digit_not_space nat_text_digits)
  then show ?thesis
    using nat_text_nonempty by (auto simp: token_def fmt_0d_def zero_pad_def list_all_iff)
qed

lemma digits_val_zeros:
  "digits_val 10 dec_digit 0 (replicate n (CHR ''0'') @ s) = digits_val 10 dec_digit 0 s"
  by (induction n) (simp_all add: dec_digit_def)

lemma zero_pad_chars: "c \<in> set (zero_pad w (nat_text n)) \<Longrightarrow> is_digit c"
  by (auto simp: zero_pad_def is_digit_def dest: nat_text_digits)

lemma zero_pad_nonempty: "zero_pad w (nat_text n) \<noteq> []"
  using nat_text_nonempty by (simp add: zero_pad_def)

lemma atoi_fmt_0d:
  assumes "0 \<le> i" "i < 2 ^ 63"
  shows "atoi (fmt_0d w i) = Some i"
proof -
  let ?s = "zero_pad w (nat_text (nat i))"
  obtain c t where ct: "?s = c # t" using zero_pad_nonempty by (cases ?s) auto
  then have "is_digit c" using zero_pad_chars [of c w "nat i"] by simp
  then have sign: "c \<noteq> CHR ''-''" "c \<noteq> CHR ''+''" by (simp_all add: is_digit_not_sign)
  have "digits_val 10 dec_digit 0 ?s = Some i"
    using assms by (simp add: zero_pad_def digits_val_zeros digits_val_nat_text)
  with ct sign assms show ?thesis
    by (simp add: fmt_0d_def atoi_def parse_int64_def parse_uint_def del: digits_val.simps)
qed

lemma length_fmt_0d:
  "0 \<le> i \<Longrightarrow> length (fmt_0d w i) = max w (length (nat_text (nat i)))"
  by (simp add: fmt_0d_def zero_pad_def)

lemma length_nat_text_less: "n < 10 ^ k \<Longrightarrow> 0 < k \<Longrightarrow> length (nat_text n) \<le> k"
proof (induction k arbitrary: n)
  case (Suc k)
  show ?case
  proof (cases "n < 10")
    case True
    then show ?thesis by (subst nat_text.simps) simp
  next
    case False
    with Suc.prems have "n div 10 < 10 ^ k" "0 < k"
      by (auto simp: less_mult_imp_div_less mult.commute intro: gr0I)
    with Suc.IH have "length (nat_text (n div 10)) \<le> k" by blast
    with False show ?thesis by (subst nat_text.simps) simp
  qed
qed simp

lemma has_prefix_append_same [simp]: "has_prefix (p @ s) p"
  by (simp add: has_prefix_def)

lemma str_index_skip_token:
  assumes "CHR '' '' \<notin> set p" "p \<noteq> []" "\<not> str_contains w p"
  shows "str_index (w @ CHR '' '' # s) p = map_option (\<lambda>i. i + length w + 1) (str_index s p)"
  using assms(3)
proof (induction w)
  case Nil
  have "\<not> has_prefix (CHR '' '' # s) p" using assms(1,2) by (cases p) (auto simp: has_prefix_def)
  then show ?case by simp
next
  case (Cons c w)
  have pre: "\<not> has_prefix (c # w @ CHR '' '' # s) p"
  proof
    assume "has_prefix (c # w @ CHR '' '' # s) p"
    then have eq: "take (length p) ((c # w) @ CHR '' '' # s) = p" by (simp add: has_prefix_def)
    show False
    proof (cases "length p \<le> length (c # w)")
      case True
      then have "take (length p) ((c # w) @ CHR '' '' # s) = take (length p) (c # w)"
        by (simp only: take_append) simp
      with eq have "has_prefix (c # w) p" by (simp only: has_prefix_def)
      with Cons.prems show False by (simp add: str_contains_def)
    next
      case False
      then have "CHR '' '' \<in> set (take (length p) ((c # w) @ CHR '' '' # s))"
        using assms(2) by (cases p) (auto simp: take_append take_Cons')
      with eq assms(1) show False by simp
    qed
  qed
  have "\<not> str_contains w p" using Cons.prems by (auto simp: str_contains_def split: if_splits)
  with pre Cons.IH show ?case by (simp add: option.map_comp comp_def)
qed

lemma str_index_here [simp]: "p \<noteq> [] \<Longrightarrow> str_index (p @ s) p = Some 0"
  by (cases p) (simp_all add: has_prefix_def)

lemma trim_left_append: "list_all p a \<Longrightarrow> trim_left p (a @ s) = trim_left p s"
  by (induction a) (simp_all add: trim_left_def)

lemma trim_right_append: "list_all p b \<Longrightarrow> trim_right p (s @ b) = trim_right p s"
  by (simp add: trim_right_def list_all_iff dropWhile_append)

lemma trim_left_id: "s = [] \<or> \<not> p (hd s) \<Longrightarrow> trim_left p s = s"
  by (cases s) (simp_all add: trim_left_def)

lemma trim_right_id: "s = [] \<or> \<not> p (last s) \<Longrightarrow> trim_right p s = s"
  by (cases s rule: rev_cases) (simp_all add: trim_right_def)

lemma trim_right_Nil [simp]: "trim_right p [] = []"
  by (simp add: trim_right_def)

text \<open>A string that survives trimming unchanged at both ends.\<close>

definition ends_outside :: "(char \<Rightarrow> bool) \<Rightarrow> string \<Rightarrow> bool" where
  "ends_outside p s \<longleftrightarrow> s = [] \<or> (\<not> p (hd s) \<and> \<not> p (last s))"

lemma trim_surround:
  assumes "list_all p a" "list_all p b" "ends_outside p s" "s \<noteq> []"
  shows "trim_right p (trim_left p (a @ s @ b)) = s"
proof -
  have "trim_left p (a @ s @ b) = s @ b"
    using assms by (simp add: trim_left_append ends_outside_def trim_left_id)
  with assms show ?thesis by (simp add: trim_right_append ends_outside_def trim_right_id)
qed

lemma trim_surround_empty:
  assumes "list_all p a" "list_all p b"
  shows "trim_right p (trim_left p (a @ b)) = []"
proof -
  have "dropWhile p b = []" using assms by (simp add: dropWhile_eq_Nil_conv list_all_iff)
  then have "trim_left p (a @ b) = []"
    using assms(1) trim_left_append [of p a b] by (simp add: trim_left_def)
  then show ?thesis by simp
qed

lemma str_trim_surround:
  "list_all (\<lambda>c. c \<in> set cs) a \<Longrightarrow> list_all (\<lambda>c. c \<in> set cs) b \<Longrightarrow>
   ends_outside (\<lambda>c. c \<in> set cs) s \<Longrightarrow> str_trim cs (a @ s @ b) = s"
  unfolding str_trim_def
  by (cases "s = []") (simp_all add: trim_surround trim_surround_empty)

lemma trim_space_surround:
  "list_all is_space a \<Longrightarrow> list_all is_space b \<Longrightarrow> ends_outside is_space s \<Longrightarrow>
   trim_space (a @ s @ b) = s"
  unfolding trim_space_def
  by (cases "s = []") (simp_all add: trim_surround trim_surround_empty)

lemma has_suffix_append_same [simp]: "has_suffix (s @ p) p"
  by (simp add: has_suffix_def)

end
