(* ===== verification/Shure_Model.thy ===== *)
theory Shure_Model
  imports Go_Prelude
begin

text \<open>
  Receiver families (\<open>internal/infrastructure/shure_commands.go\<close>, \<open>ShureModelFamily\<close> and
  the functions on it): which family a model string names, how many channels it has and how
  the family spells its parameters.

  \<open>ShureModelFamily\<close> is a named string type of Go with five declared constants. The
  constructor \<open>OtherFamily\<close> stands for every other string, which the \<open>default\<close> branches of
  the code handle.
\<close>

datatype ShureModelFamily =
    ModelFamilyAxientDigital
  | ModelFamilyULXD
  | ModelFamilyQLXD
  | ModelFamilySLXD
  | ModelFamilySLXDPlus
  | OtherFamily string

fun family_string :: "ShureModelFamily \<Rightarrow> string" where
  "family_string ModelFamilyAxientDigital = ''axient_digital''"
| "family_string ModelFamilyULXD = ''ulx_d''"
| "family_string ModelFamilyQLXD = ''qlx_d''"
| "family_string ModelFamilySLXD = ''slx_d''"
| "family_string ModelFamilySLXDPlus = ''slx_d_plus''"
| "family_string (OtherFamily s) = s"

definition UseSpaces :: "ShureModelFamily \<Rightarrow> bool" where
  "UseSpaces m \<longleftrightarrow> m = ModelFamilyULXD \<or> m = ModelFamilyQLXD"

fun MaxChannels :: "ShureModelFamily \<Rightarrow> int" where
  "MaxChannels ModelFamilyAxientDigital = 4"
| "MaxChannels ModelFamilyULXD = 4"
| "MaxChannels ModelFamilySLXD = 2"
| "MaxChannels ModelFamilySLXDPlus = 2"
| "MaxChannels ModelFamilyQLXD = 1"
| "MaxChannels (OtherFamily s) = 1"

definition DetectModelFamily :: "string \<Rightarrow> ShureModelFamily" where
  "DetectModelFamily model =
     (let modelUpper = to_upper model in
      if has_prefix modelUpper ''AD'' then ModelFamilyAxientDigital
      else if has_prefix modelUpper ''ULXD'' then ModelFamilyULXD
      else if has_prefix modelUpper ''QLXD'' then ModelFamilyQLXD
      else if str_contains modelUpper ''+'' \<or> str_contains modelUpper ''SLXD+''
        then ModelFamilySLXDPlus
      else if has_prefix modelUpper ''SLXD'' then ModelFamilySLXD
      else ModelFamilyAxientDigital)"

definition MaxChannelsFromModel :: "string \<Rightarrow> int" where
  "MaxChannelsFromModel model =
     (let modelUpper = to_upper model in
      if has_prefix modelUpper ''AD4Q'' then 4
      else if has_prefix modelUpper ''AD4D'' then 2
      else if has_prefix modelUpper ''ULXD4Q'' then 4
      else if has_prefix modelUpper ''ULXD4D'' then 2
      else if has_prefix modelUpper ''ULXD4'' then 1
      else if has_prefix modelUpper ''SLXD4Q+'' then 4
      else if has_prefix modelUpper ''SLXD4D+'' then 2
      else if has_prefix modelUpper ''SLXD4D'' then 2
      else if has_prefix modelUpper ''SLXD4+'' \<or> has_prefix modelUpper ''SLXD4'' then 1
      else if has_prefix modelUpper ''QLXD'' then 1
      else (case DetectModelFamily model of
              ModelFamilyAxientDigital \<Rightarrow> 4
            | ModelFamilyULXD \<Rightarrow> 4
            | ModelFamilySLXD \<Rightarrow> 2
            | ModelFamilySLXDPlus \<Rightarrow> 2
            | ModelFamilyQLXD \<Rightarrow> 1
            | OtherFamily s \<Rightarrow> 1))"

definition FormatParamName :: "ShureModelFamily \<Rightarrow> string \<Rightarrow> string" where
  "FormatParamName m param =
     (if UseSpaces m then replace_byte (CHR ''_'') '' '' (to_upper param) else to_upper param)"

subsection \<open>Prefixes and case\<close>

lemma has_prefix_iff: "has_prefix s p \<longleftrightarrow> (\<exists>t. s = p @ t)"
  by (metis append_eq_conv_conj append_take_drop_id has_prefix_def)

lemma has_prefix_append: "has_prefix s (p @ q) \<Longrightarrow> has_prefix s p"
  by (auto simp: has_prefix_iff)

lemma has_prefix_shorter: "has_prefix s p \<Longrightarrow> p = q @ r \<Longrightarrow> has_prefix s q"
  by (auto simp: has_prefix_iff)

lemma has_prefix_first: "has_prefix s (c # p) \<Longrightarrow> has_prefix s (d # q) \<Longrightarrow> c = d"
  by (auto simp: has_prefix_iff)

lemma upper_char_idem: "upper_char (upper_char c) = upper_char c"
proof (cases "97 \<le> code_of c \<and> code_of c \<le> 122")
  case True
  define u :: char where "u = char_of (code_of c - 32)"
  have "(code_of c - 32) mod 256 = code_of c - 32"
    by (rule mod_less) (use code_of_less [of c] in linarith)
  then have "code_of u = code_of c - 32" by (simp add: u_def)
  with True have "code_of u \<le> 90" by linarith
  then have "upper_char u = u" by (simp add: upper_char_def)
  moreover have "upper_char c = u" using True by (simp add: upper_char_def u_def)
  ultimately show ?thesis by (simp only:)
next
  case False
  then have "upper_char c = c" unfolding upper_char_def by (rule if_not_P)
  then show ?thesis by (simp only:)
qed

lemma to_upper_idem: "to_upper (to_upper s) = to_upper s"
  by (simp add: to_upper_def upper_char_idem)

lemma DetectModelFamily_declared: "DetectModelFamily model \<noteq> OtherFamily s"
  by (simp add: DetectModelFamily_def Let_def)

lemma DetectModelFamily_to_upper: "DetectModelFamily (to_upper model) = DetectModelFamily model"
  by (simp add: DetectModelFamily_def to_upper_idem)

lemma replace_byte_absent: "c \<notin> set new \<Longrightarrow> c \<notin> set (replace_byte c new s)"
  by (auto simp: replace_byte_def split: if_splits)

lemma replace_byte_ident: "c \<notin> set s \<Longrightarrow> replace_byte c new s = s"
  by (induction s) (auto simp: replace_byte_def)

lemma to_upper_replace_space: "to_upper (replace_byte (CHR ''_'') '' '' s) = replace_byte (CHR ''_'') '' '' (to_upper s)"
proof -
  have "upper_char c = CHR ''_'' \<longleftrightarrow> c = CHR ''_''" for c
    by (cases "97 \<le> code_of c \<and> code_of c \<le> 122")
      (auto simp: upper_char_def char_of_eq_iff take_bit_eq_mod)
  moreover have "upper_char (CHR '' '') = CHR '' ''" by (simp add: upper_char_def)
  ultimately show ?thesis by (induction s) (auto simp: replace_byte_def to_upper_def)
qed

lemma str_contains_byte: "c \<in> set s \<Longrightarrow> str_contains s [c]"
  by (induction s) (auto simp: str_contains_def has_prefix_def)

lemma MaxChannels_ge: "1 \<le> MaxChannels m" and MaxChannels_le: "MaxChannels m \<le> 4"
  by (cases m; simp)+

lemma prefix_ULXD4:
  "has_prefix s ''ULXD4Q'' \<or> has_prefix s ''ULXD4D'' \<or> has_prefix s ''ULXD4'' \<Longrightarrow> has_prefix s ''ULXD''"
  by (auto simp: has_prefix_iff)

lemma prefix_AD4:
  "has_prefix s ''AD4Q'' \<or> has_prefix s ''AD4D'' \<Longrightarrow> has_prefix s ''AD''"
  by (auto simp: has_prefix_iff)

lemma family_of_SLXD:
  assumes "has_prefix (to_upper model) ''SLXD''"
  shows "DetectModelFamily model = ModelFamilySLXD \<or> DetectModelFamily model = ModelFamilySLXDPlus"
proof -
  have "\<not> has_prefix (to_upper model) ''AD''" "\<not> has_prefix (to_upper model) ''ULXD''"
    "\<not> has_prefix (to_upper model) ''QLXD''"
    using assms by (auto simp: has_prefix_iff)
  with assms show ?thesis by (simp add: DetectModelFamily_def Let_def)
qed

lemma MaxChannelsFromModel_SLXD4:
  assumes "has_prefix (to_upper model) ''SLXD4''"
  shows "MaxChannelsFromModel model =
    (if has_prefix (to_upper model) ''SLXD4Q+'' then 4
     else if has_prefix (to_upper model) ''SLXD4D'' then 2 else 1)"
proof -
  have no: "\<not> has_prefix (to_upper model) (c # p)" if "c \<noteq> CHR ''S''" for c p
    using assms that by (auto simp: has_prefix_iff)
  have "has_prefix (to_upper model) ''SLXD4D+'' \<Longrightarrow> has_prefix (to_upper model) ''SLXD4D''"
    by (auto simp: has_prefix_iff)
  with assms show ?thesis by (auto simp: MaxChannelsFromModel_def Let_def no)
qed

lemma MaxChannelsFromModel_other:
  assumes "\<not> has_prefix (to_upper model) ''SLXD4''"
  shows "1 \<le> MaxChannelsFromModel model \<and> MaxChannelsFromModel model \<le> MaxChannels (DetectModelFamily model)"
proof -
  let ?s = "to_upper model"
  have no: "\<not> has_prefix ?s ''SLXD4Q+''" "\<not> has_prefix ?s ''SLXD4D+''"
    "\<not> has_prefix ?s ''SLXD4D''" "\<not> has_prefix ?s ''SLXD4+''"
    using assms by (auto simp: has_prefix_iff)
  have fam: "has_prefix ?s ''AD4Q'' \<or> has_prefix ?s ''AD4D'' \<Longrightarrow> DetectModelFamily model = ModelFamilyAxientDigital"
    "has_prefix ?s ''ULXD4Q'' \<or> has_prefix ?s ''ULXD4D'' \<or> has_prefix ?s ''ULXD4'' \<Longrightarrow> DetectModelFamily model = ModelFamilyULXD"
    "has_prefix ?s ''QLXD'' \<Longrightarrow> DetectModelFamily model = ModelFamilyQLXD"
    by (auto simp: DetectModelFamily_def Let_def has_prefix_iff)
  show ?thesis
    unfolding MaxChannelsFromModel_def Let_def
    using assms no fam by (cases "DetectModelFamily model") auto
qed

text \<open>
  The channel count taken from the model string is between 1 and 4 for every string, and
  it stays within the maximum of the family the string is detected as, except for exactly the
  strings that start with SLXD4Q+, for which the table answers 4 while the family allows 2.
\<close>

lemma MaxChannelsFromModel_bounds:
  "1 \<le> MaxChannelsFromModel model \<and> MaxChannelsFromModel model \<le> 4 \<and>
   (MaxChannels (DetectModelFamily model) < MaxChannelsFromModel model
      \<longleftrightarrow> has_prefix (to_upper model) ''SLXD4Q+'')"
proof (cases "has_prefix (to_upper model) ''SLXD4''")
  case True
  then have "has_prefix (to_upper model) ''SLXD''" by (auto simp: has_prefix_iff)
  with True show ?thesis
    using family_of_SLXD [of model] by (auto simp: MaxChannelsFromModel_SLXD4)
next
  case False
  then have "\<not> has_prefix (to_upper model) ''SLXD4Q+''" by (auto simp: has_prefix_iff)
  with MaxChannelsFromModel_other [OF False] MaxChannels_le [of "DetectModelFamily model"]
  show ?thesis by (auto simp: not_less)
qed

text \<open>
  A parameter name formatted for a family is a fixed point of the formatting; for the
  families that use spaces it holds no underscore, and for the others the formatting is
  upper-casing alone.
\<close>

lemma FormatParamName_normal:
  "FormatParamName m (FormatParamName m p) = FormatParamName m p \<and>
   (if UseSpaces m then CHR ''_'' \<notin> set (FormatParamName m p)
    else FormatParamName m p = to_upper p)"
proof (cases "UseSpaces m")
  case True
  have "CHR ''_'' \<notin> set (replace_byte (CHR ''_'') '' '' (to_upper p))"
    by (rule replace_byte_absent) simp
  with True show ?thesis
    by (simp add: FormatParamName_def to_upper_replace_space to_upper_idem replace_byte_ident)
next
  case False
  then show ?thesis by (simp add: FormatParamName_def to_upper_idem)
qed

end
