(* ===== verification/Shure_Commands.thy ===== *)
theory Shure_Commands
  imports Shure_Model "HOL-Library.Multiset"
begin

text \<open>
  The command builders and the catalogue of TPCI commands
  (\<open>internal/infrastructure/shure_commands.go\<close>).

  A builder keeps its parameters in a Go map. The map is an association list whose keys
  are distinct (\<open>WithParam\<close> replaces the value of a key it already has), and \<open>Build\<close> ranges
  over it in an order the language leaves open: the order is the parameter \<open>iter\<close> of the
  definitions, and \<open>map_order\<close> states what the language promises of it. The text of a
  floating point number is the parameter \<open>ff\<close> (\<open>fmt.Sprintf\<close> with the verb v on a float64).
\<close>

subsection \<open>Values\<close>

text \<open>The named string types that occur in the type switch of \<open>Build\<close>.\<close>

datatype named_type =
    AudioOutputLevelSwitch | AudioSummingMode | FrequencyDiversityMode | QuadversityMode
  | FDMode | EncryptionMode | RemotePairStatus | RemotePairAction | LinkTXStatus
  | EncryptionStatus | AntennaSquelchStatus | TXMuteStatus | TXMuteButtonStatus
  | TXPowerSource | BatteryType | TXLock | SlotStatus | SlotProperty | InterferenceStatus
  | NetworkInterface | IPMode

datatype cmdval =
    CNil
  | CString string
  | CInt int
  | CBool bool
  | CHighDensity bool
  | CEncWarning bool
  | CAxientGain int
  | CULXDGain int
  | CSLXDGain int
  | CSLDXAudioLevel int
  | CNamed named_type string
  | CGain "64 word"
  | CFrequency "64 word"
  | CStrList "string list"

type_synonym float_fmt = "64 word \<Rightarrow> string"
type_synonym param_order = "(string \<times> cmdval) list \<Rightarrow> (string \<times> cmdval) list"

definition map_order :: "param_order \<Rightarrow> bool" where
  "map_order iter \<longleftrightarrow> (\<forall>ps. mset (iter ps) = mset ps)"

definition AxientGain_ToDB :: "int \<Rightarrow> int" where "AxientGain_ToDB g = wrap64 (g - 18)"
definition AxientGain_String :: "int \<Rightarrow> string" where "AxientGain_String g = fmt_0d 3 g"
definition ULXDGain_ToDB :: "int \<Rightarrow> int" where "ULXDGain_ToDB g = wrap64 (g - 18)"
definition ULXDGain_String :: "int \<Rightarrow> string" where "ULXDGain_String g = fmt_0d 3 g"
definition SLXDGain_ToDB :: "int \<Rightarrow> int" where "SLXDGain_ToDB g = wrap64 (g - 18)"
definition SLXDGain_String :: "int \<Rightarrow> string" where "SLXDGain_String g = fmt_0d 3 g"
definition SLDXAudioLevel_ToDBFS :: "int \<Rightarrow> int" where "SLDXAudioLevel_ToDBFS l = wrap64 (l - 120)"
definition ULXDRFLevel_ToDBM :: "int \<Rightarrow> int" where "ULXDRFLevel_ToDBM l = wrap64 (l - 128)"
definition AxientLevel_ToDBFS :: "int \<Rightarrow> int" where "AxientLevel_ToDBFS l = wrap64 (l - 120)"
definition TXOffset_ToDB :: "int \<Rightarrow> int" where "TXOffset_ToDB v = wrap64 (v - 12)"
definition TXPowerLevel_ToMW :: "int \<Rightarrow> int" where "TXPowerLevel_ToMW p = p"

definition Mute_String :: "bool \<Rightarrow> string" where
  "Mute_String m = (if m then ''1'' else ''0'')"

definition Gain_String :: "float_fmt \<Rightarrow> 64 word \<Rightarrow> string" where "Gain_String ff g = ff g"
definition Frequency_String :: "float_fmt \<Rightarrow> 64 word \<Rightarrow> string" where "Frequency_String ff f = ff f"
definition Channel_String :: "int \<Rightarrow> string" where "Channel_String c = itoa c"
definition DeviceID_String :: "string \<Rightarrow> string" where "DeviceID_String d = d"

definition on_off :: "bool \<Rightarrow> string" where
  "on_off b = (if b then ''ON'' else ''OFF'')"

definition true_false :: "bool \<Rightarrow> string" where
  "true_false b = (if b then ''true'' else ''false'')"

definition braced :: "string \<Rightarrow> string" where
  "braced s = ''{'' @ s @ ''}''"

text \<open>The verb v of \<open>fmt\<close>: a value with a \<open>String\<close> method prints through it.\<close>

fun fmt_v :: "float_fmt \<Rightarrow> cmdval \<Rightarrow> string" where
  "fmt_v ff CNil = ''<nil>''"
| "fmt_v ff (CString s) = s"
| "fmt_v ff (CInt i) = itoa i"
| "fmt_v ff (CBool b) = true_false b"
| "fmt_v ff (CHighDensity b) = true_false b"
| "fmt_v ff (CEncWarning b) = true_false b"
| "fmt_v ff (CAxientGain g) = AxientGain_String g"
| "fmt_v ff (CULXDGain g) = ULXDGain_String g"
| "fmt_v ff (CSLXDGain g) = SLXDGain_String g"
| "fmt_v ff (CSLDXAudioLevel l) = itoa l"
| "fmt_v ff (CNamed t s) = s"
| "fmt_v ff (CGain g) = Gain_String ff g"
| "fmt_v ff (CFrequency f) = Frequency_String ff f"
| "fmt_v ff (CStrList xs) = ''['' @ str_join '' '' xs @ '']''"

subsection \<open>The builder\<close>

record ShureCommandBuilder =
  cb_command :: string
  cb_index :: "int option"
  cb_params :: "(string \<times> cmdval) list"

definition NewShureCommand :: "string \<Rightarrow> ShureCommandBuilder" where
  "NewShureCommand command =
     \<lparr> cb_command = to_upper command, cb_index = None, cb_params = [] \<rparr>"

definition WithIndex :: "ShureCommandBuilder \<Rightarrow> int \<Rightarrow> ShureCommandBuilder" where
  "WithIndex b i = b\<lparr> cb_index := Some i \<rparr>"

definition WithChannel :: "ShureCommandBuilder \<Rightarrow> int \<Rightarrow> ShureCommandBuilder" where
  "WithChannel b channel = WithIndex b channel"

fun param_put :: "string \<Rightarrow> cmdval \<Rightarrow> (string \<times> cmdval) list \<Rightarrow> (string \<times> cmdval) list" where
  "param_put k v [] = [(k, v)]"
| "param_put k v ((k', v') # ps) = (if k = k' then (k, v) # ps else (k', v') # param_put k v ps)"

definition WithParam :: "ShureCommandBuilder \<Rightarrow> string \<Rightarrow> cmdval \<Rightarrow> ShureCommandBuilder" where
  "WithParam b key value = b\<lparr> cb_params := param_put (to_upper key) value (cb_params b) \<rparr>"

fun value_text :: "float_fmt \<Rightarrow> cmdval \<Rightarrow> string" where
  "value_text ff (CString s) = braced s"
| "value_text ff (CInt i) = itoa i"
| "value_text ff (CBool b) = on_off b"
| "value_text ff (CHighDensity b) = on_off b"
| "value_text ff (CEncWarning b) = on_off b"
| "value_text ff (CAxientGain g) = fmt_0d 3 g"
| "value_text ff (CULXDGain g) = fmt_0d 3 g"
| "value_text ff (CSLXDGain g) = fmt_0d 3 g"
| "value_text ff (CSLDXAudioLevel l) = fmt_0d 3 l"
| "value_text ff (CNamed t s) = s"
| "value_text ff v = fmt_v ff v"

definition param_text :: "(cmdval \<Rightarrow> string) \<Rightarrow> string \<times> cmdval \<Rightarrow> string" where
  "param_text vt p =
     fst p @ (if snd p \<noteq> CNil then '' '' @ vt (snd p) else []) @ '' ''"

definition index_text :: "int option \<Rightarrow> string" where
  "index_text i = (case i of None \<Rightarrow> [] | Some n \<Rightarrow> itoa n @ '' '')"

definition Build :: "float_fmt \<Rightarrow> param_order \<Rightarrow> ShureCommandBuilder \<Rightarrow> string" where
  "Build ff iter b =
     ''< '' @ cb_command b @ '' '' @ index_text (cb_index b) @
     concat (map (param_text (value_text ff)) (iter (cb_params b))) @ ''>''"

subsection \<open>The builder that knows the family\<close>

record ShureCommandBuilderWithModel =
  cm_command :: string
  cm_index :: "int option"
  cm_params :: "(string \<times> cmdval) list"
  cm_family :: ShureModelFamily

definition NewShureCommandWithModel :: "string \<Rightarrow> ShureModelFamily \<Rightarrow> ShureCommandBuilderWithModel" where
  "NewShureCommandWithModel command family =
     \<lparr> cm_command = to_upper command, cm_index = None, cm_params = [], cm_family = family \<rparr>"

definition WithIndexM :: "ShureCommandBuilderWithModel \<Rightarrow> int \<Rightarrow> ShureCommandBuilderWithModel" where
  "WithIndexM b i = b\<lparr> cm_index := Some i \<rparr>"

definition WithParamM :: "ShureCommandBuilderWithModel \<Rightarrow> string \<Rightarrow> cmdval \<Rightarrow> ShureCommandBuilderWithModel" where
  "WithParamM b key value = b\<lparr> cm_params := param_put (to_upper key) value (cm_params b) \<rparr>"

fun value_text_model :: "float_fmt \<Rightarrow> ShureModelFamily \<Rightarrow> cmdval \<Rightarrow> string" where
  "value_text_model ff m (CString s) =
     (if m = ModelFamilyAxientDigital \<or> m = ModelFamilySLXDPlus \<or> m = ModelFamilySLXD
      then braced s else s)"
| "value_text_model ff m (CInt i) = itoa i"
| "value_text_model ff m (CBool b) = on_off b"
| "value_text_model ff m (CAxientGain g) = fmt_0d 3 g"
| "value_text_model ff m (CULXDGain g) = fmt_0d 3 g"
| "value_text_model ff m (CSLXDGain g) = fmt_0d 3 g"
| "value_text_model ff m (CSLDXAudioLevel l) = fmt_0d 3 l"
| "value_text_model ff m v = fmt_v ff v"

definition BuildM :: "float_fmt \<Rightarrow> param_order \<Rightarrow> ShureCommandBuilderWithModel \<Rightarrow> string" where
  "BuildM ff iter b =
     ''< '' @ cm_command b @ '' '' @ index_text (cm_index b) @
     concat (map (\<lambda>p. param_text (value_text_model ff (cm_family b))
                        (FormatParamName (cm_family b) (fst p), snd p))
                 (iter (cm_params b))) @ ''>''"

subsection \<open>Lemmas on the builders\<close>

lemma map_order_small [simp]: "map_order iter \<Longrightarrow> iter [] = []" "map_order iter \<Longrightarrow> iter [p] = [p]"
  by (auto simp: map_order_def dest: spec [of _ "[]"] spec [of _ "[p]"])

lemma map_order_id [simp, go_intro]: "map_order (\<lambda>ps. ps)" and map_order_rev [simp, go_intro]: "map_order rev"
  by (simp_all add: map_order_def)

lemma param_put_distinct [go_intro]: "distinct (map fst ps) \<Longrightarrow> distinct (map fst (param_put k v ps))"
proof (induction ps)
  case (Cons p ps)
  have "set (map fst (param_put k v ps)) \<subseteq> insert k (set (map fst ps))"
    by (induction ps rule: param_put.induct) auto
  with Cons show ?case by (cases p) auto
qed simp

lemma map_of_param_put: "map_of (param_put k v ps) = (map_of ps)(k \<mapsto> v)"
  by (induction k v ps rule: param_put.induct) auto

lemmas builder_defs = NewShureCommand_def WithIndex_def WithChannel_def WithParam_def

lemma Build_head: "\<exists>t. Build ff iter b = ''< '' @ cb_command b @ '' '' @ index_text (cb_index b) @ t"
  by (simp add: Build_def)

lemma fmt_v_declared [simp]: "fmt_v ff (CNamed t s) = s" by simp

text \<open>
  A gain between 0 and 999 is written by both builders as three digits, the digits read
  back as the same number, and the decibel value is the number less the offset of 18.
\<close>

lemma gain_text_roundtrip:
  assumes "0 \<le> g" "g \<le> 999"
  shows "length (value_text ff (CAxientGain g)) = 3 \<and>
    value_text ff (CULXDGain g) = value_text ff (CAxientGain g) \<and>
    value_text ff (CSLXDGain g) = value_text ff (CAxientGain g) \<and>
    value_text_model ff m (CAxientGain g) = value_text ff (CAxientGain g) \<and>
    map_option AxientGain_ToDB (atoi (value_text ff (CAxientGain g))) = Some (g - 18)"
proof -
  have "length (nat_text (nat g)) \<le> 3"
    using assms by (intro length_nat_text_less) simp_all
  then have "length (fmt_0d 3 g) = 3" using assms by (simp add: length_fmt_0d)
  moreover have "wrap64 (g - 18) = g - 18"
    using assms by (intro wrap64_id) (simp add: int64_range_def)
  ultimately show ?thesis
    using assms by (simp add: atoi_fmt_0d AxientGain_ToDB_def)
qed

lemma gain_text_roundtrip_witness:
  "map_option AxientGain_ToDB (atoi (value_text (\<lambda>w. []) (CAxientGain 30))) = Some 12"
  using gain_text_roundtrip [of 30 "\<lambda>w. []" ModelFamilyULXD] by simp

end
