(* ===== verification/Shure_Catalogue.thy ===== *)
theory Shure_Catalogue
  imports Shure_Commands
begin

text \<open>
  The catalogue of TPCI commands (\<open>internal/infrastructure/shure_commands.go\<close>): each command
  is a Go struct with a \<open>String\<close> method that drives the builder. A command is a constructor
  of the datatype of its section of the file, with the fields of the struct as arguments;
  the \<open>_String\<close> function of the section is the method. The named string types of Go admit
  every string: the constants the file declares for a type are its \<open>_consts\<close> list.
\<close>

subsection \<open>Declared constants\<close>

definition EncryptionMode_consts :: "string list" where
  "EncryptionMode_consts = [''ON'', ''OFF'', ''AUTO'', ''MANUAL'']"

definition SlotStatus_consts :: "string list" where
  "SlotStatus_consts = [''EMPTY'', ''STANDARD'', ''LINKED.INACTIVE'', ''LINKED.ACTIVE'']"

definition SlotProperty_consts :: "string list" where
  "SlotProperty_consts = [''SLOT_STATUS'', ''SLOT_TX_DEVICE_ID'', ''SLOT_TX_MODEL'',
         ''SLOT_SHOWLINK_STATUS'', ''SLOT_RF_POWER'', ''SLOT_RF_POWER_MODE'', ''SLOT_BATT_BARS'',
         ''SLOT_BATT_CHARGE_PERCENT'', ''SLOT_BATT_MINS'', ''SLOT_INPUT_PAD'', ''SLOT_OFFSET'',
         ''SLOT_POLARITY'']"

definition QuadversityMode_consts :: "string list" where
  "QuadversityMode_consts = [''OFF'', ''ON'']"

definition FDMode_consts :: "string list" where
  "FDMode_consts = [''OFF'', ''FD-C'', ''FD-S'']"

definition InterferenceStatus_consts :: "string list" where
  "InterferenceStatus_consts = [''NONE'', ''DETECTED'']"

definition BatteryType_consts :: "string list" where
  "BatteryType_consts = [''ALKA'', ''LION'', ''NIMH'', ''LITH'', ''UNKN'']"

definition TXLock_consts :: "string list" where
  "TXLock_consts = [''ON'', ''OFF'', ''ALL'', ''MENU'']"

definition AudioSummingMode_consts :: "string list" where
  "AudioSummingMode_consts = [''OFF'', ''1+2'', ''3+4'', ''1+2/3+4'', ''1+2+3+4'']"

definition FrequencyDiversityMode_consts :: "string list" where
  "FrequencyDiversityMode_consts = [''OFF'', ''1+2'', ''3+4'', ''1+2/3+4'']"

definition TXMuteStatus_consts :: "string list" where
  "TXMuteStatus_consts = [''UNKN'', ''ON'', ''OFF'']"

definition TXMuteButtonStatus_consts :: "string list" where
  "TXMuteButtonStatus_consts = [''UNKN'', ''PRESSED'', ''RELEASED'']"

definition TXPowerSource_consts :: "string list" where
  "TXPowerSource_consts = [''BATTERY'', ''EXTERNAL'', ''UNKN'']"

definition AntennaSquelchStatus_consts :: "string list" where
  "AntennaSquelchStatus_consts = [''AX'', ''XB'', ''XX'']"

definition AudioOutputLevelSwitch_consts :: "string list" where
  "AudioOutputLevelSwitch_consts = [''MIC'', ''LINE'']"

definition LockStatus_consts :: "string list" where
  "LockStatus_consts = [''OFF'', ''MENU'', ''ALL'']"

definition RemotePairStatus_consts :: "string list" where
  "RemotePairStatus_consts = [''ON'', ''OFF'', ''REQUEST'']"

definition RemotePairAction_consts :: "string list" where
  "RemotePairAction_consts = [''ACCEPT'', ''REJECT'']"

definition LinkTXStatus_consts :: "string list" where
  "LinkTXStatus_consts = [''EMPTY'', ''LINKED.INACTIVE'', ''LINKED.ACTIVE'']"

definition EncryptionStatus_consts :: "string list" where
  "EncryptionStatus_consts = [''OK'', ''ERROR'']"

definition NetworkInterface_consts :: "string list" where
  "NetworkInterface_consts = [''SC'', ''D1'', ''D2'']"

definition IPMode_consts :: "string list" where
  "IPMode_consts = [''AUTO'', ''MANUAL'']"

definition HighDensityMode_consts :: "bool list" where
  "HighDensityMode_consts = [True, False]"

definition EncryptionWarning_consts :: "bool list" where
  "EncryptionWarning_consts = [True, False]"

fun declared_consts :: "named_type \<Rightarrow> string list" where
  "declared_consts AudioOutputLevelSwitch = AudioOutputLevelSwitch_consts"
| "declared_consts AudioSummingMode = AudioSummingMode_consts"
| "declared_consts FrequencyDiversityMode = FrequencyDiversityMode_consts"
| "declared_consts QuadversityMode = QuadversityMode_consts"
| "declared_consts FDMode = FDMode_consts"
| "declared_consts EncryptionMode = EncryptionMode_consts"
| "declared_consts RemotePairStatus = RemotePairStatus_consts"
| "declared_consts RemotePairAction = RemotePairAction_consts"
| "declared_consts LinkTXStatus = LinkTXStatus_consts"
| "declared_consts EncryptionStatus = EncryptionStatus_consts"
| "declared_consts AntennaSquelchStatus = AntennaSquelchStatus_consts"
| "declared_consts TXMuteStatus = TXMuteStatus_consts"
| "declared_consts TXMuteButtonStatus = TXMuteButtonStatus_consts"
| "declared_consts TXPowerSource = TXPowerSource_consts"
| "declared_consts BatteryType = BatteryType_consts"
| "declared_consts TXLock = TXLock_consts"
| "declared_consts SlotStatus = SlotStatus_consts"
| "declared_consts SlotProperty = SlotProperty_consts"
| "declared_consts InterferenceStatus = InterferenceStatus_consts"
| "declared_consts NetworkInterface = NetworkInterface_consts"
| "declared_consts IPMode = IPMode_consts"

subsection \<open>Commands\<close>

datatype legacy_command =
    MicOnCommand string
  | MicOffCommand string
  | SetGainCommand string "64 word"
  | SetFrequencyCommand string "64 word"
  | GetStatusCommand string

fun legacy_command_String :: "float_fmt \<Rightarrow> param_order \<Rightarrow> legacy_command
         \<Rightarrow> string" where
  "legacy_command_String ff iter (MicOnCommand deviceID) =
     Build ff iter (WithParam (WithParam (NewShureCommand ''SET'') ''device'' (CString
         (DeviceID_String deviceID))) ''mute'' (CBool False))"
| "legacy_command_String ff iter (MicOffCommand deviceID) =
     Build ff iter (WithParam (WithParam (NewShureCommand ''SET'') ''device'' (CString
         (DeviceID_String deviceID))) ''mute'' (CBool True))"
| "legacy_command_String ff iter (SetGainCommand deviceID gain) =
     Build ff iter (WithParam (WithParam (NewShureCommand ''SET'') ''device'' (CString
         (DeviceID_String deviceID))) ''gain'' (CGain gain))"
| "legacy_command_String ff iter (SetFrequencyCommand deviceID frequency) =
     Build ff iter (WithParam (WithParam (NewShureCommand ''SET'') ''device'' (CString
         (DeviceID_String deviceID))) ''frequency'' (CFrequency frequency))"
| "legacy_command_String ff iter (GetStatusCommand deviceID) =
     Build ff iter (WithParam (NewShureCommand ''GET'') ''device'' (CString (DeviceID_String
         deviceID)))"

datatype device_command =
    GetModelCommand
  | GetFWVersionCommand
  | GetDeviceIDCommand
  | GetGroupChannelCommand int
  | SetGroupChannelCommand int int int
  | AxientGetGroupChannelCommand int
  | AxientSetGroupChannelCommand int int int

fun device_command_String :: "float_fmt \<Rightarrow> param_order \<Rightarrow> device_command
         \<Rightarrow> string" where
  "device_command_String ff iter GetModelCommand =
     Build ff iter (WithParam (NewShureCommand ''GET'') ''MODEL'' CNil)"
| "device_command_String ff iter GetFWVersionCommand =
     Build ff iter (WithParam (NewShureCommand ''GET'') ''FW_VER'' CNil)"
| "device_command_String ff iter GetDeviceIDCommand =
     Build ff iter (WithParam (NewShureCommand ''GET'') ''DEVICE_ID'' CNil)"
| "device_command_String ff iter (GetGroupChannelCommand channel) =
     Build ff iter (WithParam (WithIndex (NewShureCommand ''GET'') channel) ''GROUP_CHAN'' CNil)"
| "device_command_String ff iter (SetGroupChannelCommand channel grp channelNum) =
     Build ff iter (WithParam (WithIndex (NewShureCommand ''SET'') channel) ''GROUP_CHAN''
         (CString (fmt_0d 2 grp @ '','' @ fmt_0d 2 channelNum)))"
| "device_command_String ff iter (AxientGetGroupChannelCommand channel) =
     Build ff iter (WithParam (WithIndex (NewShureCommand ''GET'') channel) ''GROUP_CHANNEL'' CNil)"
| "device_command_String ff iter (AxientSetGroupChannelCommand channel grp channelNum) =
     Build ff iter (WithParam (WithIndex (NewShureCommand ''SET'') channel) ''GROUP_CHANNEL''
         (CString (fmt_0d 2 grp @ '','' @ fmt_0d 2 channelNum)))"

datatype meter_command =
    GetEncryptionModeCommand int
  | SetEncryptionModeCommand int string
  | SetMeterRateCommand int int
  | GetMeterRateCommand int

fun meter_command_String :: "float_fmt \<Rightarrow> param_order \<Rightarrow> meter_command
         \<Rightarrow> string" where
  "meter_command_String ff iter (GetEncryptionModeCommand channel) =
     Build ff iter (WithParam (WithIndex (NewShureCommand ''GET'') channel) ''ENCRYPTION_MODE''
         CNil)"
| "meter_command_String ff iter (SetEncryptionModeCommand channel mode) =
     Build ff iter (WithParam (WithIndex (NewShureCommand ''SET'') channel) ''ENCRYPTION_MODE''
         (CNamed EncryptionMode mode))"
| "meter_command_String ff iter (SetMeterRateCommand channel rateMs) =
     Build ff iter (WithParam (WithIndex (NewShureCommand ''SET'') channel) ''METER_RATE'' (CInt
         rateMs))"
| "meter_command_String ff iter (GetMeterRateCommand channel) =
     Build ff iter (WithParam (WithIndex (NewShureCommand ''GET'') channel) ''METER_RATE'' CNil)"

datatype slot_command =
    GetSlotPropertyCommand int int string
  | SetSlotPropertyCommand int int string cmdval

fun slot_command_String :: "float_fmt \<Rightarrow> param_order \<Rightarrow> slot_command
         \<Rightarrow> string" where
  "slot_command_String ff iter (GetSlotPropertyCommand channel slot property) =
     Build ff iter (WithParam (WithIndex (NewShureCommand ''GET'') channel) property (CInt slot))"
| "slot_command_String ff iter (SetSlotPropertyCommand channel slot property value) =
     Build ff iter (WithParam (WithParam (WithIndex (NewShureCommand ''SET'') channel) property
         value) ''slot'' (CInt slot))"

datatype diversity_command =
    GetQuadversityModeCommand int
  | SetQuadversityModeCommand int string
  | GetFDModeCommand int
  | SetFDModeCommand int string
  | GetInterferenceStatusCommand int

fun diversity_command_String :: "float_fmt \<Rightarrow> param_order \<Rightarrow>
         diversity_command \<Rightarrow> string" where
  "diversity_command_String ff iter (GetQuadversityModeCommand channel) =
     Build ff iter (WithParam (WithIndex (NewShureCommand ''GET'') channel) ''QUADVERSITY_MODE''
         CNil)"
| "diversity_command_String ff iter (SetQuadversityModeCommand channel mode) =
     Build ff iter (WithParam (WithIndex (NewShureCommand ''SET'') channel) ''QUADVERSITY_MODE''
         (CNamed QuadversityMode mode))"
| "diversity_command_String ff iter (GetFDModeCommand channel) =
     Build ff iter (WithParam (WithIndex (NewShureCommand ''GET'') channel) ''FD_MODE'' CNil)"
| "diversity_command_String ff iter (SetFDModeCommand channel mode) =
     Build ff iter (WithParam (WithIndex (NewShureCommand ''SET'') channel) ''FD_MODE'' (CNamed
         FDMode mode))"
| "diversity_command_String ff iter (GetInterferenceStatusCommand channel) =
     Build ff iter (WithParam (WithIndex (NewShureCommand ''GET'') channel)
         ''INTERFERENCE_STATUS'' CNil)"

datatype tx_command =
    GetTXBatteryBarsCommand int
  | GetTXBatteryChargePercentCommand int
  | GetTXBatteryMinsCommand int
  | GetTXBatteryTempCCommand int
  | GetTXBatteryCycleCountCommand int
  | GetTXBatteryHealthCommand int
  | GetTXBatteryTypeCommand int
  | GetTXModelCommand int
  | GetTXPowerLevelCommand int
  | GetTXOffsetCommand int
  | GetTXLockCommand int

fun tx_command_String :: "float_fmt \<Rightarrow> param_order \<Rightarrow> tx_command
         \<Rightarrow> string" where
  "tx_command_String ff iter (GetTXBatteryBarsCommand channel) =
     Build ff iter (WithParam (WithIndex (NewShureCommand ''GET'') channel) ''TX_BATT_BARS'' CNil)"
| "tx_command_String ff iter (GetTXBatteryChargePercentCommand channel) =
     Build ff iter (WithParam (WithIndex (NewShureCommand ''GET'') channel)
         ''TX_BATT_CHARGE_PERCENT'' CNil)"
| "tx_command_String ff iter (GetTXBatteryMinsCommand channel) =
     Build ff iter (WithParam (WithIndex (NewShureCommand ''GET'') channel) ''TX_BATT_MINS'' CNil)"
| "tx_command_String ff iter (GetTXBatteryTempCCommand channel) =
     Build ff iter (WithParam (WithIndex (NewShureCommand ''GET'') channel) ''TX_BATT_TEMP_C''
         CNil)"
| "tx_command_String ff iter (GetTXBatteryCycleCountCommand channel) =
     Build ff iter (WithParam (WithIndex (NewShureCommand ''GET'') channel)
         ''TX_BATT_CYCLE_COUNT'' CNil)"
| "tx_command_String ff iter (GetTXBatteryHealthCommand channel) =
     Build ff iter (WithParam (WithIndex (NewShureCommand ''GET'') channel)
         ''TX_BATT_HEALTH_PERCENT'' CNil)"
| "tx_command_String ff iter (GetTXBatteryTypeCommand channel) =
     Build ff iter (WithParam (WithIndex (NewShureCommand ''GET'') channel) ''TX_BATT_TYPE'' CNil)"
| "tx_command_String ff iter (GetTXModelCommand channel) =
     Build ff iter (WithParam (WithIndex (NewShureCommand ''GET'') channel) ''TX_MODEL'' CNil)"
| "tx_command_String ff iter (GetTXPowerLevelCommand channel) =
     Build ff iter (WithParam (WithIndex (NewShureCommand ''GET'') channel) ''TX_POWER_LEVEL''
         CNil)"
| "tx_command_String ff iter (GetTXOffsetCommand channel) =
     Build ff iter (WithParam (WithIndex (NewShureCommand ''GET'') channel) ''TX_OFFSET'' CNil)"
| "tx_command_String ff iter (GetTXLockCommand channel) =
     Build ff iter (WithParam (WithIndex (NewShureCommand ''GET'') channel) ''TX_LOCK'' CNil)"

datatype ulxd_command =
    GetHighDensityModeCommand
  | SetHighDensityModeCommand bool
  | GetAudioSummingModeCommand
  | SetAudioSummingModeCommand string
  | GetFrequencyDiversityModeCommand
  | SetFrequencyDiversityModeCommand string
  | GetEncryptionWarningCommand int
  | SetEncryptionWarningCommand int bool
  | GetTXMuteStatusCommand int
  | GetTXMuteButtonStatusCommand int
  | GetTXPowerSourceCommand int

fun ulxd_command_String :: "float_fmt \<Rightarrow> param_order \<Rightarrow> ulxd_command
         \<Rightarrow> string" where
  "ulxd_command_String ff iter GetHighDensityModeCommand =
     Build ff iter (WithParam (NewShureCommand ''GET'') ''HIGH_DENSITY'' CNil)"
| "ulxd_command_String ff iter (SetHighDensityModeCommand mode) =
     Build ff iter (WithParam (NewShureCommand ''SET'') ''HIGH_DENSITY'' (CHighDensity mode))"
| "ulxd_command_String ff iter GetAudioSummingModeCommand =
     Build ff iter (WithParam (NewShureCommand ''GET'') ''AUDIO_SUMMING_MODE'' CNil)"
| "ulxd_command_String ff iter (SetAudioSummingModeCommand mode) =
     Build ff iter (WithParam (NewShureCommand ''SET'') ''AUDIO_SUMMING_MODE'' (CNamed
         AudioSummingMode mode))"
| "ulxd_command_String ff iter GetFrequencyDiversityModeCommand =
     Build ff iter (WithParam (NewShureCommand ''GET'') ''FREQUENCY_DIVERSITY_MODE'' CNil)"
| "ulxd_command_String ff iter (SetFrequencyDiversityModeCommand mode) =
     Build ff iter (WithParam (NewShureCommand ''SET'') ''FREQUENCY_DIVERSITY_MODE'' (CNamed
         FrequencyDiversityMode mode))"
| "ulxd_command_String ff iter (GetEncryptionWarningCommand channel) =
     Build ff iter (WithParam (WithIndex (NewShureCommand ''GET'') channel)
         ''ENCRYPTION_WARNING'' CNil)"
| "ulxd_command_String ff iter (SetEncryptionWarningCommand channel mode) =
     Build ff iter (WithParam (WithIndex (NewShureCommand ''SET'') channel)
         ''ENCRYPTION_WARNING'' (CEncWarning mode))"
| "ulxd_command_String ff iter (GetTXMuteStatusCommand channel) =
     Build ff iter (WithParam (WithIndex (NewShureCommand ''GET'') channel) ''TX_MUTE_STATUS''
         CNil)"
| "ulxd_command_String ff iter (GetTXMuteButtonStatusCommand channel) =
     Build ff iter (WithParam (WithIndex (NewShureCommand ''GET'') channel)
         ''TX_MUTE_BUTTON_STATUS'' CNil)"
| "ulxd_command_String ff iter (GetTXPowerSourceCommand channel) =
     Build ff iter (WithParam (WithIndex (NewShureCommand ''GET'') channel) ''TX_POWER_SOURCE''
         CNil)"

datatype slxd_command =
    GetLockStatusCommand
  | GetAudioOutputLevelSwitchCommand int
  | SetAudioOutputLevelSwitchCommand int string

fun slxd_command_String :: "float_fmt \<Rightarrow> param_order \<Rightarrow> slxd_command
         \<Rightarrow> string" where
  "slxd_command_String ff iter GetLockStatusCommand =
     Build ff iter (WithParam (NewShureCommand ''GET'') ''LOCK_STATUS'' CNil)"
| "slxd_command_String ff iter (GetAudioOutputLevelSwitchCommand channel) =
     Build ff iter (WithParam (WithIndex (NewShureCommand ''GET'') channel)
         ''AUDIO_OUT_LVL_SWITCH'' CNil)"
| "slxd_command_String ff iter (SetAudioOutputLevelSwitchCommand channel level) =
     Build ff iter (WithParam (WithIndex (NewShureCommand ''SET'') channel)
         ''AUDIO_OUT_LVL_SWITCH'' (CNamed AudioOutputLevelSwitch level))"

datatype dante_command =
    GetNADeviceNameCommand
  | GetNAChannelNameCommand int
  | SetNetSettingsCommand string string string string string
  | GetAppConnEnabledCommand
  | SetRemotePairCommand int string
  | RespondRemotePairCommand int string string

fun dante_command_String :: "float_fmt \<Rightarrow> param_order \<Rightarrow> dante_command
         \<Rightarrow> string" where
  "dante_command_String ff iter GetNADeviceNameCommand =
     Build ff iter (WithParam (NewShureCommand ''GET'') ''NA_DEVICE_NAME'' CNil)"
| "dante_command_String ff iter (GetNAChannelNameCommand channel) =
     Build ff iter (WithParam (WithIndex (NewShureCommand ''GET'') channel) ''NA_CHAN_NAME'' CNil)"
| "dante_command_String ff iter (SetNetSettingsCommand interface iPMode iPAddress subnetMask
         gateway) =
     Build ff iter (WithParam (NewShureCommand ''SET'') ''NET_SETTINGS'' (CStrList [interface,
         iPMode, iPAddress, subnetMask, gateway]))"
| "dante_command_String ff iter GetAppConnEnabledCommand =
     Build ff iter (WithParam (NewShureCommand ''GET'') ''APP_CONN_ENABLED'' CNil)"
| "dante_command_String ff iter (SetRemotePairCommand channel status) =
     Build ff iter (WithParam (WithIndex (NewShureCommand ''SET'') channel) ''REM_PAIR'' (CNamed
         RemotePairStatus status))"
| "dante_command_String ff iter (RespondRemotePairCommand channel txName action) =
     Build ff iter (WithParam (WithParam (WithIndex (NewShureCommand ''SET'') channel)
         ''REM_PAIR'' (CNamed RemotePairAction action)) ''TxName'' (CString txName))"

datatype link_command =
    GetLinkStatusCommand int int
  | GetLinkTXModelCommand int int
  | GetLinkTXBatteryMinsCommand int int
  | RebootLinkTXCommand int int
  | GetEncryptionStatusCommand int
  | GetSLXInterferenceStatusCommand int

fun link_command_String :: "float_fmt \<Rightarrow> param_order \<Rightarrow> link_command
         \<Rightarrow> string" where
  "link_command_String ff iter (GetLinkStatusCommand channel slot) =
     Build ff iter (WithParam (WithIndex (NewShureCommand ''GET'') channel) ''LINK_STATUS'' (CInt
         slot))"
| "link_command_String ff iter (GetLinkTXModelCommand channel slot) =
     Build ff iter (WithParam (WithIndex (NewShureCommand ''GET'') channel) ''LINK_TX_MODEL''
         (CInt slot))"
| "link_command_String ff iter (GetLinkTXBatteryMinsCommand channel slot) =
     Build ff iter (WithParam (WithIndex (NewShureCommand ''GET'') channel) ''LINK_TX_BATT_MINS''
         (CInt slot))"
| "link_command_String ff iter (RebootLinkTXCommand channel slot) =
     Build ff iter (WithParam (WithIndex (NewShureCommand ''SET'') channel) ''LINK_TX_REBOOT''
         (CInt slot))"
| "link_command_String ff iter (GetEncryptionStatusCommand channel) =
     Build ff iter (WithParam (WithIndex (NewShureCommand ''GET'') channel) ''ENCRYPTION_STATUS''
         CNil)"
| "link_command_String ff iter (GetSLXInterferenceStatusCommand channel) =
     Build ff iter (WithParam (WithIndex (NewShureCommand ''GET'') channel)
         ''INTERFERENCE_STATUS'' CNil)"

datatype charger_command =
    GetTXAvailableCommand int
  | GetBattTimeToFullCommand int
  | GetBattBarsCommand int
  | GetBattChargeCommand int
  | GetBattCycleCommand int
  | GetBattHealthCommand int

fun charger_command_String :: "float_fmt \<Rightarrow> param_order \<Rightarrow> charger_command
         \<Rightarrow> string" where
  "charger_command_String ff iter (GetTXAvailableCommand bay) =
     Build ff iter (WithParam (WithIndex (NewShureCommand ''GET'') bay) ''TX_AVAILABLE'' CNil)"
| "charger_command_String ff iter (GetBattTimeToFullCommand bay) =
     Build ff iter (WithParam (WithIndex (NewShureCommand ''GET'') bay) ''BATT_TIME_TO_FULL'' CNil)"
| "charger_command_String ff iter (GetBattBarsCommand bay) =
     Build ff iter (WithParam (WithIndex (NewShureCommand ''GET'') bay) ''BATT_BARS'' CNil)"
| "charger_command_String ff iter (GetBattChargeCommand bay) =
     Build ff iter (WithParam (WithIndex (NewShureCommand ''GET'') bay) ''BATT_CHARGE'' CNil)"
| "charger_command_String ff iter (GetBattCycleCommand bay) =
     Build ff iter (WithParam (WithIndex (NewShureCommand ''GET'') bay) ''BATT_CYCLE'' CNil)"
| "charger_command_String ff iter (GetBattHealthCommand bay) =
     Build ff iter (WithParam (WithIndex (NewShureCommand ''GET'') bay) ''BATT_HEALTH'' CNil)"

subsection \<open>Functions on a channel\<close>

definition GetAllCommand :: "float_fmt \<Rightarrow> param_order \<Rightarrow> int \<Rightarrow>
         string" where
  "GetAllCommand ff iter channel =
     Build ff iter (WithParam (WithIndex (NewShureCommand ''GET'') channel) ''ALL'' CNil)"

definition SetFlashCommand :: "float_fmt \<Rightarrow> param_order \<Rightarrow> int
         \<Rightarrow> bool \<Rightarrow> string" where
  "SetFlashCommand ff iter channel on =
     Build ff iter (WithParam (WithIndex (NewShureCommand ''SET'') channel) ''FLASH'' (CBool on))"

definition SetMuteCommand :: "float_fmt \<Rightarrow> param_order \<Rightarrow> int \<Rightarrow>
         bool \<Rightarrow> string" where
  "SetMuteCommand ff iter channel mute =
     Build ff iter (WithParam (WithIndex (NewShureCommand ''SET'') channel) ''AUDIO_MUTE'' (CBool
         mute))"

subsection \<open>All commands\<close>

datatype shure_command =
    Legacy_command legacy_command
  | Device_command device_command
  | Meter_command meter_command
  | Slot_command slot_command
  | Diversity_command diversity_command
  | TX_command tx_command
  | ULXD_command ulxd_command
  | SLXD_command slxd_command
  | Dante_command dante_command
  | Link_command link_command
  | Charger_command charger_command

fun command_String :: "float_fmt \<Rightarrow> param_order \<Rightarrow> shure_command
         \<Rightarrow> string" where
  "command_String ff iter (Legacy_command c) = legacy_command_String ff iter c"
| "command_String ff iter (Device_command c) = device_command_String ff iter c"
| "command_String ff iter (Meter_command c) = meter_command_String ff iter c"
| "command_String ff iter (Slot_command c) = slot_command_String ff iter c"
| "command_String ff iter (Diversity_command c) = diversity_command_String ff iter c"
| "command_String ff iter (TX_command c) = tx_command_String ff iter c"
| "command_String ff iter (ULXD_command c) = ulxd_command_String ff iter c"
| "command_String ff iter (SLXD_command c) = slxd_command_String ff iter c"
| "command_String ff iter (Dante_command c) = dante_command_String ff iter c"
| "command_String ff iter (Link_command c) = link_command_String ff iter c"
| "command_String ff iter (Charger_command c) = charger_command_String ff iter c"

subsection \<open>Order of the parameters\<close>

text \<open>
  The commands whose builder holds two parameters. A slot property with the name SLOT would
  share its key with the second parameter and leave one entry in the map.
\<close>

fun two_param :: "shure_command \<Rightarrow> bool" where
  "two_param (Legacy_command (MicOnCommand d)) = True"
| "two_param (Legacy_command (MicOffCommand d)) = True"
| "two_param (Legacy_command (SetGainCommand d g)) = True"
| "two_param (Legacy_command (SetFrequencyCommand d f)) = True"
| "two_param (Slot_command (SetSlotPropertyCommand c s p v)) = (to_upper p \<noteq> to_upper ''slot'')"
| "two_param (Dante_command (RespondRemotePairCommand c t a)) = True"
| "two_param c = False"

lemmas command_String_simps =
  legacy_command_String.simps device_command_String.simps meter_command_String.simps
  slot_command_String.simps diversity_command_String.simps tx_command_String.simps
  ulxd_command_String.simps slxd_command_String.simps dante_command_String.simps
  link_command_String.simps charger_command_String.simps

lemma Build_order_irrelevant:
  assumes "map_order i1" "map_order i2" "length (cb_params b) \<le> 1"
  shows "Build ff i1 b = Build ff i2 b"
proof -
  have "i1 (cb_params b) = i2 (cb_params b)"
    using assms by (cases "cb_params b") auto
  then show ?thesis by (simp add: Build_def)
qed

lemma one_param [simp]:
  "length (cb_params (WithParam (NewShureCommand v) k x)) = Suc 0"
  "length (cb_params (WithParam (WithIndex (NewShureCommand v) i) k x)) = Suc 0"
  by (simp_all add: builder_defs)

lemma same_key_param:
  "to_upper k = to_upper k' \<Longrightarrow>
   length (cb_params (WithParam (WithParam (WithIndex (NewShureCommand v) i) k x) k' y)) = Suc 0"
  by (simp add: builder_defs)

text \<open>
  Every command other than the six that carry two parameters has one text: no order in
  which the map may be visited changes it.
\<close>

lemma command_text_deterministic:
  assumes "map_order i1" "map_order i2" "\<not> two_param c"
  shows "command_String ff i1 c = command_String ff i2 c"
proof -
  note * = Build_order_irrelevant [OF assms(1,2)]
  show ?thesis
  proof (cases c)
    case (Legacy_command x) with assms(3) show ?thesis by (cases x) (auto intro: *)
  next
    case (Device_command x) then show ?thesis by (cases x) (auto intro: *)
  next
    case (Meter_command x) then show ?thesis by (cases x) (auto intro: *)
  next
    case (Slot_command x) with assms(3) show ?thesis
      by (cases x) (auto intro!: * simp: same_key_param)
  next
    case (Diversity_command x) then show ?thesis by (cases x) (auto intro: *)
  next
    case (TX_command x) then show ?thesis by (cases x) (auto intro: *)
  next
    case (ULXD_command x) then show ?thesis by (cases x) (auto intro: *)
  next
    case (SLXD_command x) then show ?thesis by (cases x) (auto intro: *)
  next
    case (Dante_command x) with assms(3) show ?thesis by (cases x) (auto intro: *)
  next
    case (Link_command x) then show ?thesis by (cases x) (auto intro: *)
  next
    case (Charger_command x) then show ?thesis by (cases x) (auto intro: *)
  qed
qed

lemma command_text_deterministic_witness:
  "command_String (\<lambda>w. []) rev (Meter_command (SetMeterRateCommand 1 1000)) =
   ''< SET 1 METER_RATE 1000 >''"
proof -
  have "command_String (\<lambda>w. []) (\<lambda>ps. ps) (Meter_command (SetMeterRateCommand 1 1000)) =
    ''< SET 1 METER_RATE 1000 >''" by code_simp
  then show ?thesis
    using command_text_deterministic [of rev "\<lambda>ps. ps" "Meter_command (SetMeterRateCommand 1 1000)" "\<lambda>w. []"]
    by simp
qed

lemma builder_names [simp]:
  "to_upper ''device'' = ''DEVICE''" "to_upper ''mute'' = ''MUTE''"
  "to_upper ''gain'' = ''GAIN''" "to_upper ''frequency'' = ''FREQUENCY''"
  "to_upper ''slot'' = ''SLOT''" "to_upper ''REM_PAIR'' = ''REM_PAIR''"
  "to_upper ''TxName'' = ''TXNAME''"
  by code_simp+

lemma slot_property_name:
  assumes "p \<in> set SlotProperty_consts"
  shows "to_upper p = p \<and> (\<exists>r. p = ''SLOT_'' @ r)"
proof -
  have "list_all (\<lambda>p. to_upper p = p \<and> has_prefix p ''SLOT_'') SlotProperty_consts" by code_simp
  with assms show ?thesis by (simp add: list_all_iff has_prefix_iff)
qed

text \<open>
  The two texts of a command with two parameters differ: for the slot properties the file
  declares and for all the other commands of this kind, the order of the map decides the text
  that is sent.
\<close>

lemma two_param_text_ambiguous:
  assumes "two_param c"
    and "\<forall>ch s p v. c = Slot_command (SetSlotPropertyCommand ch s p v) \<longrightarrow> p \<in> set SlotProperty_consts"
  shows "command_String ff (\<lambda>ps. ps) c \<noteq> command_String ff rev c"
proof (cases c)
  case (Legacy_command x)
  with assms(1) show ?thesis by (cases x) (simp_all add: Build_def builder_defs param_text_def)
next
  case (Slot_command x)
  with assms(1) obtain ch n p v where x: "x = SetSlotPropertyCommand ch n p v" by (cases x) auto
  with Slot_command assms(2) have "p \<in> set SlotProperty_consts" by blast
  then obtain r where "to_upper p = ''SLOT_'' @ r" using slot_property_name by fastforce
  with Slot_command x show ?thesis by (simp add: Build_def builder_defs param_text_def)
next
  case (Dante_command x)
  with assms(1) show ?thesis by (cases x) (simp_all add: Build_def builder_defs param_text_def)
qed (use assms(1) in simp_all)

lemma two_param_text_ambiguous_witness:
  "command_String (\<lambda>w. []) (\<lambda>ps. ps) (Legacy_command (MicOnCommand ''A1'')) \<noteq>
   command_String (\<lambda>w. []) rev (Legacy_command (MicOnCommand ''A1''))"
  by (rule two_param_text_ambiguous) simp_all

lemma declared_consts_tokens: "s \<in> set (declared_consts t) \<Longrightarrow> token s"
proof -
  have "list_all token (declared_consts t)" by (cases t; hypsubst; code_simp)
  then show "s \<in> set (declared_consts t) \<Longrightarrow> token s" by (simp add: list_all_iff)
qed

lemma str_fields_Cons [simp]:
  "str_fields (CHR ''<'' # CHR '' '' # s) = ''<'' # str_fields s"
  "str_fields ''>'' = [''>'']"
  "str_fields (CHR ''S'' # CHR ''E'' # CHR ''T'' # CHR '' '' # s) = ''SET'' # str_fields s"
  using str_fields_token_space [of "''<''" s] str_fields_token_space [of "''SET''" s]
    str_fields_token [of "''>''"]
  by (simp_all add: token_def is_space_def)

text \<open>
  Every constant the file declares for a named string type reaches the wire as a word of
  its own, unquoted, behind the parameter's name: the fields of the command are the brackets,
  SET, the channel, the name and the constant.
\<close>

lemma declared_const_one_token:
  assumes "map_order iter" "token (to_upper k)" "s \<in> set (declared_consts t)"
  shows "str_fields (Build ff iter (WithParam (WithIndex (NewShureCommand ''SET'') ch) k (CNamed t s))) =
    [''<'', ''SET'', itoa ch, to_upper k, s, ''>'']"
proof -
  have "token s" using assms(3) declared_consts_tokens by blast
  have "to_upper ''SET'' = ''SET''" by code_simp
  with assms \<open>token s\<close> show ?thesis
    by (simp add: Build_def builder_defs param_text_def index_text_def str_fields_Cons)
qed

lemma declared_const_one_token_witness:
  "str_fields (Build (\<lambda>w. []) rev
     (WithParam (WithIndex (NewShureCommand ''SET'') 2) ''FD_MODE'' (CNamed FDMode ''FD-C''))) =
   [''<'', ''SET'', ''2'', ''FD_MODE'', ''FD-C'', ''>'']"
proof -
  have "to_upper ''FD_MODE'' = ''FD_MODE''" "itoa 2 = ''2''" "token ''FD_MODE''"
    "''FD-C'' \<in> set (declared_consts FDMode)" by code_simp+
  then show ?thesis
    using declared_const_one_token [of rev "''FD_MODE''" "''FD-C''" FDMode "\<lambda>w. []" 2] by simp
qed

end
