(* ===== verification/Tpci_Parse.thy ===== *)
theory Tpci_Parse
  imports Shure_Catalogue
begin

text \<open>
  The parsers of what a receiver sends (\<open>internal/infrastructure/shure_commands.go\<close>): REP
  lines, the three SAMPLE formats and the legacy status line.

  A pointer result is an option (\<open>nil\<close> is \<open>None\<close>). The fields of a report that no branch
  assigns keep Go's zero values.
\<close>

subsection \<open>REP and SAMPLE lines\<close>

record TPCIReport =
  tr_Type :: string
  tr_Channel :: int
  tr_Param :: string
  tr_Value :: string
  tr_Raw :: string

definition IsMeteredParam :: "string \<Rightarrow> bool" where
  "IsMeteredParam param \<longleftrightarrow> replace_byte (CHR '' '') ''_'' param \<in> set
     [''CHAN_QUALITY'', ''AUDIO_LED_BITMAP'', ''AUDIO_LEVEL_PEAK'', ''AUDIO_LEVEL_RMS'',
      ''AUDIO_LEVEL'', ''AUDIO_LVL'', ''ANTENNA_STATUS'', ''RF_LED_BITMAP_A'', ''RF_RSSI_A'',
      ''RF_LED_BITMAP_B'', ''RF_RSSI_B'', ''RF_LED_BITMAP_C'', ''RF_RSSI_C'', ''RF_LED_BITMAP_D'',
      ''RF_RSSI_D'', ''RF_LED_BITMAP_F1'', ''RF_RSSI_F1'', ''RF_LED_BITMAP_F2'', ''RF_RSSI_F2'',
      ''AUDIO_SUMMING'', ''RF_LEVEL'', ''RF_RSSI'', ''RX_RF_LVL'', ''AUDIO_PEAK'', ''AUDIO_RMS'',
      ''TX_BATT_BARS'', ''TX_BATT_CHARGE_PERCENT'', ''TX_BATT_MINS'', ''TX_BATT_TEMP_C'',
      ''TX_BATT_CYCLE_COUNT'', ''TX_BATT_HEALTH_PERCENT'', ''RF_ANTENNA'']"

fun GetIS07MeteredParams :: "ShureModelFamily \<Rightarrow> string list" where
  "GetIS07MeteredParams ModelFamilyAxientDigital =
     [''CHAN_QUALITY'', ''AUDIO_LED_BITMAP'', ''AUDIO_LEVEL_PEAK'', ''AUDIO_LEVEL_RMS'',
      ''ANTENNA_A_ACTIVE'', ''ANTENNA_B_ACTIVE'', ''RF_LED_BITMAP_A'', ''RF_RSSI_A'',
      ''RF_LED_BITMAP_B'', ''RF_RSSI_B'', ''RF_LED_BITMAP_C'', ''RF_RSSI_C'',
      ''RF_LED_BITMAP_D'', ''RF_RSSI_D'', ''RF_LED_BITMAP_F1'', ''RF_RSSI_F1'',
      ''RF_LED_BITMAP_F2'', ''RF_RSSI_F2'']"
| "GetIS07MeteredParams ModelFamilyULXD =
     [''ANTENNA_A_ACTIVE'', ''ANTENNA_B_ACTIVE'', ''RF_LEVEL'', ''AUDIO_LVL'']"
| "GetIS07MeteredParams ModelFamilyQLXD =
     [''ANTENNA_A_ACTIVE'', ''ANTENNA_B_ACTIVE'', ''RF_LEVEL'', ''AUDIO_LVL'']"
| "GetIS07MeteredParams ModelFamilySLXD = [''AUDIO_LEVEL_PEAK'', ''AUDIO_LEVEL_RMS'', ''RF_RSSI'']"
| "GetIS07MeteredParams ModelFamilySLXDPlus = [''AUDIO_LEVEL_PEAK'', ''AUDIO_LEVEL_RMS'', ''RF_RSSI'']"
| "GetIS07MeteredParams (OtherFamily s) = []"

text \<open>
  The value of a line: what follows the first occurrence of the parameter's name, without
  the braces and the padding. \<open>strings.Index\<close> of a field of the text is never -1.
\<close>

definition value_after :: "string \<Rightarrow> string \<Rightarrow> string" where
  "value_after trimmed param =
     (let valStart = (case str_index trimmed param of
                        Some i \<Rightarrow> i + length param | None \<Rightarrow> length param - 1);
          value = trim_space (drop valStart trimmed) in
      if has_prefix value ''{'' \<and> has_suffix value ''}''
      then trim_space (str_trim ''{}'' value) else value)"

definition ParseTPCIResponse :: "string \<Rightarrow> TPCIReport option" where
  "ParseTPCIResponse response =
     (let trimmed = str_trim ''<> '' response;
          parts = str_fields trimmed in
      if length parts < 2 then None
      else if parts ! 0 \<noteq> ''REP'' \<and> parts ! 0 \<noteq> ''SAMPLE'' then None
      else
        let report = \<lparr> tr_Type = parts ! 0, tr_Channel = 0, tr_Param = [], tr_Value = [],
                       tr_Raw = response \<rparr>;
            (report, idx) = (case atoi (parts ! 1) of
                               Some v \<Rightarrow> (report\<lparr> tr_Channel := v \<rparr>, 2)
                             | None \<Rightarrow> (report, 1)) in
        if length parts \<le> idx then Some report
        else Some (report\<lparr> tr_Param := parts ! idx,
                          tr_Value := value_after trimmed (parts ! idx) \<rparr>))"

record RepReport =
  rr_Channel :: int
  rr_Param :: string
  rr_Value :: string
  rr_Raw :: string
  rr_DeviceID :: string
  rr_Model :: string
  rr_FWVersion :: string
  rr_Gain :: int
  rr_Muted :: bool
  rr_Frequency :: string
  rr_Group :: int
  rr_Chan :: int

definition rep_group_channel :: "string \<Rightarrow> RepReport \<Rightarrow> RepReport" where
  "rep_group_channel value0 r =
     (let value = replace_byte (CHR '' '') [] value0 in
      if 5 \<le> length value then
        let r1 = (case atoi (take 2 value) of Some g \<Rightarrow> r\<lparr> rr_Group := g \<rparr> | None \<Rightarrow> r) in
        (case atoi (take 2 (drop 3 value)) of Some c \<Rightarrow> r1\<lparr> rr_Chan := c \<rparr> | None \<Rightarrow> r1)
      else r)"

definition rep_switch :: "string \<Rightarrow> string \<Rightarrow> RepReport \<Rightarrow> RepReport" where
  "rep_switch param value r =
     (if param = ''DEVICE_ID'' then r\<lparr> rr_DeviceID := value \<rparr>
      else if param = ''MODEL'' then r\<lparr> rr_Model := value \<rparr>
      else if param = ''FW_VER'' then r\<lparr> rr_FWVersion := trim_suffix value ''*'' \<rparr>
      else if param = ''AUDIO_GAIN'' \<or> param = ''AUDIO GAIN'' then
        (case atoi value of Some v \<Rightarrow> r\<lparr> rr_Gain := v \<rparr> | None \<Rightarrow> r)
      else if param = ''AUDIO_MUTE'' \<or> param = ''AUDIO MUTE'' then
        r\<lparr> rr_Muted := (value = ''ON'' \<or> value = ''1'') \<rparr>
      else if param = ''FREQUENCY'' then r\<lparr> rr_Frequency := value \<rparr>
      else if param = ''GROUP_CHANNEL'' \<or> param = ''GROUP CHAN'' then rep_group_channel value r
      else r)"

definition ParseRepReport :: "string \<Rightarrow> RepReport option" where
  "ParseRepReport response =
     (let report = \<lparr> rr_Channel = 0, rr_Param = [], rr_Value = [], rr_Raw = response,
                     rr_DeviceID = [], rr_Model = [], rr_FWVersion = [], rr_Gain = 0,
                     rr_Muted = False, rr_Frequency = [], rr_Group = 0, rr_Chan = 0 \<rparr>;
          trimmed = str_trim ''<> '' response;
          parts = str_fields trimmed in
      if length parts < 2 \<or> parts ! 0 \<noteq> ''REP'' then None
      else
        let (report, idx) = (case atoi (parts ! 1) of
                               Some v \<Rightarrow> (report\<lparr> rr_Channel := v \<rparr>, 2)
                             | None \<Rightarrow> (report, 1)) in
        if length parts \<le> idx then Some report
        else
          let param = parts ! idx;
              value = value_after trimmed param in
          Some (rep_switch param value (report\<lparr> rr_Param := param, rr_Value := value \<rparr>)))"

subsection \<open>SAMPLE lines\<close>

definition atoi0 :: "string \<Rightarrow> int" where
  "atoi0 s = (case atoi s of Some v \<Rightarrow> v | None \<Rightarrow> 0)"

definition hex0 :: "string \<Rightarrow> int" where
  "hex0 s = (case parse_hex s of Some v \<Rightarrow> v | None \<Rightarrow> 0)"

text \<open>A field the line is too short for is left at zero.\<close>

definition opt_field :: "(string \<Rightarrow> int) \<Rightarrow> string list \<Rightarrow> nat \<Rightarrow> int" where
  "opt_field f parts i = (if i < length parts then f (parts ! i) else 0)"

record SampleReport =
  sr_Channel :: int
  sr_Quality :: int
  sr_AudioLEDBitmap :: int
  sr_AudioLevelPeak :: int
  sr_AudioLevelRMS :: int
  sr_RFAntStatus :: string
  sr_RFBitmapA :: int
  sr_RFRSSI_A :: int
  sr_RFBitmapB :: int
  sr_RFRSSI_B :: int
  sr_RFBitmapC :: int
  sr_RFRSSI_C :: int
  sr_RFBitmapD :: int
  sr_RFRSSI_D :: int
  sr_RFBitmapF1 :: int
  sr_RFRSSI_F1 :: int
  sr_RFBitmapF2 :: int
  sr_RFRSSI_F2 :: int
  sr_Raw :: string

definition AudioLevelPeakDBFS :: "SampleReport \<Rightarrow> int" where "AudioLevelPeakDBFS s = wrap64 (sr_AudioLevelPeak s - 120)"
definition AudioLevelRMSDBFS :: "SampleReport \<Rightarrow> int" where "AudioLevelRMSDBFS s = wrap64 (sr_AudioLevelRMS s - 120)"
definition RFRSSI_A_DBM :: "SampleReport \<Rightarrow> int" where "RFRSSI_A_DBM s = wrap64 (sr_RFRSSI_A s - 120)"
definition RFRSSI_B_DBM :: "SampleReport \<Rightarrow> int" where "RFRSSI_B_DBM s = wrap64 (sr_RFRSSI_B s - 120)"
definition RFRSSI_C_DBM :: "SampleReport \<Rightarrow> int" where "RFRSSI_C_DBM s = wrap64 (sr_RFRSSI_C s - 120)"
definition RFRSSI_D_DBM :: "SampleReport \<Rightarrow> int" where "RFRSSI_D_DBM s = wrap64 (sr_RFRSSI_D s - 120)"
definition RFRSSI_F1_DBM :: "SampleReport \<Rightarrow> int" where "RFRSSI_F1_DBM s = wrap64 (sr_RFRSSI_F1 s - 120)"
definition RFRSSI_F2_DBM :: "SampleReport \<Rightarrow> int" where "RFRSSI_F2_DBM s = wrap64 (sr_RFRSSI_F2 s - 120)"

definition AntennaAActive :: "SampleReport \<Rightarrow> bool" where
  "AntennaAActive s = (if length (sr_RFAntStatus s) < 1 then False else sr_RFAntStatus s ! 0 \<noteq> CHR ''X'')"

definition AntennaBActive :: "SampleReport \<Rightarrow> bool" where
  "AntennaBActive s = (if length (sr_RFAntStatus s) < 2 then False else sr_RFAntStatus s ! 1 \<noteq> CHR ''X'')"

definition AntennaCActive :: "SampleReport \<Rightarrow> bool" where
  "AntennaCActive s = (if length (sr_RFAntStatus s) < 3 then False else sr_RFAntStatus s ! 2 \<noteq> CHR ''X'')"

definition AntennaDActive :: "SampleReport \<Rightarrow> bool" where
  "AntennaDActive s = (if length (sr_RFAntStatus s) < 4 then False else sr_RFAntStatus s ! 3 \<noteq> CHR ''X'')"

definition ParseSampleReport :: "string \<Rightarrow> SampleReport option" where
  "ParseSampleReport response =
     (let parts = str_fields (str_trim ''<> '' response) in
      if length parts < 9 \<or> parts ! 0 \<noteq> ''SAMPLE'' then None
      else Some \<lparr>
        sr_Channel = atoi0 (parts ! 1),
        sr_Quality = hex0 (parts ! 2),
        sr_AudioLEDBitmap = hex0 (parts ! 3),
        sr_AudioLevelPeak = atoi0 (parts ! 4),
        sr_AudioLevelRMS = atoi0 (parts ! 5),
        sr_RFAntStatus = parts ! 6,
        sr_RFBitmapA = opt_field hex0 parts 7,
        sr_RFRSSI_A = opt_field atoi0 parts 8,
        sr_RFBitmapB = opt_field hex0 parts 9,
        sr_RFRSSI_B = opt_field atoi0 parts 10,
        sr_RFBitmapC = opt_field hex0 parts 11,
        sr_RFRSSI_C = opt_field atoi0 parts 12,
        sr_RFBitmapD = opt_field hex0 parts 13,
        sr_RFRSSI_D = opt_field atoi0 parts 14,
        sr_RFBitmapF1 = opt_field hex0 parts 15,
        sr_RFRSSI_F1 = opt_field atoi0 parts 16,
        sr_RFBitmapF2 = opt_field hex0 parts 17,
        sr_RFRSSI_F2 = opt_field atoi0 parts 18,
        sr_Raw = response \<rparr>)"

record ULXDSampleReport =
  ur_Channel :: int
  ur_AntStatus :: string
  ur_RFLevel :: int
  ur_AudioLevel :: int
  ur_Raw :: string

definition ULXD_RFLevelDBM :: "ULXDSampleReport \<Rightarrow> int" where "ULXD_RFLevelDBM s = wrap64 (ur_RFLevel s - 128)"
definition ULXD_AudioLevelDBFS :: "ULXDSampleReport \<Rightarrow> int" where "ULXD_AudioLevelDBFS s = wrap64 (ur_AudioLevel s - 50)"

definition ParseULXDSampleReport :: "string \<Rightarrow> ULXDSampleReport option" where
  "ParseULXDSampleReport response =
     (let parts = str_fields (str_trim ''<> '' response) in
      if length parts < 5 \<or> parts ! 0 \<noteq> ''SAMPLE'' then None
      else Some \<lparr>
        ur_Channel = atoi0 (parts ! 1),
        ur_AntStatus = parts ! 3,
        ur_RFLevel = atoi0 (parts ! 4),
        ur_AudioLevel = opt_field atoi0 parts 5,
        ur_Raw = response \<rparr>)"

record SLDXSampleReport =
  xr_Channel :: int
  xr_AudioPeak :: int
  xr_AudioRMS :: int
  xr_RFRSSI :: int
  xr_Raw :: string

definition SLDX_AudioPeakDBFS :: "SLDXSampleReport \<Rightarrow> int" where "SLDX_AudioPeakDBFS s = wrap64 (xr_AudioPeak s - 120)"
definition SLDX_AudioRMSDBFS :: "SLDXSampleReport \<Rightarrow> int" where "SLDX_AudioRMSDBFS s = wrap64 (xr_AudioRMS s - 120)"
definition SLDX_RFRSSIDBM :: "SLDXSampleReport \<Rightarrow> int" where "SLDX_RFRSSIDBM s = wrap64 (xr_RFRSSI s - 120)"

definition ParseSLDXSampleReport :: "string \<Rightarrow> SLDXSampleReport option" where
  "ParseSLDXSampleReport response =
     (let parts = str_fields (str_trim ''<> '' response) in
      if length parts < 5 \<or> parts ! 0 \<noteq> ''SAMPLE'' then None
      else Some \<lparr>
        xr_Channel = atoi0 (parts ! 1),
        xr_AudioPeak = opt_field atoi0 parts 3,
        xr_AudioRMS = opt_field atoi0 parts 4,
        xr_RFRSSI = opt_field atoi0 parts 5,
        xr_Raw = response \<rparr>)"

definition antenna_status :: "string \<Rightarrow> bool" where
  "antenna_status s \<longleftrightarrow> length s = 2 \<and>
     s ! 0 \<in> {CHR ''A'', CHR ''X'', CHR ''B''} \<and> s ! 1 \<in> {CHR ''X'', CHR ''A'', CHR ''B''}"

definition DetectSampleFormat :: "string \<Rightarrow> string" where
  "DetectSampleFormat response =
     (let parts = str_fields (str_trim ''<> '' response) in
      if length parts < 5 \<or> parts ! 0 \<noteq> ''SAMPLE'' then ''unknown''
      else if parts ! 2 = ''ALL'' then
        (if 9 \<le> length parts \<and> parse_hex (parts ! 3) \<noteq> None then ''axient''
         else if 4 \<le> length parts \<and> antenna_status (parts ! 3) then ''ulxd''
         else if 6 \<le> length parts \<and> list_all (\<lambda>p. atoi p \<noteq> None) (take 3 (drop 3 parts)) then ''sldx''
         else ''unknown'')
      else ''unknown'')"

subsection \<open>The legacy status line\<close>

text \<open>
  \<open>pf\<close> is \<open>strconv.ParseFloat(s, 64)\<close>: the bits of the float, or \<open>None\<close> on an error.
\<close>

record DeviceStatus =
  ds_DeviceID :: string
  ds_Gain :: "64 word"
  ds_Muted :: bool
  ds_Frequency :: "64 word"
  ds_Channel :: int
  ds_Battery :: int
  ds_Temp :: "64 word"

text \<open>\<open>strings.SplitN(part, "=", 2)\<close>: \<open>None\<close> when the separator is absent.\<close>

fun split_eq :: "string \<Rightarrow> (string \<times> string) option" where
  "split_eq [] = None"
| "split_eq (c # s) =
     (if c = CHR ''='' then Some ([], s)
      else map_option (\<lambda>(a, b). (c # a, b)) (split_eq s))"

definition status_pair :: "(string \<Rightarrow> 64 word option) \<Rightarrow> string \<Rightarrow> string \<Rightarrow> DeviceStatus \<Rightarrow> DeviceStatus" where
  "status_pair pf key value st =
     (if key = ''device'' then st\<lparr> ds_DeviceID := value \<rparr>
      else if key = ''gain'' then (case pf value of Some v \<Rightarrow> st\<lparr> ds_Gain := v \<rparr> | None \<Rightarrow> st)
      else if key = ''mute'' then (case atoi value of Some v \<Rightarrow> st\<lparr> ds_Muted := (v = 1) \<rparr> | None \<Rightarrow> st)
      else if key = ''frequency'' then (case pf value of Some v \<Rightarrow> st\<lparr> ds_Frequency := v \<rparr> | None \<Rightarrow> st)
      else if key = ''channel'' then (case atoi value of Some v \<Rightarrow> st\<lparr> ds_Channel := v \<rparr> | None \<Rightarrow> st)
      else if key = ''battery'' then (case atoi value of Some v \<Rightarrow> st\<lparr> ds_Battery := v \<rparr> | None \<Rightarrow> st)
      else if key = ''temp'' then (case pf value of Some v \<Rightarrow> st\<lparr> ds_Temp := v \<rparr> | None \<Rightarrow> st)
      else st)"

definition ParseDeviceStatus :: "(string \<Rightarrow> 64 word option) \<Rightarrow> string \<Rightarrow> DeviceStatus option" where
  "ParseDeviceStatus pf response =
     (if response = [] \<or> \<not> has_prefix response ''REP'' then None
      else Some (fold (\<lambda>part st. case split_eq part of
                                   None \<Rightarrow> st
                                 | Some (k, v) \<Rightarrow> status_pair pf (trim_space k) (trim_space v) st)
                   (split_byte (CHR '','') (trim_prefix response ''REP ''))
                   \<lparr> ds_DeviceID = [], ds_Gain = 0, ds_Muted = False, ds_Frequency = 0,
                     ds_Channel = 0, ds_Battery = 0, ds_Temp = 0 \<rparr>))"

subsection \<open>Identifiers\<close>

text \<open>
  \<open>sha256\<close> is the digest function of the Go library, a string of 32 bytes.
  \<open>fmt.Sprintf\<close> with the verb x prints two lower-case hexadecimal digits a byte.
\<close>

definition hex_byte :: "char \<Rightarrow> string" where
  "hex_byte c = [digit_char (code_of c div 16), digit_char (code_of c mod 16)]"

definition uuidFromHash :: "string \<Rightarrow> string" where
  "uuidFromHash hash =
     (let uuidStr = concat (map hex_byte hash) in
      take 8 uuidStr @ ''-'' @ take 4 (drop 8 uuidStr) @ ''-'' @ take 4 (drop 12 uuidStr) @ ''-'' @
      take 4 (drop 16 uuidStr) @ ''-'' @ take 12 (drop 20 uuidStr))"

definition DeriveUUID :: "(string \<Rightarrow> string) \<Rightarrow> string \<Rightarrow> string" where
  "DeriveUUID sha256 source = uuidFromHash (sha256 source)"

subsection \<open>Lines of tokens\<close>

lemma str_fields_join: "list_all token ws \<Longrightarrow> str_fields (str_join '' '' ws) = ws"
proof (induction ws)
  case (Cons w ws)
  then show ?case by (cases ws) simp_all
qed (simp add: str_fields_def)

definition line_of :: "string list \<Rightarrow> string" where
  "line_of ws = ''< '' @ str_join '' '' ws @ '' >''"

definition plain_token :: "string \<Rightarrow> bool" where
  "plain_token w \<longleftrightarrow> token w \<and> CHR ''<'' \<notin> set w \<and> CHR ''>'' \<notin> set w"

lemma plain_token_ends: "plain_token w \<Longrightarrow> c \<in> set w \<Longrightarrow> c \<notin> set ''<> ''"
  by (auto simp: plain_token_def token_def list_all_iff is_space_def)

lemma str_join_ends:
  assumes "list_all plain_token ws" "ws \<noteq> []"
  shows "ends_outside (\<lambda>c. c \<in> set ''<> '') (str_join '' '' ws) \<and> str_join '' '' ws \<noteq> []"
  using assms
proof (induction ws)
  case (Cons w ws)
  then have w: "w \<noteq> []" "hd w \<notin> set ''<> ''" "last w \<notin> set ''<> ''"
    using plain_token_ends [of w] by (auto simp: plain_token_def token_def)
  show ?case
  proof (cases ws)
    case Nil
    with w show ?thesis by (simp add: ends_outside_def)
  next
    case (Cons y ys)
    with Cons.IH Cons.prems w show ?thesis by (auto simp: ends_outside_def)
  qed
qed simp

lemma fields_of_line:
  assumes "list_all plain_token ws" "ws \<noteq> []"
  shows "str_fields (str_trim ''<> '' (line_of ws)) = ws"
proof -
  have "str_trim ''<> '' (line_of ws) = str_join '' '' ws"
    unfolding line_of_def
    by (rule str_trim_surround) (use str_join_ends [OF assms] in simp_all)
  moreover have "list_all token ws" using assms(1) by (auto simp: list_all_iff plain_token_def)
  ultimately show ?thesis by (simp add: str_fields_join)
qed

lemma plain_token_itoa [simp, go_intro]: "plain_token (itoa i)"
  using itoa_chars by (auto simp: plain_token_def is_digit_def dest!: itoa_chars)

lemma plain_token_fmt_0d [simp, go_intro]: "plain_token (fmt_0d w i)"
proof -
  have "c \<noteq> CHR ''<'' \<and> c \<noteq> CHR ''>''" if "c \<in> set (zero_pad n (nat_text m))" for c n m
    using zero_pad_chars [OF that] by (auto simp: is_digit_def)
  then show ?thesis
    using token_fmt_0d [of w i] unfolding plain_token_def fmt_0d_def by auto
qed

subsection \<open>Reading back what the builder writes\<close>

lemma rep_text:
  assumes "map_order iter"
  shows "Build ff iter (WithParam (WithIndex (NewShureCommand ''REP'') ch) k (CString v)) =
    ''< '' @ (''REP '' @ itoa ch @ '' '' @ to_upper k @ '' {'' @ v @ ''}'') @ '' >''"
proof -
  have "to_upper ''REP'' = ''REP''" by code_simp
  with assms show ?thesis
    by (simp add: Build_def builder_defs param_text_def index_text_def braced_def)
qed

lemma token_REP [simp]: "token ''REP''"
  by (simp add: token_def is_space_def)

lemma rep_fields:
  assumes "token p"
  shows "\<exists>ws. str_fields (''REP '' @ itoa ch @ '' '' @ p @ '' {'' @ v @ ''}'') = ''REP'' # itoa ch # p # ws"
  using assms str_fields_token_space [of "''REP''"] by simp

lemma rep_value:
  assumes p: "token p" "\<not> str_contains ''REP'' p" "\<not> str_contains (itoa ch) p"
    and v: "ends_outside (\<lambda>c. c \<in> set ''{}'') v" "ends_outside is_space v"
  shows "value_after (''REP '' @ itoa ch @ '' '' @ p @ '' {'' @ v @ ''}'') p = v"
proof -
  let ?t = "''REP '' @ itoa ch @ '' '' @ p @ '' {'' @ v @ ''}''"
  have p': "CHR '' '' \<notin> set p" "p \<noteq> []"
    using p(1) by (auto simp: token_def list_all_iff is_space_def)
  have "str_index ?t p = Some (4 + length (itoa ch) + 1)"
    using str_index_skip_token [OF p' p(2), of "itoa ch @ '' '' @ p @ '' {'' @ v @ ''}''"]
      str_index_skip_token [OF p' p(3), of "p @ '' {'' @ v @ ''}''"] p' by simp
  moreover have "drop (4 + length (itoa ch) + 1 + length p) ?t = '' {'' @ v @ ''}''"
  proof -
    have t: "?t = (''REP '' @ itoa ch @ '' '' @ p) @ '' {'' @ v @ ''}''"
      and n: "4 + length (itoa ch) + 1 + length p = length (''REP '' @ itoa ch @ '' '' @ p)"
      by simp_all
    show ?thesis by (simp only: t n drop_append) simp
  qed
  moreover have "trim_space ('' {'' @ v @ ''}'') = ''{'' @ v @ ''}''"
    using trim_space_surround [of "'' ''" "[]" "''{'' @ v @ ''}''"]
    by (simp add: ends_outside_def is_space_def)
  moreover have "str_trim ''{}'' (''{'' @ v @ ''}'') = v"
    by (rule str_trim_surround [OF _ _ v(1)]) simp_all
  moreover have "trim_space v = v"
    using trim_space_surround [of "[]" "[]" v] v(2) by simp
  moreover have "has_suffix (''{'' @ v @ ''}'') ''}''"
    using has_suffix_append_same [of "''{'' @ v" "''}''"] by simp
  ultimately show ?thesis by (simp add: value_after_def has_prefix_def)
qed

text \<open>
  C32. A REP line written with the builder in the receiver's format is read back by the parser:
  type, channel, parameter and value are the ones written. The parameter's name must be a
  word that does not occur inside the word REP or the channel number (the parser looks for
  its first occurrence), and the value must not begin or end with the brace or the space
  that the parser strips.
\<close>

theorem ParseTPCIResponse_Build:
  assumes "map_order iter" "int64_range ch"
    and "token (to_upper k)" "\<not> str_contains ''REP'' (to_upper k)"
    and "\<not> str_contains (itoa ch) (to_upper k)"
    and "ends_outside (\<lambda>c. c \<in> set ''{}'') v" "ends_outside is_space v"
  shows "ParseTPCIResponse (Build ff iter (WithParam (WithIndex (NewShureCommand ''REP'') ch) k (CString v))) =
    Some \<lparr> tr_Type = ''REP'', tr_Channel = ch, tr_Param = to_upper k, tr_Value = v,
           tr_Raw = Build ff iter (WithParam (WithIndex (NewShureCommand ''REP'') ch) k (CString v)) \<rparr>"
proof -
  let ?t = "''REP '' @ itoa ch @ '' '' @ to_upper k @ '' {'' @ v @ ''}''"
  have "str_trim ''<> '' (''< '' @ ?t @ '' >'') = ?t"
    by (rule str_trim_surround) (simp_all add: ends_outside_def)
  then have trim: "str_trim ''<> ''
      (Build ff iter (WithParam (WithIndex (NewShureCommand ''REP'') ch) k (CString v))) = ?t"
    by (simp only: rep_text [OF assms(1)])
  obtain ws where "str_fields ?t = ''REP'' # itoa ch # to_upper k # ws"
    using rep_fields [OF assms(3)] by blast
  with trim assms rep_value [OF assms(3-7)] show ?thesis
    by (simp add: ParseTPCIResponse_def Let_def atoi_itoa)
qed

theorem ParseTPCIResponse_Build_witness:
  "ParseTPCIResponse ''< REP 2 CHAN_NAME {Lead Vox} >'' =
   Some \<lparr> tr_Type = ''REP'', tr_Channel = 2, tr_Param = ''CHAN_NAME'', tr_Value = ''Lead Vox'',
          tr_Raw = ''< REP 2 CHAN_NAME {Lead Vox} >'' \<rparr>"
proof -
  have "to_upper ''CHAN_NAME'' = ''CHAN_NAME''" "itoa 2 = ''2''" "token ''CHAN_NAME''"
    "\<not> str_contains ''REP'' ''CHAN_NAME''" "\<not> str_contains ''2'' ''CHAN_NAME''"
    "Build (\<lambda>w. []) rev (WithParam (WithIndex (NewShureCommand ''REP'') 2) ''CHAN_NAME'' (CString ''Lead Vox''))
       = ''< REP 2 CHAN_NAME {Lead Vox} >''" by code_simp+
  then show ?thesis
    using ParseTPCIResponse_Build [of rev 2 "''CHAN_NAME''" "''Lead Vox''" "\<lambda>w. []"]
    by (simp add: int64_range_def ends_outside_def is_space_def)
qed

text \<open>
  In the Axient Digital line the format comment describes, the field the quality is read
  from holds the word ALL: the quality is 0, the bitmap is the quality of the line, and every
  later number is the one written one place before its own.
\<close>

lemma ParseSampleReport_shifted:
  assumes "int64_range ch" "list_all plain_token (qual # audBitmap # audPeak # audRms # rfAntStats # bitmapA # rssiA # rest)"
    and "line = line_of (''SAMPLE'' # itoa ch # ''ALL'' # qual # audBitmap # audPeak # audRms # rfAntStats # bitmapA # rssiA # rest)"
  shows "\<exists>r. ParseSampleReport line = Some r \<and> sr_Channel r = ch \<and> sr_Quality r = 0 \<and>
    sr_AudioLEDBitmap r = hex0 qual \<and> sr_AudioLevelPeak r = atoi0 audBitmap \<and>
    sr_AudioLevelRMS r = atoi0 audPeak \<and> sr_RFAntStatus r = audRms \<and>
    sr_RFBitmapA r = hex0 rfAntStats \<and> sr_RFRSSI_A r = atoi0 bitmapA"
proof -
  have "plain_token ''SAMPLE''" "plain_token ''ALL''"
    by (simp_all add: plain_token_def token_def is_space_def)
  then have "str_fields (str_trim ''<> '' line) =
    ''SAMPLE'' # itoa ch # ''ALL'' # qual # audBitmap # audPeak # audRms # rfAntStats # bitmapA # rssiA # rest"
    unfolding assms(3) by (intro fields_of_line) (use assms(2) in simp_all)
  moreover have "hex0 ''ALL'' = 0" by code_simp
  ultimately show ?thesis
    using atoi_itoa [OF assms(1)]
    by (simp add: ParseSampleReport_def Let_def opt_field_def atoi0_def)
qed

lemma ParseSampleReport_shifted_witness:
  "\<exists>r. ParseSampleReport ''< SAMPLE 1 ALL 005 000 045 062 BB 31 099 31 085 >'' = Some r \<and>
       sr_Quality r = 0 \<and> sr_AudioLEDBitmap r = 5 \<and> sr_AudioLevelRMS r = 45 \<and> sr_RFAntStatus r = ''062''"
proof -
  have "''< SAMPLE 1 ALL 005 000 045 062 BB 31 099 31 085 >'' =
    line_of [''SAMPLE'', itoa 1, ''ALL'', ''005'', ''000'', ''045'', ''062'', ''BB'', ''31'', ''099'', ''31'', ''085'']"
    "hex0 ''005'' = 5" "atoi0 ''045'' = 45" "list_all plain_token [''005'', ''000'', ''045'', ''062'', ''BB'', ''31'', ''099'', ''31'', ''085'']"
    by code_simp+
  then show ?thesis
    using ParseSampleReport_shifted [of 1 "''005''" "''000''" "''045''" "''062''" "''BB''" "''31''" "''099''" "[''31'', ''085'']"]
    by (fastforce simp: int64_range_def)
qed

text \<open>
  A SAMPLE line of a ULX-D receiver (channel, antenna status, RF level 0 to 115 and audio
  level 0 to 50, three digits each) is detected as such, and the parser returns its numbers;
  the levels in dBm and dBFS are in -128 to -13 and -50 to 0.
\<close>

lemma ULXD_sample_roundtrip:
  assumes "int64_range ch" "ant \<in> set AntennaSquelchStatus_consts" "0 \<le> rf" "rf \<le> 115" "0 \<le> au" "au \<le> 50"
    and "line = line_of [''SAMPLE'', itoa ch, ''ALL'', ant, fmt_0d 3 rf, fmt_0d 3 au]"
  shows "DetectSampleFormat line = ''ulxd'' \<and>
    (\<exists>r. ParseULXDSampleReport line = Some r \<and> ur_Channel r = ch \<and> ur_AntStatus r = ant \<and>
       ur_RFLevel r = rf \<and> ur_AudioLevel r = au \<and> ULXD_RFLevelDBM r \<in> {- 128 .. - 13} \<and>
       ULXD_AudioLevelDBFS r \<in> {- 50 .. 0})"
proof -
  have "plain_token ''SAMPLE''" "plain_token ''ALL''"
    by (simp_all add: plain_token_def token_def is_space_def)
  moreover have ant: "plain_token ant \<and> antenna_status ant"
    using assms(2) by (auto simp: AntennaSquelchStatus_consts_def plain_token_def token_def is_space_def antenna_status_def)
  ultimately have fields: "str_fields (str_trim ''<> '' line) =
    [''SAMPLE'', itoa ch, ''ALL'', ant, fmt_0d 3 rf, fmt_0d 3 au]"
    unfolding assms(7) by (intro fields_of_line) simp_all
  have "wrap64 (rf - 128) = rf - 128" "wrap64 (au - 50) = au - 50"
    using assms by (auto intro!: wrap64_id simp: int64_range_def)
  with fields ant assms show ?thesis
    by (simp add: DetectSampleFormat_def ParseULXDSampleReport_def opt_field_def atoi0_def
        atoi_itoa atoi_fmt_0d ULXD_RFLevelDBM_def ULXD_AudioLevelDBFS_def)
qed

lemma ULXD_sample_roundtrip_witness:
  "DetectSampleFormat (line_of [''SAMPLE'', itoa 1, ''ALL'', ''AX'', fmt_0d 3 100, fmt_0d 3 30]) = ''ulxd''"
  using ULXD_sample_roundtrip [of 1 "''AX''" 100 30]
  by (simp add: int64_range_def AntennaSquelchStatus_consts_def)

lemma three_fields: "6 \<le> length xs \<Longrightarrow> take 3 (drop 3 xs) = [xs ! 3, xs ! 4, xs ! 5]"
  by (simp add: eval_nat_numeral take_Suc_conv_app_nth)

text \<open>
  Each answer of the format detector promises that the parser of that format accepts the
  line; for SLX-D the three level fields are numbers.
\<close>

lemma DetectSampleFormat_parses:
  "(DetectSampleFormat line = ''axient'' \<longrightarrow> ParseSampleReport line \<noteq> None) \<and>
   (DetectSampleFormat line = ''ulxd'' \<longrightarrow>
      (\<exists>r. ParseULXDSampleReport line = Some r \<and> antenna_status (ur_AntStatus r))) \<and>
   (DetectSampleFormat line = ''sldx'' \<longrightarrow>
      (\<exists>r. ParseSLDXSampleReport line = Some r \<and>
        map atoi (take 3 (drop 3 (str_fields (str_trim ''<> '' line)))) =
          map Some [xr_AudioPeak r, xr_AudioRMS r, xr_RFRSSI r]))"
proof -
  let ?p = "str_fields (str_trim ''<> '' line)"
  have three: "take 3 (drop 3 ?p) = [?p ! 3, ?p ! 4, ?p ! 5]" if "6 \<le> length ?p"
    using that by (rule three_fields)
  have "DetectSampleFormat line = ''axient'' \<Longrightarrow> ParseSampleReport line \<noteq> None"
    by (auto simp: DetectSampleFormat_def ParseSampleReport_def Let_def split: if_splits)
  moreover have "DetectSampleFormat line = ''ulxd'' \<Longrightarrow>
      \<exists>r. ParseULXDSampleReport line = Some r \<and> antenna_status (ur_AntStatus r)"
    by (auto simp: DetectSampleFormat_def ParseULXDSampleReport_def Let_def split: if_splits)
  moreover have "\<exists>r. ParseSLDXSampleReport line = Some r \<and>
        map atoi (take 3 (drop 3 ?p)) = map Some [xr_AudioPeak r, xr_AudioRMS r, xr_RFRSSI r]"
    if "DetectSampleFormat line = ''sldx''"
  proof -
    from that have "6 \<le> length ?p" "?p ! 0 = ''SAMPLE''"
      and "list_all (\<lambda>p. atoi p \<noteq> None) (take 3 (drop 3 ?p))"
      by (auto simp: DetectSampleFormat_def Let_def split: if_splits)
    then show ?thesis
      by (auto simp: three ParseSLDXSampleReport_def Let_def opt_field_def atoi0_def)
  qed
  ultimately show ?thesis by blast
qed

lemma DetectSampleFormat_parses_witness:
  "\<exists>r. ParseULXDSampleReport ''< SAMPLE 1 ALL AX 100 030 >'' = Some r \<and> antenna_status (ur_AntStatus r)"
proof -
  have "DetectSampleFormat ''< SAMPLE 1 ALL AX 100 030 >'' = ''ulxd''" by code_simp
  with DetectSampleFormat_parses [of "''< SAMPLE 1 ALL AX 100 030 >''"] show ?thesis by blast
qed

abbreviation hex_text :: "string \<Rightarrow> string" where
  "hex_text h \<equiv> concat (map hex_byte h)"

lemma length_hex_text: "length (hex_text h) = 2 * length h"
  by (induction h) (simp_all add: hex_byte_def)

lemma digit_char_inj: "m < 16 \<Longrightarrow> n < 16 \<Longrightarrow> digit_char m = digit_char n \<Longrightarrow> m = n"
proof -
  assume mn: "m < 16" "n < 16" and eq: "digit_char m = digit_char n"
  have "code_of (digit_char k) = (if k < 10 then 48 + k else 87 + k)" if "k < 16" for k
    using that by (simp add: digit_char_def)
  with mn eq have "(if m < 10 then 48 + m else 87 + m) = (if n < 10 then 48 + n else 87 + n)"
    by metis
  with mn show "m = n" by (cases "m < 10"; cases "n < 10"; simp)
qed

lemma hex_byte_inj: "hex_byte c = hex_byte d \<Longrightarrow> c = d"
proof -
  assume eq: "hex_byte c = hex_byte d"
  have less: "code_of x div 16 < 16" for x using code_of_less [of x] by linarith
  have "digit_char (code_of c div 16) = digit_char (code_of d div 16)"
    and "digit_char (code_of c mod 16) = digit_char (code_of d mod 16)"
    using eq by (simp_all only: hex_byte_def list.inject)
  then have "code_of c div 16 = code_of d div 16" "code_of c mod 16 = code_of d mod 16"
    using less by (simp_all add: digit_char_inj)
  then have "code_of c = code_of d" by (metis div_mult_mod_eq)
  then show "c = d" by simp
qed

lemma hex_text_inj: "length g = length h \<Longrightarrow> hex_text g = hex_text h \<Longrightarrow> g = h"
proof (induction g h rule: list_induct2)
  case (Cons x xs y ys)
  then have "hex_byte x = hex_byte y \<and> hex_text xs = hex_text ys"
    by (simp add: hex_byte_def)
  with Cons show ?case using hex_byte_inj by blast
qed simp

lemma take_hex_text: "take (2 * n) (hex_text h) = hex_text (take n h)"
proof (induction h arbitrary: n)
  case (Cons c h)
  then show ?case by (cases n) (simp_all add: hex_byte_def)
qed simp

lemma uuid_of_hex:
  assumes "32 \<le> length (hex_text h)"
  shows "length (uuidFromHash h) = 36 \<and> map (\<lambda>i. uuidFromHash h ! i) [8, 13, 18, 23] = ''----''"
  using assms by (simp add: uuidFromHash_def Let_def nth_append)

lemma uuidFromHash_eq:
  assumes "length g = 32" "length h = 32"
  shows "uuidFromHash g = uuidFromHash h \<longleftrightarrow> take 16 g = take 16 h"
proof -
  let ?u = "\<lambda>x. take 8 x @ ''-'' @ take 4 (drop 8 x) @ ''-'' @ take 4 (drop 12 x) @ ''-'' @
      take 4 (drop 16 x) @ ''-'' @ take 12 (drop 20 x)"
  have split: "take 32 x = take 8 x @ take 4 (drop 8 x) @ take 4 (drop 12 x) @ take 4 (drop 16 x) @ take 12 (drop 20 x)"
    for x :: string
    using take_add [of 8 24 x] take_add [of 4 20 "drop 8 x"] take_add [of 4 16 "drop 12 x"]
      take_add [of 4 12 "drop 16 x"] by simp
  have "?u x = ?u y \<longleftrightarrow> take 32 x = take 32 y" if "length x = 64" "length y = 64" for x y :: string
    using that by (simp add: split)
  then have "uuidFromHash g = uuidFromHash h \<longleftrightarrow> take 32 (hex_text g) = take 32 (hex_text h)"
    using assms by (simp add: uuidFromHash_def Let_def length_hex_text)
  also have "\<dots> \<longleftrightarrow> hex_text (take 16 g) = hex_text (take 16 h)"
    using take_hex_text [of 16] by simp
  also have "\<dots> \<longleftrightarrow> take 16 g = take 16 h"
    using assms hex_text_inj [of "take 16 g" "take 16 h"] by auto
  finally show ?thesis .
qed

text \<open>
  The identifier derived from a source string has the shape of a UUID, and two sources get
  the same identifier exactly when the first 16 bytes of their digests agree.
\<close>

lemma DeriveUUID_shape:
  assumes "\<And>s. length (sha256 s) = 32"
  shows "length (DeriveUUID sha256 s) = 36 \<and>
    map (\<lambda>i. DeriveUUID sha256 s ! i) [8, 13, 18, 23] = ''----'' \<and>
    (DeriveUUID sha256 s = DeriveUUID sha256 t \<longleftrightarrow> take 16 (sha256 s) = take 16 (sha256 t))"
proof -
  have "length (hex_text (sha256 u)) = 64" for u using assms by (simp add: length_hex_text)
  then have "length (DeriveUUID sha256 s) = 36 \<and> map (\<lambda>i. DeriveUUID sha256 s ! i) [8, 13, 18, 23] = ''----''"
    unfolding DeriveUUID_def by (intro uuid_of_hex) simp
  moreover have "DeriveUUID sha256 s = DeriveUUID sha256 t \<longleftrightarrow> take 16 (sha256 s) = take 16 (sha256 t)"
    unfolding DeriveUUID_def using assms by (intro uuidFromHash_eq) simp_all
  ultimately show ?thesis by blast
qed

lemma DeriveUUID_shape_witness:
  "length (DeriveUUID (\<lambda>s. take 32 (s @ replicate 32 (CHR ''a''))) ''node'') = 36"
  using DeriveUUID_shape [of "\<lambda>s. take 32 (s @ replicate 32 (CHR ''a''))" "''node''"] by simp

end
