(* ===== verification/Go_Values.thy ===== *)
theory Go_Values
  imports Tpci_Parse
begin

text \<open>
  Values of Go's \<open>interface{}\<close> that the control model (package \<open>nca\<close>) stores and returns, JSON
  documents, and how \<open>encoding/json\<close> decodes a document into the argument structs of the
  methods.

  A JSON number is kept with the two readings the decoder takes of its literal: the \<open>int\<close>
  (absent when the literal has a fraction, an exponent or is out of range) and the bits of the
  \<open>float64\<close>. Raw arguments are \<open>None\<close> when the message has none, and then decoding fails.
\<close>

subsection \<open>Element ids\<close>

text \<open>\<open>PropertyID\<close>, \<open>MethodID\<close> and \<open>EventID\<close> are the same pair of numbers.\<close>

datatype elem_id = EId (eid_level: int) (eid_index: int)

instantiation elem_id :: linorder
begin

definition less_eq_elem_id :: "elem_id \<Rightarrow> elem_id \<Rightarrow> bool" where
  "less_eq_elem_id a b \<longleftrightarrow>
     eid_level a < eid_level b \<or> (eid_level a = eid_level b \<and> eid_index a \<le> eid_index b)"

definition less_elem_id :: "elem_id \<Rightarrow> elem_id \<Rightarrow> bool" where
  "less_elem_id a b \<longleftrightarrow>
     eid_level a < eid_level b \<or> (eid_level a = eid_level b \<and> eid_index a < eid_index b)"

instance
  by standard (auto simp: less_eq_elem_id_def less_elem_id_def intro: elem_id.expand)

end

subsection \<open>Descriptors\<close>

datatype PropertyDescriptor = PropertyDescriptor
  (pd_id: elem_id) (pd_name: string) (pd_type: string)
  (pd_readonly: bool) (pd_nullable: bool) (pd_sequence: bool) (pd_deprecated: bool)

datatype ParameterDescriptor = ParameterDescriptor
  (qd_name: string) (qd_type: string) (qd_nullable: bool) (qd_sequence: bool)

datatype MethodDescriptor = MethodDescriptor
  (md_id: elem_id) (md_name: string) (md_result: string)
  (md_params: "ParameterDescriptor list") (md_deprecated: bool)

datatype EventDescriptor = EventDescriptor
  (ed_id: elem_id) (ed_name: string) (ed_datatype: string) (ed_deprecated: bool)

datatype ClassDescriptor = ClassDescriptor
  (cd_classid: "int list") (cd_name: string) (cd_fixedrole: "string option")
  (cd_properties: "PropertyDescriptor list") (cd_methods: "MethodDescriptor list")
  (cd_events: "EventDescriptor list")

datatype DatatypeDescriptor = DatatypeDescriptor (dd_name: string) (dd_type: int)

datatype BlockMemberDescriptor = BlockMemberDescriptor
  (bd_role: string) (bd_oid: int) (bd_constant: bool) (bd_classid: "int list")
  (bd_label: string) (bd_owner: "int option") (bd_description: string)

datatype PropertyConstraints = PropertyConstraints
  (pc_property: elem_id) (pc_type: string) (pc_pattern: string)

subsection \<open>Values\<close>

datatype goval =
    VNil
  | VBool bool
  | VInt int
  | VFloat "64 word"
  | VStr string
  | VArr "goval list"
  | VMap "(string \<times> goval) list"
  | VInts "int list"
  | VStrs "string list"
  | VMaps "(string \<times> goval) list list"
  | VIntMap "(string \<times> int) list"
  | VOwner "int option"
  | VTouchpoints "string list"
  | VConstraints "PropertyConstraints list"
  | VMembers "BlockMemberDescriptor list"
  | VVersion int int
  | VManufacturer string
  | VProduct string string
  | VClass ClassDescriptor
  | VClasses "ClassDescriptor list"
  | VDatatype DatatypeDescriptor
  | VResult int goval

text \<open>Type assertions, and reading a key of a map: an absent key gives \<open>nil\<close>.\<close>

fun as_string :: "goval \<Rightarrow> string option" where
  "as_string (VStr s) = Some s"
| "as_string v = None"

fun as_map :: "goval \<Rightarrow> (string \<times> goval) list option" where
  "as_map (VMap m) = Some m"
| "as_map v = None"

fun as_maps :: "goval \<Rightarrow> (string \<times> goval) list list option" where
  "as_maps (VMaps ms) = Some ms"
| "as_maps v = None"

fun as_array :: "goval \<Rightarrow> goval list option" where
  "as_array (VArr xs) = Some xs"
| "as_array v = None"

definition field_of :: "string \<Rightarrow> (string \<times> goval) list \<Rightarrow> goval" where
  "field_of k m = (case map_of m k of Some v \<Rightarrow> v | None \<Rightarrow> VNil)"

text \<open>
  The verb v on the values a worker can be given: what decoding a JSON document produces, and
  the plain strings, numbers and slices of the gateway. Maps print with their keys sorted,
  and inside them and inside slices strings are not quoted. The last equation covers the
  values of the other kinds, which no caller passes.
\<close>

fun fmt_any :: "float_fmt \<Rightarrow> goval \<Rightarrow> string" where
  "fmt_any ff VNil = ''<nil>''"
| "fmt_any ff (VBool b) = true_false b"
| "fmt_any ff (VInt i) = itoa i"
| "fmt_any ff (VFloat w) = ff w"
| "fmt_any ff (VStr s) = s"
| "fmt_any ff (VArr xs) = ''['' @ str_join '' '' (map (fmt_any ff) xs) @ '']''"
| "fmt_any ff (VMap kvs) =
     ''map['' @ str_join '' '' (map snd (sort_key fst (map (\<lambda>(k, v). (k, k @ '':'' @ fmt_any ff v)) kvs))) @ '']''"
| "fmt_any ff (VInts is) = ''['' @ str_join '' '' (map itoa is) @ '']''"
| "fmt_any ff (VStrs ss) = ''['' @ str_join '' '' ss @ '']''"
| "fmt_any ff v = []"

subsection \<open>JSON\<close>

datatype json =
    JNull
  | JBool bool
  | JNum "int option" "64 word"
  | JStr string
  | JArr "json list"
  | JObj "(string \<times> json) list"

fun map_put :: "'k \<Rightarrow> 'v \<Rightarrow> ('k \<times> 'v) list \<Rightarrow> ('k \<times> 'v) list" where
  "map_put k v [] = [(k, v)]"
| "map_put k v ((k', v') # ps) = (if k = k' then (k, v) # ps else (k', v') # map_put k v ps)"

text \<open>Decoding into an \<open>interface{}\<close>: a later member of an object replaces an earlier one.\<close>

fun any_of_json :: "json \<Rightarrow> goval" where
  "any_of_json JNull = VNil"
| "any_of_json (JBool b) = VBool b"
| "any_of_json (JNum i w) = VFloat w"
| "any_of_json (JStr s) = VStr s"
| "any_of_json (JArr xs) = VArr (map any_of_json xs)"
| "any_of_json (JObj kvs) =
     VMap (fold (\<lambda>(k, v) m. map_put k v m) (map (\<lambda>(k, v). (k, any_of_json v)) kvs) [])"

text \<open>
  Decoding into a typed target: null leaves the target as it is, another kind is an error
  (\<open>None\<close>).
\<close>

fun dec_int :: "json \<Rightarrow> int \<Rightarrow> int option" where
  "dec_int (JNum (Some i) w) old = Some i"
| "dec_int JNull old = Some old"
| "dec_int _ old = None"

fun dec_bool :: "json \<Rightarrow> bool \<Rightarrow> bool option" where
  "dec_bool (JBool b) old = Some b"
| "dec_bool JNull old = Some old"
| "dec_bool _ old = None"

fun dec_string :: "json \<Rightarrow> string \<Rightarrow> string option" where
  "dec_string (JStr s) old = Some s"
| "dec_string JNull old = Some old"
| "dec_string _ old = None"

fun opt_map :: "('a \<Rightarrow> 'b option) \<Rightarrow> 'a list \<Rightarrow> 'b list option" where
  "opt_map f [] = Some []"
| "opt_map f (x # xs) =
     (case f x of None \<Rightarrow> None
      | Some y \<Rightarrow> (case opt_map f xs of None \<Rightarrow> None | Some ys \<Rightarrow> Some (y # ys)))"

text \<open>Null makes a slice \<open>nil\<close>; the elements of a new slice start from the zero value.\<close>

fun dec_ints :: "json \<Rightarrow> int list \<Rightarrow> int list option" where
  "dec_ints (JArr xs) old = opt_map (\<lambda>j. dec_int j 0) xs"
| "dec_ints JNull old = Some []"
| "dec_ints _ old = None"

fun dec_strings :: "json \<Rightarrow> string list \<Rightarrow> string list option" where
  "dec_strings (JArr xs) old = opt_map (\<lambda>j. dec_string j []) xs"
| "dec_strings JNull old = Some []"
| "dec_strings _ old = None"

text \<open>
  Decoding into a struct: the members are taken in order, each goes to the field whose name it
  equals up to case, and a member without a field is skipped. \<open>step\<close> decodes one member.
\<close>

fun dec_members :: "(string \<Rightarrow> json \<Rightarrow> 's \<Rightarrow> 's option) \<Rightarrow> (string \<times> json) list \<Rightarrow> 's \<Rightarrow> 's option" where
  "dec_members step [] s = Some s"
| "dec_members step ((k, j) # kvs) s =
     (case step k j s of None \<Rightarrow> None | Some s' \<Rightarrow> dec_members step kvs s')"

fun dec_struct :: "(string \<Rightarrow> json \<Rightarrow> 's \<Rightarrow> 's option) \<Rightarrow> json \<Rightarrow> 's \<Rightarrow> 's option" where
  "dec_struct step (JObj kvs) s = dec_members step kvs s"
| "dec_struct step JNull s = Some s"
| "dec_struct step _ s = None"

definition unmarshal :: "(string \<Rightarrow> json \<Rightarrow> 's \<Rightarrow> 's option) \<Rightarrow> json option \<Rightarrow> 's \<Rightarrow> 's option" where
  "unmarshal step args zero = (case args of None \<Rightarrow> None | Some j \<Rightarrow> dec_struct step j zero)"

definition dec_elem_id :: "json \<Rightarrow> elem_id \<Rightarrow> elem_id option" where
  "dec_elem_id = dec_struct (\<lambda>k j e.
     if equal_fold k ''Level'' then map_option (\<lambda>l. EId l (eid_index e)) (dec_int j (eid_level e))
     else if equal_fold k ''Index'' then map_option (EId (eid_level e)) (dec_int j (eid_index e))
     else Some e)"

text \<open>The struct of arguments of the property and sequence methods.\<close>

record prop_args =
  pa_id :: elem_id
  pa_value :: goval
  pa_index :: int

definition zero_prop_args :: prop_args where
  "zero_prop_args = \<lparr> pa_id = EId 0 0, pa_value = VNil, pa_index = 0 \<rparr>"

text \<open>
  \<open>idname\<close> is the name of the id's field (\<open>propertyId\<close> in the object methods, \<open>id\<close> in the
  dispatcher); a struct without a value or an index field skips the members of those names.
\<close>

definition prop_args_step :: "string \<Rightarrow> bool \<Rightarrow> bool \<Rightarrow> string \<Rightarrow> json \<Rightarrow> prop_args \<Rightarrow> prop_args option" where
  "prop_args_step idname hasval hasidx k j a =
     (if equal_fold k idname then map_option (\<lambda>e. a\<lparr> pa_id := e \<rparr>) (dec_elem_id j (pa_id a))
      else if hasidx \<and> equal_fold k ''index'' then map_option (\<lambda>i. a\<lparr> pa_index := i \<rparr>) (dec_int j (pa_index a))
      else if hasval \<and> equal_fold k ''value'' then Some (a\<lparr> pa_value := any_of_json j \<rparr>)
      else Some a)"

definition dec_prop_args :: "string \<Rightarrow> bool \<Rightarrow> bool \<Rightarrow> json option \<Rightarrow> prop_args option" where
  "dec_prop_args idname hasval hasidx args = unmarshal (prop_args_step idname hasval hasidx) args zero_prop_args"

text \<open>The values decoding produces are of the kinds the verb v above covers.\<close>

fun plain_val :: "goval \<Rightarrow> bool" where
  "plain_val VNil = True"
| "plain_val (VBool b) = True"
| "plain_val (VFloat w) = True"
| "plain_val (VStr s) = True"
| "plain_val (VArr xs) = list_all plain_val xs"
| "plain_val (VMap kvs) = list_all (\<lambda>(k, v). plain_val v) kvs"
| "plain_val v = False"

subsection \<open>Lemmas\<close>

lemma map_put_set: "set (map_put k v ps) \<subseteq> insert (k, v) (set ps)"
  by (induction k v ps rule: map_put.induct) auto

lemma fold_map_put_set: "set (fold (\<lambda>(k, v) m. map_put k v m) kvs m) \<subseteq> set kvs \<union> set m"
proof (induction kvs arbitrary: m)
  case (Cons kv kvs)
  obtain k v where "kv = (k, v)" by (cases kv)
  with Cons [of "map_put k v m"] map_put_set [of k v m] show ?case by auto
qed simp

lemma any_of_json_plain: "plain_val (any_of_json j)"
proof (induction j)
  case (JObj kvs)
  let ?kvs = "map (\<lambda>(k, v). (k, any_of_json v)) kvs"
  have "plain_val v" if "(k, v) \<in> set ?kvs" for k v
    using that JObj by force
  with fold_map_put_set [of ?kvs "[]"] show ?case by (auto simp: list_all_iff)
qed (simp_all add: list_all_iff)

lemma unmarshal_none [simp]: "unmarshal step None z = None"
  by (simp add: unmarshal_def)

lemma unmarshal_null [simp]: "unmarshal step (Some JNull) z = Some z"
  by (simp add: unmarshal_def)

lemma map_put_distinct [go_intro]: "distinct (map fst ps) \<Longrightarrow> distinct (map fst (map_put k v ps))"
proof (induction ps)
  case (Cons p ps)
  have "set (map fst (map_put k v ps)) \<subseteq> insert k (set (map fst ps))"
    by (induction ps rule: map_put.induct) auto
  with Cons show ?case by (cases p) auto
qed simp

lemma map_of_map_put [simp]: "map_of (map_put k v ps) = (map_of ps)(k \<mapsto> v)"
  by (induction k v ps rule: map_put.induct) auto

lemma opt_map_Some: "(\<And>x. x \<in> set xs \<Longrightarrow> f x = Some (g x)) \<Longrightarrow> opt_map f xs = Some (map g xs)"
  by (induction xs) auto

lemma opt_map_length: "opt_map f xs = Some ys \<Longrightarrow> length ys = length xs"
  by (induction xs arbitrary: ys) (auto split: option.splits)

end
