(* ===== verification/Nca_Object.thy ===== *)
theory Nca_Object
  imports Go_Values
begin

text \<open>
  The objects of the control model (\<open>internal/nca/nca_model.go\<close>): the base object with its
  properties and generic methods, blocks and workers.

  An operation returns its value, the new object and its effects: the PropertyChanged
  notifications it hands to the callback, and the commands a worker's hook sends to a
  receiver (the controller's address with the text). A Go error is \<open>None\<close>: no caller reads its
  text. The closures the gateway stores in a worker are the constructors of \<open>set_hook\<close> and
  \<open>method_hook\<close> with the variables they capture.
\<close>

subsection \<open>Method status and change types\<close>

abbreviation StatusOk :: int where "StatusOk \<equiv> 200"
abbreviation StatusBadCommandFormat :: int where "StatusBadCommandFormat \<equiv> 400"
abbreviation StatusBadOid :: int where "StatusBadOid \<equiv> 404"
abbreviation StatusIndexOutOfBounds :: int where "StatusIndexOutOfBounds \<equiv> 414"
abbreviation StatusDeviceError :: int where "StatusDeviceError \<equiv> 500"
abbreviation StatusMethodNotImplemented :: int where "StatusMethodNotImplemented \<equiv> 501"
abbreviation StatusPropertyNotImplemented :: int where "StatusPropertyNotImplemented \<equiv> 502"

definition ChangeTypeValueChanged :: int where "ChangeTypeValueChanged = 0"
definition ChangeTypeSequenceItemAdded :: int where "ChangeTypeSequenceItemAdded = 1"
definition ChangeTypeSequenceModified :: int where "ChangeTypeSequenceModified = 2"
definition ChangeTypeSequenceRemoved :: int where "ChangeTypeSequenceRemoved = 3"

datatype notification = Notification
  (nt_oid: int) (nt_event: elem_id) (nt_property: elem_id) (nt_change: int)
  (nt_value: goval) (nt_index: "int option")

subsection \<open>The base object\<close>

record base_object =
  bo_OID :: int
  bo_ClassID :: "int list"
  bo_ConstantOID :: bool
  bo_Owner :: "int option"
  bo_Role :: string
  bo_UserLabel :: string
  bo_Touchpoints :: "string list"
  bo_RuntimeConstraints :: "PropertyConstraints list"
  bo_Notify :: bool

definition new_base :: "int \<Rightarrow> int list \<Rightarrow> int option \<Rightarrow> string \<Rightarrow> string \<Rightarrow> base_object" where
  "new_base oid cid owner role label =
     \<lparr> bo_OID = oid, bo_ClassID = cid, bo_ConstantOID = True, bo_Owner = owner, bo_Role = role,
       bo_UserLabel = label, bo_Touchpoints = [], bo_RuntimeConstraints = [], bo_Notify = False \<rparr>"

definition base_GetProperty :: "base_object \<Rightarrow> elem_id \<Rightarrow> goval option" where
  "base_GetProperty b i =
     (if i = EId 1 1 then Some (VInts (bo_ClassID b))
      else if i = EId 1 2 then Some (VInt (bo_OID b))
      else if i = EId 1 3 then Some (VBool (bo_ConstantOID b))
      else if i = EId 1 4 then Some (VOwner (bo_Owner b))
      else if i = EId 1 5 then Some (VStr (bo_Role b))
      else if i = EId 1 6 then Some (VStr (bo_UserLabel b))
      else if i = EId 1 7 then Some (VTouchpoints (bo_Touchpoints b))
      else if i = EId 1 8 then Some (VConstraints (bo_RuntimeConstraints b))
      else None)"

definition notifyChange :: "base_object \<Rightarrow> elem_id \<Rightarrow> goval \<Rightarrow> notification list" where
  "notifyChange b i v =
     (if bo_Notify b then [Notification (bo_OID b) (EId 1 1) i ChangeTypeValueChanged v None] else [])"

definition notifySequenceChange :: "base_object \<Rightarrow> elem_id \<Rightarrow> int \<Rightarrow> goval \<Rightarrow> int \<Rightarrow> notification list" where
  "notifySequenceChange b i ct v idx =
     (if bo_Notify b then [Notification (bo_OID b) (EId 1 1) i ct v (Some idx)] else [])"

text \<open>The last component tells whether the call returned without an error.\<close>

definition base_SetProperty :: "base_object \<Rightarrow> elem_id \<Rightarrow> goval \<Rightarrow> base_object \<times> notification list \<times> bool" where
  "base_SetProperty b i v =
     (if i = EId 1 6
      then (case v of VStr s \<Rightarrow> (b\<lparr> bo_UserLabel := s \<rparr>, notifyChange b i (VStr s), True)
                    | _ \<Rightarrow> (b, [], False))
      else (b, [], False))"

definition base_GetDescriptor :: "base_object \<Rightarrow> BlockMemberDescriptor" where
  "base_GetDescriptor b =
     BlockMemberDescriptor (bo_Role b) (bo_OID b) (bo_ConstantOID b) (bo_ClassID b)
       (bo_UserLabel b) (bo_Owner b) []"

text \<open>
  The type assertion to a slice of \<open>interface{}\<close>. No value a base object stores is of that
  type, so the slices the sequence methods change belong to no field of the object.
\<close>

fun as_seq :: "goval \<Rightarrow> goval list option" where
  "as_seq (VArr xs) = Some xs"
| "as_seq _ = None"

definition seq_property :: "base_object \<Rightarrow> elem_id \<Rightarrow> goval list option" where
  "seq_property b i = (case base_GetProperty b i of None \<Rightarrow> None | Some v \<Rightarrow> as_seq v)"

definition in_seq :: "int \<Rightarrow> goval list \<Rightarrow> bool" where
  "in_seq i xs \<longleftrightarrow> 0 \<le> i \<and> i < int (length xs)"

definition base_InvokeMethod ::
  "base_object \<Rightarrow> elem_id \<Rightarrow> json option \<Rightarrow> base_object \<times> notification list \<times> goval option" where
  "base_InvokeMethod b m args =
     (if m = EId 1 1 then
        (case dec_prop_args ''propertyId'' False False args of
           None \<Rightarrow> (b, [], Some (VResult StatusBadCommandFormat VNil))
         | Some a \<Rightarrow> (case base_GetProperty b (pa_id a) of
             None \<Rightarrow> (b, [], Some (VResult StatusPropertyNotImplemented VNil))
           | Some v \<Rightarrow> (b, [], Some (VResult StatusOk v))))
      else if m = EId 1 2 then
        (case dec_prop_args ''propertyId'' True False args of
           None \<Rightarrow> (b, [], Some (VResult StatusBadCommandFormat VNil))
         | Some a \<Rightarrow> (case base_SetProperty b (pa_id a) (pa_value a) of
             (b', ns, ok) \<Rightarrow> (b', ns, Some (VResult (if ok then StatusOk else StatusDeviceError) VNil))))
      else if m = EId 1 3 then
        (case dec_prop_args ''propertyId'' False True args of
           None \<Rightarrow> (b, [], Some (VResult StatusBadCommandFormat VNil))
         | Some a \<Rightarrow> (case seq_property b (pa_id a) of
             None \<Rightarrow> (b, [], Some (VResult StatusPropertyNotImplemented VNil))
           | Some xs \<Rightarrow>
               if in_seq (pa_index a) xs then (b, [], Some (VResult StatusOk (xs ! nat (pa_index a))))
               else (b, [], Some (VResult StatusIndexOutOfBounds VNil))))
      else if m = EId 1 4 then
        (case dec_prop_args ''propertyId'' True True args of
           None \<Rightarrow> (b, [], Some (VResult StatusBadCommandFormat VNil))
         | Some a \<Rightarrow> (case seq_property b (pa_id a) of
             None \<Rightarrow> (b, [], Some (VResult StatusPropertyNotImplemented VNil))
           | Some xs \<Rightarrow>
               if in_seq (pa_index a) xs
               then (b, notifySequenceChange b (pa_id a) ChangeTypeSequenceModified (pa_value a) (pa_index a),
                     Some (VResult StatusOk VNil))
               else (b, [], Some (VResult StatusIndexOutOfBounds VNil))))
      else if m = EId 1 5 then
        (case dec_prop_args ''propertyId'' True False args of
           None \<Rightarrow> (b, [], Some (VResult StatusBadCommandFormat VNil))
         | Some a \<Rightarrow> (case seq_property b (pa_id a) of
             None \<Rightarrow> (b, [], Some (VResult StatusPropertyNotImplemented VNil))
           | Some xs \<Rightarrow>
               (b, notifySequenceChange b (pa_id a) ChangeTypeSequenceItemAdded (pa_value a) (int (length xs)),
                Some (VResult StatusOk (VInt (int (length xs)))))))
      else if m = EId 1 6 then
        (case dec_prop_args ''propertyId'' False True args of
           None \<Rightarrow> (b, [], Some (VResult StatusBadCommandFormat VNil))
         | Some a \<Rightarrow> (case seq_property b (pa_id a) of
             None \<Rightarrow> (b, [], Some (VResult StatusPropertyNotImplemented VNil))
           | Some xs \<Rightarrow>
               if in_seq (pa_index a) xs
               then (b, notifySequenceChange b (pa_id a) ChangeTypeSequenceRemoved (xs ! nat (pa_index a)) (pa_index a),
                     Some (VResult StatusOk VNil))
               else (b, [], Some (VResult StatusIndexOutOfBounds VNil))))
      else if m = EId 1 7 then
        (case dec_prop_args ''propertyId'' False False args of
           None \<Rightarrow> (b, [], Some (VResult StatusBadCommandFormat VNil))
         | Some a \<Rightarrow> (case base_GetProperty b (pa_id a) of
             None \<Rightarrow> (b, [], Some (VResult StatusPropertyNotImplemented VNil))
           | Some v \<Rightarrow> (case as_seq v of
               None \<Rightarrow> (b, [], Some (VResult StatusPropertyNotImplemented (VInt 0)))
             | Some xs \<Rightarrow> (b, [], Some (VResult StatusOk (VInt (int (length xs))))))))
      else (b, [], None))"

subsection \<open>Workers\<close>

text \<open>
  The hooks: a channel parameter and a device parameter send \<open>SET\<close> with the value in the
  format of the verb v; the gain worker's method hook is the one \<open>setupDeviceNCP\<close> installs.
\<close>

datatype set_hook =
    NoOnSet
  | SetChannelParam string int string
  | SetDeviceParam string string

datatype method_hook =
    NoOnMethod
  | GainMethods string int

record nc_worker =
  wk_base :: base_object
  wk_Value :: goval
  wk_OnSet :: set_hook
  wk_OnMethod :: method_hook

text \<open>\<open>send addr cmd\<close>: whether \<open>SendCommand\<close> of the controller at \<open>addr\<close> returned no error.\<close>

type_synonym sender = "string \<Rightarrow> string \<Rightarrow> bool"
type_synonym sent = "(string \<times> string) list"

definition NewWorker :: "int \<Rightarrow> int list \<Rightarrow> int option \<Rightarrow> string \<Rightarrow> string \<Rightarrow> nc_worker" where
  "NewWorker oid cid owner role label =
     \<lparr> wk_base = new_base oid cid owner role label, wk_Value = VNil, wk_OnSet = NoOnSet, wk_OnMethod = NoOnMethod \<rparr>"

definition newline :: string where "newline = [CHR 0x0A]"

fun hook_command :: "float_fmt \<Rightarrow> set_hook \<Rightarrow> goval \<Rightarrow> (string \<times> string) option" where
  "hook_command ff NoOnSet v = None"
| "hook_command ff (SetChannelParam addr ch param) v =
     Some (addr, ''< SET '' @ itoa ch @ '' '' @ param @ '' '' @ fmt_any ff v @ '' >'' @ newline)"
| "hook_command ff (SetDeviceParam addr param) v =
     Some (addr, ''< SET '' @ param @ '' '' @ fmt_any ff v @ '' >'' @ newline)"

definition worker_GetProperty :: "nc_worker \<Rightarrow> elem_id \<Rightarrow> goval option" where
  "worker_GetProperty w i =
     (if i = EId 2 1 then Some (VBool True)
      else if i = EId 3 1 then Some (wk_Value w)
      else base_GetProperty (wk_base w) i)"

definition worker_SetProperty ::
  "float_fmt \<Rightarrow> sender \<Rightarrow> nc_worker \<Rightarrow> elem_id \<Rightarrow> goval \<Rightarrow> nc_worker \<times> notification list \<times> sent \<times> bool" where
  "worker_SetProperty ff send w i v =
     (if i = EId 3 1 then
        (case hook_command ff (wk_OnSet w) v of
           None \<Rightarrow> (w\<lparr> wk_Value := v \<rparr>, notifyChange (wk_base w) i v, [], True)
         | Some (addr, cmd) \<Rightarrow>
             if send addr cmd
             then (w\<lparr> wk_Value := v \<rparr>, notifyChange (wk_base w) i v, [(addr, cmd)], True)
             else (w, [], [(addr, cmd)], False))
      else (case base_SetProperty (wk_base w) i v of
              (b, ns, ok) \<Rightarrow> (w\<lparr> wk_base := b \<rparr>, ns, [], ok)))"

definition worker_SetValue :: "nc_worker \<Rightarrow> goval \<Rightarrow> nc_worker \<times> notification list" where
  "worker_SetValue w v = (w\<lparr> wk_Value := v \<rparr>, notifyChange (wk_base w) (EId 3 1) v)"

definition worker_IsEnabled :: "nc_worker \<Rightarrow> bool" where
  "worker_IsEnabled w = True"

text \<open>The method hook of the gain worker (\<open>gateway.go\<close>).\<close>

definition dec_value_arg :: "json option \<Rightarrow> goval option" where
  "dec_value_arg args =
     unmarshal (\<lambda>k j v. Some (if equal_fold k ''value'' then any_of_json j else v)) args VNil"

definition gain_step :: "float_fmt \<Rightarrow> sender \<Rightarrow> string \<Rightarrow> int \<Rightarrow> string \<Rightarrow> json option \<Rightarrow> sent \<times> goval option" where
  "gain_step ff send addr ch dir args =
     (case dec_value_arg args of
        None \<Rightarrow> ([], Some (VResult 400 VNil))
      | Some v \<Rightarrow>
          (let cmd = ''< SET '' @ itoa ch @ '' AUDIO_GAIN '' @ dir @ '' '' @ fmt_any ff v @ '' >'' @ newline in
           ([(addr, cmd)], Some (VResult (if send addr cmd then 200 else 500) VNil))))"

fun run_method_hook ::
  "float_fmt \<Rightarrow> sender \<Rightarrow> method_hook \<Rightarrow> elem_id \<Rightarrow> json option \<Rightarrow> sent \<times> goval option" where
  "run_method_hook ff send NoOnMethod m args = ([], Some (VResult StatusMethodNotImplemented VNil))"
| "run_method_hook ff send (GainMethods addr ch) m args =
     (if m = EId 3 2 then gain_step ff send addr ch ''INC'' args
      else if m = EId 3 3 then gain_step ff send addr ch ''DEC'' args
      else ([], Some (VResult 501 VNil)))"

definition worker_InvokeMethod ::
  "float_fmt \<Rightarrow> sender \<Rightarrow> nc_worker \<Rightarrow> elem_id \<Rightarrow> json option \<Rightarrow>
   nc_worker \<times> notification list \<times> sent \<times> goval option" where
  "worker_InvokeMethod ff send w m args =
     (if m = EId 1 1 then
        (case dec_prop_args ''propertyId'' False False args of
           None \<Rightarrow> (w, [], [], Some (VResult StatusBadCommandFormat VNil))
         | Some a \<Rightarrow> (case worker_GetProperty w (pa_id a) of
             None \<Rightarrow> (w, [], [], Some (VResult StatusPropertyNotImplemented VNil))
           | Some v \<Rightarrow> (w, [], [], Some (VResult StatusOk v))))
      else if m = EId 1 2 then
        (case dec_prop_args ''propertyId'' True False args of
           None \<Rightarrow> (w, [], [], Some (VResult StatusBadCommandFormat VNil))
         | Some a \<Rightarrow> (case worker_SetProperty ff send w (pa_id a) (pa_value a) of
             (w', ns, cs, ok) \<Rightarrow> (w', ns, cs, Some (VResult (if ok then StatusOk else StatusDeviceError) VNil))))
      else (case run_method_hook ff send (wk_OnMethod w) m args of (cs, r) \<Rightarrow> (w, [], cs, r)))"

end
