(* ===== verification/Nca_Managers.thy ===== *)
theory Nca_Managers
  imports Nca_Object
begin

text \<open>
  The managers of the control model (\<open>internal/nca/nca_model.go\<close>): the device manager and the
  class manager with its table of control classes.

  The managers embed the base object: a method they do not define themselves is the base
  object's, and it runs on the base object. The class table is a Go map, an association list
  here; the order in which ranging over it lists the classes is the parameter \<open>citer\<close>.
\<close>

subsection \<open>The device manager\<close>

record device_manager =
  dm_base :: base_object
  dm_ncVersion :: "int \<times> int"
  dm_manufacturer :: string
  dm_product :: "string \<times> string"
  dm_serialNumber :: string
  dm_userInventoryCode :: string
  dm_deviceName :: string
  dm_deviceRole :: string
  dm_operationalState :: int
  dm_resetCause :: int
  dm_message :: string

definition NewDeviceManager :: "int \<Rightarrow> int option \<Rightarrow> device_manager" where
  "NewDeviceManager oid owner =
     \<lparr> dm_base = new_base oid [1, 3, 1] owner ''DeviceManager'' ''Device Manager'',
       dm_ncVersion = (1, 0), dm_manufacturer = [], dm_product = ([], []), dm_serialNumber = [],
       dm_userInventoryCode = [], dm_deviceName = [], dm_deviceRole = [],
       dm_operationalState = 1, dm_resetCause = 1, dm_message = [] \<rparr>"

definition dm_GetProperty :: "device_manager \<Rightarrow> elem_id \<Rightarrow> goval option" where
  "dm_GetProperty m i =
     (if i = EId 3 1 then Some (VVersion (fst (dm_ncVersion m)) (snd (dm_ncVersion m)))
      else if i = EId 3 2 then Some (VManufacturer (dm_manufacturer m))
      else if i = EId 3 3 then Some (VProduct (fst (dm_product m)) (snd (dm_product m)))
      else if i = EId 3 4 then Some (VStr (dm_serialNumber m))
      else if i = EId 3 5 then Some (VStr (dm_userInventoryCode m))
      else if i = EId 3 6 then Some (VStr (dm_deviceName m))
      else if i = EId 3 7 then Some (VStr (dm_deviceRole m))
      else if i = EId 3 8 then Some (VInt (dm_operationalState m))
      else if i = EId 3 9 then Some (VInt (dm_resetCause m))
      else if i = EId 3 10 then Some (VStr (dm_message m))
      else base_GetProperty (dm_base m) i)"

definition dm_SetProperty :: "device_manager \<Rightarrow> elem_id \<Rightarrow> goval \<Rightarrow> device_manager \<times> notification list \<times> bool" where
  "dm_SetProperty m i v =
     (if i = EId 3 5 then
        (case v of VStr s \<Rightarrow> (m\<lparr> dm_userInventoryCode := s \<rparr>, notifyChange (dm_base m) i (VStr s), True)
                 | _ \<Rightarrow> (m, [], False))
      else if i = EId 3 6 then
        (case v of VStr s \<Rightarrow> (m\<lparr> dm_deviceName := s \<rparr>, notifyChange (dm_base m) i (VStr s), True)
                 | _ \<Rightarrow> (m, [], False))
      else if i = EId 3 7 then
        (case v of VStr s \<Rightarrow> (m\<lparr> dm_deviceRole := s \<rparr>, notifyChange (dm_base m) i (VStr s), True)
                 | _ \<Rightarrow> (m, [], False))
      else (case base_SetProperty (dm_base m) i v of
              (b, ns, ok) \<Rightarrow> (m\<lparr> dm_base := b \<rparr>, ns, ok)))"

definition SetDeviceName :: "device_manager \<Rightarrow> string \<Rightarrow> device_manager \<times> notification list" where
  "SetDeviceName m name = (m\<lparr> dm_deviceName := name \<rparr>, notifyChange (dm_base m) (EId 3 6) (VStr name))"

definition SetDeviceRole :: "device_manager \<Rightarrow> string \<Rightarrow> device_manager \<times> notification list" where
  "SetDeviceRole m role = (m\<lparr> dm_deviceRole := role \<rparr>, notifyChange (dm_base m) (EId 3 7) (VStr role))"

definition SetMessage :: "device_manager \<Rightarrow> string \<Rightarrow> device_manager \<times> notification list" where
  "SetMessage m msg = (m\<lparr> dm_message := msg \<rparr>, notifyChange (dm_base m) (EId 3 10) (VStr msg))"

text \<open>The device manager has no \<open>InvokeMethod\<close> of its own.\<close>

definition dm_InvokeMethod ::
  "device_manager \<Rightarrow> elem_id \<Rightarrow> json option \<Rightarrow> device_manager \<times> notification list \<times> goval option" where
  "dm_InvokeMethod m i args =
     (case base_InvokeMethod (dm_base m) i args of (b, ns, r) \<Rightarrow> (m\<lparr> dm_base := b \<rparr>, ns, r))"

subsection \<open>The class manager\<close>

record class_manager =
  cm_base :: base_object
  cm_Classes :: "(string \<times> ClassDescriptor) list"
  cm_Datatypes :: "(string \<times> DatatypeDescriptor) list"

definition classIDToKey :: "int list \<Rightarrow> string" where
  "classIDToKey cid = str_join ''.'' (map itoa cid)"

definition cm_RegisterClass :: "class_manager \<Rightarrow> int list \<Rightarrow> ClassDescriptor \<Rightarrow> class_manager" where
  "cm_RegisterClass m cid d = m\<lparr> cm_Classes := map_put (classIDToKey cid) d (cm_Classes m) \<rparr>"

definition prop_d :: "int \<Rightarrow> int \<Rightarrow> string \<Rightarrow> string \<Rightarrow> bool \<Rightarrow> bool \<Rightarrow> bool \<Rightarrow> PropertyDescriptor" where
  "prop_d l i name ty ro nullable seq = PropertyDescriptor (EId l i) name ty ro nullable seq False"

definition meth_d :: "int \<Rightarrow> int \<Rightarrow> string \<Rightarrow> string \<Rightarrow> MethodDescriptor" where
  "meth_d l i name res = MethodDescriptor (EId l i) name res [] False"

definition class_NcObject :: ClassDescriptor where
  "class_NcObject = ClassDescriptor [1] ''NcObject'' None
     [prop_d 1 1 ''classId'' ''NcClassId'' True False False,
      prop_d 1 2 ''oid'' ''NcOid'' True False False,
      prop_d 1 3 ''constantOid'' ''NcBoolean'' True False False,
      prop_d 1 4 ''owner'' ''NcOid'' True True False,
      prop_d 1 5 ''role'' ''NcString'' True False False,
      prop_d 1 6 ''userLabel'' ''NcString'' False True False,
      prop_d 1 7 ''touchpoints'' ''NcTouchpoint'' True False True,
      prop_d 1 8 ''runtimePropertyConstraints'' ''NcPropertyConstraints'' True False True]
     [meth_d 1 1 ''Get'' ''NcMethodResultPropertyValue'',
      meth_d 1 2 ''Set'' ''NcMethodResult'',
      meth_d 1 3 ''GetSequenceItem'' ''NcMethodResultPropertyValue'',
      meth_d 1 4 ''SetSequenceItem'' ''NcMethodResult'',
      meth_d 1 5 ''AddSequenceItem'' ''NcMethodResult'',
      meth_d 1 6 ''RemoveSequenceItem'' ''NcMethodResult'',
      meth_d 1 7 ''GetSequenceLength'' ''NcMethodResultPropertyValue'']
     [EventDescriptor (EId 1 1) ''PropertyChanged'' ''NcPropertyChangedEventData'' False]"

definition class_NcBlock :: ClassDescriptor where
  "class_NcBlock = ClassDescriptor [1, 1] ''NcBlock'' None
     [prop_d 2 1 ''enabled'' ''NcBoolean'' True False False,
      prop_d 2 2 ''members'' ''NcBlockMemberDescriptor'' True False True]
     [meth_d 2 1 ''GetMemberDescriptors'' ''NcMethodResultBlockMemberDescriptors'',
      meth_d 2 2 ''FindMembersByPath'' ''NcMethodResultBlockMemberDescriptors'',
      meth_d 2 3 ''FindMembersByRole'' ''NcMethodResultBlockMemberDescriptors'',
      meth_d 2 4 ''FindMembersByClassId'' ''NcMethodResultBlockMemberDescriptors'']
     []"

definition class_NcWorker :: ClassDescriptor where
  "class_NcWorker = ClassDescriptor [1, 2] ''NcWorker'' None
     [prop_d 2 1 ''enabled'' ''NcBoolean'' False False False] [] []"

definition class_NcDeviceManager :: ClassDescriptor where
  "class_NcDeviceManager = ClassDescriptor [1, 3, 1] ''NcDeviceManager'' (Some ''DeviceManager'')
     [prop_d 3 1 ''ncVersion'' ''NcVersionCode'' True False False,
      prop_d 3 2 ''manufacturer'' ''NcManufacturer'' True False False,
      prop_d 3 3 ''product'' ''NcProduct'' True False False,
      prop_d 3 4 ''serialNumber'' ''NcString'' True False False,
      prop_d 3 5 ''userInventoryCode'' ''NcString'' False True False,
      prop_d 3 6 ''deviceName'' ''NcString'' False True False,
      prop_d 3 7 ''deviceRole'' ''NcString'' False True False,
      prop_d 3 8 ''operationalState'' ''NcDeviceOperationalState'' True False False,
      prop_d 3 9 ''resetCause'' ''NcResetCause'' True False False,
      prop_d 3 10 ''message'' ''NcString'' True True False] [] []"

definition class_NcClassManager :: ClassDescriptor where
  "class_NcClassManager = ClassDescriptor [1, 3, 2] ''NcClassManager'' (Some ''ClassManager'')
     [prop_d 3 1 ''controlClasses'' ''NcClassDescriptor'' True False True,
      prop_d 3 2 ''datatypes'' ''NcDatatypeDescriptor'' True False True]
     [meth_d 3 1 ''GetControlClass'' ''NcMethodResultClassDescriptor'',
      meth_d 3 2 ''GetDatatype'' ''NcMethodResultDatatypeDescriptor'']
     []"

definition registerStandardClasses :: "class_manager \<Rightarrow> class_manager" where
  "registerStandardClasses m = m\<lparr> cm_Classes :=
     map_put ''1.3.2'' class_NcClassManager (map_put ''1.3.1'' class_NcDeviceManager
       (map_put ''1.2'' class_NcWorker (map_put ''1.1'' class_NcBlock
         (map_put ''1'' class_NcObject (cm_Classes m))))) \<rparr>"

definition NewClassManager :: "int \<Rightarrow> int option \<Rightarrow> class_manager" where
  "NewClassManager oid owner = registerStandardClasses
     \<lparr> cm_base = new_base oid [1, 3, 2] owner ''ClassManager'' ''Class Manager'',
       cm_Classes = [], cm_Datatypes = [] \<rparr>"

definition cm_GetProperty ::
  "((string \<times> ClassDescriptor) list \<Rightarrow> (string \<times> ClassDescriptor) list) \<Rightarrow> class_manager \<Rightarrow> elem_id \<Rightarrow> goval option" where
  "cm_GetProperty citer m i =
     (if i = EId 3 1 then Some (VClasses (map snd (citer (cm_Classes m))))
      else if i = EId 3 2 then Some (VArr [])
      else base_GetProperty (cm_base m) i)"

definition cm_SetProperty :: "class_manager \<Rightarrow> elem_id \<Rightarrow> goval \<Rightarrow> class_manager \<times> notification list \<times> bool" where
  "cm_SetProperty m i v =
     (case base_SetProperty (cm_base m) i v of (b, ns, ok) \<Rightarrow> (m\<lparr> cm_base := b \<rparr>, ns, ok))"

definition dec_class_arg :: "json option \<Rightarrow> (int list \<times> bool) option" where
  "dec_class_arg args = unmarshal (\<lambda>k j (c, b).
     if equal_fold k ''classId'' then map_option (\<lambda>c'. (c', b)) (dec_ints j c)
     else if equal_fold k ''includeInherited'' then map_option (\<lambda>b'. (c, b')) (dec_bool j b)
     else Some (c, b)) args ([], False)"

definition dec_name_arg :: "json option \<Rightarrow> (string \<times> bool) option" where
  "dec_name_arg args = unmarshal (\<lambda>k j (n, b).
     if equal_fold k ''name'' then map_option (\<lambda>n'. (n', b)) (dec_string j n)
     else if equal_fold k ''includeInherited'' then map_option (\<lambda>b'. (n, b')) (dec_bool j b)
     else Some (n, b)) args ([], False)"

definition cm_InvokeMethod ::
  "class_manager \<Rightarrow> elem_id \<Rightarrow> json option \<Rightarrow> class_manager \<times> notification list \<times> goval option" where
  "cm_InvokeMethod m i args =
     (if i = EId 3 1 then
        (case dec_class_arg args of
           None \<Rightarrow> (m, [], Some (VResult StatusBadCommandFormat VNil))
         | Some (cid, inh) \<Rightarrow> (case map_of (cm_Classes m) (classIDToKey cid) of
             Some d \<Rightarrow> (m, [], Some (VResult StatusOk (VClass d)))
           | None \<Rightarrow> (m, [], Some (VResult StatusBadOid VNil))))
      else if i = EId 3 2 then
        (case dec_name_arg args of
           None \<Rightarrow> (m, [], Some (VResult StatusBadCommandFormat VNil))
         | Some (n, inh) \<Rightarrow> (case map_of (cm_Datatypes m) n of
             Some d \<Rightarrow> (m, [], Some (VResult StatusOk (VDatatype d)))
           | None \<Rightarrow> (m, [], Some (VResult StatusBadOid VNil))))
      else (case base_InvokeMethod (cm_base m) i args of (b, ns, r) \<Rightarrow> (m\<lparr> cm_base := b \<rparr>, ns, r)))"

subsection \<open>The class table\<close>

lemma append_sep_eq:
  "x \<notin> set a \<Longrightarrow> x \<notin> set b \<Longrightarrow> a @ x # r = b @ x # s \<longleftrightarrow> a = b \<and> r = s"
proof (induction a arbitrary: b)
  case Nil
  then show ?case by (cases b) auto
next
  case (Cons c a)
  then show ?case by (cases b) auto
qed

definition dotless :: "string \<Rightarrow> bool" where
  "dotless s \<longleftrightarrow> s \<noteq> [] \<and> CHR ''.'' \<notin> set s"

lemma str_join_dots_inj:
  "list_all dotless xs \<Longrightarrow> list_all dotless ys \<Longrightarrow> str_join ''.'' xs = str_join ''.'' ys \<Longrightarrow> xs = ys"
proof (induction xs arbitrary: ys)
  case Nil
  then show ?case
  proof (cases ys)
    case (Cons y ys')
    with Nil show ?thesis by (cases ys') (auto simp: dotless_def)
  qed simp
next
  case (Cons x xs)
  then have x: "dotless x" by simp
  obtain y ys' where ys: "ys = y # ys'" "dotless y"
    using Cons.prems by (cases ys; cases xs) (auto simp: dotless_def)
  show ?case
  proof (cases xs)
    case Nil
    with Cons.prems ys x show ?thesis by (cases ys') (auto simp: dotless_def)
  next
    case (Cons x' xs')
    with Cons.prems ys x obtain y' ys'' where ys': "ys' = y' # ys''"
      by (cases ys') (auto simp: dotless_def)
    have "x @ CHR ''.'' # str_join ''.'' xs = y @ CHR ''.'' # str_join ''.'' ys'"
      using Cons.prems(3) ys ys' Cons by simp
    then have "x = y" "str_join ''.'' xs = str_join ''.'' ys'"
      using x ys(2) by (auto simp: append_sep_eq dotless_def)
    with Cons.IH [of ys'] Cons.prems ys show ?thesis by simp
  qed
qed

lemma itoa_no_dot: "CHR ''.'' \<notin> set (itoa i)"
  by (auto dest!: itoa_chars simp: is_digit_def)

text \<open>The key of a class in the table determines the class id.\<close>

lemma classIDToKey_key [simp]: "classIDToKey c = classIDToKey d \<longleftrightarrow> c = d"
proof
  assume eq: "classIDToKey c = classIDToKey d"
  have "list_all dotless (map itoa x)" for x
    using itoa_no_dot itoa_nonempty by (simp add: list_all_iff dotless_def)
  then have "map itoa c = map itoa d"
    using eq unfolding classIDToKey_def by (intro str_join_dots_inj)
  then show "c = d" by (rule list.inj_map_strong [rotated]) (rule itoa_inj)
qed simp

end
