(* ===== verification/Nca_Block.thy ===== *)
theory Nca_Block
  imports Nca_Managers
begin

text \<open>
  Blocks (\<open>internal/nca/nca_model.go\<close>), and the object interface the dispatcher works with.

  A block holds the ids of its members and finds the objects through its resolver: a lookup in
  the registry of all objects. The resolver either returns the objects themselves or, as
  \<open>NcBlock.SetResolver\<close> of \<open>ncp_objects.go\<close> installs it, wraps each of them in an
  \<open>ncpObjectAdapter\<close>; the type assertion to \<open>*Block\<close> in the searches holds for a block the
  resolver returns itself and never for an adapter.

  A search descends into member blocks. Nothing in the code keeps membership free of cycles,
  so the searches take fuel: one unit a level, \<open>None\<close> when it is used up.
\<close>

subsection \<open>Objects and the registry\<close>

datatype resolver = NoResolver | ResolveDirect | ResolveAdapted

record nc_block =
  blk_base :: base_object
  blk_Items :: "int list"
  blk_Resolver :: resolver

datatype nc_object =
    OBlock nc_block
  | OWorker nc_worker
  | ODeviceManager device_manager
  | OClassManager class_manager

type_synonym registry = "int \<Rightarrow> nc_object option"

fun obj_base :: "nc_object \<Rightarrow> base_object" where
  "obj_base (OBlock b) = blk_base b"
| "obj_base (OWorker w) = wk_base w"
| "obj_base (ODeviceManager m) = dm_base m"
| "obj_base (OClassManager m) = cm_base m"

definition obj_GetOID :: "nc_object \<Rightarrow> int" where "obj_GetOID ob = bo_OID (obj_base ob)"
definition obj_GetClassID :: "nc_object \<Rightarrow> int list" where "obj_GetClassID ob = bo_ClassID (obj_base ob)"
definition obj_GetRole :: "nc_object \<Rightarrow> string" where "obj_GetRole ob = bo_Role (obj_base ob)"

text \<open>The adapter copies the descriptor field by field.\<close>

definition obj_GetDescriptor :: "nc_object \<Rightarrow> BlockMemberDescriptor" where
  "obj_GetDescriptor ob = base_GetDescriptor (obj_base ob)"

fun obj_SetNotifyCallback :: "nc_object \<Rightarrow> nc_object" where
  "obj_SetNotifyCallback (OBlock b) = OBlock (b\<lparr> blk_base := (blk_base b)\<lparr> bo_Notify := True \<rparr> \<rparr>)"
| "obj_SetNotifyCallback (OWorker w) = OWorker (w\<lparr> wk_base := (wk_base w)\<lparr> bo_Notify := True \<rparr> \<rparr>)"
| "obj_SetNotifyCallback (ODeviceManager m) = ODeviceManager (m\<lparr> dm_base := (dm_base m)\<lparr> bo_Notify := True \<rparr> \<rparr>)"
| "obj_SetNotifyCallback (OClassManager m) = OClassManager (m\<lparr> cm_base := (cm_base m)\<lparr> bo_Notify := True \<rparr> \<rparr>)"

subsection \<open>Block operations\<close>

definition NewBlock :: "int \<Rightarrow> int option \<Rightarrow> string \<Rightarrow> string \<Rightarrow> nc_block" where
  "NewBlock oid owner role label =
     \<lparr> blk_base = new_base oid [1, 1] owner role label, blk_Items = [], blk_Resolver = NoResolver \<rparr>"

definition AddItem :: "nc_block \<Rightarrow> int \<Rightarrow> nc_block" where
  "AddItem b oid = (if oid \<in> set (blk_Items b) then b else b\<lparr> blk_Items := blk_Items b @ [oid] \<rparr>)"

definition SetResolver :: "nc_block \<Rightarrow> resolver \<Rightarrow> nc_block" where
  "SetResolver b r = b\<lparr> blk_Resolver := r \<rparr>"

text \<open>The members the resolver finds, in the order of the block.\<close>

definition members :: "registry \<Rightarrow> nc_block \<Rightarrow> nc_object list" where
  "members reg b = (if blk_Resolver b = NoResolver then [] else List.map_filter reg (blk_Items b))"

definition as_block :: "nc_block \<Rightarrow> nc_object \<Rightarrow> nc_block option" where
  "as_block b ob =
     (case ob of OBlock c \<Rightarrow> if blk_Resolver b = ResolveDirect then Some c else None | _ \<Rightarrow> None)"

definition block_GetProperty :: "registry \<Rightarrow> nc_block \<Rightarrow> elem_id \<Rightarrow> goval option" where
  "block_GetProperty reg b i =
     (if i = EId 2 1 then Some (VBool True)
      else if i = EId 2 2 then Some (VMembers (map obj_GetDescriptor (members reg b)))
      else base_GetProperty (blk_base b) i)"

definition block_SetProperty :: "nc_block \<Rightarrow> elem_id \<Rightarrow> goval \<Rightarrow> nc_block \<times> notification list \<times> bool" where
  "block_SetProperty b i v =
     (case base_SetProperty (blk_base b) i v of (b', ns, ok) \<Rightarrow> (b\<lparr> blk_base := b' \<rparr>, ns, ok))"

definition concat_opt :: "'a list option list \<Rightarrow> 'a list option" where
  "concat_opt xs = map_option concat (opt_map (\<lambda>x. x) xs)"

text \<open>
  The shape of the three recursive searches: what a member contributes itself, then what the
  search of its members contributes when the search recurses and the member is a block.
\<close>

fun search :: "nat \<Rightarrow> registry \<Rightarrow> (nc_object \<Rightarrow> bool) \<Rightarrow> bool \<Rightarrow> nc_block \<Rightarrow> BlockMemberDescriptor list option" where
  "search 0 reg hit recurse b = None"
| "search (Suc n) reg hit recurse b =
     concat_opt (map (\<lambda>ob.
       map_option (\<lambda>ds. (if hit ob then [obj_GetDescriptor ob] else []) @ ds)
         (if recurse
          then (case as_block b ob of Some c \<Rightarrow> search n reg hit True c | None \<Rightarrow> Some [])
          else Some []))
       (members reg b))"

definition getMemberDescriptors :: "nat \<Rightarrow> registry \<Rightarrow> nc_block \<Rightarrow> bool \<Rightarrow> BlockMemberDescriptor list option" where
  "getMemberDescriptors n reg b recurse = search n reg (\<lambda>ob. True) recurse b"

text \<open>The path shortens with every level, so this search needs no fuel.\<close>

fun findMembersByPath :: "registry \<Rightarrow> nc_block \<Rightarrow> string list \<Rightarrow> BlockMemberDescriptor list" where
  "findMembersByPath reg b [] = []"
| "findMembersByPath reg b (r # rs) =
     (case List.find (\<lambda>ob. obj_GetRole ob = r) (members reg b) of
        None \<Rightarrow> []
      | Some ob \<Rightarrow>
          if rs = [] then [obj_GetDescriptor ob]
          else (case as_block b ob of Some c \<Rightarrow> findMembersByPath reg c rs | None \<Rightarrow> []))"

definition role_matches :: "string \<Rightarrow> bool \<Rightarrow> bool \<Rightarrow> string \<Rightarrow> bool" where
  "role_matches role caseSensitive matchWhole objRole =
     (if matchWhole
      then (if caseSensitive then objRole = role else equal_fold objRole role)
      else (if caseSensitive then str_contains objRole role
            else str_contains (to_lower objRole) (to_lower role)))"

definition findMembersByRole ::
  "nat \<Rightarrow> registry \<Rightarrow> nc_block \<Rightarrow> string \<Rightarrow> bool \<Rightarrow> bool \<Rightarrow> bool \<Rightarrow> BlockMemberDescriptor list option" where
  "findMembersByRole n reg b role caseSensitive matchWhole recurse =
     search n reg (\<lambda>ob. role_matches role caseSensitive matchWhole (obj_GetRole ob)) recurse b"

definition matchesClassID :: "int list \<Rightarrow> int list \<Rightarrow> bool \<Rightarrow> bool" where
  "matchesClassID objClassID searchClassID includeDerived =
     (if length objClassID < length searchClassID then False
      else if \<exists>i \<in> {..<length searchClassID}. objClassID ! i \<noteq> searchClassID ! i then False
      else if includeDerived then True
      else length objClassID = length searchClassID)"

definition findMembersByClassID ::
  "nat \<Rightarrow> registry \<Rightarrow> nc_block \<Rightarrow> int list \<Rightarrow> bool \<Rightarrow> bool \<Rightarrow> BlockMemberDescriptor list option" where
  "findMembersByClassID n reg b classID includeDerived recurse =
     search n reg (\<lambda>ob. matchesClassID (obj_GetClassID ob) classID includeDerived) recurse b"

record find_args =
  fa_recurse :: bool
  fa_path :: "string list"
  fa_role :: string
  fa_caseSensitive :: bool
  fa_matchWhole :: bool
  fa_classID :: "int list"
  fa_includeDerived :: bool

definition zero_find_args :: find_args where
  "zero_find_args = \<lparr> fa_recurse = False, fa_path = [], fa_role = [], fa_caseSensitive = False,
     fa_matchWhole = False, fa_classID = [], fa_includeDerived = False \<rparr>"

text \<open>The argument struct of each search has some of these fields.\<close>

definition find_args_step :: "string list \<Rightarrow> string \<Rightarrow> json \<Rightarrow> find_args \<Rightarrow> find_args option" where
  "find_args_step fs k j a =
     (let is = (\<lambda>f. f \<in> set fs \<and> equal_fold k f) in
      if is ''recurse'' then map_option (\<lambda>x. a\<lparr> fa_recurse := x \<rparr>) (dec_bool j (fa_recurse a))
      else if is ''path'' then map_option (\<lambda>x. a\<lparr> fa_path := x \<rparr>) (dec_strings j (fa_path a))
      else if is ''role'' then map_option (\<lambda>x. a\<lparr> fa_role := x \<rparr>) (dec_string j (fa_role a))
      else if is ''caseSensitive'' then map_option (\<lambda>x. a\<lparr> fa_caseSensitive := x \<rparr>) (dec_bool j (fa_caseSensitive a))
      else if is ''matchWholeString'' then map_option (\<lambda>x. a\<lparr> fa_matchWhole := x \<rparr>) (dec_bool j (fa_matchWhole a))
      else if is ''classId'' then map_option (\<lambda>x. a\<lparr> fa_classID := x \<rparr>) (dec_ints j (fa_classID a))
      else if is ''includeDerived'' then map_option (\<lambda>x. a\<lparr> fa_includeDerived := x \<rparr>) (dec_bool j (fa_includeDerived a))
      else Some a)"

definition dec_find_args :: "string list \<Rightarrow> json option \<Rightarrow> find_args option" where
  "dec_find_args fs args = unmarshal (find_args_step fs) args zero_find_args"

text \<open>The outer \<open>None\<close> is a search that ran out of fuel, the inner one a Go error.\<close>

definition block_InvokeMethod ::
  "nat \<Rightarrow> registry \<Rightarrow> nc_block \<Rightarrow> elem_id \<Rightarrow> json option \<Rightarrow> (nc_block \<times> notification list \<times> goval option) option" where
  "block_InvokeMethod n reg b m args =
     (let bad = Some (b, [], Some (VResult StatusBadCommandFormat VNil));
          found = map_option (\<lambda>ds. (b, [], Some (VResult StatusOk (VMembers ds)))) in
      if m = EId 2 1 then
        (case dec_find_args [''recurse''] args of None \<Rightarrow> bad
         | Some a \<Rightarrow> found (getMemberDescriptors n reg b (fa_recurse a)))
      else if m = EId 2 2 then
        (case dec_find_args [''path''] args of None \<Rightarrow> bad
         | Some a \<Rightarrow> found (Some (findMembersByPath reg b (fa_path a))))
      else if m = EId 2 3 then
        (case dec_find_args [''role'', ''caseSensitive'', ''matchWholeString'', ''recurse''] args of None \<Rightarrow> bad
         | Some a \<Rightarrow> found (findMembersByRole n reg b (fa_role a) (fa_caseSensitive a) (fa_matchWhole a) (fa_recurse a)))
      else if m = EId 2 4 then
        (case dec_find_args [''classId'', ''includeDerived'', ''recurse''] args of None \<Rightarrow> bad
         | Some a \<Rightarrow> found (findMembersByClassID n reg b (fa_classID a) (fa_includeDerived a) (fa_recurse a)))
      else (case base_InvokeMethod (blk_base b) m args of (b', ns, r) \<Rightarrow> Some (b\<lparr> blk_base := b' \<rparr>, ns, r)))"

subsection \<open>The object interface\<close>

record nca_env =
  ne_float :: float_fmt
  ne_send :: sender
  ne_classes :: "(string \<times> ClassDescriptor) list \<Rightarrow> (string \<times> ClassDescriptor) list"

fun obj_GetProperty :: "nca_env \<Rightarrow> registry \<Rightarrow> nc_object \<Rightarrow> elem_id \<Rightarrow> goval option" where
  "obj_GetProperty e reg (OBlock b) i = block_GetProperty reg b i"
| "obj_GetProperty e reg (OWorker w) i = worker_GetProperty w i"
| "obj_GetProperty e reg (ODeviceManager m) i = dm_GetProperty m i"
| "obj_GetProperty e reg (OClassManager m) i = cm_GetProperty (ne_classes e) m i"

fun obj_SetProperty :: "nca_env \<Rightarrow> nc_object \<Rightarrow> elem_id \<Rightarrow> goval \<Rightarrow> nc_object \<times> notification list \<times> sent \<times> bool" where
  "obj_SetProperty e (OBlock b) i v = (case block_SetProperty b i v of (b', ns, ok) \<Rightarrow> (OBlock b', ns, [], ok))"
| "obj_SetProperty e (OWorker w) i v =
     (case worker_SetProperty (ne_float e) (ne_send e) w i v of (w', ns, cs, ok) \<Rightarrow> (OWorker w', ns, cs, ok))"
| "obj_SetProperty e (ODeviceManager m) i v = (case dm_SetProperty m i v of (m', ns, ok) \<Rightarrow> (ODeviceManager m', ns, [], ok))"
| "obj_SetProperty e (OClassManager m) i v = (case cm_SetProperty m i v of (m', ns, ok) \<Rightarrow> (OClassManager m', ns, [], ok))"

fun obj_InvokeMethod ::
  "nat \<Rightarrow> nca_env \<Rightarrow> registry \<Rightarrow> nc_object \<Rightarrow> elem_id \<Rightarrow> json option \<Rightarrow>
   (nc_object \<times> notification list \<times> sent \<times> goval option) option" where
  "obj_InvokeMethod n e reg (OBlock b) m args =
     map_option (\<lambda>(b', ns, r). (OBlock b', ns, [], r)) (block_InvokeMethod n reg b m args)"
| "obj_InvokeMethod n e reg (OWorker w) m args =
     (case worker_InvokeMethod (ne_float e) (ne_send e) w m args of (w', ns, cs, r) \<Rightarrow> Some (OWorker w', ns, cs, r))"
| "obj_InvokeMethod n e reg (ODeviceManager d) m args =
     (case dm_InvokeMethod d m args of (d', ns, r) \<Rightarrow> Some (ODeviceManager d', ns, [], r))"
| "obj_InvokeMethod n e reg (OClassManager c) m args =
     (case cm_InvokeMethod c m args of (c', ns, r) \<Rightarrow> Some (OClassManager c', ns, [], r))"

end
