(* ===== verification/Nca_Contract.thy ===== *)
theory Nca_Contract
  imports Nca_Block "HOL-Library.Sublist"
begin

text \<open>
  The contract of the object interface of the control model, and what the objects of
  \<open>Nca_Block\<close> owe it.

  The locale \<open>settable\<close> states what the dispatcher and the gateway rely on when they write a
  property of any object: an accepted write is read back and changes no other property, a
  refused one changes nothing, the identity of the object is fixed, and every accepted write
  is notified once. The lemmas on sequences of writes are proved once inside it.
\<close>

subsection \<open>Sequences of writes\<close>

definition identity_of :: "base_object \<Rightarrow> int \<times> int list \<times> bool \<times> int option \<times> string \<times> bool" where
  "identity_of b = (bo_OID b, bo_ClassID b, bo_ConstantOID b, bo_Owner b, bo_Role b, bo_Notify b)"

type_synonym 'o setter = "'o \<Rightarrow> elem_id \<Rightarrow> goval \<Rightarrow> 'o \<times> notification list \<times> sent \<times> bool"

text \<open>Perform the writes in order; the writes that were accepted are the second result.\<close>

fun run_sets :: "'o setter \<Rightarrow> 'o \<Rightarrow> (elem_id \<times> goval) list \<Rightarrow> 'o \<times> (elem_id \<times> goval) list \<times> notification list" where
  "run_sets setp ob [] = (ob, [], [])"
| "run_sets setp ob ((i, v) # ws) =
     (case setp ob i v of (ob1, ns, cs, ok) \<Rightarrow>
       (case run_sets setp ob1 ws of (ob2, acc, ns2) \<Rightarrow>
          (ob2, (if ok then (i, v) # acc else acc), ns @ ns2)))"

definition last_write :: "(elem_id \<times> goval) list \<Rightarrow> elem_id \<Rightarrow> goval option" where
  "last_write acc i = map_of (rev acc) i"

lemma last_write_Cons:
  "last_write ((i, v) # acc) j =
     (case last_write acc j of Some x \<Rightarrow> Some x | None \<Rightarrow> if j = i then Some v else None)"
  by (auto simp: last_write_def map_add_def split: option.splits)

lemma last_write_Nil [simp]: "last_write [] j = None"
  by (simp add: last_write_def)

locale settable =
  fixes getp :: "'o \<Rightarrow> elem_id \<Rightarrow> goval option"
    and setp :: "'o setter"
    and base :: "'o \<Rightarrow> base_object"
  assumes set_get: "setp ob i v = (ob', ns, cs, True) \<Longrightarrow> getp ob' i = Some v"
    and set_other: "setp ob i v = (ob', ns, cs, True) \<Longrightarrow> j \<noteq> i \<Longrightarrow> getp ob' j = getp ob j"
    and set_refused: "setp ob i v = (ob', ns, cs, False) \<Longrightarrow> ob' = ob \<and> ns = []"
    and set_identity: "setp ob i v = (ob', ns, cs, ok) \<Longrightarrow> identity_of (base ob') = identity_of (base ob)"
    and set_notifies: "setp ob i v = (ob', ns, cs, True) \<Longrightarrow> ns = notifyChange (base ob) i v"
begin

lemma run_sets_identity:
  "run_sets setp ob ws = (ob', acc, ns) \<Longrightarrow> identity_of (base ob') = identity_of (base ob)"
  by (induction ws arbitrary: ob ob' acc ns) (auto split: prod.splits dest: set_identity)

lemma run_sets_get:
  "run_sets setp ob ws = (ob', acc, ns) \<Longrightarrow>
   getp ob' j = (case last_write acc j of Some v \<Rightarrow> Some v | None \<Rightarrow> getp ob j)"
proof (induction ws arbitrary: ob ob' acc ns)
  case (Cons w ws)
  obtain i v where w: "w = (i, v)" by (cases w)
  obtain ob1 ns1 cs ok where one: "setp ob i v = (ob1, ns1, cs, ok)" by (cases "setp ob i v") auto
  obtain acc2 ns2 where two: "run_sets setp ob1 ws = (ob', acc2, ns2)"
    and acc: "acc = (if ok then (i, v) # acc2 else acc2)"
    using Cons.prems by (auto simp: w one split: prod.splits)
  show ?case
  proof (cases ok)
    case True
    with one have "getp ob1 j = (if j = i then Some v else getp ob j)"
      using set_get set_other by auto
    with Cons.IH [OF two] True acc show ?thesis
      by (auto simp: last_write_Cons split: option.splits)
  next
    case False
    with one have "setp ob i v = (ob1, ns1, cs, False)" by simp
    then have "ob1 = ob" by (blast dest: set_refused)
    with Cons.IH [OF two] False acc show ?thesis by (simp split: option.splits)
  qed
qed simp

lemma run_sets_notifies:
  "run_sets setp ob ws = (ob', acc, ns) \<Longrightarrow> bo_Notify (base ob) \<Longrightarrow>
   ns = map (\<lambda>(i, v). Notification (bo_OID (base ob)) (EId 1 1) i ChangeTypeValueChanged v None) acc"
proof (induction ws arbitrary: ob ob' acc ns)
  case (Cons w ws)
  obtain i v where w: "w = (i, v)" by (cases w)
  obtain ob1 ns1 cs ok where one: "setp ob i v = (ob1, ns1, cs, ok)" by (cases "setp ob i v") auto
  obtain acc2 ns2 where two: "run_sets setp ob1 ws = (ob', acc2, ns2)"
    and acc: "acc = (if ok then (i, v) # acc2 else acc2)" "ns = ns1 @ ns2"
    using Cons.prems(1) by (auto simp: w one split: prod.splits)
  have same: "bo_Notify (base ob1)" "bo_OID (base ob1) = bo_OID (base ob)"
    using set_identity [OF one] Cons.prems(2) by (simp_all add: identity_of_def)
  have "ns1 = (if ok then notifyChange (base ob) i v else [])"
    using one set_notifies set_refused by (cases ok) auto
  with Cons.IH [OF two same(1)] acc same Cons.prems(2) show ?case
    by (simp add: notifyChange_def)
qed simp

end

subsection \<open>The objects meet the contract\<close>

definition with_no_commands :: "('o \<Rightarrow> elem_id \<Rightarrow> goval \<Rightarrow> 'o \<times> notification list \<times> bool) \<Rightarrow> 'o setter" where
  "with_no_commands f ob i v = (case f ob i v of (ob', ns, ok) \<Rightarrow> (ob', ns, [], ok))"

lemmas object_defs =
  base_GetProperty_def base_SetProperty_def notifyChange_def identity_of_def with_no_commands_def

interpretation base_obj: settable base_GetProperty "with_no_commands base_SetProperty" "\<lambda>b. b"
  by unfold_locales (auto simp: object_defs split: if_splits goval.splits)

interpretation block_obj: settable "block_GetProperty reg" "with_no_commands block_SetProperty" blk_base
  for reg
  by unfold_locales
    (auto simp: object_defs block_GetProperty_def block_SetProperty_def members_def
       split: if_splits goval.splits)

interpretation worker_obj: settable worker_GetProperty "worker_SetProperty ff send" wk_base
  for ff send
  by unfold_locales
    (auto simp: object_defs worker_GetProperty_def worker_SetProperty_def
       split: if_splits goval.splits option.splits prod.splits)

text \<open>A write to the device manager is refused, or it changes one string field.\<close>

definition dm_write :: "device_manager \<Rightarrow> elem_id \<Rightarrow> string \<Rightarrow> device_manager option" where
  "dm_write m i s =
     (if i = EId 3 5 then Some (m\<lparr> dm_userInventoryCode := s \<rparr>)
      else if i = EId 3 6 then Some (m\<lparr> dm_deviceName := s \<rparr>)
      else if i = EId 3 7 then Some (m\<lparr> dm_deviceRole := s \<rparr>)
      else if i = EId 1 6 then Some (m\<lparr> dm_base := (dm_base m)\<lparr> bo_UserLabel := s \<rparr> \<rparr>)
      else None)"

lemma dm_SetProperty_write:
  "dm_SetProperty m i v =
     (case v of VStr s \<Rightarrow> (case dm_write m i s of
         Some m' \<Rightarrow> (m', notifyChange (dm_base m) i v, True) | None \<Rightarrow> (m, [], False))
      | _ \<Rightarrow> (m, [], False))"
  by (cases v) (simp_all add: dm_SetProperty_def dm_write_def base_SetProperty_def)

lemma dm_write_props:
  assumes "dm_write m i s = Some m'"
  shows "dm_GetProperty m' i = Some (VStr s)" "j \<noteq> i \<Longrightarrow> dm_GetProperty m' j = dm_GetProperty m j"
    "identity_of (dm_base m') = identity_of (dm_base m)"
  using assms unfolding dm_write_def
  by (auto simp: dm_GetProperty_def base_GetProperty_def identity_of_def
      split: if_split_asm split del: if_split cong: if_cong)

lemma dm_set_cases:
  assumes "with_no_commands dm_SetProperty m i v = (m', ns, cs, ok)"
  obtains (written) s where "ok" "v = VStr s" "dm_write m i s = Some m'" "ns = notifyChange (dm_base m) i v"
  | (refused) "\<not> ok" "m' = m" "ns = []"
  using assms by (auto simp: with_no_commands_def dm_SetProperty_write split: goval.splits option.splits)

interpretation dm_obj: settable dm_GetProperty "with_no_commands dm_SetProperty" dm_base
  by unfold_locales (erule dm_set_cases; auto dest: dm_write_props)+

interpretation cm_obj: settable "cm_GetProperty citer" "with_no_commands cm_SetProperty" cm_base
  for citer
  by unfold_locales
    (auto simp: object_defs cm_GetProperty_def cm_SetProperty_def split: if_splits goval.splits)

end
