(* ===== verification/Nca_Laws.thy ===== *)
theory Nca_Laws
  imports Nca_Contract
begin

text \<open>
  What the object model guarantees: writes through the object interface, the searches of a
  block, the class table, and the methods that never succeed.
\<close>

subsection \<open>The object interface meets the contract\<close>

lemma obj_set_cases:
  assumes "obj_SetProperty e ob i v = (ob', ns, cs, ok)"
  obtains (block) b b' where "ob = OBlock b" "ob' = OBlock b'"
      "with_no_commands block_SetProperty b i v = (b', ns, cs, ok)"
  | (worker) w w' where "ob = OWorker w" "ob' = OWorker w'"
      "worker_SetProperty (ne_float e) (ne_send e) w i v = (w', ns, cs, ok)"
  | (devman) m m' where "ob = ODeviceManager m" "ob' = ODeviceManager m'"
      "with_no_commands dm_SetProperty m i v = (m', ns, cs, ok)"
  | (classman) c c' where "ob = OClassManager c" "ob' = OClassManager c'"
      "with_no_commands cm_SetProperty c i v = (c', ns, cs, ok)"
  using assms by (cases ob) (auto simp: with_no_commands_def split: prod.splits)

interpretation nc_obj: settable "obj_GetProperty e reg" "obj_SetProperty e" obj_base
  for e reg
proof
  fix ob i v ob' ns cs and j :: elem_id and ok
  show "obj_SetProperty e ob i v = (ob', ns, cs, True) \<Longrightarrow> obj_GetProperty e reg ob' i = Some v"
    by (erule obj_set_cases) (auto dest: block_obj.set_get worker_obj.set_get dm_obj.set_get cm_obj.set_get)
  show "obj_SetProperty e ob i v = (ob', ns, cs, True) \<Longrightarrow> j \<noteq> i \<Longrightarrow>
      obj_GetProperty e reg ob' j = obj_GetProperty e reg ob j"
    by (erule obj_set_cases)
      (auto dest: block_obj.set_other worker_obj.set_other dm_obj.set_other cm_obj.set_other)
  show "obj_SetProperty e ob i v = (ob', ns, cs, False) \<Longrightarrow> ob' = ob \<and> ns = []"
    by (erule obj_set_cases)
      (auto dest: block_obj.set_refused worker_obj.set_refused dm_obj.set_refused cm_obj.set_refused)
  show "obj_SetProperty e ob i v = (ob', ns, cs, ok) \<Longrightarrow> identity_of (obj_base ob') = identity_of (obj_base ob)"
    by (erule obj_set_cases)
      (auto dest: block_obj.set_identity worker_obj.set_identity dm_obj.set_identity cm_obj.set_identity)
  show "obj_SetProperty e ob i v = (ob', ns, cs, True) \<Longrightarrow> ns = notifyChange (obj_base ob) i v"
    by (erule obj_set_cases)
      (auto dest: block_obj.set_notifies worker_obj.set_notifies dm_obj.set_notifies cm_obj.set_notifies)
qed

text \<open>
  C4. For every sequence of property writes to an object of any kind: the object keeps its
  identity, each property reads as the last accepted write to it or as before when there is
  none, and a registered object notifies exactly the accepted writes, in order.
\<close>

theorem object_write_sequence:
  assumes "run_sets (obj_SetProperty e) ob ws = (ob', acc, ns)"
  shows "identity_of (obj_base ob') = identity_of (obj_base ob) \<and>
    (\<forall>j. obj_GetProperty e reg ob' j =
       (case last_write acc j of Some v \<Rightarrow> Some v | None \<Rightarrow> obj_GetProperty e reg ob j)) \<and>
    (bo_Notify (obj_base ob) \<longrightarrow>
       ns = map (\<lambda>(i, v). Notification (obj_GetOID ob) (EId 1 1) i ChangeTypeValueChanged v None) acc)"
  using nc_obj.run_sets_identity [OF assms] nc_obj.run_sets_get [OF assms]
    nc_obj.run_sets_notifies [OF assms]
  by (simp add: obj_GetOID_def)

definition test_env :: nca_env where
  "test_env = \<lparr> ne_float = (\<lambda>w. []), ne_send = (\<lambda>a c. True), ne_classes = (\<lambda>cs. cs) \<rparr>"

theorem object_write_sequence_witness:
  "\<exists>ob' acc ns.
     run_sets (obj_SetProperty test_env) (OWorker (NewWorker 7 [1, 2] None ''Gain'' ''G''))
       [(EId 3 1, VStr ''a''), (EId 1 5, VNil), (EId 3 1, VStr ''b'')] = (ob', acc, ns) \<and>
     obj_GetProperty test_env Map.empty ob' (EId 3 1) = Some (VStr ''b'')"
proof -
  let ?ob = "OWorker (NewWorker 7 [1, 2] None ''Gain'' ''G'')"
  let ?ws = "[(EId 3 1, VStr ''a''), (EId 1 5, VNil), (EId 3 1, VStr ''b'')]"
  obtain ob' acc ns where run: "run_sets (obj_SetProperty test_env) ?ob ?ws = (ob', acc, ns)"
    by (cases "run_sets (obj_SetProperty test_env) ?ob ?ws") auto
  then have "acc = [(EId 3 1, VStr ''a''), (EId 3 1, VStr ''b'')]"
    by (simp add: worker_SetProperty_def NewWorker_def base_SetProperty_def split: prod.splits)
  then have "last_write acc (EId 3 1) = Some (VStr ''b'')" by (simp add: last_write_def)
  with object_write_sequence [OF run, of Map.empty] run show ?thesis by auto
qed

text \<open>
  Which writes an object accepts: a string for the user label of every object, a string for
  the inventory code, the name and the role of the device manager, and any value for the
  value of a worker, provided the command of its hook could be sent. Every other property is
  read-only.
\<close>

lemma accepted_writes:
  "snd (snd (snd (obj_SetProperty e ob i v))) \<longleftrightarrow>
   (\<exists>s. v = VStr s \<and> (i = EId 1 6 \<or> (\<exists>m. ob = ODeviceManager m \<and> i \<in> {EId 3 5, EId 3 6, EId 3 7}))) \<or>
   (\<exists>w. ob = OWorker w \<and> i = EId 3 1 \<and>
      (case hook_command (ne_float e) (wk_OnSet w) v of None \<Rightarrow> True | Some (a, c) \<Rightarrow> ne_send e a c))"
proof (cases ob)
  case (OBlock b)
  then show ?thesis
    by (cases v) (auto simp: block_SetProperty_def base_SetProperty_def)
next
  case (OWorker w)
  then show ?thesis
    by (cases v; cases "hook_command (ne_float e) (wk_OnSet w) v")
      (auto simp: worker_SetProperty_def base_SetProperty_def split: if_splits)
next
  case (ODeviceManager m)
  then show ?thesis
    by (cases v) (auto simp: dm_SetProperty_def base_SetProperty_def)
next
  case (OClassManager c)
  then show ?thesis
    by (cases v) (auto simp: cm_SetProperty_def base_SetProperty_def)
qed

subsection \<open>Sequence methods\<close>

lemma seq_property_None [simp]: "seq_property b i = None"
  by (simp add: seq_property_def base_GetProperty_def)

lemma base_sequence_methods:
  assumes "m \<in> {EId 1 3, EId 1 4, EId 1 5, EId 1 6, EId 1 7}"
  shows "\<exists>st v. base_InvokeMethod b m args = (b, [], Some (VResult st v)) \<and>
    st \<in> {StatusBadCommandFormat, StatusPropertyNotImplemented}"
  using assms by (auto simp: base_InvokeMethod_def base_GetProperty_def split: option.splits)

lemma invoke_sequence_method:
  assumes "m \<in> {EId 1 3, EId 1 4, EId 1 5, EId 1 6, EId 1 7}"
  shows "\<exists>st v. obj_InvokeMethod n e reg ob m args = Some (ob, [], [], Some (VResult st v)) \<and> st \<noteq> 200"
proof (cases ob)
  case (OBlock b)
  have "m \<notin> {EId 2 1, EId 2 2, EId 2 3, EId 2 4}" using assms by auto
  with OBlock base_sequence_methods [OF assms, of "blk_base b" args] show ?thesis
    by (auto simp: block_InvokeMethod_def)
next
  case (OWorker w)
  have "m \<notin> {EId 1 1, EId 1 2, EId 3 2, EId 3 3}" using assms by auto
  with OWorker show ?thesis
    by (cases "wk_OnMethod w") (auto simp: worker_InvokeMethod_def)
next
  case (ODeviceManager d)
  with base_sequence_methods [OF assms, of "dm_base d" args] show ?thesis
    by (auto simp: dm_InvokeMethod_def)
next
  case (OClassManager c)
  have "m \<notin> {EId 3 1, EId 3 2}" using assms by auto
  with OClassManager base_sequence_methods [OF assms, of "cm_base c" args] show ?thesis
    by (auto simp: cm_InvokeMethod_def)
qed

subsection \<open>Searching a block\<close>

lemma opt_map_Some_iff:
  "opt_map f xs = Some ys \<longleftrightarrow> list_all2 (\<lambda>x y. f x = Some y) xs ys"
proof (induction xs arbitrary: ys)
  case (Cons x xs)
  show ?case
  proof (cases ys)
    case (Cons y ys')
    with Cons.IH [of ys'] show ?thesis
      by (cases "f x"; cases "opt_map f xs") auto
  qed (auto split: option.splits)
qed auto

lemma concat_opt_map:
  "(\<And>x. x \<in> set xs \<Longrightarrow> f x = Some (g x)) \<Longrightarrow> concat_opt (map f xs) = Some (concat (map g xs))"
  unfolding concat_opt_def by (induction xs) (auto split: option.splits)

lemma concat_opt_map_iff:
  "concat_opt (map f xs) = Some ds \<longleftrightarrow>
     (\<exists>yss. list_all2 (\<lambda>x ys. f x = Some ys) xs yss \<and> ds = concat yss)"
  unfolding concat_opt_def
  by (auto simp: opt_map_Some_iff list_all2_map1)

text \<open>
  Through a resolver that returns adapters, the one RegisterNCPObject installs in every
  block, a search never looks below the direct members, whether recursion is asked for or
  not, and a path of more than one role finds nothing.
\<close>

lemma adapted_search_is_shallow:
  assumes "blk_Resolver b = ResolveAdapted"
  shows "search (Suc n) reg hit recurse b = Some (map obj_GetDescriptor (filter hit (members reg b))) \<and>
    (1 < length path \<longrightarrow> findMembersByPath reg b path = [])"
proof -
  have none: "as_block b ob = None" for ob
    using assms by (cases ob) (simp_all add: as_block_def)
  have "search (Suc n) reg hit recurse b =
      Some (concat (map (\<lambda>ob. if hit ob then [obj_GetDescriptor ob] else []) (members reg b)))"
    unfolding search.simps by (rule concat_opt_map) (simp add: none)
  moreover have "concat (map (\<lambda>ob. if hit ob then [obj_GetDescriptor ob] else []) obs) =
      map obj_GetDescriptor (filter hit obs)" for obs
    by (induction obs) auto
  moreover have "1 < length path \<Longrightarrow> findMembersByPath reg b path = []"
    by (cases path) (auto simp: none split: option.splits)
  ultimately show ?thesis by simp
qed

definition test_tree :: "resolver \<Rightarrow> registry" where
  "test_tree r = [1 \<mapsto> OBlock ((SetResolver (AddItem (NewBlock 1 None ''root'' ''Root'') 2) r)),
                  2 \<mapsto> OBlock ((SetResolver (AddItem (NewBlock 2 None ''Device'' ''D'') 5) r)),
                  5 \<mapsto> OWorker (NewWorker 5 [1, 2, 1, 10] None ''Gain'' ''G'')]"

definition test_block :: "resolver \<Rightarrow> int \<Rightarrow> nc_block" where
  "test_block r oid = (case test_tree r oid of Some (OBlock b) \<Rightarrow> b | _ \<Rightarrow> NewBlock oid None [] [])"

lemma adapted_search_is_shallow_witness:
  "getMemberDescriptors 1 (test_tree ResolveAdapted) (test_block ResolveAdapted 1) True =
     Some [obj_GetDescriptor (OBlock (test_block ResolveAdapted 2))] \<and>
   findMembersByPath (test_tree ResolveAdapted) (test_block ResolveAdapted 1) [''Device'', ''Gain''] = []"
proof -
  have *: "blk_Resolver (test_block ResolveAdapted 1) = ResolveAdapted"
    "members (test_tree ResolveAdapted) (test_block ResolveAdapted 1) = [OBlock (test_block ResolveAdapted 2)]"
    by (simp_all add: test_block_def test_tree_def SetResolver_def AddItem_def NewBlock_def members_def
        List.map_filter_def)
  then show ?thesis
    using adapted_search_is_shallow [OF *(1), of 0 "test_tree ResolveAdapted" "\<lambda>ob. True" True "[''Device'', ''Gain'']"]
    by (simp add: getMemberDescriptors_def)
qed

text \<open>The objects below a block, through blocks the resolver returns themselves.\<close>

inductive found_below :: "registry \<Rightarrow> nc_block \<Rightarrow> nc_object \<Rightarrow> bool" for reg where
  direct: "ob \<in> set (members reg b) \<Longrightarrow> found_below reg b ob"
| deeper: "OBlock c \<in> set (members reg b) \<Longrightarrow> blk_Resolver b = ResolveDirect \<Longrightarrow>
    found_below reg c ob \<Longrightarrow> found_below reg b ob"

inductive_cases found_belowE: "found_below reg b ob"

lemma as_block_Some: "as_block b ob = Some c \<longleftrightarrow> ob = OBlock c \<and> blk_Resolver b = ResolveDirect"
  by (cases ob) (auto simp: as_block_def)

definition contribution ::
  "nat \<Rightarrow> registry \<Rightarrow> (nc_object \<Rightarrow> bool) \<Rightarrow> nc_block \<Rightarrow> nc_object \<Rightarrow> BlockMemberDescriptor list option" where
  "contribution n reg hit b ob =
     map_option (\<lambda>ds. (if hit ob then [obj_GetDescriptor ob] else []) @ ds)
       (case as_block b ob of Some c \<Rightarrow> search n reg hit True c | None \<Rightarrow> Some [])"

lemma search_step: "search (Suc n) reg hit True b = concat_opt (map (contribution n reg hit b) (members reg b))"
  by (simp add: contribution_def [abs_def])

lemma list_all2_member:
  assumes "list_all2 P xs ys"
  shows "x \<in> set xs \<Longrightarrow> \<exists>y \<in> set ys. P x y" "y \<in> set ys \<Longrightarrow> \<exists>x \<in> set xs. P x y"
  using assms by (induction rule: list_all2_induct) auto

lemma search_sound:
  "search n reg hit True b = Some ds \<Longrightarrow> d \<in> set ds \<Longrightarrow>
   \<exists>ob. found_below reg b ob \<and> hit ob \<and> d = obj_GetDescriptor ob"
proof (induction n arbitrary: b ds d)
  case (Suc n)
  then obtain yss where all: "list_all2 (\<lambda>ob ys. contribution n reg hit b ob = Some ys) (members reg b) yss"
    and ds: "ds = concat yss"
    unfolding search_step concat_opt_map_iff by blast
  from ds Suc.prems(2) obtain ys where ys: "ys \<in> set yss" "d \<in> set ys" by auto
  with list_all2_member(2) [OF all] obtain ob where ob: "ob \<in> set (members reg b)"
    "contribution n reg hit b ob = Some ys" by blast
  show ?case
  proof (cases "hit ob \<and> d = obj_GetDescriptor ob")
    case True
    with ob(1) show ?thesis using found_below.direct by blast
  next
    case False
    with ob(2) ys(2) obtain c ds' where "as_block b ob = Some c" "search n reg hit True c = Some ds'" "d \<in> set ds'"
      by (auto simp: contribution_def split: option.splits if_splits)
    with Suc.IH ob(1) show ?thesis
      by (metis as_block_Some found_below.deeper)
  qed
qed simp

lemma search_complete:
  "found_below reg b ob \<Longrightarrow> hit ob \<Longrightarrow> search n reg hit True b = Some ds \<Longrightarrow> obj_GetDescriptor ob \<in> set ds"
proof (induction arbitrary: n ds rule: found_below.induct)
  case (direct ob b)
  then obtain m where n: "n = Suc m" by (cases n) auto
  with direct obtain yss where all: "list_all2 (\<lambda>ob ys. contribution m reg hit b ob = Some ys) (members reg b) yss"
    and ds: "ds = concat yss"
    by (auto simp: search_step concat_opt_map_iff simp del: search.simps)
  from list_all2_member(1) [OF all direct.hyps] obtain ys where
    "ys \<in> set yss" "contribution m reg hit b ob = Some ys" by blast
  moreover from this direct.prems(1) have "obj_GetDescriptor ob \<in> set ys"
    by (auto simp: contribution_def)
  ultimately show ?case using ds by auto
next
  case (deeper c b ob)
  then obtain m where n: "n = Suc m" by (cases n) auto
  with deeper obtain yss where all: "list_all2 (\<lambda>ob ys. contribution m reg hit b ob = Some ys) (members reg b) yss"
    and ds: "ds = concat yss"
    by (auto simp: search_step concat_opt_map_iff simp del: search.simps)
  from list_all2_member(1) [OF all deeper.hyps(1)] obtain ys where
    ys: "ys \<in> set yss" "contribution m reg hit b (OBlock c) = Some ys" by blast
  with deeper.hyps(2) obtain ds' where "search m reg hit True c = Some ds'" "set ds' \<subseteq> set ys"
    by (auto simp: contribution_def as_block_def)
  with deeper.IH [of m ds'] deeper.prems(1) ys ds show ?case by auto
qed

lemma search_terminates:
  assumes "\<And>c d. OBlock d \<in> set (members reg c) \<Longrightarrow> rank d < rank c"
  shows "rank b < n \<Longrightarrow> \<exists>ds. search n reg hit True b = Some ds"
proof (induction n arbitrary: b)
  case (Suc n)
  have "\<exists>ys. contribution n reg hit b ob = Some ys" if "ob \<in> set (members reg b)" for ob
  proof (cases "as_block b ob")
    case (Some c)
    with that assms have "rank c < rank b" by (auto simp: as_block_Some)
    with Suc have "\<exists>ds. search n reg hit True c = Some ds" by simp
    with Some show ?thesis by (auto simp: contribution_def)
  qed (simp add: contribution_def)
  then have "search (Suc n) reg hit True b =
      Some (concat (map (\<lambda>ob. the (contribution n reg hit b ob)) (members reg b)))"
    unfolding search_step by (intro concat_opt_map) auto
  then show ?case by blast
qed simp

text \<open>
  C36. When membership has no cycle (a rank decreases from a block to its member blocks), a
  recursive search returns with fuel above the rank, and it reports exactly the descriptors
  of the matching objects below the block.
\<close>

theorem recursive_search_correct:
  assumes "\<And>c d. OBlock d \<in> set (members reg c) \<Longrightarrow> rank d < (rank c :: nat)" and "rank b < n"
  shows "\<exists>ds. search n reg hit True b = Some ds \<and>
    set ds = obj_GetDescriptor ` {ob. found_below reg b ob \<and> hit ob}"
proof -
  obtain ds where "search n reg hit True b = Some ds"
    using search_terminates [of reg rank b n hit] assms by blast
  moreover from this have "set ds = obj_GetDescriptor ` {ob. found_below reg b ob \<and> hit ob}"
    using search_sound [of n reg hit b ds] search_complete [of reg b _ hit n ds] by blast
  ultimately show ?thesis by blast
qed

definition test_rank :: "nc_block \<Rightarrow> nat" where
  "test_rank c = (if 1 \<in> set (blk_Items c) then 3 else if 2 \<in> set (blk_Items c) then 2
                  else if c = test_block ResolveDirect 2 then 0 else 1)"

theorem recursive_search_correct_witness:
  "\<exists>ds. search 3 (test_tree ResolveDirect) (\<lambda>ob. True) True (test_block ResolveDirect 1) = Some ds \<and>
     obj_GetDescriptor (OWorker (NewWorker 5 [1, 2, 1, 10] None ''Gain'' ''G'')) \<in> set ds"
proof -
  let ?r = "test_tree ResolveDirect"
  note tree = test_block_def test_tree_def SetResolver_def AddItem_def NewBlock_def
  have rank: "test_rank d < test_rank c" if "OBlock d \<in> set (members ?r c)" for c d
  proof -
    have "d = test_block ResolveDirect 1 \<and> 1 \<in> set (blk_Items c) \<or>
        d = test_block ResolveDirect 2 \<and> 2 \<in> set (blk_Items c)"
      using that by (auto simp: members_def List.map_filter_def tree split: if_splits)
    moreover have "blk_Items (test_block ResolveDirect 1) = [2]" "blk_Items (test_block ResolveDirect 2) = [5]"
      by (simp_all add: tree)
    ultimately show ?thesis by (auto simp: test_rank_def)
  qed
  have m: "members ?r (test_block ResolveDirect 1) = [OBlock (test_block ResolveDirect 2)]"
    "members ?r (test_block ResolveDirect 2) = [OWorker (NewWorker 5 [1, 2, 1, 10] None ''Gain'' ''G'')]"
    "blk_Resolver (test_block ResolveDirect 1) = ResolveDirect"
    "test_rank (test_block ResolveDirect 1) < 3"
    by (simp_all add: tree members_def List.map_filter_def test_rank_def)
  have "found_below ?r (test_block ResolveDirect 1) (OWorker (NewWorker 5 [1, 2, 1, 10] None ''Gain'' ''G''))"
    by (rule found_below.deeper [of "test_block ResolveDirect 2"]) (auto simp: m intro: found_below.direct)
  moreover have "\<exists>ds. search 3 ?r (\<lambda>ob. True) True (test_block ResolveDirect 1) = Some ds \<and>
      set ds = obj_GetDescriptor ` {ob. found_below ?r (test_block ResolveDirect 1) ob \<and> True}"
    by (rule recursive_search_correct [where rank = test_rank]) (erule rank, rule m(4))
  ultimately show ?thesis by blast
qed

text \<open>
  On a cycle the recursion does not end: a block that is its own member through a direct
  resolver exhausts every amount of fuel.
\<close>

lemma cyclic_search_diverges:
  assumes "OBlock b \<in> set (members reg b)" "blk_Resolver b = ResolveDirect"
  shows "search n reg hit True b = None"
proof (induction n)
  case (Suc n)
  show ?case
  proof (rule ccontr)
    assume "search (Suc n) reg hit True b \<noteq> None"
    then obtain ds where "search (Suc n) reg hit True b = Some ds" by blast
    then obtain yss where "list_all2 (\<lambda>ob ys. contribution n reg hit b ob = Some ys) (members reg b) yss"
      by (auto simp: search_step concat_opt_map_iff simp del: search.simps)
    from list_all2_member(1) [OF this assms(1)] Suc assms(2) show False
      by (simp add: contribution_def as_block_def)
  qed
qed simp

lemma cyclic_search_diverges_witness:
  "search 7 [1 \<mapsto> OBlock (SetResolver (AddItem (NewBlock 1 None [] []) 1) ResolveDirect)] (\<lambda>ob. True) True
     (SetResolver (AddItem (NewBlock 1 None [] []) 1) ResolveDirect) = None"
  by (rule cyclic_search_diverges)
    (simp_all add: SetResolver_def AddItem_def NewBlock_def members_def List.map_filter_def)

text \<open>
  The class filter is the prefix order on class ids: a derived class matches when the wanted
  id is a prefix of its own, and without derived classes only the id itself matches.
\<close>

lemma matchesClassID_prefix:
  "matchesClassID c wanted derived \<longleftrightarrow> prefix wanted c \<and> (derived \<or> c = wanted)"
proof -
  have "prefix wanted c \<longleftrightarrow> length wanted \<le> length c \<and> (\<forall>i < length wanted. c ! i = wanted ! i)"
    by (auto simp: prefix_def nth_append list_eq_iff_nth_eq intro!: exI [of _ "drop (length wanted) c"])
  moreover have "c = wanted \<longleftrightarrow> length c = length wanted \<and> prefix wanted c"
    by (auto dest: prefix_length_le simp: prefix_def)
  ultimately show ?thesis by (auto simp: matchesClassID_def)
qed

subsection \<open>The class table\<close>

text \<open>
  Registering a class changes the answer of GetControlClass for its class id and for no
  other: that id answers with the new descriptor, every other id answers as before.
\<close>

lemma RegisterClass_GetControlClass:
  assumes "dec_class_arg args = Some (c, inh)"
  shows "snd (snd (cm_InvokeMethod (cm_RegisterClass m cid d) (EId 3 1) args)) =
    (if c = cid then Some (VResult StatusOk (VClass d))
     else snd (snd (cm_InvokeMethod m (EId 3 1) args)))"
  using assms
  by (auto simp: cm_InvokeMethod_def cm_RegisterClass_def classIDToKey_key split: option.splits)

lemma RegisterClass_GetControlClass_witness:
  "snd (snd (cm_InvokeMethod (cm_RegisterClass (NewClassManager 3 None) [1, 2, 1, 10] class_NcWorker) (EId 3 1)
     (Some (JObj [(''classId'', JArr [JNum (Some 1) 0, JNum (Some 2) 0, JNum (Some 1) 0, JNum (Some 10) 0])])))) =
   Some (VResult 200 (VClass class_NcWorker))"
proof -
  let ?args = "Some (JObj [(''classId'', JArr [JNum (Some 1) 0, JNum (Some 2) 0, JNum (Some 1) 0, JNum (Some 10) 0])])"
  have "dec_class_arg ?args = Some ([1, 2, 1, 10], False)"
    by (simp add: dec_class_arg_def unmarshal_def equal_fold_def)
  from RegisterClass_GetControlClass [OF this] show ?thesis by simp
qed

subsection \<open>The gain methods\<close>

text \<open>
  The increment and decrement methods of the gain worker read their amount from the argument
  named value, up to case; the argument dB, which the registered class descriptor names, is
  ignored, and the receiver is sent the text of a nil value.
\<close>

lemma gain_method_argument:
  assumes "wk_OnMethod w = GainMethods addr ch" "(m, dir) \<in> {(EId 3 2, ''INC''), (EId 3 3, ''DEC'')}"
  shows "fst (snd (snd (worker_InvokeMethod ff send w m (Some (JObj [(''value'', j)]))))) =
      [(addr, ''< SET '' @ itoa ch @ '' AUDIO_GAIN '' @ dir @ '' '' @ fmt_any ff (any_of_json j) @ '' >'' @ newline)] \<and>
    fst (snd (snd (worker_InvokeMethod ff send w m (Some (JObj [(''dB'', j)]))))) =
      [(addr, ''< SET '' @ itoa ch @ '' AUDIO_GAIN '' @ dir @ '' <nil> >'' @ newline)]"
proof -
  have "equal_fold ''value'' ''value''" "\<not> equal_fold ''dB'' ''value''" by code_simp+
  then have "dec_value_arg (Some (JObj [(''value'', j)])) = Some (any_of_json j)"
    "dec_value_arg (Some (JObj [(''dB'', j)])) = Some VNil"
    by (simp_all add: dec_value_arg_def unmarshal_def)
  with assms show ?thesis
    by (auto simp: worker_InvokeMethod_def gain_step_def Let_def)
qed

lemma gain_method_argument_witness:
  "fst (snd (snd (worker_InvokeMethod (\<lambda>w. ''3'') (\<lambda>a c. True)
     ((NewWorker 10 [1, 2, 1, 10] None ''GainWorker'' [])\<lparr> wk_OnMethod := GainMethods ''r'' 1 \<rparr>)
     (EId 3 2) (Some (JObj [(''dB'', JNum (Some 3) 3)]))))) =
   [(''r'', ''< SET 1 AUDIO_GAIN INC <nil> >'' @ newline)]"
proof -
  have "itoa 1 = ''1''" by code_simp
  then show ?thesis
    using gain_method_argument [of "(NewWorker 10 [1, 2, 1, 10] None ''GainWorker'' [])\<lparr> wk_OnMethod := GainMethods ''r'' 1 \<rparr>"
        "''r''" 1 "EId 3 2" "''INC''" "\<lambda>w. ''3''" "\<lambda>a c. True" "JNum (Some 3) 3"]
    by simp
qed

end
