(* ===== verification/Ncp_Workers.thy ===== *)
theory Ncp_Workers
  imports Nca_Laws
begin

text \<open>
  The workers of a receiver (\<open>internal/infrastructure/ncp_workers.go\<close>): which parameters of a
  family become workers, with which class ids, and how the workers of a channel and of a
  device are created.

  \<open>addr\<close> is the address of the controller whose \<open>SendCommand\<close> the hooks capture. The maps from
  parameter keys to object ids are association lists with distinct keys. The three
  configuration structs have the same fields (the flag NeedsChannel of the device's is read
  nowhere): one record stands for them. A family without a configuration has a \<open>nil\<close> slice,
  the empty list here.
\<close>

subsection \<open>Worker types and class ids\<close>

datatype WorkerType =
    WorkerTypeGain
  | WorkerTypeMute
  | WorkerTypeChannelName
  | WorkerTypeFreq
  | WorkerTypeGroupChan
  | WorkerTypeTX
  | WorkerTypeBattery
  | WorkerTypeFWVer
  | WorkerTypeDeviceID
  | WorkerTypeEncryption
  | WorkerTypeMACAddr
  | WorkerTypeBattCycle
  | WorkerTypeBattRunTime
  | WorkerTypeBattTempF
  | WorkerTypeBattTempC
  | WorkerTypeBattType
  | WorkerTypeBattCharge
  | WorkerTypeBattHealth
  | WorkerTypeBattBars
  | WorkerTypeTxType
  | WorkerTypeTxOffset
  | WorkerTypeTxRFPower
  | WorkerTypeTxPwrLock
  | WorkerTypeTxMenuLock
  | WorkerTypeTxDeviceID
  | WorkerTypeTxMuteStatus
  | WorkerTypeTxMuteButtonStatus
  | WorkerTypeTxPowerSource
  | WorkerTypeEncryptionWarning

fun worker_type_number :: "WorkerType \<Rightarrow> int" where
  "worker_type_number WorkerTypeGain = 0"
| "worker_type_number WorkerTypeMute = 1"
| "worker_type_number WorkerTypeChannelName = 2"
| "worker_type_number WorkerTypeFreq = 3"
| "worker_type_number WorkerTypeGroupChan = 4"
| "worker_type_number WorkerTypeTX = 5"
| "worker_type_number WorkerTypeBattery = 6"
| "worker_type_number WorkerTypeFWVer = 9"
| "worker_type_number WorkerTypeDeviceID = 10"
| "worker_type_number WorkerTypeEncryption = 11"
| "worker_type_number WorkerTypeMACAddr = 12"
| "worker_type_number WorkerTypeBattCycle = 13"
| "worker_type_number WorkerTypeBattRunTime = 14"
| "worker_type_number WorkerTypeBattTempF = 15"
| "worker_type_number WorkerTypeBattTempC = 16"
| "worker_type_number WorkerTypeBattType = 17"
| "worker_type_number WorkerTypeBattCharge = 18"
| "worker_type_number WorkerTypeBattHealth = 19"
| "worker_type_number WorkerTypeBattBars = 20"
| "worker_type_number WorkerTypeTxType = 21"
| "worker_type_number WorkerTypeTxOffset = 22"
| "worker_type_number WorkerTypeTxRFPower = 23"
| "worker_type_number WorkerTypeTxPwrLock = 24"
| "worker_type_number WorkerTypeTxMenuLock = 25"
| "worker_type_number WorkerTypeTxDeviceID = 26"
| "worker_type_number WorkerTypeTxMuteStatus = 27"
| "worker_type_number WorkerTypeTxMuteButtonStatus = 28"
| "worker_type_number WorkerTypeTxPowerSource = 29"
| "worker_type_number WorkerTypeEncryptionWarning = 30"

fun common_ClassID :: "WorkerType \<Rightarrow> int list option" where
  "common_ClassID WorkerTypeGain = Some [1, 2, 1, 10]"
| "common_ClassID WorkerTypeMute = Some [1, 2, 1, 11]"
| "common_ClassID WorkerTypeChannelName = Some [1, 2, 1, 12]"
| "common_ClassID WorkerTypeFreq = Some [1, 2, 1, 13]"
| "common_ClassID WorkerTypeGroupChan = Some [1, 2, 1, 14]"
| "common_ClassID WorkerTypeTX = Some [1, 2, 1, 15]"
| "common_ClassID WorkerTypeBattery = Some [1, 2, 1, 16]"
| "common_ClassID _ = None"

fun qlxd_ClassID :: "WorkerType \<Rightarrow> int list option" where
  "qlxd_ClassID WorkerTypeGain = Some [1, 2, 1, 10]"
| "qlxd_ClassID WorkerTypeMute = Some [1, 2, 1, 11]"
| "qlxd_ClassID WorkerTypeChannelName = Some [1, 2, 1, 12]"
| "qlxd_ClassID WorkerTypeFreq = Some [1, 2, 1, 13]"
| "qlxd_ClassID WorkerTypeGroupChan = Some [1, 2, 1, 14]"
| "qlxd_ClassID WorkerTypeBattery = Some [1, 2, 1, 16]"
| "qlxd_ClassID WorkerTypeFWVer = Some [1, 2, 1, 19]"
| "qlxd_ClassID WorkerTypeDeviceID = Some [1, 2, 1, 20]"
| "qlxd_ClassID WorkerTypeEncryption = Some [1, 2, 1, 21]"
| "qlxd_ClassID WorkerTypeMACAddr = Some [1, 2, 1, 22]"
| "qlxd_ClassID WorkerTypeBattCycle = Some [1, 2, 1, 23]"
| "qlxd_ClassID WorkerTypeBattRunTime = Some [1, 2, 1, 24]"
| "qlxd_ClassID WorkerTypeBattTempF = Some [1, 2, 1, 25]"
| "qlxd_ClassID WorkerTypeBattTempC = Some [1, 2, 1, 26]"
| "qlxd_ClassID WorkerTypeBattType = Some [1, 2, 1, 27]"
| "qlxd_ClassID WorkerTypeBattCharge = Some [1, 2, 1, 28]"
| "qlxd_ClassID WorkerTypeBattHealth = Some [1, 2, 1, 29]"
| "qlxd_ClassID WorkerTypeBattBars = Some [1, 2, 1, 30]"
| "qlxd_ClassID WorkerTypeTxType = Some [1, 2, 1, 31]"
| "qlxd_ClassID WorkerTypeTxOffset = Some [1, 2, 1, 32]"
| "qlxd_ClassID WorkerTypeTxRFPower = Some [1, 2, 1, 33]"
| "qlxd_ClassID WorkerTypeTxPwrLock = Some [1, 2, 1, 34]"
| "qlxd_ClassID WorkerTypeTxMenuLock = Some [1, 2, 1, 35]"
| "qlxd_ClassID WorkerTypeTxDeviceID = Some [1, 2, 1, 36]"
| "qlxd_ClassID WorkerTypeTxMuteStatus = Some [1, 2, 1, 37]"
| "qlxd_ClassID WorkerTypeTxMuteButtonStatus = Some [1, 2, 1, 38]"
| "qlxd_ClassID WorkerTypeTxPowerSource = Some [1, 2, 1, 39]"
| "qlxd_ClassID WorkerTypeEncryptionWarning = Some [1, 2, 1, 40]"
| "qlxd_ClassID _ = None"

fun WorkerTypeClassID :: "ShureModelFamily \<Rightarrow> WorkerType \<Rightarrow> int list option" where
  "WorkerTypeClassID ModelFamilyAxientDigital wt = common_ClassID wt"
| "WorkerTypeClassID ModelFamilyULXD wt = common_ClassID wt"
| "WorkerTypeClassID ModelFamilyQLXD wt = qlxd_ClassID wt"
| "WorkerTypeClassID ModelFamilySLXD wt = common_ClassID wt"
| "WorkerTypeClassID ModelFamilySLXDPlus wt = common_ClassID wt"
| "WorkerTypeClassID (OtherFamily s) wt = None"

definition GetClassIDForWorker :: "ShureModelFamily \<Rightarrow> WorkerType \<Rightarrow> int list" where
  "GetClassIDForWorker m wt =
     (case WorkerTypeClassID m wt of Some cid \<Rightarrow> cid | None \<Rightarrow> [1, 2, 1, 99])"

subsection \<open>Configurations\<close>

record worker_config =
  wc_WorkerType :: WorkerType
  wc_Name :: string
  wc_ShureParam :: string
  wc_ClassID :: "int list"
  wc_IsReadOnly :: bool
  wc_TypeName :: string

definition wconf :: "WorkerType \<Rightarrow> string \<Rightarrow> string \<Rightarrow> int list \<Rightarrow> bool \<Rightarrow> string \<Rightarrow> worker_config" where
  "wconf wt name param cid ro ty =
     \<lparr> wc_WorkerType = wt, wc_Name = name, wc_ShureParam = param, wc_ClassID = cid,
       wc_IsReadOnly = ro, wc_TypeName = ty \<rparr>"

fun ChannelWorkersConfig :: "ShureModelFamily \<Rightarrow> worker_config list" where
  "ChannelWorkersConfig ModelFamilyAxientDigital =
     [wconf WorkerTypeGain ''Gain'' ''AUDIO_GAIN'' [1, 2, 1, 10] False ''NcFloat32'',
      wconf WorkerTypeMute ''Mute'' ''AUDIO_MUTE'' [1, 2, 1, 11] False ''NcBoolean'',
      wconf WorkerTypeChannelName ''ChannelName'' ''CH_NAME'' [1, 2, 1, 12] False ''NcString'',
      wconf WorkerTypeFreq ''Frequency'' ''FREQUENCY'' [1, 2, 1, 13] False ''NcString'',
      wconf WorkerTypeGroupChan ''GroupChannel'' ''GROUP_CHAN'' [1, 2, 1, 14] False ''NcString'',
      wconf WorkerTypeTX ''Transmitter'' ''TX_ALL'' [1, 2, 1, 15] True ''NcString'',
      wconf WorkerTypeBattery ''Battery'' ''BATT_ALL'' [1, 2, 1, 16] True ''NcString'']"
| "ChannelWorkersConfig ModelFamilyULXD =
     [wconf WorkerTypeGain ''Gain'' ''AUDIO_GAIN'' [1, 2, 1, 10] False ''NcFloat32'',
      wconf WorkerTypeMute ''Mute'' ''AUDIO_MUTE'' [1, 2, 1, 11] False ''NcBoolean'',
      wconf WorkerTypeChannelName ''ChannelName'' ''CHAN_NAME'' [1, 2, 1, 12] False ''NcString'',
      wconf WorkerTypeFreq ''Frequency'' ''FREQUENCY'' [1, 2, 1, 13] False ''NcString'',
      wconf WorkerTypeGroupChan ''GroupChannel'' ''GROUP_CHAN'' [1, 2, 1, 14] False ''NcString'',
      wconf WorkerTypeTX ''Transmitter'' ''TX_TYPE'' [1, 2, 1, 15] True ''NcString'',
      wconf WorkerTypeBattery ''Battery'' ''TX_BATT_MINS'' [1, 2, 1, 16] True ''NcString'']"
| "ChannelWorkersConfig ModelFamilyQLXD =
     [wconf WorkerTypeChannelName ''ChannelName'' ''CHAN_NAME'' [1, 2, 1, 12] False ''NcString'',
      wconf WorkerTypeFreq ''Frequency'' ''FREQUENCY'' [1, 2, 1, 13] False ''NcString'',
      wconf WorkerTypeGroupChan ''GroupChannel'' ''GROUP_CHAN'' [1, 2, 1, 14] False ''NcString'',
      wconf WorkerTypeEncryptionWarning ''EncryptionWarning'' ''ENCRYPTION_WARNING'' [1, 2, 1, 40] True ''NcBoolean'']"
| "ChannelWorkersConfig ModelFamilySLXD =
     [wconf WorkerTypeGain ''Gain'' ''AUDIO_GAIN'' [1, 2, 1, 10] False ''NcFloat32'',
      wconf WorkerTypeMute ''Mute'' ''AUDIO_MUTE'' [1, 2, 1, 11] False ''NcBoolean'',
      wconf WorkerTypeChannelName ''ChannelName'' ''CHAN_NAME'' [1, 2, 1, 12] False ''NcString'',
      wconf WorkerTypeFreq ''Frequency'' ''FREQUENCY'' [1, 2, 1, 13] False ''NcString'',
      wconf WorkerTypeGroupChan ''GroupChannel'' ''GROUP_CHANNEL'' [1, 2, 1, 14] False ''NcString'',
      wconf WorkerTypeTX ''Transmitter'' ''TX_MODEL'' [1, 2, 1, 15] True ''NcString'',
      wconf WorkerTypeBattery ''Battery'' ''TX_BATT_MINS'' [1, 2, 1, 16] True ''NcString'']"
| "ChannelWorkersConfig ModelFamilySLXDPlus =
     [wconf WorkerTypeGain ''Gain'' ''AUDIO_GAIN'' [1, 2, 1, 10] False ''NcFloat32'',
      wconf WorkerTypeMute ''Mute'' ''AUDIO_MUTE'' [1, 2, 1, 11] False ''NcBoolean'',
      wconf WorkerTypeChannelName ''ChannelName'' ''CHAN_NAME'' [1, 2, 1, 12] False ''NcString'',
      wconf WorkerTypeFreq ''Frequency'' ''FREQUENCY'' [1, 2, 1, 13] False ''NcString'',
      wconf WorkerTypeGroupChan ''GroupChannel'' ''GROUP_CHANNEL'' [1, 2, 1, 14] False ''NcString'',
      wconf WorkerTypeTX ''Transmitter'' ''LINK_TX_MODEL'' [1, 2, 1, 15] True ''NcString'',
      wconf WorkerTypeBattery ''Battery'' ''TX_BATT_MINS'' [1, 2, 1, 16] True ''NcString'']"
| "ChannelWorkersConfig (OtherFamily s) = []"

fun DeviceWorkersConfig :: "ShureModelFamily \<Rightarrow> worker_config list" where
  "DeviceWorkersConfig ModelFamilyQLXD =
     [wconf WorkerTypeFWVer ''FwVersion'' ''FW_VER'' [1, 2, 1, 19] True ''NcString'',
      wconf WorkerTypeDeviceID ''DeviceID'' ''DEVICE_ID'' [1, 2, 1, 20] False ''NcString'',
      wconf WorkerTypeEncryption ''Encryption'' ''ENCRYPTION'' [1, 2, 1, 21] False ''NcBoolean'',
      wconf WorkerTypeMACAddr ''MacAddress'' ''MAC_ADDR'' [1, 2, 1, 22] True ''NcString'']"
| "DeviceWorkersConfig _ = []"

fun ChannelSubWorkersConfig :: "ShureModelFamily \<Rightarrow> (string \<times> worker_config list) list" where
  "ChannelSubWorkersConfig ModelFamilyQLXD =
     [(''AudioGain'',
        [wconf WorkerTypeGain ''SetAudioGain'' ''AUDIO_GAIN'' [1, 2, 1, 10] False ''NcFloat32'']),
      (''Battery'',
        [wconf WorkerTypeBattCycle ''BattCycle'' ''BATT_CYCLE'' [1, 2, 1, 23] True ''NcString'',
         wconf WorkerTypeBattRunTime ''BattRunTime'' ''BATT_RUN_TIME'' [1, 2, 1, 24] True ''NcString'',
         wconf WorkerTypeBattTempF ''BattTempF'' ''BATT_TEMP_F'' [1, 2, 1, 25] True ''NcString'',
         wconf WorkerTypeBattTempC ''BattTempC'' ''BATT_TEMP_C'' [1, 2, 1, 26] True ''NcString'',
         wconf WorkerTypeBattType ''BattType'' ''BATT_TYPE'' [1, 2, 1, 27] True ''NcString'',
         wconf WorkerTypeBattCharge ''BattCharge'' ''BATT_CHARGE'' [1, 2, 1, 28] True ''NcString'',
         wconf WorkerTypeBattHealth ''BattHealth'' ''BATT_HEALTH'' [1, 2, 1, 29] True ''NcString'',
         wconf WorkerTypeBattBars ''BattBars'' ''BATT_BARS'' [1, 2, 1, 30] True ''NcString'']),
      (''Transmitter'',
        [wconf WorkerTypeTxType ''TxType'' ''TX_TYPE'' [1, 2, 1, 31] True ''NcString'',
         wconf WorkerTypeTxOffset ''TxOffset'' ''TX_OFFSET'' [1, 2, 1, 32] True ''NcString'',
         wconf WorkerTypeTxRFPower ''TxRFPower'' ''TX_RF_PWR'' [1, 2, 1, 33] True ''NcString'',
         wconf WorkerTypeTxPwrLock ''TxPwrLock'' ''TX_PWR_LOCK'' [1, 2, 1, 34] True ''NcString'',
         wconf WorkerTypeTxMenuLock ''TxMenuLock'' ''TX_MENU_LOCK'' [1, 2, 1, 35] True ''NcString'',
         wconf WorkerTypeTxDeviceID ''TxDeviceID'' ''TX_DEVICE_ID'' [1, 2, 1, 36] True ''NcString'',
         wconf WorkerTypeTxMuteStatus ''TxMuteStatus'' ''TX_MUTE_STATUS'' [1, 2, 1, 37] True ''NcString'',
         wconf WorkerTypeTxMuteButtonStatus ''TxMuteButtonStatus'' ''TX_MUTE_BUTTON_STATUS'' [1, 2, 1, 38] True ''NcString'',
         wconf WorkerTypeTxPowerSource ''TxPowerSource'' ''TX_POWER_SOURCE'' [1, 2, 1, 39] True ''NcString''])]"
| "ChannelSubWorkersConfig _ = []"

subsection \<open>Creation\<close>

definition make_worker :: "set_hook \<Rightarrow> int \<Rightarrow> string \<Rightarrow> worker_config \<Rightarrow> nc_worker" where
  "make_worker hook oid label cfg =
     (NewWorker oid (wc_ClassID cfg) None (wc_Name cfg) label)
       \<lparr> wk_OnSet := (if wc_IsReadOnly cfg then NoOnSet else hook) \<rparr>"

definition channel_key :: "int \<Rightarrow> string \<Rightarrow> string" where
  "channel_key ch param = itoa ch @ ''_'' @ param"

definition indexed :: "int \<Rightarrow> 'a list \<Rightarrow> (int \<times> 'a) list" where
  "indexed baseOID xs = map (\<lambda>i. (baseOID + int i, xs ! i)) [0..<length xs]"

definition CreateChannelWorkers ::
  "ShureModelFamily \<Rightarrow> int \<Rightarrow> int \<Rightarrow> string \<Rightarrow> nc_worker list \<times> (string \<times> int) list" where
  "CreateChannelWorkers m channel baseOID addr =
     (map (\<lambda>(oid, cfg). make_worker (SetChannelParam addr channel (wc_ShureParam cfg)) oid
              (''Ch'' @ itoa channel @ '' '' @ wc_Name cfg) cfg)
        (indexed baseOID (ChannelWorkersConfig m)),
      fold (\<lambda>(oid, cfg) pm. map_put (channel_key channel (wc_ShureParam cfg)) oid pm)
        (indexed baseOID (ChannelWorkersConfig m)) [])"

definition CreateDeviceWorkers ::
  "ShureModelFamily \<Rightarrow> int \<Rightarrow> string \<Rightarrow> nc_worker list \<times> (string \<times> int) list" where
  "CreateDeviceWorkers m baseOID addr =
     (map (\<lambda>(oid, cfg). make_worker (SetDeviceParam addr (wc_ShureParam cfg)) oid (wc_Name cfg) cfg)
        (indexed baseOID (DeviceWorkersConfig m)),
      fold (\<lambda>(oid, cfg) pm. map_put (wc_ShureParam cfg) oid pm)
        (indexed baseOID (DeviceWorkersConfig m)) [])"

definition CreateChannelSubWorkers ::
  "ShureModelFamily \<Rightarrow> int \<Rightarrow> int \<Rightarrow> string \<Rightarrow> (string \<times> nc_worker list \<times> (string \<times> int) list) list" where
  "CreateChannelSubWorkers m channel baseOID addr =
     map (\<lambda>(block, configs).
        (block,
         map (\<lambda>(oid, cfg). make_worker (SetChannelParam addr channel (wc_ShureParam cfg)) oid
                (''Ch'' @ itoa channel @ '' '' @ block @ '' '' @ wc_Name cfg) cfg)
           (indexed baseOID configs),
         fold (\<lambda>(oid, cfg) pm. map_put (wc_ShureParam cfg) oid pm) (indexed baseOID configs) []))
       (ChannelSubWorkersConfig m)"

end
