(* ===== verification/Worker_Laws.thy ===== *)
theory Worker_Laws
  imports Ncp_Workers
begin

text \<open>
  What the worker tables and the creation of workers guarantee: consistent class ids, the map
  from parameters to object ids, and the command a write to a worker sends.
\<close>

subsection \<open>Class ids\<close>

definition all_families :: "ShureModelFamily list" where
  "all_families = [ModelFamilyAxientDigital, ModelFamilyULXD, ModelFamilyQLXD, ModelFamilySLXD, ModelFamilySLXDPlus]"

lemma declared_family: "(\<forall>s. m \<noteq> OtherFamily s) \<Longrightarrow> m \<in> set all_families"
  by (cases m) (simp_all add: all_families_def)

definition all_configs :: "ShureModelFamily \<Rightarrow> worker_config list" where
  "all_configs m = ChannelWorkersConfig m @ DeviceWorkersConfig m @ concat (map snd (ChannelSubWorkersConfig m))"

lemma config_class_ids:
  "list_all (\<lambda>m. list_all (\<lambda>cfg. WorkerTypeClassID m (wc_WorkerType cfg) = Some (wc_ClassID cfg)) (all_configs m)) all_families"
  by code_simp

lemma all_configs_other: "all_configs (OtherFamily s) = []"
  by (simp add: all_configs_def)

text \<open>
  The class id written in each worker configuration, of a channel, a device or a sub-block, is
  the one the class id table holds for the worker's type in that family: no configured
  worker falls back to the default class.
\<close>

lemma worker_class_ids_consistent:
  assumes "cfg \<in> set (all_configs m)"
  shows "GetClassIDForWorker m (wc_WorkerType cfg) = wc_ClassID cfg \<and> wc_ClassID cfg \<noteq> [1, 2, 1, 99]"
proof -
  have "m \<in> set all_families" using assms all_configs_other by (cases m) (auto simp: all_families_def)
  with config_class_ids assms have "WorkerTypeClassID m (wc_WorkerType cfg) = Some (wc_ClassID cfg)"
    by (simp add: list_all_iff)
  moreover have "list_all (\<lambda>m. list_all (\<lambda>cfg. wc_ClassID cfg \<noteq> [1, 2, 1, 99]) (all_configs m)) all_families"
    by code_simp
  then have "wc_ClassID cfg \<noteq> [1, 2, 1, 99]"
    using \<open>m \<in> set all_families\<close> assms by (simp add: list_all_iff)
  ultimately show ?thesis by (simp add: GetClassIDForWorker_def)
qed

lemma worker_class_ids_consistent_witness:
  "GetClassIDForWorker ModelFamilyQLXD WorkerTypeMACAddr = [1, 2, 1, 22]"
proof -
  let ?cfg = "wconf WorkerTypeMACAddr ''MacAddress'' ''MAC_ADDR'' [1, 2, 1, 22] True ''NcString''"
  have "?cfg \<in> set (all_configs ModelFamilyQLXD)" by (simp add: all_configs_def)
  from worker_class_ids_consistent [OF this] show ?thesis by (simp add: wconf_def)
qed

subsection \<open>The map from parameters to object ids\<close>

lemma indexed_length [simp]: "length (indexed b xs) = length xs"
  by (simp add: indexed_def)

lemma indexed_nth [simp]: "i < length xs \<Longrightarrow> indexed b xs ! i = (b + int i, xs ! i)"
  by (simp add: indexed_def)

lemma indexed_snoc: "indexed b (xs @ [x]) = indexed b xs @ [(b + int (length xs), x)]"
  by (simp add: indexed_def nth_append cong: map_cong)

lemma indexed_map: "map snd (indexed b xs) = xs"
  by (simp add: indexed_def map_nth comp_def)

lemma find_snoc:
  "List.find P (ys @ [y]) = (case List.find P ys of Some z \<Rightarrow> Some z | None \<Rightarrow> if P y then Some y else None)"
  by (induction ys) auto

lemma param_map_lookup:
  assumes "distinct (map key xs)"
  shows "map_of (fold (\<lambda>(oid, x) pm. map_put (key x) oid pm) (indexed b xs) []) k =
    (case List.find (\<lambda>(oid, x). key x = k) (indexed b xs) of Some (oid, x) \<Rightarrow> Some oid | None \<Rightarrow> None)"
  using assms
proof (induction xs rule: rev_induct)
  case (snoc x xs)
  have none: "List.find (\<lambda>(oid, x). key x = k) (indexed b xs) = None" if "key x = k"
  proof -
    have mem: "snd p \<in> set xs" if "p \<in> set (indexed b xs)" for p
      using that by (metis indexed_map list.set_map imageI)
    have "key y \<noteq> k" if "(oid, y) \<in> set (indexed b xs)" for oid y
      using mem [OF that] snoc.prems \<open>key x = k\<close> by (auto simp: image_iff)
    then show ?thesis unfolding find_None_iff by auto
  qed
  show ?case
  proof (cases "key x = k")
    case True
    with none show ?thesis by (simp add: indexed_snoc find_snoc)
  next
    case False
    with snoc show ?thesis by (simp add: indexed_snoc find_snoc split: option.splits)
  qed
qed (simp add: indexed_def)

lemma find_indexed:
  assumes "distinct (map key xs)" "i < length xs"
  shows "List.find (\<lambda>(oid, x). key x = key (xs ! i)) (indexed b xs) = Some (b + int i, xs ! i)"
proof -
  have "key (xs ! j) \<noteq> key (xs ! i)" if "j < i" for j
    using assms that by (auto simp: distinct_conv_nth)
  with assms(2) show ?thesis
    by (subst find_Some_iff) (auto intro!: exI [of _ i])
qed

lemma channel_key_inj [simp]: "channel_key ch p = channel_key ch q \<longleftrightarrow> p = q"
  by (simp add: channel_key_def)

lemma channel_params_distinct: "distinct (map wc_ShureParam (ChannelWorkersConfig m))"
proof -
  have "list_all (\<lambda>m. distinct (map wc_ShureParam (ChannelWorkersConfig m))) all_families" by code_simp
  then show ?thesis by (cases m) (auto simp: all_families_def)
qed

text \<open>
  The workers of a channel get consecutive object ids from the base, and the parameter map
  sends the key of each worker's parameter to exactly that worker's id, so a report from the
  receiver is routed to the worker of its parameter.
\<close>

lemma CreateChannelWorkers_routing:
  assumes "CreateChannelWorkers m ch baseOID addr = (ws, pm)" "i < length ws"
  shows "bo_OID (wk_base (ws ! i)) = baseOID + int i \<and>
    map_of pm (channel_key ch (wc_ShureParam (ChannelWorkersConfig m ! i))) = Some (baseOID + int i) \<and>
    length ws = length (ChannelWorkersConfig m)"
proof -
  let ?cs = "ChannelWorkersConfig m"
  have ws: "ws = map (\<lambda>(oid, cfg). make_worker (SetChannelParam addr ch (wc_ShureParam cfg)) oid
              (''Ch'' @ itoa ch @ '' '' @ wc_Name cfg) cfg) (indexed baseOID ?cs)"
    and pm: "pm = fold (\<lambda>(oid, cfg) pm. map_put (channel_key ch (wc_ShureParam cfg)) oid pm) (indexed baseOID ?cs) []"
    using assms(1) by (simp_all add: CreateChannelWorkers_def)
  have i: "i < length ?cs" using assms(2) ws by simp
  have "distinct (map (\<lambda>cfg. channel_key ch (wc_ShureParam cfg)) ?cs)"
    using channel_params_distinct [of m] by (simp add: distinct_map inj_on_def)
  with i have "map_of pm (channel_key ch (wc_ShureParam (?cs ! i))) = Some (baseOID + int i)"
    unfolding pm
    using find_indexed [of "\<lambda>cfg. channel_key ch (wc_ShureParam cfg)" ?cs i baseOID]
    by (simp add: param_map_lookup)
  with i ws show ?thesis by (simp add: make_worker_def NewWorker_def new_base_def)
qed

lemma CreateChannelWorkers_routing_witness:
  "\<exists>ws pm. CreateChannelWorkers ModelFamilyULXD 2 10200 ''r'' = (ws, pm) \<and>
     map_of pm (channel_key 2 ''AUDIO_MUTE'') = Some 10201"
proof -
  obtain ws pm where c: "CreateChannelWorkers ModelFamilyULXD 2 10200 ''r'' = (ws, pm)"
    by (cases "CreateChannelWorkers ModelFamilyULXD 2 10200 ''r''") auto
  then have "1 < length ws" by (auto simp: CreateChannelWorkers_def)
  from CreateChannelWorkers_routing [OF c this] c show ?thesis by (simp add: wconf_def)
qed

subsection \<open>What a write to a worker sends\<close>

text \<open>
  Writing a value to a worker of a channel that is not configured as read-only sends the
  receiver one command, SET with the channel, the parameter and the value, and the value is
  taken over when the command could be sent. A worker configured as read-only takes over
  every value all the same, and sends nothing.
\<close>

lemma channel_worker_write:
  assumes "CreateChannelWorkers m ch baseOID addr = (ws, pm)" "i < length ws"
    and "cfg = ChannelWorkersConfig m ! i"
    and "cmd = ''< SET '' @ itoa ch @ '' '' @ wc_ShureParam cfg @ '' '' @ fmt_any ff v @ '' >'' @ newline"
    and "worker_SetProperty ff send (ws ! i) (EId 3 1) v = (w', ns, cs, ok)"
  shows "if wc_IsReadOnly cfg then ok \<and> cs = [] \<and> wk_Value w' = v
    else cs = [(addr, cmd)] \<and> ok = send addr cmd \<and> (ok \<longrightarrow> wk_Value w' = v) \<and> (\<not> ok \<longrightarrow> w' = ws ! i)"
proof -
  have "i < length (ChannelWorkersConfig m)" using assms(1,2) by (auto simp: CreateChannelWorkers_def)
  then have "ws ! i = make_worker (SetChannelParam addr ch (wc_ShureParam cfg)) (baseOID + int i)
      (''Ch'' @ itoa ch @ '' '' @ wc_Name cfg) cfg"
    using assms(1,3) by (auto simp: CreateChannelWorkers_def)
  with assms(4,5) show ?thesis
    by (auto simp: worker_SetProperty_def make_worker_def split: if_splits)
qed

lemma channel_worker_write_witness:
  "\<exists>ws pm w' ns cs ok.
     CreateChannelWorkers ModelFamilyULXD 2 10200 ''r'' = (ws, pm) \<and>
     worker_SetProperty (\<lambda>w. []) (\<lambda>a c. True) (ws ! 1) (EId 3 1) (VBool True) = (w', ns, cs, ok) \<and>
     cs = [(''r'', ''< SET 2 AUDIO_MUTE true >'' @ newline)]"
proof -
  obtain ws pm where c: "CreateChannelWorkers ModelFamilyULXD 2 10200 ''r'' = (ws, pm)"
    by (cases "CreateChannelWorkers ModelFamilyULXD 2 10200 ''r''") auto
  then have i: "1 < length ws" by (auto simp: CreateChannelWorkers_def)
  obtain w' ns cs ok where s: "worker_SetProperty (\<lambda>w. []) (\<lambda>a c. True) (ws ! 1) (EId 3 1) (VBool True) = (w', ns, cs, ok)"
    by (cases "worker_SetProperty (\<lambda>w. []) (\<lambda>a c. True) (ws ! 1) (EId 3 1) (VBool True)") auto
  have "itoa 2 = ''2''" by code_simp
  with channel_worker_write [OF c i refl refl s] have "cs = [(''r'', ''< SET 2 AUDIO_MUTE true >'' @ newline)]"
    by (simp add: wconf_def true_false_def)
  with c s show ?thesis by blast
qed

end
