(* ===== verification/Ncp_Dispatch.thy ===== *)
theory Ncp_Dispatch
  imports Ncp_Workers
begin

text \<open>
  The control protocol server (IS-12) of \<open>internal/infrastructure/nmos_controller.go\<close>: the
  registry of control objects, the subscriptions of the connected clients, the command
  dispatcher and the delivery of notifications, with the adapters of \<open>ncp_objects.go\<close>.

  A client is a number, one for each connection. The objects are shared by pointer: a command
  that changes an object changes the entry of the registry. \<open>deliveries\<close> lists what is written
  to which client; the order in which Go visits the map of clients decides only the order
  between different clients. Subscription ids are drawn from a counter of 64 bits, which the
  model does not let wrap.
\<close>

subsection \<open>State\<close>

type_synonym client = nat

record ncp_state =
  ns_objects :: registry
  ns_clients :: "client list"
  ns_subs :: "client \<Rightarrow> int \<Rightarrow> int option"
  ns_nextSub :: int

record ncp_command =
  nc_Handle :: int
  nc_OID :: int
  nc_MethodID :: elem_id
  nc_Arguments :: "json option"

record ncp_response =
  rs_Handle :: int
  rs_Status :: int
  rs_Value :: goval

type_synonym deliveries = "(client \<times> notification) list"

definition response :: "ncp_command \<Rightarrow> int \<Rightarrow> goval \<Rightarrow> ncp_response" where
  "response cmd st v = \<lparr> rs_Handle = nc_Handle cmd, rs_Status = st, rs_Value = v \<rparr>"

subsection \<open>Descriptors of classes\<close>

text \<open>
  The descriptors of the wire types carry a description that the types of package \<open>nca\<close> lack:
  registering a class drops it. The descriptor of a class is modelled by its \<open>nca\<close> type with
  the descriptions beside it.
\<close>

datatype 'a described = Described (described_text: string) (described_value: 'a)

datatype NcMethodDescriptor = NcMethodDescriptor
  (nm_description: string) (nm_id: elem_id) (nm_name: string) (nm_result: string)
  (nm_params: "ParameterDescriptor described list") (nm_deprecated: bool)

datatype NcClassDescriptor = NcClassDescriptor
  (ncd_description: string) (ncd_classid: "int list") (ncd_name: string)
  (ncd_fixedrole: "string option") (ncd_properties: "PropertyDescriptor described list")
  (ncd_methods: "NcMethodDescriptor list") (ncd_events: "EventDescriptor described list")

definition NcClassDescriptorToClassDescriptor :: "NcClassDescriptor \<Rightarrow> ClassDescriptor" where
  "NcClassDescriptorToClassDescriptor d =
     ClassDescriptor (ncd_classid d) (ncd_name d) (ncd_fixedrole d)
       (map described_value (ncd_properties d))
       (map (\<lambda>m. MethodDescriptor (nm_id m) (nm_name m) (nm_result m)
                   (map described_value (nm_params m)) (nm_deprecated m)) (ncd_methods d))
       (map described_value (ncd_events d))"

definition ClassDescriptorToNcClassDescriptor :: "ClassDescriptor \<Rightarrow> NcClassDescriptor" where
  "ClassDescriptorToNcClassDescriptor d =
     NcClassDescriptor [] (cd_classid d) (cd_name d) (cd_fixedrole d)
       (map (Described []) (cd_properties d))
       (map (\<lambda>m. NcMethodDescriptor [] (md_id m) (md_name m) (md_result m)
                   (map (Described []) (md_params m)) (md_deprecated m)) (cd_methods d))
       (map (Described []) (cd_events d))"

subsection \<open>The registry\<close>

text \<open>
  \<open>RegisterNCPObject\<close> sets the callback of the object and, on a block, a resolver that looks up
  the registry and wraps what it finds in an \<open>ncpObjectAdapter\<close>.
\<close>

fun install_resolver :: "nc_object \<Rightarrow> nc_object" where
  "install_resolver (OBlock b) = OBlock (SetResolver b ResolveAdapted)"
| "install_resolver ob = ob"

definition RegisterNCPObject :: "int \<Rightarrow> nc_object \<Rightarrow> ncp_state \<Rightarrow> ncp_state" where
  "RegisterNCPObject oid ob st =
     st\<lparr> ns_objects := (ns_objects st)(oid \<mapsto> install_resolver (obj_SetNotifyCallback ob)) \<rparr>"

definition GetNCPObject :: "int \<Rightarrow> ncp_state \<Rightarrow> nc_object option" where
  "GetNCPObject oid st = ns_objects st oid"

definition RegisterClass :: "NcClassDescriptor \<Rightarrow> ncp_state \<Rightarrow> ncp_state" where
  "RegisterClass d st =
     (case ns_objects st 3 of
        Some (OClassManager m) \<Rightarrow>
          st\<lparr> ns_objects := (ns_objects st)(3 \<mapsto>
            OClassManager (cm_RegisterClass m (ncd_classid d) (NcClassDescriptorToClassDescriptor d))) \<rparr>
      | _ \<Rightarrow> st)"

text \<open>A member added to a block that is registered.\<close>

definition block_add_item :: "int \<Rightarrow> int \<Rightarrow> ncp_state \<Rightarrow> ncp_state" where
  "block_add_item bid oid st =
     (case ns_objects st bid of
        Some (OBlock b) \<Rightarrow> st\<lparr> ns_objects := (ns_objects st)(bid \<mapsto> OBlock (AddItem b oid)) \<rparr>
      | _ \<Rightarrow> st)"

definition append_item :: "nc_block \<Rightarrow> int \<Rightarrow> nc_block" where
  "append_item b oid = b\<lparr> blk_Items := blk_Items b @ [oid] \<rparr>"

definition new_ncp_state :: ncp_state where
  "new_ncp_state =
     RegisterNCPObject 3 (OClassManager (NewClassManager 3 None))
       (RegisterNCPObject 2 (ODeviceManager (NewDeviceManager 2 None))
         (RegisterNCPObject 1 (OBlock (append_item (append_item (NewBlock 1 None ''Root'' ''Root Block'') 2) 3))
           \<lparr> ns_objects = Map.empty, ns_clients = [], ns_subs = (\<lambda>c. Map.empty), ns_nextSub = 1 \<rparr>))"

subsection \<open>Notifications and subscriptions\<close>

definition BroadcastNCPNotification :: "ncp_state \<Rightarrow> notification \<Rightarrow> deliveries" where
  "BroadcastNCPNotification st n =
     map (\<lambda>c. (c, n)) (filter (\<lambda>c. ns_subs st c (nt_oid n) \<noteq> None) (ns_clients st))"

definition add_subscription :: "client \<Rightarrow> int \<Rightarrow> ncp_state \<Rightarrow> ncp_state" where
  "add_subscription c oid st =
     st\<lparr> ns_nextSub := ns_nextSub st + 1,
         ns_subs := (ns_subs st)(c := (ns_subs st c)(oid \<mapsto> ns_nextSub st)) \<rparr>"

fun handleSubscriptions :: "client \<Rightarrow> int list \<Rightarrow> ncp_state \<Rightarrow> ncp_state \<times> int list" where
  "handleSubscriptions c [] st = (st, [])"
| "handleSubscriptions c (oid # oids) st =
     (if ns_objects st oid = None then handleSubscriptions c oids st
      else (case handleSubscriptions c oids (add_subscription c oid st) of
              (st2, ids) \<Rightarrow> (st2, ns_nextSub st # ids)))"

definition connect_client :: "client \<Rightarrow> ncp_state \<Rightarrow> ncp_state" where
  "connect_client c st = st\<lparr> ns_clients := c # ns_clients st \<rparr>"

definition disconnect_client :: "client \<Rightarrow> ncp_state \<Rightarrow> ncp_state" where
  "disconnect_client c st =
     st\<lparr> ns_clients := filter (\<lambda>x. x \<noteq> c) (ns_clients st), ns_subs := (ns_subs st)(c := Map.empty) \<rparr>"

subsection \<open>Commands\<close>

definition put_object :: "int \<Rightarrow> nc_object \<Rightarrow> ncp_state \<Rightarrow> ncp_state" where
  "put_object oid ob st = st\<lparr> ns_objects := (ns_objects st)(oid \<mapsto> ob) \<rparr>"

definition deliver :: "ncp_state \<Rightarrow> notification list \<Rightarrow> deliveries" where
  "deliver st ns = concat (map (BroadcastNCPNotification st) ns)"

text \<open>\<open>None\<close>: a search of the invoked method ran out of fuel.\<close>

definition dispatchNCPCommand ::
  "nat \<Rightarrow> nca_env \<Rightarrow> ncp_state \<Rightarrow> ncp_command \<Rightarrow> (ncp_state \<times> ncp_response \<times> deliveries \<times> sent) option" where
  "dispatchNCPCommand n e st cmd =
     (case ns_objects st (nc_OID cmd) of
        None \<Rightarrow> Some (st, response cmd 404 VNil, [], [])
      | Some ob \<Rightarrow>
          if nc_MethodID cmd = EId 1 1 then
            (case dec_prop_args ''id'' False False (nc_Arguments cmd) of
               None \<Rightarrow> Some (st, response cmd 400 VNil, [], [])
             | Some a \<Rightarrow> (case obj_GetProperty e (ns_objects st) ob (pa_id a) of
                 None \<Rightarrow> Some (st, response cmd 404 VNil, [], [])
               | Some v \<Rightarrow> Some (st, response cmd 200 v, [], [])))
          else if nc_MethodID cmd = EId 1 2 then
            (case dec_prop_args ''id'' True False (nc_Arguments cmd) of
               None \<Rightarrow> Some (st, response cmd 400 VNil, [], [])
             | Some a \<Rightarrow> (case obj_SetProperty e ob (pa_id a) (pa_value a) of
                 (ob', ns, cs, ok) \<Rightarrow>
                   Some (put_object (nc_OID cmd) ob' st, response cmd (if ok then 200 else 500) VNil,
                         deliver st ns, cs)))
          else
            (case obj_InvokeMethod n e (ns_objects st) ob (nc_MethodID cmd) (nc_Arguments cmd) of
               None \<Rightarrow> None
             | Some (ob', ns, cs, None) \<Rightarrow>
                 Some (put_object (nc_OID cmd) ob' st, response cmd 500 VNil, deliver st ns, cs)
             | Some (ob', ns, cs, Some v) \<Rightarrow>
                 Some (put_object (nc_OID cmd) ob' st, response cmd 200 v, deliver st ns, cs)))"

text \<open>One message of a client: commands are dispatched in order into one response.\<close>

datatype ncp_message =
    CommandMessage "ncp_command list"
  | SubscriptionMessage "int list"
  | OtherMessage int

datatype ncp_reply =
    CommandResponses "ncp_response list"
  | SubscriptionResponse "int list"
  | NoReply

fun dispatch_all ::
  "nat \<Rightarrow> nca_env \<Rightarrow> ncp_state \<Rightarrow> ncp_command list \<Rightarrow> (ncp_state \<times> ncp_response list \<times> deliveries \<times> sent) option" where
  "dispatch_all n e st [] = Some (st, [], [], [])"
| "dispatch_all n e st (cmd # cmds) =
     (case dispatchNCPCommand n e st cmd of
        None \<Rightarrow> None
      | Some (st1, r, ds, cs) \<Rightarrow>
          (case dispatch_all n e st1 cmds of
             None \<Rightarrow> None
           | Some (st2, rs, ds2, cs2) \<Rightarrow> Some (st2, r # rs, ds @ ds2, cs @ cs2)))"

fun handle_message ::
  "nat \<Rightarrow> nca_env \<Rightarrow> client \<Rightarrow> ncp_state \<Rightarrow> ncp_message \<Rightarrow> (ncp_state \<times> ncp_reply \<times> deliveries \<times> sent) option" where
  "handle_message n e c st (CommandMessage cmds) =
     (case dispatch_all n e st cmds of
        None \<Rightarrow> None
      | Some (st', rs, ds, cs) \<Rightarrow> Some (st', CommandResponses rs, ds, cs))"
| "handle_message n e c st (SubscriptionMessage oids) =
     (case handleSubscriptions c oids st of (st', ids) \<Rightarrow> Some (st', SubscriptionResponse ids, [], []))"
| "handle_message n e c st (OtherMessage k) = Some (st, NoReply, [], [])"

end
