(* ===== verification/Ncp_Laws.thy ===== *)
theory Ncp_Laws
  imports Ncp_Dispatch
begin

text \<open>
  The control protocol server as a state machine: the invariant of its reachable states, the
  totality of the dispatcher, the status codes, and who is notified.
\<close>

subsection \<open>What an operation on an object keeps\<close>

fun resolver_of :: "nc_object \<Rightarrow> resolver option" where
  "resolver_of (OBlock b) = Some (blk_Resolver b)"
| "resolver_of ob = None"

definition obj_sig :: "nc_object \<Rightarrow> (int \<times> int list \<times> bool \<times> int option \<times> string \<times> bool) \<times> resolver option" where
  "obj_sig ob = (identity_of (obj_base ob), resolver_of ob)"

lemma base_set_identity:
  "base_SetProperty b i v = (b', ns, ok) \<Longrightarrow> identity_of b' = identity_of b"
  by (auto simp: base_SetProperty_def identity_of_def split: if_splits goval.splits)

lemma set_keeps_sig: "obj_SetProperty e ob i v = (ob', ns, cs, ok) \<Longrightarrow> obj_sig ob' = obj_sig ob"
proof -
  assume set: "obj_SetProperty e ob i v = (ob', ns, cs, ok)"
  have "resolver_of ob' = resolver_of ob"
    using set by (cases ob) (auto simp: block_SetProperty_def split: prod.splits)
  then show ?thesis using nc_obj.set_identity [OF set] by (simp add: obj_sig_def)
qed

lemma base_invoke_identity:
  "base_InvokeMethod b m args = (b', ns, r) \<Longrightarrow> identity_of b' = identity_of b"
  unfolding base_InvokeMethod_def
  by (auto split: if_split_asm option.splits prod.splits dest: base_set_identity)

lemma worker_invoke_identity:
  "worker_InvokeMethod ff send w m args = (w', ns, cs, r) \<Longrightarrow> identity_of (wk_base w') = identity_of (wk_base w)"
  unfolding worker_InvokeMethod_def
  by (auto split: if_split_asm option.splits prod.splits dest: worker_obj.set_identity)

lemma block_invoke_base:
  assumes "block_InvokeMethod n reg b m args = Some (b', ns, r)"
  shows "identity_of (blk_base b') = identity_of (blk_base b) \<and> blk_Resolver b' = blk_Resolver b"
  using assms unfolding block_InvokeMethod_def Let_def
  by (auto split: if_split_asm option.splits prod.splits dest: base_invoke_identity)

lemma cm_invoke_identity:
  "cm_InvokeMethod c m args = (c', ns, r) \<Longrightarrow> identity_of (cm_base c') = identity_of (cm_base c)"
  unfolding cm_InvokeMethod_def
  by (auto split: if_split_asm option.splits prod.splits dest: base_invoke_identity)

lemma invoke_keeps_sig:
  assumes "obj_InvokeMethod n e reg ob m args = Some (ob', ns, cs, r)"
  shows "obj_sig ob' = obj_sig ob"
proof (cases ob)
  case (OBlock b)
  with assms show ?thesis by (auto simp: obj_sig_def dest!: block_invoke_base)
next
  case (OWorker w)
  with assms show ?thesis by (auto simp: obj_sig_def dest: worker_invoke_identity split: prod.splits)
next
  case (ODeviceManager d)
  with assms show ?thesis
    by (auto simp: obj_sig_def dm_InvokeMethod_def dest: base_invoke_identity split: prod.splits)
next
  case (OClassManager c)
  with assms show ?thesis by (auto simp: obj_sig_def dest: cm_invoke_identity split: prod.splits)
qed

subsection \<open>The invariant\<close>

definition object_ok :: "int \<Rightarrow> nc_object \<Rightarrow> bool" where
  "object_ok oid ob \<longleftrightarrow> obj_GetOID ob = oid \<and> bo_Notify (obj_base ob) \<and>
     (resolver_of ob = None \<or> resolver_of ob = Some ResolveAdapted)"

definition registry_ok :: "registry \<Rightarrow> bool" where
  "registry_ok reg \<longleftrightarrow> (\<forall>oid ob. reg oid = Some ob \<longrightarrow> object_ok oid ob)"

definition subs_ok :: "ncp_state \<Rightarrow> bool" where
  "subs_ok st \<longleftrightarrow>
     (\<forall>c oid i. ns_subs st c oid = Some i \<longrightarrow>
        c \<in> set (ns_clients st) \<and> ns_objects st oid \<noteq> None \<and> 1 \<le> i \<and> i < ns_nextSub st) \<and>
     (\<forall>c oid c' oid' i. ns_subs st c oid = Some i \<longrightarrow> ns_subs st c' oid' = Some i \<longrightarrow> c = c' \<and> oid = oid')"

definition ncp_inv :: "ncp_state \<Rightarrow> bool" where
  "ncp_inv st \<longleftrightarrow> registry_ok (ns_objects st) \<and> distinct (ns_clients st) \<and> subs_ok st \<and> 1 \<le> ns_nextSub st"

lemma object_ok_sig: "obj_sig ob' = obj_sig ob \<Longrightarrow> object_ok oid ob \<Longrightarrow> object_ok oid ob'"
  by (auto simp: object_ok_def obj_sig_def identity_of_def obj_GetOID_def)

lemma registry_ok_update: "registry_ok reg \<Longrightarrow> object_ok oid ob \<Longrightarrow> registry_ok (reg(oid \<mapsto> ob))"
  by (simp add: registry_ok_def)

lemma registry_okD: "registry_ok reg \<Longrightarrow> reg oid = Some ob \<Longrightarrow> object_ok oid ob"
  by (simp add: registry_ok_def)

lemma put_object_inv:
  assumes "ncp_inv st" "object_ok oid ob"
  shows "ncp_inv (put_object oid ob st)"
proof -
  have "registry_ok (ns_objects (put_object oid ob st))"
    using assms by (simp add: put_object_def ncp_inv_def registry_ok_update)
  moreover have "subs_ok (put_object oid ob st)"
    using assms(1) unfolding ncp_inv_def subs_ok_def put_object_def by auto
  ultimately show ?thesis using assms(1) by (simp add: ncp_inv_def put_object_def)
qed

lemma put_same_sig:
  assumes "ncp_inv st" "ns_objects st oid = Some ob" "obj_sig ob' = obj_sig ob"
  shows "ncp_inv (put_object oid ob' st)"
proof -
  have "object_ok oid ob" using assms(1,2) by (auto simp: ncp_inv_def dest: registry_okD)
  then have "object_ok oid ob'" using assms(3) by (rule object_ok_sig [rotated])
  with assms(1) show ?thesis by (rule put_object_inv)
qed

lemma registered_ok: "obj_GetOID ob = oid \<Longrightarrow> object_ok oid (install_resolver (obj_SetNotifyCallback ob))"
  by (cases ob) (auto simp: object_ok_def obj_GetOID_def SetResolver_def)

lemma RegisterNCPObject_put:
  "RegisterNCPObject oid ob st = put_object oid (install_resolver (obj_SetNotifyCallback ob)) st"
  by (simp add: RegisterNCPObject_def put_object_def)

lemma RegisterClass_inv: "ncp_inv st \<Longrightarrow> ncp_inv (RegisterClass d st)"
proof -
  assume inv: "ncp_inv st"
  show ?thesis
  proof (cases "\<exists>m. ns_objects st 3 = Some (OClassManager m)")
    case True
    then obtain m where m: "ns_objects st 3 = Some (OClassManager m)" by blast
    have "RegisterClass d st = put_object 3 (OClassManager (cm_RegisterClass m (ncd_classid d)
        (NcClassDescriptorToClassDescriptor d))) st"
      by (simp add: RegisterClass_def m put_object_def)
    moreover have "obj_sig (OClassManager (cm_RegisterClass m k x)) = obj_sig (OClassManager m)" for k x
      by (simp add: obj_sig_def cm_RegisterClass_def)
    ultimately show ?thesis using put_same_sig [OF inv m] by simp
  next
    case False
    then have "RegisterClass d st = st" by (auto simp: RegisterClass_def split: option.splits nc_object.splits)
    with inv show ?thesis by simp
  qed
qed

lemma block_add_item_inv: "ncp_inv st \<Longrightarrow> ncp_inv (block_add_item bid oid st)"
proof -
  assume inv: "ncp_inv st"
  show ?thesis
  proof (cases "\<exists>b. ns_objects st bid = Some (OBlock b)")
    case True
    then obtain b where b: "ns_objects st bid = Some (OBlock b)" by blast
    have "block_add_item bid oid st = put_object bid (OBlock (AddItem b oid)) st"
      by (simp add: block_add_item_def b put_object_def)
    moreover have "obj_sig (OBlock (AddItem b oid)) = obj_sig (OBlock b)"
      by (simp add: obj_sig_def AddItem_def)
    ultimately show ?thesis using put_same_sig [OF inv b] by simp
  next
    case False
    then have "block_add_item bid oid st = st" by (auto simp: block_add_item_def split: option.splits nc_object.splits)
    with inv show ?thesis by simp
  qed
qed

lemma dispatch_cases:
  assumes "dispatchNCPCommand n e st cmd = Some (st', r, ds, cs)"
  shows "st' = st \<or> (\<exists>ob ob'. ns_objects st (nc_OID cmd) = Some ob \<and> obj_sig ob' = obj_sig ob \<and>
    st' = put_object (nc_OID cmd) ob' st)"
proof (cases "ns_objects st (nc_OID cmd)")
  case (Some ob)
  consider (get) "nc_MethodID cmd = EId 1 1" | (set) "nc_MethodID cmd = EId 1 2"
    | (other) "nc_MethodID cmd \<noteq> EId 1 1" "nc_MethodID cmd \<noteq> EId 1 2" by blast
  then show ?thesis
  proof cases
    case get
    with Some assms show ?thesis by (auto simp: dispatchNCPCommand_def split: option.splits)
  next
    case set
    with Some assms show ?thesis
      by (auto simp: dispatchNCPCommand_def split: option.splits prod.splits dest!: set_keeps_sig)
  next
    case other
    with Some assms show ?thesis
      by (auto simp: dispatchNCPCommand_def split: option.splits prod.splits dest!: invoke_keeps_sig)
  qed
qed (use assms in \<open>simp add: dispatchNCPCommand_def\<close>)

lemma dispatch_inv:
  assumes "ncp_inv st" "dispatchNCPCommand n e st cmd = Some (st', r, ds, cs)"
  shows "ncp_inv st'"
  using dispatch_cases [OF assms(2)] put_same_sig [OF assms(1)] assms(1) by blast

lemma dispatch_all_inv:
  "ncp_inv st \<Longrightarrow> dispatch_all n e st cmds = Some (st', rs, ds, cs) \<Longrightarrow> ncp_inv st'"
proof (induction cmds arbitrary: st st' rs ds cs)
  case (Cons cmd cmds)
  then show ?case by (auto split: option.splits prod.splits dest: dispatch_inv)
qed simp

lemma subscribe_one_inv:
  assumes "ncp_inv st" "c \<in> set (ns_clients st)" "ns_objects st oid \<noteq> None"
  shows "ncp_inv (add_subscription c oid st)" (is "ncp_inv ?st1")
proof -
  have new: "ns_subs ?st1 c' oid' = (if c' = c \<and> oid' = oid then Some (ns_nextSub st) else ns_subs st c' oid')"
    for c' oid' by (simp add: add_subscription_def)
  have same [simp]: "ns_objects ?st1 = ns_objects st" "ns_clients ?st1 = ns_clients st"
    "ns_nextSub ?st1 = ns_nextSub st + 1" by (simp_all add: add_subscription_def)
  have old: "c' \<in> set (ns_clients st) \<and> ns_objects st oid' \<noteq> None \<and> 1 \<le> i \<and> i < ns_nextSub st"
    if "ns_subs st c' oid' = Some i" for c' oid' i
    using assms(1) that unfolding ncp_inv_def subs_ok_def by blast
  have inj: "c1 = c2 \<and> o1 = o2" if "ns_subs st c1 o1 = Some i" "ns_subs st c2 o2 = Some i" for c1 c2 o1 o2 i
    using assms(1) that unfolding ncp_inv_def subs_ok_def by blast
  have "1 \<le> ns_nextSub st" using assms(1) by (simp add: ncp_inv_def)
  moreover have "subs_ok ?st1"
    unfolding subs_ok_def new
  proof (intro conjI allI impI)
    fix c' oid' i
    assume i: "(if c' = c \<and> oid' = oid then Some (ns_nextSub st) else ns_subs st c' oid') = Some i"
    then show "c' \<in> set (ns_clients ?st1)" "ns_objects ?st1 oid' \<noteq> None" "1 \<le> i" "i < ns_nextSub ?st1"
      using old [of c' oid' i] assms(2,3) \<open>1 \<le> ns_nextSub st\<close> by (auto split: if_splits)
  next
    fix c1 o1 c2 o2 i
    assume "(if c1 = c \<and> o1 = oid then Some (ns_nextSub st) else ns_subs st c1 o1) = Some i"
      "(if c2 = c \<and> o2 = oid then Some (ns_nextSub st) else ns_subs st c2 o2) = Some i"
    then show "c1 = c2" "o1 = o2"
      using old [of c1 o1 i] old [of c2 o2 i] inj [of c1 o1 i c2 o2] by (auto split: if_splits)
  qed
  ultimately show ?thesis using assms(1) by (simp add: ncp_inv_def)
qed

lemma subscribe_inv:
  assumes "ncp_inv st" "c \<in> set (ns_clients st)" "handleSubscriptions c oids st = (st', ids)"
  shows "ncp_inv st' \<and> ns_clients st' = ns_clients st"
  using assms
proof (induction oids arbitrary: st st' ids)
  case (Cons oid oids)
  show ?case
  proof (cases "ns_objects st oid = None")
    case True
    with Cons.prems(3) have "handleSubscriptions c oids st = (st', ids)" by simp
    then show ?thesis by (rule Cons.IH [OF Cons.prems(1,2)])
  next
    case False
    then have one: "ncp_inv (add_subscription c oid st)"
      using Cons.prems(1,2) by (intro subscribe_one_inv)
    obtain st2 ids2 where two: "handleSubscriptions c oids (add_subscription c oid st) = (st2, ids2)"
      by (cases "handleSubscriptions c oids (add_subscription c oid st)") auto
    have same: "ns_clients (add_subscription c oid st) = ns_clients st"
      by (simp add: add_subscription_def)
    have "st' = st2" using Cons.prems(3) False two by simp
    with Cons.IH [OF one _ two] Cons.prems(2) same show ?thesis by simp
  qed
qed simp

lemma connect_inv: "ncp_inv st \<Longrightarrow> c \<notin> set (ns_clients st) \<Longrightarrow> ncp_inv (connect_client c st)"
  by (fastforce simp: ncp_inv_def subs_ok_def connect_client_def)

lemma disconnect_inv: "ncp_inv st \<Longrightarrow> ncp_inv (disconnect_client c st)"
  unfolding ncp_inv_def subs_ok_def disconnect_client_def by (auto split: if_splits)

subsection \<open>Reachable states\<close>

text \<open>
  The steps of the server: connections come and go, a connected client sends a message, and
  the gateway registers an object under its own id, registers a class, adds a member to a
  block or writes a property.
\<close>

inductive ncp_step :: "nca_env \<Rightarrow> ncp_state \<Rightarrow> ncp_state \<Rightarrow> bool" for e where
  connect: "c \<notin> set (ns_clients st) \<Longrightarrow> ncp_step e st (connect_client c st)"
| disconnect: "c \<in> set (ns_clients st) \<Longrightarrow> ncp_step e st (disconnect_client c st)"
| message: "c \<in> set (ns_clients st) \<Longrightarrow> handle_message n e c st msg = Some (st', reply, ds, cs) \<Longrightarrow>
    ncp_step e st st'"
| register: "obj_GetOID ob = oid \<Longrightarrow> ncp_step e st (RegisterNCPObject oid ob st)"
| register_class: "ncp_step e st (RegisterClass d st)"
| add_item: "ncp_step e st (block_add_item bid oid st)"
| gateway_write: "ns_objects st oid = Some ob \<Longrightarrow> obj_SetProperty e ob i v = (ob', ns, cs, ok) \<Longrightarrow>
    ncp_step e st (put_object oid ob' st)"

inductive_cases ncp_stepE: "ncp_step e st st'"

definition ncp_reachable :: "nca_env \<Rightarrow> ncp_state \<Rightarrow> bool" where
  "ncp_reachable e st \<longleftrightarrow> (ncp_step e)\<^sup>*\<^sup>* new_ncp_state st"

lemma handle_message_inv:
  assumes "ncp_inv st" "c \<in> set (ns_clients st)" "handle_message n e c st msg = Some (st', reply, ds, cs)"
  shows "ncp_inv st'"
proof (cases msg)
  case (CommandMessage cmds)
  with assms show ?thesis by (auto split: option.splits prod.splits dest: dispatch_all_inv)
next
  case (SubscriptionMessage oids)
  with assms subscribe_inv [OF assms(1,2)] show ?thesis by (auto split: prod.splits)
next
  case (OtherMessage k)
  with assms show ?thesis by simp
qed

lemma ncp_step_inv: "ncp_step e st st' \<Longrightarrow> ncp_inv st \<Longrightarrow> ncp_inv st'"
  by (induction rule: ncp_step.induct)
    (auto intro: connect_inv disconnect_inv handle_message_inv RegisterClass_inv block_add_item_inv
       put_same_sig put_object_inv registered_ok simp: RegisterNCPObject_put dest: set_keeps_sig)

lemma new_ncp_inv: "ncp_inv new_ncp_state"
proof -
  have "obj_GetOID (OClassManager (NewClassManager 3 None)) = 3"
    "obj_GetOID (ODeviceManager (NewDeviceManager 2 None)) = 2"
    "obj_GetOID (OBlock (append_item (append_item (NewBlock 1 None ''Root'' ''Root Block'') 2) 3)) = 1"
    by (simp_all add: obj_GetOID_def NewClassManager_def registerStandardClasses_def NewDeviceManager_def
        append_item_def NewBlock_def new_base_def)
  moreover have "ncp_inv \<lparr> ns_objects = Map.empty, ns_clients = [], ns_subs = (\<lambda>c. Map.empty), ns_nextSub = 1 \<rparr>"
    by (simp add: ncp_inv_def registry_ok_def subs_ok_def)
  ultimately show ?thesis
    unfolding new_ncp_state_def RegisterNCPObject_put by (intro put_object_inv registered_ok)
qed

lemma reachable_inv: "ncp_reachable e st \<Longrightarrow> ncp_inv st"
  unfolding ncp_reachable_def
  by (induction rule: rtranclp_induct) (auto intro: new_ncp_inv ncp_step_inv)

text \<open>
  C2. In every reachable state of the control server each object is registered under its own
  id with its callback set, a subscription belongs to a connected client and a registered
  object, and no two subscriptions share an id.
\<close>

theorem ncp_reachable_invariant:
  assumes "ncp_reachable e st"
  shows "(\<forall>oid ob. GetNCPObject oid st = Some ob \<longrightarrow> obj_GetOID ob = oid \<and> bo_Notify (obj_base ob)) \<and>
    (\<forall>c oid i. ns_subs st c oid = Some i \<longrightarrow> c \<in> set (ns_clients st) \<and> GetNCPObject oid st \<noteq> None) \<and>
    (\<forall>c oid c' oid' i. ns_subs st c oid = Some i \<longrightarrow> ns_subs st c' oid' = Some i \<longrightarrow> c = c' \<and> oid = oid')"
  using reachable_inv [OF assms]
  unfolding ncp_inv_def registry_ok_def subs_ok_def object_ok_def GetNCPObject_def by blast

theorem ncp_reachable_invariant_witness:
  "\<exists>st. ncp_reachable test_env st \<and> ns_subs st 0 1 = Some 1 \<and> 0 \<in> set (ns_clients st) \<and>
     GetNCPObject 1 st \<noteq> None"
proof -
  let ?st1 = "connect_client 0 new_ncp_state"
  let ?st2 = "add_subscription 0 1 ?st1"
  have root: "ns_objects ?st1 1 \<noteq> None"
    by (simp add: connect_client_def new_ncp_state_def RegisterNCPObject_def)
  have "ncp_step test_env new_ncp_state ?st1"
    by (rule ncp_step.connect) (simp add: new_ncp_state_def RegisterNCPObject_def)
  moreover have "ncp_step test_env ?st1 ?st2"
  proof (rule ncp_step.message)
    show "0 \<in> set (ns_clients ?st1)" by (simp add: connect_client_def)
    show "handle_message 1 test_env 0 ?st1 (SubscriptionMessage [1]) =
        Some (?st2, SubscriptionResponse [ns_nextSub ?st1], [], [])"
      using root by simp
  qed
  ultimately have "ncp_reachable test_env ?st2"
    unfolding ncp_reachable_def by (meson converse_rtranclp_into_rtranclp rtranclp.rtrancl_refl)
  moreover have "ns_subs ?st2 0 1 = Some 1"
    by (simp add: add_subscription_def connect_client_def new_ncp_state_def RegisterNCPObject_def)
  ultimately show ?thesis using ncp_reachable_invariant [of test_env ?st2] by blast
qed

subsection \<open>Totality\<close>

lemma search_adapted_total:
  assumes "blk_Resolver b = ResolveAdapted"
  shows "\<exists>ds. search (Suc n) reg hit recurse b = Some ds"
proof -
  have "as_block b ob = None" for ob using assms by (cases ob) (simp_all add: as_block_def)
  then have "search (Suc n) reg hit recurse b =
      Some (concat (map (\<lambda>ob. if hit ob then [obj_GetDescriptor ob] else []) (members reg b)))"
    unfolding search.simps by (intro concat_opt_map) simp
  then show ?thesis by blast
qed

lemma invoke_total:
  assumes "object_ok oid ob"
  shows "\<exists>r. obj_InvokeMethod (Suc n) e reg ob m args = Some r"
proof (cases ob)
  case (OBlock b)
  with assms have "blk_Resolver b = ResolveAdapted" by (simp add: object_ok_def)
  from search_adapted_total [OF this] have tot: "search (Suc n) reg hit rec b \<noteq> None" for hit rec
    by (metis option.distinct(1))
  have "block_InvokeMethod (Suc n) reg b m args \<noteq> None"
    using tot unfolding block_InvokeMethod_def Let_def getMemberDescriptors_def findMembersByRole_def
      findMembersByClassID_def
    by (auto simp del: search.simps split: option.splits prod.splits)
  with OBlock show ?thesis by auto
qed (auto split: prod.splits)

lemma dispatch_total_inv:
  assumes "ncp_inv st"
  shows "\<exists>r. dispatchNCPCommand (Suc n) e st cmd = Some r"
proof (cases "ns_objects st (nc_OID cmd)")
  case (Some ob)
  then have "object_ok (nc_OID cmd) ob" using assms by (auto simp: ncp_inv_def dest: registry_okD)
  from invoke_total [OF this, of n e "ns_objects st" "nc_MethodID cmd" "nc_Arguments cmd"] Some
  show ?thesis
    by (auto simp: dispatchNCPCommand_def simp del: obj_InvokeMethod.simps split: option.splits prod.splits)
qed (simp add: dispatchNCPCommand_def)

lemma dispatch_all_total_inv:
  "ncp_inv st \<Longrightarrow> \<exists>st' rs ds cs. dispatch_all (Suc n) e st cmds = Some (st', rs, ds, cs) \<and> map rs_Handle rs = map nc_Handle cmds"
proof (induction cmds arbitrary: st)
  case (Cons cmd cmds)
  obtain st1 r ds1 cs1 where one: "dispatchNCPCommand (Suc n) e st cmd = Some (st1, r, ds1, cs1)"
    using dispatch_total_inv [OF Cons.prems, of n e cmd] by auto
  have h: "rs_Handle r = nc_Handle cmd"
    using one unfolding dispatchNCPCommand_def
    by (auto simp: response_def split: option.splits if_split_asm prod.splits)
  obtain st2 rs ds2 cs2 where "dispatch_all (Suc n) e st1 cmds = Some (st2, rs, ds2, cs2)"
    "map rs_Handle rs = map nc_Handle cmds"
    using Cons.IH [OF dispatch_inv [OF Cons.prems one]] by blast
  with one h show ?case by simp
qed simp

text \<open>
  In every reachable state the server answers every message: one unit of fuel is enough for
  the searches, and a command message gets exactly one response for each command, in order,
  with the command's handle.
\<close>

lemma ncp_message_answered:
  assumes "ncp_reachable e st"
  shows "\<exists>st' reply ds cs. handle_message (Suc n) e c st msg = Some (st', reply, ds, cs) \<and>
    (\<forall>cmds. msg = CommandMessage cmds \<longrightarrow>
       (\<exists>rs. reply = CommandResponses rs \<and> map rs_Handle rs = map nc_Handle cmds))"
proof (cases msg)
  case (CommandMessage cmds)
  with dispatch_all_total_inv [OF reachable_inv [OF assms], of n e cmds] show ?thesis by fastforce
next
  case (SubscriptionMessage oids)
  then show ?thesis by (cases "handleSubscriptions c oids st") simp
next
  case (OtherMessage k)
  then show ?thesis by simp
qed

lemma ncp_message_answered_witness:
  "\<exists>st' reply ds cs. handle_message 1 test_env 0 new_ncp_state
     (CommandMessage [\<lparr> nc_Handle = 7, nc_OID = 1, nc_MethodID = EId 2 1, nc_Arguments = Some JNull \<rparr>]) =
     Some (st', reply, ds, cs)"
proof -
  have "ncp_reachable test_env new_ncp_state" by (simp add: ncp_reachable_def)
  from ncp_message_answered [OF this, of 0 0
      "CommandMessage [\<lparr> nc_Handle = 7, nc_OID = 1, nc_MethodID = EId 2 1, nc_Arguments = Some JNull \<rparr>]"]
  show ?thesis unfolding One_nat_def by (elim exE conjE) (rule exI)+
qed

subsection \<open>Set, Get and notifications\<close>

lemma deliver_one:
  "deliver st [Notification oid ev i ct v ix] =
     map (\<lambda>c. (c, Notification oid ev i ct v ix)) (filter (\<lambda>c. ns_subs st c oid \<noteq> None) (ns_clients st))"
  by (simp add: deliver_def BroadcastNCPNotification_def)

text \<open>
  C1. A Set command answered with 200 in a reachable state is seen by a following Get of the
  same property, which answers 200 with the value set, and it notified that value once to
  each connected client subscribed to the object, and to no other client. A Set answered
  otherwise leaves the state as it was and notifies nobody.
\<close>

theorem dispatch_set_get:
  assumes "ncp_reachable e st" "GetNCPObject (nc_OID cmd) st = Some ob" "nc_MethodID cmd = EId 1 2"
    and "dec_prop_args ''id'' True False (nc_Arguments cmd) = Some a"
    and "dispatchNCPCommand n e st cmd = Some (st', r, ds, cs)"
    and "nc_OID get = nc_OID cmd" "nc_MethodID get = EId 1 1"
    and "dec_prop_args ''id'' False False (nc_Arguments get) = Some b" "pa_id b = pa_id a"
  shows "if rs_Status r = 200
    then dispatchNCPCommand k e st' get = Some (st', response get 200 (pa_value a), [], []) \<and>
      ds = map (\<lambda>c. (c, Notification (nc_OID cmd) (EId 1 1) (pa_id a) ChangeTypeValueChanged (pa_value a) None))
             (filter (\<lambda>c. ns_subs st c (nc_OID cmd) \<noteq> None) (ns_clients st))
    else st' = st \<and> ds = []"
proof -
  have ob: "ns_objects st (nc_OID cmd) = Some ob" using assms(2) by (simp add: GetNCPObject_def)
  then have ok: "object_ok (nc_OID cmd) ob"
    using reachable_inv [OF assms(1)] by (auto simp: ncp_inv_def dest: registry_okD)
  obtain ob' ns cs' acc where set: "obj_SetProperty e ob (pa_id a) (pa_value a) = (ob', ns, cs', acc)"
    by (cases "obj_SetProperty e ob (pa_id a) (pa_value a)") auto
  have res: "st' = put_object (nc_OID cmd) ob' st" "r = response cmd (if acc then 200 else 500) VNil"
    "ds = deliver st ns"
    using assms(3-5) ob set by (simp_all add: dispatchNCPCommand_def)
  show ?thesis
  proof (cases acc)
    case True
    have "obj_GetProperty e (ns_objects st') ob' (pa_id a) = Some (pa_value a)"
      using set True by (auto dest: nc_obj.set_get)
    then have "dispatchNCPCommand k e st' get = Some (st', response get 200 (pa_value a), [], [])"
      using assms(6-9) by (simp add: dispatchNCPCommand_def res(1) put_object_def)
    moreover have "ns = [Notification (nc_OID cmd) (EId 1 1) (pa_id a) ChangeTypeValueChanged (pa_value a) None]"
      using set True ok by (auto dest!: nc_obj.set_notifies simp: notifyChange_def object_ok_def obj_GetOID_def)
    ultimately show ?thesis using True res by (simp add: response_def deliver_one)
  next
    case False
    then have "ob' = ob \<and> ns = []" using set by (auto dest: nc_obj.set_refused)
    with False res ob show ?thesis by (simp add: response_def put_object_def deliver_def map_upd_triv)
  qed
qed

theorem dispatch_set_get_witness:
  "\<exists>st' r ds cs. dispatchNCPCommand 1 test_env new_ncp_state
       \<lparr> nc_Handle = 1, nc_OID = 2, nc_MethodID = EId 1 2,
         nc_Arguments = Some (JObj [(''id'', JObj [(''level'', JNum (Some 3) 0), (''index'', JNum (Some 6) 0)]),
                                    (''value'', JStr ''desk'')]) \<rparr> = Some (st', r, ds, cs) \<and>
     dispatchNCPCommand 1 test_env st'
       \<lparr> nc_Handle = 2, nc_OID = 2, nc_MethodID = EId 1 1,
         nc_Arguments = Some (JObj [(''id'', JObj [(''level'', JNum (Some 3) 0), (''index'', JNum (Some 6) 0)])]) \<rparr> =
       Some (st', \<lparr> rs_Handle = 2, rs_Status = 200, rs_Value = VStr ''desk'' \<rparr>, [], [])"
proof -
  let ?id = "JObj [(''level'', JNum (Some 3) 0), (''index'', JNum (Some 6) 0)]"
  let ?set = "\<lparr> nc_Handle = 1, nc_OID = 2, nc_MethodID = EId 1 2,
      nc_Arguments = Some (JObj [(''id'', ?id), (''value'', JStr ''desk'')]) \<rparr>"
  let ?get = "\<lparr> nc_Handle = 2, nc_OID = 2, nc_MethodID = EId 1 1, nc_Arguments = Some (JObj [(''id'', ?id)]) \<rparr>"
  let ?a = "\<lparr> pa_id = EId 3 6, pa_value = VStr ''desk'', pa_index = 0 \<rparr>"
  let ?b = "\<lparr> pa_id = EId 3 6, pa_value = VNil, pa_index = 0 \<rparr>"
  have dec: "dec_prop_args ''id'' True False (nc_Arguments ?set) = Some ?a"
    "dec_prop_args ''id'' False False (nc_Arguments ?get) = Some ?b"
    by code_simp+
  let ?m = "obj_SetNotifyCallback (ODeviceManager (NewDeviceManager 2 None))"
  have ob: "GetNCPObject (nc_OID ?set) new_ncp_state = Some ?m"
    by (simp add: GetNCPObject_def new_ncp_state_def RegisterNCPObject_def)
  obtain st' r ds cs where run: "dispatchNCPCommand 1 test_env new_ncp_state ?set = Some (st', r, ds, cs)"
    and ok: "rs_Status r = 200"
    using ob dec(1) by (simp add: dispatchNCPCommand_def GetNCPObject_def dm_SetProperty_def response_def)
  have reach: "ncp_reachable test_env new_ncp_state" by (simp add: ncp_reachable_def)
  have "dispatchNCPCommand 1 test_env st' ?get = Some (st', response ?get 200 (VStr ''desk''), [], [])"
    using dispatch_set_get [OF reach ob _ dec(1) run, of ?get ?b 1] dec(2) ok by simp
  with run show ?thesis by (simp add: response_def)
qed

text \<open>
  The dispatcher answers 200 to a method that failed: for the five sequence methods of any
  object it knows, the outer status is 200 and the error status is the value inside, for
  every argument.
\<close>

lemma dispatch_hides_method_errors:
  assumes "GetNCPObject (nc_OID cmd) st = Some ob"
    and "nc_MethodID cmd \<in> {EId 1 3, EId 1 4, EId 1 5, EId 1 6, EId 1 7}"
  shows "\<exists>inner v. dispatchNCPCommand n e st cmd = Some (st, response cmd 200 (VResult inner v), [], []) \<and>
    inner \<noteq> 200"
proof -
  obtain inner v where inv: "obj_InvokeMethod n e (ns_objects st) ob (nc_MethodID cmd) (nc_Arguments cmd) =
      Some (ob, [], [], Some (VResult inner v))" and "inner \<noteq> 200"
    using invoke_sequence_method [OF assms(2)] by blast
  moreover have "nc_MethodID cmd \<noteq> EId 1 1" "nc_MethodID cmd \<noteq> EId 1 2" using assms(2) by auto
  moreover have "put_object (nc_OID cmd) ob st = st"
    using assms(1) by (simp add: put_object_def GetNCPObject_def map_upd_triv)
  moreover have "deliver st [] = []" by (simp add: deliver_def)
  ultimately show ?thesis using assms(1) by (auto simp: dispatchNCPCommand_def GetNCPObject_def)
qed

lemma dispatch_hides_method_errors_witness:
  "\<exists>inner v. dispatchNCPCommand 1 test_env new_ncp_state
       \<lparr> nc_Handle = 7, nc_OID = 2, nc_MethodID = EId 1 7, nc_Arguments = None \<rparr> =
     Some (new_ncp_state, \<lparr> rs_Handle = 7, rs_Status = 200, rs_Value = VResult inner v \<rparr>, [], []) \<and> inner \<noteq> 200"
proof -
  have "\<exists>ob. GetNCPObject 2 new_ncp_state = Some ob"
    by (simp add: GetNCPObject_def new_ncp_state_def RegisterNCPObject_def)
  then show ?thesis
    using dispatch_hides_method_errors
      [of "\<lparr> nc_Handle = 7, nc_OID = 2, nc_MethodID = EId 1 7, nc_Arguments = None \<rparr>" new_ncp_state _ 1 test_env]
    by (auto simp: response_def)
qed

end
