(* ===== verification/Is05_Connection.thy ===== *)
theory Is05_Connection
  imports Go_Values
begin

text \<open>
  Connection management (IS-05) of the senders: the staged and the active parameters
  (\<open>internal/infrastructure/nmos_connection_types.go\<close>) and their handlers in
  \<open>internal/infrastructure/nmos_controller.go\<close>.

  The clock is the parameter \<open>now\<close>, the text \<open>seconds:nanoseconds\<close> of the time of the request. The
  request body is a JSON document, \<open>None\<close> when it is none. The replies are the states the handlers encode.
\<close>

subsection \<open>Types\<close>

definition ActivationModeImmediate :: string where "ActivationModeImmediate = ''activate_immediate''"
definition ActivationModeScheduledAbsolute :: string where "ActivationModeScheduledAbsolute = ''activate_scheduled_absolute''"
definition ActivationModeScheduledRelative :: string where "ActivationModeScheduledRelative = ''activate_scheduled_relative''"
definition ActivationModeNull :: string where "ActivationModeNull = []"

record ConnectionActivation =
  ac_Mode :: string
  ac_RequestedTime :: "string option"
  ac_ActivationTime :: "string option"

record TransportFile =
  tf_Data :: string
  tf_Type :: string

type_synonym transport_params = "(string \<times> goval) list list"

record ConnectionStaged =
  cs_SenderID :: "string option"
  cs_ReceiverID :: "string option"
  cs_MasterEnable :: bool
  cs_Activation :: ConnectionActivation
  cs_TransportFile :: "TransportFile option"
  cs_TransportParams :: transport_params

record ConnectionActive =
  ca_SenderID :: "string option"
  ca_ReceiverID :: "string option"
  ca_MasterEnable :: bool
  ca_Activation :: ConnectionActivation
  ca_TransportParams :: transport_params

record connections =
  stagedConnections :: "string \<Rightarrow> ConnectionStaged option"
  activeConnections :: "string \<Rightarrow> ConnectionActive option"

definition zero_activation :: ConnectionActivation where
  "zero_activation = \<lparr> ac_Mode = [], ac_RequestedTime = None, ac_ActivationTime = None \<rparr>"

definition zero_active :: ConnectionActive where
  "zero_active = \<lparr> ca_SenderID = None, ca_ReceiverID = None, ca_MasterEnable = False,
     ca_Activation = zero_activation, ca_TransportParams = [] \<rparr>"

definition zero_staged :: ConnectionStaged where
  "zero_staged = \<lparr> cs_SenderID = None, cs_ReceiverID = None, cs_MasterEnable = False,
     cs_Activation = zero_activation, cs_TransportFile = None, cs_TransportParams = [] \<rparr>"

subsection \<open>Decoding the body of a PATCH\<close>

text \<open>A pointer target: null makes it \<open>nil\<close>.\<close>

fun dec_string_ptr :: "json \<Rightarrow> string option option" where
  "dec_string_ptr (JStr s) = Some (Some s)"
| "dec_string_ptr JNull = Some None"
| "dec_string_ptr _ = None"

definition dec_activation :: "json \<Rightarrow> ConnectionActivation \<Rightarrow> ConnectionActivation option" where
  "dec_activation = dec_struct (\<lambda>k j a.
     if equal_fold k ''mode'' then map_option (\<lambda>s. a\<lparr> ac_Mode := s \<rparr>) (dec_string j (ac_Mode a))
     else if equal_fold k ''requested_time'' then map_option (\<lambda>s. a\<lparr> ac_RequestedTime := s \<rparr>) (dec_string_ptr j)
     else if equal_fold k ''activation_time'' then map_option (\<lambda>s. a\<lparr> ac_ActivationTime := s \<rparr>) (dec_string_ptr j)
     else Some a)"

definition dec_transport_file :: "json \<Rightarrow> TransportFile option \<Rightarrow> TransportFile option option" where
  "dec_transport_file j old =
     (if j = JNull then Some None
      else map_option Some (dec_struct (\<lambda>k j t.
        if equal_fold k ''data'' then map_option (\<lambda>s. t\<lparr> tf_Data := s \<rparr>) (dec_string j (tf_Data t))
        else if equal_fold k ''type'' then map_option (\<lambda>s. t\<lparr> tf_Type := s \<rparr>) (dec_string j (tf_Type t))
        else Some t) j (case old of None \<Rightarrow> \<lparr> tf_Data = [], tf_Type = [] \<rparr> | Some t \<Rightarrow> t)))"

fun dec_map :: "json \<Rightarrow> (string \<times> goval) list option" where
  "dec_map (JObj kvs) = (case any_of_json (JObj kvs) of VMap m \<Rightarrow> Some m | _ \<Rightarrow> None)"
| "dec_map JNull = Some []"
| "dec_map _ = None"

fun dec_maps :: "json \<Rightarrow> transport_params option" where
  "dec_maps (JArr xs) = opt_map dec_map xs"
| "dec_maps JNull = Some []"
| "dec_maps _ = None"

definition staged_step :: "string \<Rightarrow> json \<Rightarrow> ConnectionStaged \<Rightarrow> ConnectionStaged option" where
  "staged_step k j s =
     (if equal_fold k ''sender_id'' then map_option (\<lambda>x. s\<lparr> cs_SenderID := x \<rparr>) (dec_string_ptr j)
      else if equal_fold k ''receiver_id'' then map_option (\<lambda>x. s\<lparr> cs_ReceiverID := x \<rparr>) (dec_string_ptr j)
      else if equal_fold k ''master_enable'' then map_option (\<lambda>x. s\<lparr> cs_MasterEnable := x \<rparr>) (dec_bool j (cs_MasterEnable s))
      else if equal_fold k ''activation'' then map_option (\<lambda>x. s\<lparr> cs_Activation := x \<rparr>) (dec_activation j (cs_Activation s))
      else if equal_fold k ''transport_file'' then map_option (\<lambda>x. s\<lparr> cs_TransportFile := x \<rparr>) (dec_transport_file j (cs_TransportFile s))
      else if equal_fold k ''transport_params'' then map_option (\<lambda>x. s\<lparr> cs_TransportParams := x \<rparr>) (dec_maps j)
      else Some s)"

definition dec_staged :: "json option \<Rightarrow> ConnectionStaged option" where
  "dec_staged body = unmarshal staged_step body zero_staged"

subsection \<open>Transport parameters of a sender\<close>

definition device_params :: "string \<Rightarrow> string \<Rightarrow> string option \<Rightarrow> transport_params" where
  "device_params nodeAddr deviceID source =
     (let uri = (''connection_uri'', VStr (''ws://'' @ nodeAddr @ ''/x-nmos/events/v1.0/devices/'' @ deviceID));
          auth = (''connection_authorization'', VBool False) in
      case source of
        Some sourceID \<Rightarrow>
          [[uri, auth,
            (''ext_is_07_rest_api_url'', VStr (''http://'' @ nodeAddr @ ''/x-nmos/events/v1.0/sources/'' @ sourceID @ ''/'')),
            (''ext_is_07_source_id'', VStr sourceID)]]
      | None \<Rightarrow> [[uri, auth]])"

definition sender_params :: "string \<Rightarrow> (string \<times> goval) list \<Rightarrow> transport_params option" where
  "sender_params nodeAddr m =
     (case as_maps (field_of ''transport_params'' m) of
        Some (p # ps) \<Rightarrow> Some (p # ps)
      | _ \<Rightarrow> (case as_string (field_of ''device_id'' m) of
          Some deviceID \<Rightarrow> Some (device_params nodeAddr deviceID (as_string (field_of ''source_id'' m)))
        | None \<Rightarrow> None))"

text \<open>
  A sender without usable parameters and without a device falls through to the next
  resource of the list.
\<close>

fun getSenderTransportParams :: "string \<Rightarrow> goval list \<Rightarrow> string \<Rightarrow> transport_params" where
  "getSenderTransportParams nodeAddr [] senderID =
     [[(''connection_uri'', VStr (''ws://'' @ nodeAddr @ ''/x-nmos/events/v1.0/events'')),
       (''connection_authorization'', VBool False)]]"
| "getSenderTransportParams nodeAddr (r # rs) senderID =
     (case as_map r of
        None \<Rightarrow> getSenderTransportParams nodeAddr rs senderID
      | Some m \<Rightarrow>
          if field_of ''id'' m = VStr senderID then
            (case sender_params nodeAddr m of
               Some tp \<Rightarrow> tp
             | None \<Rightarrow> getSenderTransportParams nodeAddr rs senderID)
          else getSenderTransportParams nodeAddr rs senderID)"

subsection \<open>Handlers\<close>

definition handleConnectionSenderActive :: "transport_params \<Rightarrow> connections \<Rightarrow> string \<Rightarrow> ConnectionActive" where
  "handleConnectionSenderActive tp c senderID =
     (case activeConnections c senderID of
        Some a \<Rightarrow> a
      | None \<Rightarrow> \<lparr> ca_SenderID = Some senderID, ca_ReceiverID = None, ca_MasterEnable = True,
                  ca_Activation = zero_activation\<lparr> ac_Mode := ActivationModeImmediate \<rparr>,
                  ca_TransportParams = tp \<rparr>)"

text \<open>Reading an absent key of a Go map gives the zero value.\<close>

definition current_staged :: "connections \<Rightarrow> string \<Rightarrow> ConnectionStaged" where
  "current_staged c senderID =
     (case stagedConnections c senderID of
        Some s \<Rightarrow> s
      | None \<Rightarrow>
          (let active = (case activeConnections c senderID of Some a \<Rightarrow> a | None \<Rightarrow> zero_active) in
           zero_staged\<lparr> cs_SenderID := Some senderID, cs_MasterEnable := ca_MasterEnable active,
             cs_Activation := ca_Activation active, cs_TransportParams := ca_TransportParams active \<rparr>))"

definition merge_patch :: "ConnectionStaged \<Rightarrow> ConnectionStaged \<Rightarrow> ConnectionStaged" where
  "merge_patch current p =
     (let c1 = current\<lparr> cs_MasterEnable := cs_MasterEnable p \<rparr>;
          c2 = (if ac_Mode (cs_Activation p) \<noteq> [] then c1\<lparr> cs_Activation := cs_Activation p \<rparr> else c1) in
      if cs_TransportParams p \<noteq> [] then c2\<lparr> cs_TransportParams := cs_TransportParams p \<rparr> else c2)"

definition active_of :: "ConnectionStaged \<Rightarrow> ConnectionActive" where
  "active_of s = \<lparr> ca_SenderID = cs_SenderID s, ca_ReceiverID = None, ca_MasterEnable = cs_MasterEnable s,
     ca_Activation = cs_Activation s, ca_TransportParams = cs_TransportParams s \<rparr>"

definition patch_staged :: "string \<Rightarrow> connections \<Rightarrow> string \<Rightarrow> ConnectionStaged \<Rightarrow> connections \<times> ConnectionStaged" where
  "patch_staged now c senderID p =
     (let cur = merge_patch (current_staged c senderID) p in
      if ac_Mode (cs_Activation cur) = ActivationModeImmediate then
        (let timed = cur\<lparr> cs_Activation := (cs_Activation cur)\<lparr> ac_ActivationTime := Some now \<rparr> \<rparr>;
             idle = timed\<lparr> cs_Activation := (cs_Activation timed)\<lparr> ac_Mode := ActivationModeNull \<rparr> \<rparr> in
         (c\<lparr> activeConnections := (activeConnections c)(senderID \<mapsto> active_of timed),
             stagedConnections := (stagedConnections c)(senderID \<mapsto> idle) \<rparr>, idle))
      else (c\<lparr> stagedConnections := (stagedConnections c)(senderID \<mapsto> cur) \<rparr>, cur))"

datatype http_method = GET | PATCH | OTHER_METHOD

datatype staged_reply =
    StagedState ConnectionStaged
  | NotFound
  | BadRequest
  | MethodNotAllowed

definition handleConnectionSenderStaged ::
  "string \<Rightarrow> connections \<Rightarrow> string \<Rightarrow> http_method \<Rightarrow> json option \<Rightarrow> connections \<times> staged_reply" where
  "handleConnectionSenderStaged now c senderID m body =
     (if senderID = [] then (c, NotFound)
      else (case m of
        GET \<Rightarrow> (c, StagedState (current_staged c senderID))
      | PATCH \<Rightarrow> (case dec_staged body of
            None \<Rightarrow> (c, BadRequest)
          | Some p \<Rightarrow> (case patch_staged now c senderID p of (c', s) \<Rightarrow> (c', StagedState s)))
      | OTHER_METHOD \<Rightarrow> (c, MethodNotAllowed)))"

subsection \<open>Reachable states\<close>

definition no_connections :: connections where
  "no_connections = \<lparr> stagedConnections = Map.empty, activeConnections = Map.empty \<rparr>"

inductive conn_reachable :: "connections \<Rightarrow> bool" where
  start: "conn_reachable no_connections"
| request: "conn_reachable c \<Longrightarrow> handleConnectionSenderStaged now c senderID m body = (c', reply) \<Longrightarrow> conn_reachable c'"

definition conn_inv :: "connections \<Rightarrow> bool" where
  "conn_inv c \<longleftrightarrow>
     (\<forall>s st. stagedConnections c s = Some st \<longrightarrow> ac_Mode (cs_Activation st) \<noteq> ActivationModeImmediate) \<and>
     (\<forall>s a. activeConnections c s = Some a \<longrightarrow>
        ac_Mode (ca_Activation a) = ActivationModeImmediate \<and> ac_ActivationTime (ca_Activation a) \<noteq> None \<and>
        stagedConnections c s \<noteq> None)"

lemma modes_differ [simp]: "ActivationModeNull \<noteq> ActivationModeImmediate" "ActivationModeImmediate \<noteq> ActivationModeNull"
  "[] \<noteq> ActivationModeImmediate" "ActivationModeImmediate \<noteq> []"
  by (simp_all add: ActivationModeNull_def ActivationModeImmediate_def)

lemma patch_inv:
  assumes "conn_inv c" "patch_staged now c senderID p = (c', s)"
  shows "conn_inv c'"
  using assms unfolding conn_inv_def patch_staged_def Let_def
  by (auto simp: active_of_def split: if_split_asm)

lemma staged_request_inv:
  assumes "conn_inv c" "handleConnectionSenderStaged now c senderID m body = (c', reply)"
  shows "conn_inv c'"
  using assms patch_inv [OF assms(1)] unfolding handleConnectionSenderStaged_def
  by (auto split: if_split_asm http_method.splits option.splits prod.splits)

lemma conn_reachable_inv: "conn_reachable c \<Longrightarrow> conn_inv c"
proof (induction rule: conn_reachable.induct)
  case start
  show ?case by (simp add: conn_inv_def no_connections_def)
next
  case (request c now senderID m body c' reply)
  then show ?case by (blast intro: staged_request_inv)
qed

lemma merge_mode:
  "ac_Mode (cs_Activation (merge_patch cur p)) =
     (if ac_Mode (cs_Activation p) \<noteq> [] then ac_Mode (cs_Activation p) else ac_Mode (cs_Activation cur))"
  by (simp add: merge_patch_def Let_def)

lemma merge_fields:
  "cs_MasterEnable (merge_patch cur p) = cs_MasterEnable p"
  "cs_TransportParams (merge_patch cur p) =
     (if cs_TransportParams p \<noteq> [] then cs_TransportParams p else cs_TransportParams cur)"
  "cs_SenderID (merge_patch cur p) = cs_SenderID cur"
  by (simp_all add: merge_patch_def Let_def)

lemma current_not_immediate:
  assumes "conn_inv c"
  shows "ac_Mode (cs_Activation (current_staged c senderID)) \<noteq> ActivationModeImmediate"
proof (cases "stagedConnections c senderID")
  case (Some st)
  with assms show ?thesis by (simp add: conn_inv_def current_staged_def)
next
  case None
  with assms have "activeConnections c senderID = None"
    unfolding conn_inv_def by (metis not_None_eq)
  with None show ?thesis
    by (simp add: current_staged_def zero_active_def zero_activation_def)
qed

text \<open>
  C35. In every reachable state a PATCH of a sender activates exactly when its own body asks for
  an immediate activation. Then the active parameters are the merged staged ones with the
  time of the request and the staged mode is empty again; otherwise no active parameters
  change, whatever mode was staged before. No other sender is touched.
\<close>

theorem patch_activates_iff_immediate:
  assumes "conn_reachable c" "senderID \<noteq> []" "dec_staged body = Some p"
    and "handleConnectionSenderStaged now c senderID PATCH body = (c', StagedState s)"
  shows "(if ac_Mode (cs_Activation p) = ActivationModeImmediate
     then activeConnections c' = (activeConnections c)(senderID \<mapsto>
         active_of (s\<lparr> cs_Activation := (cs_Activation s)\<lparr> ac_Mode := ActivationModeImmediate \<rparr> \<rparr>)) \<and>
       ac_ActivationTime (cs_Activation s) = Some now \<and> ac_Mode (cs_Activation s) = []
     else activeConnections c' = activeConnections c) \<and>
    stagedConnections c' = (stagedConnections c)(senderID \<mapsto> s) \<and>
    cs_MasterEnable s = cs_MasterEnable p"
proof -
  let ?cur = "merge_patch (current_staged c senderID) p"
  have mode: "ac_Mode (cs_Activation ?cur) = ActivationModeImmediate \<longleftrightarrow> ac_Mode (cs_Activation p) = ActivationModeImmediate"
    using current_not_immediate [OF conn_reachable_inv [OF assms(1)], of senderID] by (auto simp: merge_mode)
  have run: "patch_staged now c senderID p = (c', s)"
    using assms(2-4) by (auto simp: handleConnectionSenderStaged_def split: prod.splits)
  show ?thesis
  proof (cases "ac_Mode (cs_Activation p) = ActivationModeImmediate")
    case True
    with mode run show ?thesis
      by (auto simp: patch_staged_def Let_def active_of_def merge_fields ActivationModeNull_def)
  next
    case False
    with mode run show ?thesis by (auto simp: patch_staged_def Let_def merge_fields)
  qed
qed

theorem patch_activates_iff_immediate_witness:
  "\<exists>c' s. handleConnectionSenderStaged ''5:0'' no_connections ''s1'' PATCH
       (Some (JObj [(''master_enable'', JBool True), (''activation'', JObj [(''mode'', JStr ''activate_immediate'')])])) =
     (c', StagedState s) \<and> (\<exists>a. activeConnections c' ''s1'' = Some a \<and> ca_MasterEnable a)"
proof -
  let ?body = "Some (JObj [(''master_enable'', JBool True), (''activation'', JObj [(''mode'', JStr ''activate_immediate'')])])"
  let ?p = "zero_staged\<lparr> cs_MasterEnable := True, cs_Activation := zero_activation\<lparr> ac_Mode := ActivationModeImmediate \<rparr> \<rparr>"
  have p: "dec_staged ?body = Some ?p" by code_simp
  obtain c' s where "patch_staged ''5:0'' no_connections ''s1'' ?p = (c', s)"
    by (cases "patch_staged ''5:0'' no_connections ''s1'' ?p") auto
  with p have run: "handleConnectionSenderStaged ''5:0'' no_connections ''s1'' PATCH ?body = (c', StagedState s)"
    by (simp add: handleConnectionSenderStaged_def)
  from patch_activates_iff_immediate [OF conn_reachable.start _ p run] run show ?thesis
    by (auto simp: active_of_def)
qed

text \<open>
  A PATCH that leaves out master_enable disables the sender: whatever was staged or active,
  the merged state has it off, and with an immediate activation the active state too.
\<close>

lemma patch_without_master_enable_disables:
  assumes "senderID \<noteq> []"
    and "handleConnectionSenderStaged now c senderID PATCH (Some (JObj [(''activation'', JObj [(''mode'', JStr mode)])])) = (c', reply)"
  shows "(\<exists>s. reply = StagedState s \<and> \<not> cs_MasterEnable s) \<and>
    (mode = ActivationModeImmediate \<longrightarrow> (\<exists>a. activeConnections c' senderID = Some a \<and> \<not> ca_MasterEnable a))"
proof -
  let ?p = "zero_staged\<lparr> cs_Activation := zero_activation\<lparr> ac_Mode := mode \<rparr> \<rparr>"
  have fold: "equal_fold ''mode'' ''mode''" "equal_fold ''activation'' ''activation''"
    "\<not> equal_fold ''activation'' ''sender_id''" "\<not> equal_fold ''activation'' ''receiver_id''"
    "\<not> equal_fold ''activation'' ''master_enable''" by code_simp+
  have p: "dec_staged (Some (JObj [(''activation'', JObj [(''mode'', JStr mode)])])) = Some ?p"
    by (simp add: dec_staged_def unmarshal_def staged_step_def dec_activation_def fold zero_staged_def)
  have run: "patch_staged now c senderID ?p = (c', s) \<Longrightarrow> reply = StagedState s" for s
    using assms p by (auto simp: handleConnectionSenderStaged_def split: prod.splits)
  obtain s where s: "patch_staged now c senderID ?p = (c', s)"
    using assms p by (auto simp: handleConnectionSenderStaged_def split: prod.splits)
  have off: "\<not> cs_MasterEnable (merge_patch cur ?p)" for cur
    by (simp add: merge_fields zero_staged_def)
  have "ac_Mode (cs_Activation (merge_patch cur ?p)) = ActivationModeImmediate" if "mode = ActivationModeImmediate" for cur
    using that by (simp add: merge_mode zero_staged_def)
  with run [OF s] s off show ?thesis
    by (auto simp: patch_staged_def Let_def active_of_def split: if_split_asm)
qed

lemma patch_without_master_enable_disables_witness:
  "\<exists>c' reply a. handleConnectionSenderStaged ''5:0'' no_connections ''s1'' PATCH
      (Some (JObj [(''activation'', JObj [(''mode'', JStr ''activate_immediate'')])])) = (c', reply) \<and>
    activeConnections c' ''s1'' = Some a \<and> \<not> ca_MasterEnable a"
proof -
  obtain c' reply where run: "handleConnectionSenderStaged ''5:0'' no_connections ''s1'' PATCH
      (Some (JObj [(''activation'', JObj [(''mode'', JStr ''activate_immediate'')])])) = (c', reply)"
    by (cases "handleConnectionSenderStaged ''5:0'' no_connections ''s1'' PATCH
      (Some (JObj [(''activation'', JObj [(''mode'', JStr ''activate_immediate'')])]))") auto
  from patch_without_master_enable_disables [OF _ run] run show ?thesis
    by (auto simp: ActivationModeImmediate_def)
qed

end
