(* ===== verification/Is07_Events.thy ===== *)
theory Is07_Events
  imports Go_Values
begin

text \<open>
  Events (IS-07) of \<open>internal/infrastructure/nmos_controller.go\<close>: the websocket clients with their
  subscriptions, the cache of the last event of each source, the health messages and the
  heartbeat check.

  A connection is a number. The map of clients is an association list with distinct keys; the
  order in which Go visits it decides only the order between different clients. \<open>ok\<close> tells for
  which connections a write succeeds. Times are nanoseconds; \<open>stamp\<close> is the text of a time.
\<close>

subsection \<open>State\<close>

type_synonym conn = nat

datatype event = StateEvent
  (ev_source: string) (ev_flow: string) (ev_type: string) (ev_timestamp: string) (ev_value: goval)

datatype ws_frame =
    EventMessage event
  | HealthMessage string string
  | UpdateMessage string goval

record is07_state =
  is_clients :: "(conn \<times> string list) list"
  is_lastEvents :: "string \<Rightarrow> event option"
  is_health :: "conn \<Rightarrow> int option"

type_synonym writes = "(conn \<times> ws_frame) list"

definition no_events :: is07_state where
  "no_events = \<lparr> is_clients = [], is_lastEvents = Map.empty, is_health = Map.empty \<rparr>"

definition connected :: "conn \<Rightarrow> is07_state \<Rightarrow> bool" where
  "connected c s \<longleftrightarrow> map_of (is_clients s) c \<noteq> None"

definition subscribed :: "conn \<Rightarrow> string \<Rightarrow> is07_state \<Rightarrow> bool" where
  "subscribed c src s \<longleftrightarrow> (case map_of (is_clients s) c of Some subs \<Rightarrow> src \<in> set subs | None \<Rightarrow> False)"

definition drop_client :: "conn \<Rightarrow> (conn \<times> string list) list \<Rightarrow> (conn \<times> string list) list" where
  "drop_client c cs = filter (\<lambda>(k, v). k \<noteq> c) cs"

subsection \<open>Connections and their messages\<close>

definition ws_connect :: "conn \<Rightarrow> is07_state \<Rightarrow> is07_state" where
  "ws_connect c s = s\<lparr> is_clients := map_put c [] (is_clients s) \<rparr>"

definition ws_disconnect :: "conn \<Rightarrow> is07_state \<Rightarrow> is07_state" where
  "ws_disconnect c s =
     s\<lparr> is_clients := drop_client c (is_clients s), is_health := (is_health s)(c := None) \<rparr>"

text \<open>The elements of the sources member that are strings; the others are skipped.\<close>

definition source_ids :: "goval list \<Rightarrow> string list" where
  "source_ids xs = List.map_filter as_string xs"

definition handle_health :: "(int \<Rightarrow> string) \<Rightarrow> int \<Rightarrow> conn \<Rightarrow> (string \<times> goval) list \<Rightarrow> is07_state \<Rightarrow> is07_state \<times> writes" where
  "handle_health stamp now c msg s =
     (s\<lparr> is_health := (is_health s)(c \<mapsto> now) \<rparr>,
      if connected c s
      then [(c, HealthMessage (case as_string (field_of ''timestamp'' msg) of Some t \<Rightarrow> t | None \<Rightarrow> []) (stamp now))]
      else [])"

definition handle_subscription :: "conn \<Rightarrow> (string \<times> goval) list \<Rightarrow> is07_state \<Rightarrow> is07_state \<times> writes" where
  "handle_subscription c msg s =
     (case as_array (field_of ''sources'' msg) of
        None \<Rightarrow> (s, [])
      | Some xs \<Rightarrow>
          if connected c s
          then (s\<lparr> is_clients := map_put c (source_ids xs) (is_clients s) \<rparr>,
                map (\<lambda>e. (c, EventMessage e)) (List.map_filter (is_lastEvents s) (source_ids xs)))
          else (s, []))"

definition ws_message :: "(int \<Rightarrow> string) \<Rightarrow> int \<Rightarrow> conn \<Rightarrow> json \<Rightarrow> is07_state \<Rightarrow> is07_state \<times> writes" where
  "ws_message stamp now c j s =
     (case as_map (any_of_json j) of
        None \<Rightarrow> (s, [])
      | Some msg \<Rightarrow>
          (if field_of ''command'' msg = VStr ''health'' then handle_health stamp now c msg s
           else if field_of ''command'' msg = VStr ''subscription'' then handle_subscription c msg s
           else (s, [])))"

subsection \<open>Broadcast\<close>

definition subscribers :: "string \<Rightarrow> is07_state \<Rightarrow> conn list" where
  "subscribers src s = map fst (filter (\<lambda>(c, subs). src \<in> set subs) (is_clients s))"

text \<open>A client the write of an event fails for is dropped; its health entry stays.\<close>

definition BroadcastEvent ::
  "(int \<Rightarrow> string) \<Rightarrow> int \<Rightarrow> (conn \<Rightarrow> bool) \<Rightarrow> string \<Rightarrow> string \<Rightarrow> string \<Rightarrow> goval \<Rightarrow> is07_state \<Rightarrow> is07_state \<times> writes" where
  "BroadcastEvent stamp now ok sourceID flowID eventType data s =
     (let clients = subscribers sourceID s in
      if clients = [] then (s, [])
      else
        let e = StateEvent sourceID flowID eventType (stamp now) data in
        (s\<lparr> is_lastEvents := (is_lastEvents s)(sourceID \<mapsto> e),
            is_clients := fold drop_client (filter (\<lambda>c. \<not> ok c) clients) (is_clients s) \<rparr>,
         map (\<lambda>c. (c, EventMessage e)) (filter ok clients)))"

definition broadcast_update :: "(conn \<Rightarrow> bool) \<Rightarrow> string \<Rightarrow> goval \<Rightarrow> is07_state \<Rightarrow> is07_state \<times> writes" where
  "broadcast_update ok resourceType resource s =
     (let clients = map fst (is_clients s) in
      if clients = [] then (s, [])
      else
        (let failed = filter (\<lambda>c. \<not> ok c) clients in
         (s\<lparr> is_clients := fold drop_client failed (is_clients s),
             is_health := (\<lambda>c. if c \<in> set failed then None else is_health s c) \<rparr>,
          map (\<lambda>c. (c, UpdateMessage resourceType resource)) (filter ok clients))))"

subsection \<open>Heartbeats\<close>

definition is07HeartbeatTimeout :: int where "is07HeartbeatTimeout = 12 * 10 ^ 9"

text \<open>One tick of \<open>checkIS07Heartbeats\<close>; \<open>conns\<close> lists the keys of the health map.\<close>

definition check_heartbeats :: "int \<Rightarrow> is07_state \<Rightarrow> is07_state" where
  "check_heartbeats now s =
     (let expired = (\<lambda>c. case is_health s c of None \<Rightarrow> False | Some t \<Rightarrow> is07HeartbeatTimeout < now - t) in
      s\<lparr> is_clients := filter (\<lambda>(c, subs). \<not> expired c) (is_clients s),
          is_health := (\<lambda>c. if expired c then None else is_health s c) \<rparr>)"

definition handleEventsSourceState :: "string \<Rightarrow> is07_state \<Rightarrow> event option" where
  "handleEventsSourceState sourceID s = (if sourceID = [] then None else is_lastEvents s sourceID)"

definition handleEventsSourcesList :: "goval list \<Rightarrow> string list" where
  "handleEventsSourcesList sources =
     List.map_filter (\<lambda>r. case as_map r of None \<Rightarrow> None
        | Some m \<Rightarrow> map_option (\<lambda>i. i @ ''/'') (as_string (field_of ''id'' m))) sources"

text \<open>An event type that is the empty string is searched past and reported as absent.\<close>

fun event_type_of :: "string \<Rightarrow> goval list \<Rightarrow> string" where
  "event_type_of sourceID [] = []"
| "event_type_of sourceID (r # rs) =
     (case as_map r of
        None \<Rightarrow> event_type_of sourceID rs
      | Some m \<Rightarrow>
          if field_of ''id'' m = VStr sourceID then
            (case as_string (field_of ''event_type'' m) of
               Some t \<Rightarrow> t | None \<Rightarrow> event_type_of sourceID rs)
          else event_type_of sourceID rs)"

definition handleEventsSourceType :: "goval list \<Rightarrow> string \<Rightarrow> string option" where
  "handleEventsSourceType sources sourceID =
     (if sourceID = [] then None
      else let t = event_type_of sourceID sources in if t = [] then None else Some t)"

subsection \<open>Steps\<close>

inductive is07_step :: "(int \<Rightarrow> string) \<Rightarrow> is07_state \<Rightarrow> writes \<Rightarrow> is07_state \<Rightarrow> bool" for stamp where
  connect: "\<not> connected c s \<Longrightarrow> is07_step stamp s [] (ws_connect c s)"
| disconnect: "is07_step stamp s [] (ws_disconnect c s)"
| message: "ws_message stamp now c j s = (s', ws) \<Longrightarrow> is07_step stamp s ws s'"
| broadcast: "BroadcastEvent stamp now ok src flow ty v s = (s', ws) \<Longrightarrow> is07_step stamp s ws s'"
| update: "broadcast_update ok rt r s = (s', ws) \<Longrightarrow> is07_step stamp s ws s'"
| tick: "is07_step stamp s [] (check_heartbeats now s)"

inductive is07_reachable :: "(int \<Rightarrow> string) \<Rightarrow> is07_state \<Rightarrow> bool" for stamp where
  start: "is07_reachable stamp no_events"
| step: "is07_reachable stamp s \<Longrightarrow> is07_step stamp s ws s' \<Longrightarrow> is07_reachable stamp s'"

inductive_cases is07_stepE: "is07_step stamp s ws s'"

definition is07_inv :: "is07_state \<Rightarrow> bool" where
  "is07_inv s \<longleftrightarrow> distinct (map fst (is_clients s)) \<and>
     (\<forall>src e. is_lastEvents s src = Some e \<longrightarrow> ev_source e = src)"

lemma drop_client_distinct: "distinct (map fst cs) \<Longrightarrow> distinct (map fst (drop_client c cs))"
  by (induction cs) (auto simp: drop_client_def image_iff)

lemma fold_drop_distinct: "distinct (map fst cs) \<Longrightarrow> distinct (map fst (fold drop_client fs cs))"
  by (induction fs arbitrary: cs) (simp_all add: drop_client_distinct)

lemma filter_distinct: "distinct (map fst cs) \<Longrightarrow> distinct (map fst (filter P cs))"
  by (induction cs) (auto simp: image_iff)

lemma is07_step_inv:
  assumes "is07_step stamp s ws s'" "is07_inv s"
  shows "is07_inv s'"
  using assms
proof (cases rule: is07_step.cases)
  case (connect c)
  with assms(2) show ?thesis by (simp add: is07_inv_def ws_connect_def map_put_distinct)
next
  case (disconnect c)
  with assms(2) show ?thesis by (simp add: is07_inv_def ws_disconnect_def drop_client_distinct)
next
  case (message now c j)
  with assms(2) show ?thesis
    by (auto simp: is07_inv_def ws_message_def handle_health_def handle_subscription_def map_put_distinct
        split: option.splits if_split_asm)
next
  case (broadcast now ok src flow ty v)
  with assms(2) show ?thesis
    by (auto simp: is07_inv_def BroadcastEvent_def Let_def fold_drop_distinct split: if_split_asm)
next
  case (update ok rt r)
  with assms(2) show ?thesis
    by (auto simp: is07_inv_def broadcast_update_def Let_def fold_drop_distinct split: if_split_asm)
next
  case (tick now)
  with assms(2) show ?thesis by (simp add: is07_inv_def check_heartbeats_def Let_def filter_distinct)
qed

lemma is07_reachable_inv: "is07_reachable stamp s \<Longrightarrow> is07_inv s"
proof (induction rule: is07_reachable.induct)
  case start
  show ?case by (simp add: is07_inv_def no_events_def)
next
  case (step s ws s')
  show ?case using step.hyps(2) step.IH by (rule is07_step_inv)
qed

lemma is07_reachable_distinct: "is07_reachable stamp s \<Longrightarrow> distinct (map fst (is_clients s))"
  using is07_reachable_inv by (simp add: is07_inv_def)

lemma subscribers_iff:
  assumes "distinct (map fst (is_clients s))"
  shows "c \<in> set (subscribers src s) \<longleftrightarrow> subscribed c src s"
proof -
  have "c \<in> set (subscribers src s) \<longleftrightarrow> (\<exists>subs. (c, subs) \<in> set (is_clients s) \<and> src \<in> set subs)"
    by (auto simp: subscribers_def image_iff)
  also have "\<dots> \<longleftrightarrow> (\<exists>subs. map_of (is_clients s) c = Some subs \<and> src \<in> set subs)"
    using assms by simp
  also have "\<dots> \<longleftrightarrow> subscribed c src s" by (auto simp: subscribed_def split: option.splits)
  finally show ?thesis .
qed

lemma subscribers_distinct: "distinct (map fst (is_clients s)) \<Longrightarrow> distinct (subscribers src s)"
  by (simp add: subscribers_def filter_distinct)

lemma map_of_filter_key: "map_of (filter (\<lambda>(k, v). P k) xs) k = (if P k then map_of xs k else None)"
  by (induction xs) auto

lemma map_of_drop_client: "map_of (drop_client f cs) c = (if c = f then None else map_of cs c)"
  using map_of_filter_key [of "\<lambda>k. k \<noteq> f" cs c] by (simp add: drop_client_def)

lemma map_of_fold_drop: "map_of (fold drop_client fs cs) c = (if c \<in> set fs then None else map_of cs c)"
proof (induction fs arbitrary: cs)
  case (Cons f fs)
  show ?case by (simp add: Cons.IH map_of_drop_client)
qed simp

lemma connected_heartbeat:
  "connected c (check_heartbeats now s) \<longleftrightarrow>
     connected c s \<and> (\<forall>h. is_health s c = Some h \<longrightarrow> now - h \<le> is07HeartbeatTimeout)"
  by (auto simp: connected_def check_heartbeats_def Let_def map_of_filter_key not_le split: option.splits)

lemma health_heartbeat:
  "is_health (check_heartbeats now s) c =
     (case is_health s c of None \<Rightarrow> None
      | Some h \<Rightarrow> if is07HeartbeatTimeout < now - h then None else Some h)"
  by (auto simp: check_heartbeats_def Let_def split: option.splits)

lemma BroadcastEvent_quiet: "subscribers src s = [] \<Longrightarrow> BroadcastEvent stamp now ok src flow ty v s = (s, [])"
  by (simp add: BroadcastEvent_def)

lemma BroadcastEvent_sent:
  "subscribers src s \<noteq> [] \<Longrightarrow> BroadcastEvent stamp now ok src flow ty v s =
     (let e = StateEvent src flow ty (stamp now) v in
      (s\<lparr> is_lastEvents := (is_lastEvents s)(src \<mapsto> e),
          is_clients := fold drop_client (filter (\<lambda>c. \<not> ok c) (subscribers src s)) (is_clients s) \<rparr>,
       map (\<lambda>c. (c, EventMessage e)) (filter ok (subscribers src s))))"
  by (simp add: BroadcastEvent_def Let_def)

lemma subscription_message:
  assumes "as_map (any_of_json j) = Some msg" "field_of ''command'' msg = VStr ''subscription''"
    and "as_array (field_of ''sources'' msg) = Some xs" "connected c s"
  shows "ws_message stamp now c j s =
     (s\<lparr> is_clients := map_put c (source_ids xs) (is_clients s) \<rparr>,
      map (\<lambda>e. (c, EventMessage e)) (List.map_filter (is_lastEvents s) (source_ids xs)))"
  using assms by (simp add: ws_message_def handle_subscription_def)

subsection \<open>What the clients see\<close>

text \<open>
  C33. In every reachable state a broadcast of an event of a source writes it, once, to exactly the
  connections that are subscribed to the source and that can be written to; the connections that
  are subscribed and cannot be written to are dropped, no other one is. The event becomes the
  state the source is cached with if and only if some connection is subscribed: with no
  subscriber nothing changes, and the event is lost to later subscribers.
\<close>

theorem BroadcastEvent_delivery:
  assumes "is07_reachable stamp s"
    and "BroadcastEvent stamp now ok src flow ty v s = (s', ws)"
  shows "set ws = {(c, EventMessage (StateEvent src flow ty (stamp now) v)) | c. subscribed c src s \<and> ok c}
    \<and> distinct ws
    \<and> (\<forall>c. connected c s' \<longleftrightarrow> connected c s \<and> \<not> (subscribed c src s \<and> \<not> ok c))
    \<and> ((\<exists>c. subscribed c src s) \<longrightarrow> is_lastEvents s' src = Some (StateEvent src flow ty (stamp now) v))
    \<and> (\<not> (\<exists>c. subscribed c src s) \<longrightarrow> s' = s)"
proof -
  have d: "distinct (map fst (is_clients s))" using assms(1) by (rule is07_reachable_distinct)
  note mem = subscribers_iff [OF d]
  show ?thesis
  proof (cases "subscribers src s = []")
    case True
    with mem have none: "\<And>c. \<not> subscribed c src s" by (metis empty_iff list.set(1))
    from True assms(2) have "s' = s" "ws = []" by (simp_all add: BroadcastEvent_quiet)
    with none show ?thesis by simp
  next
    case False
    then have some: "\<exists>c. subscribed c src s" using mem by (metis list.set_sel(1))
    from BroadcastEvent_sent [OF False] assms(2)
    have s': "s' = s\<lparr> is_lastEvents := (is_lastEvents s)(src \<mapsto> StateEvent src flow ty (stamp now) v),
          is_clients := fold drop_client (filter (\<lambda>c. \<not> ok c) (subscribers src s)) (is_clients s) \<rparr>"
      and ws: "ws = map (\<lambda>c. (c, EventMessage (StateEvent src flow ty (stamp now) v))) (filter ok (subscribers src s))"
      by (simp_all add: Let_def)
    have "distinct ws" using subscribers_distinct [OF d]
      by (simp add: ws distinct_map inj_on_def)
    moreover have "set ws = {(c, EventMessage (StateEvent src flow ty (stamp now) v)) | c. subscribed c src s \<and> ok c}"
      by (auto simp: ws mem)
    moreover have "\<forall>c. connected c s' \<longleftrightarrow> connected c s \<and> \<not> (subscribed c src s \<and> \<not> ok c)"
      by (simp add: s' connected_def map_of_fold_drop mem)
    ultimately show ?thesis using some by (simp add: s')
  qed
qed

definition subscribe_to :: "string list \<Rightarrow> json" where
  "subscribe_to srcs = JObj [(''command'', JStr ''subscription''), (''sources'', JArr (map JStr srcs))]"

definition two_clients :: is07_state where
  "two_clients = \<lparr> is_clients = [(1, [''s1'']), (2, [])], is_lastEvents = Map.empty, is_health = Map.empty \<rparr>"

lemma two_clients_reachable: "is07_reachable stamp two_clients"
proof -
  let ?a = "ws_connect 1 no_events" and ?b = "ws_connect 2 (ws_connect 1 no_events)"
  have "is07_step stamp no_events [] ?a" by (rule is07_step.connect) (simp add: connected_def no_events_def)
  then have a: "is07_reachable stamp ?a" by (rule is07_reachable.step [OF is07_reachable.start])
  have "is07_step stamp ?a [] ?b"
    by (rule is07_step.connect) (simp add: connected_def no_events_def ws_connect_def)
  with a have b: "is07_reachable stamp ?b" by (rule is07_reachable.step)
  have "ws_message stamp 0 1 (subscribe_to [''s1'']) ?b = (two_clients, [])"
  proof -
    let ?msg = "[(''command'', VStr ''subscription''), (''sources'', VArr [VStr ''s1''])]"
    have "as_map (any_of_json (subscribe_to [''s1''])) = Some ?msg"
      "field_of ''command'' ?msg = VStr ''subscription''"
      "as_array (field_of ''sources'' ?msg) = Some [VStr ''s1'']" by code_simp+
    moreover have "connected 1 ?b" by (simp add: connected_def ws_connect_def no_events_def)
    ultimately show ?thesis
      by (simp add: subscription_message [where msg = ?msg and xs = "[VStr ''s1'']"] two_clients_def
          ws_connect_def no_events_def source_ids_def List.map_filter_simps)
  qed
  then have "is07_step stamp ?b [] two_clients" by (rule is07_step.message)
  with b show ?thesis by (rule is07_reachable.step)
qed

theorem BroadcastEvent_delivery_witness:
  "\<exists>s'. BroadcastEvent (\<lambda>t. ''now'') 5 (\<lambda>c. c = 1) ''s1'' ''f1'' ''boolean'' (VBool True) two_clients
       = (s', [(1, EventMessage (StateEvent ''s1'' ''f1'' ''boolean'' ''now'' (VBool True)))])
     \<and> is_lastEvents s' ''s1'' = Some (StateEvent ''s1'' ''f1'' ''boolean'' ''now'' (VBool True))"
proof -
  obtain s' ws where b: "BroadcastEvent (\<lambda>t. ''now'') 5 (\<lambda>c. c = 1) ''s1'' ''f1'' ''boolean'' (VBool True) two_clients = (s', ws)"
    by force
  have sub: "subscribed c ''s1'' two_clients \<longleftrightarrow> c = 1" for c
    by (simp add: subscribed_def two_clients_def)
  note facts = BroadcastEvent_delivery [OF two_clients_reachable b, unfolded sub]
  from b have ws: "ws = [(1, EventMessage (StateEvent ''s1'' ''f1'' ''boolean'' ''now'' (VBool True)))]"
    by (simp add: BroadcastEvent_def Let_def subscribers_def two_clients_def)
  from facts have "is_lastEvents s' ''s1'' = Some (StateEvent ''s1'' ''f1'' ''boolean'' ''now'' (VBool True))"
    by blast
  with b ws show ?thesis by blast
qed

text \<open>
  A subscription message replaces the subscriptions of its connection by the strings it lists,
  leaves every other connection as it is, and answers with one event for each listed source
  that has a cached state, in the order of the list, each an event of the source it is sent for.
\<close>

lemma subscription_replays_state:
  assumes "is07_reachable stamp s" "connected c s"
    and "as_map (any_of_json j) = Some msg" "field_of ''command'' msg = VStr ''subscription''"
    and "as_array (field_of ''sources'' msg) = Some xs"
    and "ws_message stamp now c j s = (s', ws)"
  shows "(\<forall>src. subscribed c src s' \<longleftrightarrow> VStr src \<in> set xs)
    \<and> (\<forall>d src. d \<noteq> c \<longrightarrow> subscribed d src s' = subscribed d src s)
    \<and> is_lastEvents s' = is_lastEvents s
    \<and> map (\<lambda>w. case w of (d, EventMessage e) \<Rightarrow> Some (d, ev_source e) | _ \<Rightarrow> None) ws
        = map (\<lambda>src. Some (c, src)) (filter (\<lambda>src. is_lastEvents s src \<noteq> None) (source_ids xs))"
proof -
  have inv: "is07_inv s" using assms(1) by (rule is07_reachable_inv)
  from subscription_message [OF assms(3,4,5,2)] assms(6)
  have s': "s' = s\<lparr> is_clients := map_put c (source_ids xs) (is_clients s) \<rparr>"
    and ws: "ws = map (\<lambda>e. (c, EventMessage e)) (List.map_filter (is_lastEvents s) (source_ids xs))" by simp_all
  have ids: "src \<in> set (source_ids ys) \<longleftrightarrow> VStr src \<in> set ys" for src ys
    by (induction ys) (auto simp: source_ids_def List.map_filter_simps elim!: as_string.elims split: option.splits)
  have src: "ev_source e = k" if "is_lastEvents s k = Some e" for k e using inv that by (simp add: is07_inv_def)
  have replay: "map (\<lambda>w. case w of (d, EventMessage e) \<Rightarrow> Some (d, ev_source e) | _ \<Rightarrow> None)
        (map (\<lambda>e. (c, EventMessage e)) (List.map_filter (is_lastEvents s) ks))
      = map (\<lambda>k. Some (c, k)) (filter (\<lambda>k. is_lastEvents s k \<noteq> None) ks)" for ks
    by (induction ks) (auto simp: List.map_filter_simps src split: option.splits)
  show ?thesis using replay [of "source_ids xs"] by (simp add: s' ws subscribed_def ids)
qed

definition cached_client :: is07_state where
  "cached_client = \<lparr> is_clients = [(1, [''s1'']), (2, [])],
     is_lastEvents = [''s1'' \<mapsto> StateEvent ''s1'' ''f1'' ''boolean'' ''now'' (VBool True)], is_health = Map.empty \<rparr>"

lemma cached_client_reachable: "is07_reachable (\<lambda>t. ''now'') cached_client"
proof -
  have "fst (BroadcastEvent (\<lambda>t. ''now'') 5 (\<lambda>c. True) ''s1'' ''f1'' ''boolean'' (VBool True) two_clients) = cached_client"
    by (simp add: BroadcastEvent_def Let_def subscribers_def two_clients_def cached_client_def)
  then have "is07_step (\<lambda>t. ''now'') two_clients
      (snd (BroadcastEvent (\<lambda>t. ''now'') 5 (\<lambda>c. True) ''s1'' ''f1'' ''boolean'' (VBool True) two_clients)) cached_client"
    by (metis is07_step.broadcast prod.collapse)
  then show ?thesis by (rule is07_reachable.step [OF two_clients_reachable])
qed

lemma subscription_replays_state_witness:
  "\<exists>s' ws. ws_message (\<lambda>t. ''now'') 9 2 (subscribe_to [''s0'', ''s1'']) cached_client = (s', ws)
     \<and> map (\<lambda>w. case w of (d, EventMessage e) \<Rightarrow> Some (d, ev_source e) | _ \<Rightarrow> None) ws = [Some (2, ''s1'')]
     \<and> subscribed 2 ''s0'' s'"
proof -
  obtain s' ws where m: "ws_message (\<lambda>t. ''now'') 9 2 (subscribe_to [''s0'', ''s1'']) cached_client = (s', ws)"
    by force
  let ?msg = "[(''command'', VStr ''subscription''), (''sources'', VArr [VStr ''s0'', VStr ''s1''])]"
  have "as_map (any_of_json (subscribe_to [''s0'', ''s1''])) = Some ?msg" by code_simp
  moreover have "field_of ''command'' ?msg = VStr ''subscription''" by code_simp
  moreover have "as_array (field_of ''sources'' ?msg) = Some [VStr ''s0'', VStr ''s1'']" by code_simp
  moreover have "connected 2 cached_client" by (simp add: connected_def cached_client_def)
  ultimately have facts: "(\<forall>src. subscribed 2 src s' \<longleftrightarrow> VStr src \<in> set [VStr ''s0'', VStr ''s1''])
    \<and> map (\<lambda>w. case w of (d, EventMessage e) \<Rightarrow> Some (d, ev_source e) | _ \<Rightarrow> None) ws
        = map (\<lambda>src. Some (2, src)) (filter (\<lambda>src. is_lastEvents cached_client src \<noteq> None) (source_ids [VStr ''s0'', VStr ''s1'']))"
    using subscription_replays_state [OF cached_client_reachable _ _ _ _ m] by blast
  have "filter (\<lambda>src. is_lastEvents cached_client src \<noteq> None) (source_ids [VStr ''s0'', VStr ''s1'']) = [''s1'']"
    by (simp add: cached_client_def source_ids_def List.map_filter_simps)
  with facts m show ?thesis by auto
qed

text \<open>
  After any sequence of heartbeat checks the connections left are those whose last health message was
  at most twelve seconds old at each check, and those that never sent one: a connection without a
  health entry is never closed by the checks.
\<close>

lemma heartbeats_expire:
  "connected c (fold check_heartbeats ts s) \<longleftrightarrow>
     connected c s \<and> (case is_health s c of None \<Rightarrow> True
                      | Some h \<Rightarrow> list_all (\<lambda>t. t - h \<le> 12 * 10 ^ 9) ts)"
proof (induction ts arbitrary: s)
  case (Cons t ts)
  show ?case
    by (cases "is_health s c") (auto simp: Cons.IH connected_heartbeat health_heartbeat is07HeartbeatTimeout_def)
qed (simp split: option.split)

end
