(* ===== verification/Message_Bus.thy ===== *)
theory Message_Bus
  imports Go_Prelude
begin

text \<open>
  The internal message bus (\<open>internal/infrastructure/message_bus.go\<close>): two buffered channels and a
  goroutine that forwards from the one to the other. The goroutine holds the message between its
  two selects. A select with several ready cases may take any of them: the steps are a relation.
\<close>

subsection \<open>Queues\<close>

text \<open>
  The contract of a queue whose steps put a message in, take one out or move messages inside.
  \<open>content\<close> lists the messages inside, oldest first.
\<close>

datatype 'm action = Put 'm | Take 'm | Internal

fun put_of :: "'m action \<Rightarrow> 'm list" where
  "put_of (Put m) = [m]"
| "put_of _ = []"

fun taken_of :: "'m action \<Rightarrow> 'm list" where
  "taken_of (Take m) = [m]"
| "taken_of _ = []"

definition puts :: "'m action list \<Rightarrow> 'm list" where "puts as = concat (map put_of as)"
definition takes :: "'m action list \<Rightarrow> 'm list" where "takes as = concat (map taken_of as)"

inductive runs :: "('s \<Rightarrow> 'm action \<Rightarrow> 's \<Rightarrow> bool) \<Rightarrow> 's \<Rightarrow> 'm action list \<Rightarrow> 's \<Rightarrow> bool" for R where
  halt: "runs R s [] s"
| go: "R s a s1 \<Longrightarrow> runs R s1 as s2 \<Longrightarrow> runs R s (a # as) s2"

lemma runs_append: "runs R s as s1 \<Longrightarrow> runs R s1 bs s2 \<Longrightarrow> runs R s (as @ bs) s2"
  by (induction rule: runs.induct) (auto intro: runs.intros)

locale fifo =
  fixes step :: "'s \<Rightarrow> 'm action \<Rightarrow> 's \<Rightarrow> bool" and content :: "'s \<Rightarrow> 'm list"
  assumes order: "step s a s' \<Longrightarrow> taken_of a @ content s' = content s @ put_of a"
begin

lemma runs_order: "runs step s as s' \<Longrightarrow> takes as @ content s' = content s @ puts as"
proof (induction rule: runs.induct)
  case (halt s)
  show ?case by (simp add: puts_def takes_def)
next
  case (go s a s1 as s2)
  have "takes (a # as) @ content s2 = taken_of a @ content s1 @ puts as"
    using go.IH by (simp add: takes_def)
  also have "\<dots> = content s @ puts (a # as)"
    using order [OF go.hyps(1)] by (simp add: puts_def flip: append_assoc)
  finally show ?case .
qed

end

subsection \<open>A buffered channel\<close>

definition chan_send :: "nat \<Rightarrow> 'm \<Rightarrow> 'm list \<Rightarrow> 'm list option" where
  "chan_send cap m buf = (if length buf < cap then Some (buf @ [m]) else None)"

fun chan_recv :: "'m list \<Rightarrow> ('m \<times> 'm list) option" where
  "chan_recv [] = None"
| "chan_recv (m # buf) = Some (m, buf)"

inductive chan_step :: "nat \<Rightarrow> 'm list \<Rightarrow> 'm action \<Rightarrow> 'm list \<Rightarrow> bool" for cap where
  send: "chan_send cap m buf = Some buf' \<Longrightarrow> chan_step cap buf (Put m) buf'"
| recv: "chan_recv buf = Some (m, buf') \<Longrightarrow> chan_step cap buf (Take m) buf'"

lemma chan_send_Some: "chan_send cap m buf = Some buf' \<longleftrightarrow> length buf < cap \<and> buf' = buf @ [m]"
  by (auto simp: chan_send_def)

lemma chan_recv_Some: "chan_recv buf = Some (m, buf') \<longleftrightarrow> buf = m # buf'"
  by (cases buf) auto

lemma Some_chan_recv: "Some (m, buf') = chan_recv buf \<longleftrightarrow> buf = m # buf'"
  by (cases buf) auto

interpretation chan: fifo "chan_step cap" "\<lambda>buf. buf"
  by unfold_locales (auto elim!: chan_step.cases simp: chan_send_Some chan_recv_Some)

subsection \<open>The bus\<close>

datatype message_type = ShureDeviceMsg | NMOSNodeMsg | IS07EventMsg | NCPPropertyMsg | ResourceUpdateMsg

definition channel_cap :: nat where "channel_cap = 100"

text \<open>
  The forwarder is \<open>Idle\<close> in its outer select, \<open>Holding\<close> a message in the inner one, or \<open>Gone\<close>. Closing is
  cancelling the context, waiting for the forwarder and closing both channels.
\<close>

datatype 'm forwarder = Idle | Holding 'm | Gone

record 'm bus =
  sendChan :: "'m list"
  forwarder :: "'m forwarder"
  receiveChan :: "'m list"
  bus_cancelled :: bool
  bus_closed :: bool

definition NewInMemoryMessageBus :: "'m bus" where
  "NewInMemoryMessageBus =
     \<lparr> sendChan = [], forwarder = Idle, receiveChan = [], bus_cancelled = False, bus_closed = False \<rparr>"

text \<open>
  The cases of the select in \<open>Send\<close> that are ready: none means that the call waits. Sending on
  a closed channel is ready, and panics.
\<close>

datatype 'm send_result = Sent "'m bus" | Canceled | SendPanics

definition bus_Send :: "'m \<Rightarrow> 'm bus \<Rightarrow> 'm send_result list" where
  "bus_Send m b =
     (if bus_closed b then [SendPanics]
      else case chan_send channel_cap m (sendChan b) of
             None \<Rightarrow> [] | Some q \<Rightarrow> [Sent (b\<lparr> sendChan := q \<rparr>)]) @
     (if bus_cancelled b then [Canceled] else [])"

text \<open>\<open>Some None\<close>: the channel is closed and empty.\<close>

definition bus_Receive :: "'m bus \<Rightarrow> ('m option \<times> 'm bus) option" where
  "bus_Receive b =
     (case chan_recv (receiveChan b) of
        Some (m, q) \<Rightarrow> Some (Some m, b\<lparr> receiveChan := q \<rparr>)
      | None \<Rightarrow> if bus_closed b then Some (None, b) else None)"

text \<open>The states the forwarder can step to.\<close>

definition forward :: "'m bus \<Rightarrow> 'm bus list" where
  "forward b =
     (case forwarder b of
        Idle \<Rightarrow> (case chan_recv (sendChan b) of
            Some (m, q) \<Rightarrow> [b\<lparr> sendChan := q, forwarder := Holding m \<rparr>] | None \<Rightarrow> [])
      | Holding m \<Rightarrow> (case chan_send channel_cap m (receiveChan b) of
            Some q \<Rightarrow> [b\<lparr> receiveChan := q, forwarder := Idle \<rparr>] | None \<Rightarrow> [])
      | Gone \<Rightarrow> [])"

definition forwarder_stops :: "'m bus \<Rightarrow> 'm bus list" where
  "forwarder_stops b =
     (if bus_cancelled b \<and> forwarder b \<noteq> Gone then [b\<lparr> forwarder := Gone \<rparr>] else [])"

text \<open>
  \<open>Close\<close>: after the cancellation it waits for the forwarder; closing a channel twice panics,
  which is the answer \<open>Some None\<close>.
\<close>

definition Close_cancel :: "'m bus \<Rightarrow> 'm bus" where
  "Close_cancel b = b\<lparr> bus_cancelled := True \<rparr>"

definition Close_finish :: "'m bus \<Rightarrow> 'm bus option option" where
  "Close_finish b =
     (if forwarder b \<noteq> Gone then None
      else Some (if bus_closed b then None else Some (b\<lparr> bus_closed := True \<rparr>)))"

inductive bus_step :: "'m bus \<Rightarrow> 'm action \<Rightarrow> 'm bus \<Rightarrow> bool" where
  send: "Sent b' \<in> set (bus_Send m b) \<Longrightarrow> bus_step b (Put m) b'"
| receive: "bus_Receive b = Some (Some m, b') \<Longrightarrow> bus_step b (Take m) b'"
| forward: "b' \<in> set (forward b) \<Longrightarrow> bus_step b Internal b'"

text \<open>All that can happen to the bus, closing included.\<close>

inductive bus_life :: "'m bus \<Rightarrow> 'm bus \<Rightarrow> bool" where
  step: "bus_step b a b' \<Longrightarrow> bus_life b b'"
| cancel: "bus_life b (Close_cancel b)"
| stops: "b' \<in> set (forwarder_stops b) \<Longrightarrow> bus_life b b'"
| finish: "Close_finish b = Some (Some b') \<Longrightarrow> bus_cancelled b \<Longrightarrow> bus_life b b'"

inductive_cases bus_lifeE: "bus_life b b'"

fun held :: "'m forwarder \<Rightarrow> 'm list" where
  "held (Holding m) = [m]"
| "held _ = []"

definition in_flight :: "'m bus \<Rightarrow> 'm list" where
  "in_flight b = receiveChan b @ held (forwarder b) @ sendChan b"

text \<open>What each operation of the bus does, from the laws of the channels.\<close>

lemma bus_Send_Sent: "Sent b' \<in> set (bus_Send m b) \<longleftrightarrow>
    \<not> bus_closed b \<and> length (sendChan b) < channel_cap \<and> b' = b\<lparr> sendChan := sendChan b @ [m] \<rparr>"
  by (auto simp: bus_Send_def chan_send_def)

lemma bus_Receive_Some: "bus_Receive b = Some (Some m, b') \<longleftrightarrow>
    (\<exists>q. receiveChan b = m # q \<and> b' = b\<lparr> receiveChan := q \<rparr>)"
  by (cases "receiveChan b") (auto simp: bus_Receive_def)

lemma forward_cases:
  assumes "b' \<in> set (forward b)"
  obtains (take) m q where "forwarder b = Idle" "sendChan b = m # q"
      "b' = b\<lparr> sendChan := q, forwarder := Holding m \<rparr>"
    | (give) m where "forwarder b = Holding m" "length (receiveChan b) < channel_cap"
      "b' = b\<lparr> receiveChan := receiveChan b @ [m], forwarder := Idle \<rparr>"
  using assms by (auto simp: forward_def chan_send_def chan_recv_Some Some_chan_recv split: forwarder.splits option.splits if_splits)

interpretation msg_bus: fifo bus_step in_flight
proof
  fix b b' :: "'m bus" and a
  assume "bus_step b a b'"
  then show "taken_of a @ in_flight b' = in_flight b @ put_of a"
  proof cases
    case forward
    from forward(2) show ?thesis by (cases rule: forward_cases) (simp_all add: in_flight_def forward(1))
  qed (auto simp: in_flight_def bus_Send_Sent bus_Receive_Some)
qed

definition bus_ok :: "'m bus \<Rightarrow> bool" where
  "bus_ok b \<longleftrightarrow> length (sendChan b) \<le> channel_cap \<and> length (receiveChan b) \<le> channel_cap \<and>
     (bus_closed b \<longrightarrow> bus_cancelled b \<and> forwarder b = Gone) \<and> (forwarder b = Gone \<longrightarrow> bus_cancelled b)"

lemma bus_step_ok:
  assumes "bus_step b a b'" "bus_ok b"
  shows "bus_ok b' \<and> bus_cancelled b' = bus_cancelled b"
  using assms(1)
proof cases
  case forward
  from forward(2) show ?thesis using assms(2) by (cases rule: forward_cases) (auto simp: bus_ok_def)
qed (use assms(2) in \<open>auto simp: bus_ok_def bus_Send_Sent bus_Receive_Some\<close>)

lemma bus_life_ok: "bus_life b b' \<Longrightarrow> bus_ok b \<Longrightarrow> bus_ok b'"
  by (erule bus_lifeE)
    (auto dest: bus_step_ok simp: bus_ok_def Close_cancel_def Close_finish_def forwarder_stops_def split: if_splits)

lemma new_bus_ok: "bus_ok NewInMemoryMessageBus"
  by (simp add: bus_ok_def NewInMemoryMessageBus_def)

lemma runs_ok: "runs bus_step b as b' \<Longrightarrow> bus_ok b \<Longrightarrow> bus_ok b' \<and> bus_cancelled b' = bus_cancelled b"
proof (induction rule: runs.induct)
  case (go s a s1 as s2)
  from bus_step_ok [OF go.hyps(1) go.prems] go.IH show ?case by simp
qed simp

lemma in_flight_bound: "bus_ok b \<Longrightarrow> length (in_flight b) \<le> 201"
  by (cases "forwarder b") (auto simp: bus_ok_def in_flight_def channel_cap_def)

subsection \<open>What the bus promises\<close>

lemma new_bus_flight: "in_flight NewInMemoryMessageBus = []"
  by (simp add: in_flight_def NewInMemoryMessageBus_def)

text \<open>
  C28. Until the bus is closed, whatever the interleaving of its users with the forwarder: the
  messages received so far, followed by the ones in flight, are the messages sent, in the
  order they were sent, and at most 201 are in flight.
\<close>

theorem bus_fifo:
  assumes "runs bus_step NewInMemoryMessageBus as b"
  shows "takes as @ in_flight b = puts as \<and> length (in_flight b) \<le> 201"
  using msg_bus.runs_order [OF assms] runs_ok [OF assms new_bus_ok] in_flight_bound [of b]
  by (simp add: new_bus_flight)

definition sample_run :: "nat action list" where
  "sample_run = [Put 7, Put 8, Internal, Internal, Take 7]"

lemma bus_go: "bus_step b a b1 \<Longrightarrow> runs bus_step b1 as b2 \<Longrightarrow> runs bus_step b (a # as) b2"
  by (rule runs.go)

lemma sample_run_runs:
  "runs bus_step NewInMemoryMessageBus sample_run (NewInMemoryMessageBus\<lparr> sendChan := [8] \<rparr>)"
proof -
  let ?b = "NewInMemoryMessageBus :: nat bus"
  note simps = bus_Send_Sent bus_Receive_Some forward_def chan_send_def channel_cap_def NewInMemoryMessageBus_def
  have "bus_step ?b (Put 7) (?b\<lparr> sendChan := [7] \<rparr>)"
    by (rule bus_step.send) (simp add: simps)
  moreover have "bus_step (?b\<lparr> sendChan := [7] \<rparr>) (Put 8) (?b\<lparr> sendChan := [7, 8] \<rparr>)"
    by (rule bus_step.send) (simp add: simps)
  moreover have "bus_step (?b\<lparr> sendChan := [7, 8] \<rparr>) Internal (?b\<lparr> sendChan := [8], forwarder := Holding 7 \<rparr>)"
    by (rule bus_step.forward) (simp add: simps)
  moreover have "bus_step (?b\<lparr> sendChan := [8], forwarder := Holding 7 \<rparr>) Internal
      (?b\<lparr> sendChan := [8], receiveChan := [7] \<rparr>)"
    by (rule bus_step.forward) (simp add: simps)
  moreover have "bus_step (?b\<lparr> sendChan := [8], receiveChan := [7] \<rparr>) (Take 7) (?b\<lparr> sendChan := [8] \<rparr>)"
    by (rule bus_step.receive) (simp add: simps)
  ultimately show ?thesis unfolding sample_run_def by (blast intro: bus_go runs.halt)
qed

theorem bus_fifo_witness:
  "takes sample_run @ in_flight (NewInMemoryMessageBus\<lparr> sendChan := [8] \<rparr>) = [7, 8]"
  using bus_fifo [OF sample_run_runs] by (simp add: puts_def sample_run_def)

lemma drain:
  assumes "bus_ok b" "\<not> bus_cancelled b"
  shows "\<exists>as b'. runs bus_step b as b' \<and> puts as = [] \<and> in_flight b' = []"
  using assms
proof (induction "3 * length (sendChan b) + 2 * length (held (forwarder b)) + length (receiveChan b)"
    arbitrary: b rule: less_induct)
  case less
  have go: ?case if "bus_step b a b1" "put_of a = []"
    "3 * length (sendChan b1) + 2 * length (held (forwarder b1)) + length (receiveChan b1) <
     3 * length (sendChan b) + 2 * length (held (forwarder b)) + length (receiveChan b)" for a b1
  proof -
    have "bus_ok b1 \<and> bus_cancelled b1 = bus_cancelled b"
      using bus_step_ok [OF that(1) less.prems(1)] .
    with less.hyps [OF that(3)] less.prems(2)
    obtain as b' where "runs bus_step b1 as b'" "puts as = []" "in_flight b' = []" by blast
    with bus_go [OF that(1)] that(2) show ?thesis
      by (intro exI [of _ "a # as"] exI [of _ b']) (simp add: puts_def)
  qed
  have alive: "forwarder b \<noteq> Gone" using less.prems by (simp add: bus_ok_def)
  show ?case
  proof (cases "receiveChan b")
    case (Cons m q)
    then have "bus_step b (Take m) (b\<lparr> receiveChan := q \<rparr>)" by (simp add: bus_step.receive bus_Receive_Some)
    then show ?thesis by (rule go) (simp_all add: Cons)
  next
    case recv: Nil
    show ?thesis
    proof (cases "forwarder b")
      case (Holding m)
      have "bus_step b Internal (b\<lparr> receiveChan := [m], forwarder := Idle \<rparr>)"
        by (rule bus_step.forward) (simp add: forward_def Holding recv chan_send_def channel_cap_def)
      then show ?thesis by (rule go) (simp_all add: Holding recv)
    next
      case Idle
      show ?thesis
      proof (cases "sendChan b")
        case Nil
        with Idle recv have "in_flight b = []" by (simp add: in_flight_def)
        with runs.halt [of bus_step b] show ?thesis by (intro exI [of _ "[]"] exI [of _ b]) (simp add: puts_def)
      next
        case (Cons m q)
        have "bus_step b Internal (b\<lparr> sendChan := q, forwarder := Holding m \<rparr>)"
          by (rule bus_step.forward) (simp add: forward_def Idle Cons)
        then show ?thesis by (rule go) (simp_all add: Idle Cons)
      qed
    qed (use alive in simp)
  qed
qed

text \<open>
  No message is stuck before the bus is closed: from every state it can be in, without any
  further Send, the messages in flight can all be received, in order.
\<close>

lemma bus_delivers:
  assumes "runs bus_step NewInMemoryMessageBus as b"
  shows "\<exists>bs b'. runs bus_step b bs b' \<and> puts bs = [] \<and> takes bs = in_flight b \<and> in_flight b' = []"
proof -
  have "bus_ok b" "\<not> bus_cancelled b"
    using runs_ok [OF assms new_bus_ok] by (simp_all add: NewInMemoryMessageBus_def)
  then obtain bs b' where r: "runs bus_step b bs b'" and "puts bs = []" "in_flight b' = []"
    using drain by blast
  with msg_bus.runs_order [OF r] show ?thesis by auto
qed

lemma bus_delivers_witness:
  "\<exists>bs b'. runs bus_step (NewInMemoryMessageBus\<lparr> sendChan := [8::nat] \<rparr>) bs b' \<and> takes bs = [8]"
  using bus_delivers [OF sample_run_runs] by (auto simp: in_flight_def NewInMemoryMessageBus_def)

text \<open>
  Once Close has returned, a Send never takes the message: its select has two ready cases, the
  cancelled context, which answers an error, and the closed channel, which panics. Closing once
  more panics, and what was not forwarded stays in the bus for good.
\<close>

lemma closed_bus_send_can_panic:
  assumes "bus_life\<^sup>*\<^sup>* NewInMemoryMessageBus b" "bus_closed b"
  shows "set (bus_Send m b) = {SendPanics, Canceled} \<and> Close_finish b = Some None \<and>
    (\<forall>b'. bus_life b b' \<longrightarrow> sendChan b' = sendChan b)"
proof -
  from assms(1) have "bus_ok b" by (induction rule: rtranclp_induct) (simp_all add: new_bus_ok bus_life_ok)
  with assms(2) have c: "bus_cancelled b" "forwarder b = Gone" by (simp_all add: bus_ok_def)
  moreover have "sendChan b' = sendChan b" if "bus_life b b'" for b'
    using that
  proof cases
    case (step a)
    then show ?thesis
      by cases (use assms(2) c in \<open>auto simp: bus_Send_Sent bus_Receive_Some forward_def\<close>)
  qed (use assms(2) c in \<open>auto simp: Close_cancel_def forwarder_stops_def Close_finish_def\<close>)
  ultimately show ?thesis using assms(2) by (auto simp: bus_Send_def Close_finish_def)
qed

definition closed_bus :: "nat bus" where
  "closed_bus = NewInMemoryMessageBus\<lparr> bus_cancelled := True, forwarder := Gone, bus_closed := True \<rparr>"

lemma closed_bus_send_can_panic_witness:
  "set (bus_Send 5 closed_bus) = {SendPanics, Canceled}"
proof -
  let ?c = "Close_cancel NewInMemoryMessageBus :: nat bus"
  have "bus_life NewInMemoryMessageBus ?c" by (rule bus_life.cancel)
  moreover have "bus_life ?c (?c\<lparr> forwarder := Gone \<rparr>)"
    by (rule bus_life.stops) (simp add: forwarder_stops_def Close_cancel_def NewInMemoryMessageBus_def)
  moreover have "bus_life (?c\<lparr> forwarder := Gone \<rparr>) closed_bus"
    by (rule bus_life.finish) (simp_all add: Close_finish_def Close_cancel_def NewInMemoryMessageBus_def closed_bus_def)
  ultimately have "bus_life\<^sup>*\<^sup>* NewInMemoryMessageBus closed_bus" by simp
  then show ?thesis by (rule closed_bus_send_can_panic [THEN conjunct1]) (simp add: closed_bus_def)
qed

end
