(* ===== verification/Shure_Link.thy ===== *)
theory Shure_Link
  imports Tpci_Parse
begin

text \<open>
  The connection to one receiver (\<open>internal/infrastructure/shure_controller_impl.go\<close>): the framing of
  what it sends, the commands sent to it, and the lifecycle of the controller with its two
  goroutines.
\<close>

subsection \<open>Reading events\<close>

text \<open>\<open>ReadString\<close> up to and with the closing bracket; \<open>None\<close>: the stream ends before it.\<close>

fun read_string :: "string \<Rightarrow> (string \<times> string) option" where
  "read_string [] = None"
| "read_string (c # s) =
     (if c = CHR ''>'' then Some ([c], s)
      else map_option (\<lambda>(line, rest). (c # line, rest)) (read_string s))"

definition clean_message :: "string \<Rightarrow> string option" where
  "clean_message line =
     (let msg = trim_space line in
      if has_prefix msg ''<'' then Some msg
      else map_option (\<lambda>start. drop start msg) (str_index msg ''<''))"

lemma read_string_shorter: "read_string s = Some (line, rest) \<Longrightarrow> length rest < length s"
  by (induction s arbitrary: line rest) (auto split: if_splits)

text \<open>The events sent for a stream, up to its end.\<close>

function readEvents :: "string \<Rightarrow> TPCIReport list" where
  "readEvents stream =
     (case read_string stream of
        None \<Rightarrow> []
      | Some (line, rest) \<Rightarrow>
          (case clean_message line of
             None \<Rightarrow> readEvents rest
           | Some msg \<Rightarrow>
               (case ParseTPCIResponse msg of
                  None \<Rightarrow> readEvents rest
                | Some event \<Rightarrow> event # readEvents rest)))"
  by auto
termination by (relation "measure length") (auto simp: read_string_shorter)

declare readEvents.simps [simp del]

lemma read_string_line: "CHR ''>'' \<notin> set s \<Longrightarrow> read_string (s @ ''>'' @ rest) = Some (s @ ''>'', rest)"
  by (induction s) auto

lemma read_string_none: "CHR ''>'' \<notin> set s \<Longrightarrow> read_string s = None"
  by (induction s) auto

lemma str_index_byte: "c \<notin> set a \<Longrightarrow> str_index (a @ c # b) [c] = Some (length a)"
  by (induction a) (auto simp: has_prefix_def)

lemma dropWhile_split:
  "\<exists>a2. dropWhile p (a @ c # b) = a2 @ c # b \<and> set a2 \<subseteq> set a" if "\<not> p c" for p a b c
  using that by (induction a) auto

lemma clean_message_framed:
  assumes "CHR ''<'' \<notin> set noise"
  shows "clean_message (noise @ ''<'' @ body @ ''>'') = Some (''<'' @ body @ ''>'')"
proof -
  have "\<not> is_space (CHR ''<'')" "\<not> is_space (CHR ''>'')" by (simp_all add: is_space_def)
  moreover from this obtain n2 where n2: "dropWhile is_space (noise @ CHR ''<'' # body @ ''>'') = n2 @ CHR ''<'' # body @ ''>''"
    "set n2 \<subseteq> set noise"
    using dropWhile_split [of is_space "CHR ''<''" noise "body @ ''>''"] by blast
  ultimately have t: "trim_space (noise @ ''<'' @ body @ ''>'') = n2 @ CHR ''<'' # body @ ''>''"
    by (simp add: trim_space_def trim_left_def trim_right_def)
  from n2(2) assms have "CHR ''<'' \<notin> set n2" by blast
  then have "str_index (n2 @ CHR ''<'' # body @ ''>'') ''<'' = Some (length n2)" by (rule str_index_byte)
  moreover have "has_prefix (n2 @ CHR ''<'' # body @ ''>'') ''<'' \<longleftrightarrow> n2 = []"
    using \<open>CHR ''<'' \<notin> set n2\<close> by (cases n2) (auto simp: has_prefix_def)
  ultimately show ?thesis unfolding clean_message_def t by (cases "n2 = []") simp_all
qed

subsection \<open>Sending commands\<close>

datatype command = CmdString string | CmdStringer string | CmdOther

datatype send_error = NotRunning | NoConnection | UnsupportedType | WriteFailed | FlushFailed

text \<open>
  \<open>wr\<close> and \<open>fl\<close>: whether writing the text and flushing succeed. The answer has the error and the text given to the
  writer.
\<close>

definition SendCommand ::
  "bool \<Rightarrow> bool \<Rightarrow> (string \<Rightarrow> bool) \<Rightarrow> (string \<Rightarrow> bool) \<Rightarrow> command \<Rightarrow> send_error option \<times> string option" where
  "SendCommand isRunning hasConn wr fl cmd =
     (if \<not> isRunning then (Some NotRunning, None)
      else if \<not> hasConn then (Some NoConnection, None)
      else case (case cmd of CmdString s \<Rightarrow> Some s | CmdStringer s \<Rightarrow> Some s | CmdOther \<Rightarrow> None) of
             None \<Rightarrow> (Some UnsupportedType, None)
           | Some s \<Rightarrow>
               (let text = (if has_suffix s [CHR 0x0A] then s else s @ [CHR 0x0A]) in
                if \<not> wr text then (Some WriteFailed, Some text)
                else if \<not> fl text then (Some FlushFailed, Some text)
                else (None, Some text)))"

subsection \<open>Lifecycle\<close>

text \<open>
  The two kinds of goroutine are counted, and the calls of \<open>Stop\<close> that wait for them. A read can
  fail at any time, so a reader can return at any time. All calls share one context.
\<close>

record link =
  lk_isRunning :: bool
  lk_conn :: "bool option"
  lk_done :: bool
  lk_events :: bool
  lk_readers :: nat
  lk_watchers :: nat
  lk_stopping :: nat
  lk_cancelled :: bool

datatype link_action =
    StartConnects | StartFails | ContextDone | WatcherWakes | ReaderReturns | StopCalled | StopFinishes

datatype link_result = Goes link | Waits | Panics

definition NewShureController :: link where
  "NewShureController =
     \<lparr> lk_isRunning = False, lk_conn = None, lk_done = False, lk_events = False,
       lk_readers = 0, lk_watchers = 0, lk_stopping = 0, lk_cancelled = False \<rparr>"

definition signalDone :: "link \<Rightarrow> link_result" where
  "signalDone l =
     (let l1 = l\<lparr> lk_isRunning := False \<rparr> in
      if lk_done l1 then Panics else Goes (l1\<lparr> lk_done := True \<rparr>))"

fun link_step :: "link_action \<Rightarrow> link \<Rightarrow> link_result" where
  "link_step StartConnects l =
     (if lk_isRunning l then Goes l
      else Goes (l\<lparr> lk_conn := Some True, lk_isRunning := True,
                    lk_readers := lk_readers l + 1, lk_watchers := lk_watchers l + 1 \<rparr>))"
| "link_step StartFails l = Goes l"
| "link_step ContextDone l = Goes (l\<lparr> lk_cancelled := True \<rparr>)"
| "link_step WatcherWakes l =
     (if lk_watchers l = 0 \<or> \<not> lk_cancelled l then Waits
      else signalDone (l\<lparr> lk_watchers := lk_watchers l - 1 \<rparr>))"
| "link_step ReaderReturns l =
     (if lk_readers l = 0 then Waits else Goes (l\<lparr> lk_readers := lk_readers l - 1 \<rparr>))"
| "link_step StopCalled l =
     (if \<not> lk_isRunning l then Goes l
      else case signalDone l of
             Goes l1 \<Rightarrow> Goes (l1\<lparr> lk_conn := map_option (\<lambda>_. False) (lk_conn l1),
                                   lk_stopping := lk_stopping l1 + 1 \<rparr>)
           | r \<Rightarrow> r)"
| "link_step StopFinishes l =
     (if lk_stopping l = 0 \<or> lk_readers l + lk_watchers l > 0 then Waits
      else if lk_events l then Panics
      else Goes (l\<lparr> lk_events := True, lk_stopping := lk_stopping l - 1 \<rparr>))"

inductive link_reachable :: "link \<Rightarrow> bool" where
  start: "link_reachable NewShureController"
| step: "link_reachable l \<Longrightarrow> link_step a l = Goes l' \<Longrightarrow> link_reachable l'"

definition link_inv :: "link \<Rightarrow> bool" where
  "link_inv l \<longleftrightarrow> \<not> lk_events l \<and> (lk_isRunning l \<longrightarrow> 0 < lk_watchers l) \<and>
     (0 < lk_stopping l \<longrightarrow> 0 < lk_watchers l \<and> lk_done l)"

lemma link_step_inv: "link_step a l = Goes l' \<Longrightarrow> link_inv l \<Longrightarrow> link_inv l'"
  by (cases a) (auto simp: link_inv_def signalDone_def Let_def split: if_split_asm)

lemma link_reachable_inv: "link_reachable l \<Longrightarrow> link_inv l"
proof (induction rule: link_reachable.induct)
  case start
  show ?case by (simp add: link_inv_def NewShureController_def)
next
  case (step l a l')
  show ?case using step.hyps(2) step.IH by (rule link_step_inv)
qed

subsection \<open>Properties\<close>

text \<open>
  C29. The reader finds every message of the stream, in order, whatever stands between them: text
  without brackets before a message and an unfinished message at the end are skipped. Its
  events are the reports of the messages that parse.
\<close>

theorem readEvents_frames:
  assumes "list_all (\<lambda>(noise, body). CHR ''<'' \<notin> set noise \<and> CHR ''>'' \<notin> set (noise @ body)) ms"
    and "CHR ''>'' \<notin> set tail"
  shows "readEvents (concat (map (\<lambda>(noise, body). noise @ ''<'' @ body @ ''>'') ms) @ tail) =
    List.map_filter (\<lambda>(noise, body). ParseTPCIResponse (''<'' @ body @ ''>'')) ms"
  using assms(1)
proof (induction ms)
  case Nil
  show ?case using assms(2)
    by (subst readEvents.simps) (simp add: read_string_none List.map_filter_simps)
next
  case (Cons m ms)
  obtain noise body where m: "m = (noise, body)" by (cases m)
  let ?rest = "concat (map (\<lambda>(noise, body). noise @ ''<'' @ body @ ''>'') ms) @ tail"
  from Cons.prems m have "read_string ((noise @ ''<'' @ body) @ ''>'' @ ?rest) = Some ((noise @ ''<'' @ body) @ ''>'', ?rest)"
    by (intro read_string_line) simp
  moreover from Cons.prems m have "clean_message (noise @ ''<'' @ body @ ''>'') = Some (''<'' @ body @ ''>'')"
    by (intro clean_message_framed) simp
  ultimately show ?case using Cons.IH Cons.prems
    by (subst readEvents.simps) (simp add: m List.map_filter_simps split: option.split)
qed

theorem readEvents_frames_witness:
  "map tr_Value (readEvents (''x < REP 1 AUDIO_GAIN 030 >  < REP 1 FREQUENCY 578350 >< RE'')) = [''030'', ''578350'']"
proof -
  have "readEvents (concat (map (\<lambda>(noise, body). noise @ ''<'' @ body @ ''>'')
          [(''x '', '' REP 1 AUDIO_GAIN 030 ''), (''  '', '' REP 1 FREQUENCY 578350 '')]) @ ''< RE'') =
    List.map_filter (\<lambda>(noise, body). ParseTPCIResponse (''<'' @ body @ ''>''))
          [(''x '', '' REP 1 AUDIO_GAIN 030 ''), (''  '', '' REP 1 FREQUENCY 578350 '')]"
    by (rule readEvents_frames) simp_all
  moreover have "map tr_Value (List.map_filter (\<lambda>(noise, body). ParseTPCIResponse (''<'' @ body @ ''>''))
          [(''x '', '' REP 1 AUDIO_GAIN 030 ''), (''  '', '' REP 1 FREQUENCY 578350 '')]) = [''030'', ''578350'']"
    by code_simp
  ultimately show ?thesis by simp
qed

text \<open>
  C30. Stopping a controller never completes. In every reachable state a call of Stop that waits
  cannot finish, because the goroutine that watches the context still runs; when that context
  is cancelled the goroutine closes the done channel a second time, which panics. A Stop that comes
  after the context was handled does nothing, and leaves the connection as it is.
\<close>

theorem stop_never_completes:
  assumes "link_reachable l"
  shows "link_step StopFinishes l = Waits \<and> \<not> lk_events l \<and>
    (0 < lk_stopping l \<longrightarrow> link_step WatcherWakes (l\<lparr> lk_cancelled := True \<rparr>) = Panics) \<and>
    (\<not> lk_isRunning l \<longrightarrow> link_step StopCalled l = Goes l)"
  using link_reachable_inv [OF assms] by (auto simp: link_inv_def signalDone_def)

definition stopping_link :: link where
  "stopping_link =
     \<lparr> lk_isRunning = False, lk_conn = Some False, lk_done = True, lk_events = False,
       lk_readers = 1, lk_watchers = 1, lk_stopping = 1, lk_cancelled = False \<rparr>"

theorem stop_never_completes_witness:
  "link_step StopFinishes stopping_link = Waits \<and>
   link_step WatcherWakes (stopping_link\<lparr> lk_cancelled := True \<rparr>) = Panics"
proof -
  let ?l = "NewShureController\<lparr> lk_conn := Some True, lk_isRunning := True, lk_readers := 1, lk_watchers := 1 \<rparr>"
  have "link_reachable ?l"
    by (rule link_reachable.step [OF link_reachable.start, of StartConnects]) (simp add: NewShureController_def)
  then have "link_reachable stopping_link"
    by (rule link_reachable.step [of _ StopCalled])
      (simp add: NewShureController_def stopping_link_def signalDone_def)
  from stop_never_completes [OF this] show ?thesis by (simp add: stopping_link_def)
qed

text \<open>
  A command that SendCommand reports as sent was written on a running controller with a connection, as a
  text with exactly one line feed added if it had none at its end; a command that is neither
  a string nor has a String method is never written.
\<close>

lemma SendCommand_sent:
  assumes "SendCommand isRunning hasConn wr fl cmd = (e, out)"
  shows "(e = None \<longleftrightarrow> (\<exists>text. out = Some text \<and> wr text \<and> fl text)) \<and>
    (\<forall>text. out = Some text \<longrightarrow> isRunning \<and> hasConn \<and> has_suffix text [CHR 0x0A] \<and>
      (\<exists>s. (cmd = CmdString s \<or> cmd = CmdStringer s) \<and>
        text = (if has_suffix s [CHR 0x0A] then s else s @ [CHR 0x0A])))"
  using assms
  by (auto simp: SendCommand_def Let_def has_suffix_def split: if_split_asm command.splits)

lemma SendCommand_sent_witness:
  "SendCommand True True (\<lambda>_. True) (\<lambda>_. True) (CmdString ''< GET MODEL >'') =
     (None, Some (''< GET MODEL >'' @ [CHR 0x0A]))
   \<and> has_suffix (''< GET MODEL >'' @ [CHR 0x0A]) [CHR 0x0A]"
proof -
  have s: "SendCommand True True (\<lambda>_. True) (\<lambda>_. True) (CmdString ''< GET MODEL >'') =
     (None, Some (''< GET MODEL >'' @ [CHR 0x0A]))" by code_simp
  from SendCommand_sent [OF s] s show ?thesis by blast
qed

end
