(* ===== verification/Nmos_Resources.thy ===== *)
theory Nmos_Resources
  imports Go_Values "HOL-Library.List_Lexorder" "HOL-Library.Char_ord" "HOL-Library.Word"
begin

text \<open>
  The resources of the node (IS-04) in \<open>internal/infrastructure/nmos_controller.go\<close>: their store, the lists
  of senders and receivers of a device, the registration with the registry and the
  unregistration.

  A resource is a map of type \<open>interface{}\<close>; the lock is part of the state. A call is followed on
  one goroutine that starts with the lock free, so waiting for the lock while holding it is a
  deadlock. What the registry answers is a parameter where the code depends on it.
\<close>

subsection \<open>State and lock\<close>

datatype lock = Unlocked | WriteLocked | ReadLocked nat

record nmos_state =
  mu :: lock
  resources :: "string \<Rightarrow> goval list"
  has_db :: bool
  upserts :: "(string \<times> string \<times> goval list) list"
  posts :: "(string \<times> goval) list"
  async_posts :: "(string \<times> goval) list"
  updates :: "(string \<times> goval) list"
  peerToPeerMode :: bool
  versionCounters :: "string \<Rightarrow> 8 word"
  isRunning :: bool
  registered :: bool
  nodeID :: string
  nodes :: "goval list"

datatype ('s, 'a) run = Done 's 'a | Deadlock 's | FatalError

fun run_bind :: "('s, 'a) run \<Rightarrow> ('s \<Rightarrow> 'a \<Rightarrow> ('s, 'b) run) \<Rightarrow> ('s, 'b) run" where
  "run_bind (Done s a) f = f s a"
| "run_bind (Deadlock s) f = Deadlock s"
| "run_bind FatalError f = FatalError"

definition mu_Lock :: "nmos_state \<Rightarrow> (nmos_state, unit) run" where
  "mu_Lock s = (if mu s = Unlocked then Done (s\<lparr> mu := WriteLocked \<rparr>) () else Deadlock s)"

definition mu_Unlock :: "nmos_state \<Rightarrow> (nmos_state, unit) run" where
  "mu_Unlock s = (if mu s = WriteLocked then Done (s\<lparr> mu := Unlocked \<rparr>) () else FatalError)"

definition mu_RLock :: "nmos_state \<Rightarrow> (nmos_state, unit) run" where
  "mu_RLock s =
     (case mu s of
        Unlocked \<Rightarrow> Done (s\<lparr> mu := ReadLocked 1 \<rparr>) ()
      | ReadLocked n \<Rightarrow> Done (s\<lparr> mu := ReadLocked (n + 1) \<rparr>) ()
      | WriteLocked \<Rightarrow> Deadlock s)"

definition mu_RUnlock :: "nmos_state \<Rightarrow> (nmos_state, unit) run" where
  "mu_RUnlock s =
     (case mu s of
        ReadLocked n \<Rightarrow> Done (s\<lparr> mu := (if n \<le> 1 then Unlocked else ReadLocked (n - 1)) \<rparr>) ()
      | _ \<Rightarrow> FatalError)"

subsection \<open>Names of resource types\<close>

definition toSingular :: "string \<Rightarrow> string" where
  "toSingular t =
     (if t = ''nodes'' then ''node'' else if t = ''devices'' then ''device''
      else if t = ''sources'' then ''source'' else if t = ''flows'' then ''flow''
      else if t = ''senders'' then ''sender'' else if t = ''receivers'' then ''receiver'' else t)"

definition toPlural :: "string \<Rightarrow> string" where
  "toPlural t =
     (if t = ''node'' then ''nodes'' else if t = ''device'' then ''devices''
      else if t = ''source'' then ''sources'' else if t = ''flow'' then ''flows''
      else if t = ''sender'' then ''senders'' else if t = ''receiver'' then ''receivers'' else t)"

subsection \<open>Fields of a resource\<close>

text \<open>A nil map or slice is \<open>None\<close>.\<close>

definition getStringField :: "(string \<times> goval) list \<Rightarrow> string \<Rightarrow> string" where
  "getStringField m key = (case as_string (field_of key m) of Some s \<Rightarrow> s | None \<Rightarrow> [])"

definition getMapField :: "(string \<times> goval) list \<Rightarrow> string \<Rightarrow> (string \<times> goval) list option" where
  "getMapField m key = as_map (field_of key m)"

definition string_items :: "goval list \<Rightarrow> string list" where
  "string_items xs = List.map_filter as_string xs"

fun as_strings :: "goval \<Rightarrow> string list option" where
  "as_strings (VStrs ss) = Some ss"
| "as_strings (VArr xs) = Some (string_items xs)"
| "as_strings v = None"

definition getStringSliceField :: "(string \<times> goval) list \<Rightarrow> string \<Rightarrow> string list option" where
  "getStringSliceField m key = as_strings (field_of key m)"

definition getInterfaceSliceField :: "(string \<times> goval) list \<Rightarrow> string \<Rightarrow> goval list option" where
  "getInterfaceSliceField m key = as_array (field_of key m)"

fun as_int :: "goval \<Rightarrow> int option" where
  "as_int (VInt i) = Some i"
| "as_int v = None"

fun as_int_map :: "goval \<Rightarrow> (string \<times> int) list option" where
  "as_int_map (VIntMap m) = Some m"
| "as_int_map (VMap m) = Some (List.map_filter (\<lambda>(k, v). map_option (Pair k) (as_int v)) m)"
| "as_int_map v = None"

definition getIntMapField :: "(string \<times> goval) list \<Rightarrow> string \<Rightarrow> (string \<times> int) list option" where
  "getIntMapField m key = as_int_map (field_of key m)"

definition getMapSliceField :: "(string \<times> goval) list \<Rightarrow> string \<Rightarrow> (string \<times> goval) list list option" where
  "getMapSliceField m key = as_maps (field_of key m)"

text \<open>
  The copy of a resource for the registry. A nil field is the invalid value of \<open>reflect\<close>, and setting a
  key to it deletes the key.
\<close>

fun deepcopy_value :: "goval \<Rightarrow> goval option" where
  "deepcopy_value VNil = None"
| "deepcopy_value (VMap m) =
     Some (VMap (concat (map (\<lambda>(k, v). case deepcopy_value v of None \<Rightarrow> [] | Some w \<Rightarrow> [(k, w)]) m)))"
| "deepcopy_value v = Some v"

text \<open>\<open>None\<close>: the error for a value that is no map with string keys.\<close>

fun deepcopy :: "goval \<Rightarrow> goval option" where
  "deepcopy (VMap m) = deepcopy_value (VMap m)"
| "deepcopy (VIntMap m) = Some (VIntMap m)"
| "deepcopy v = None"

subsection \<open>The store\<close>

definition has_id :: "string \<Rightarrow> goval \<Rightarrow> bool" where
  "has_id i r \<longleftrightarrow> (case as_map r of None \<Rightarrow> False | Some m \<Rightarrow> field_of ''id'' m = VStr i)"

text \<open>Replace the first resource with the id, append when there is none.\<close>

fun store_resource :: "string \<Rightarrow> goval \<Rightarrow> goval list \<Rightarrow> goval list" where
  "store_resource i res [] = [res]"
| "store_resource i res (r # rs) = (if has_id i r then res # rs else r # store_resource i res rs)"

fun find_resource :: "string \<Rightarrow> goval list \<Rightarrow> goval option" where
  "find_resource i [] = None"
| "find_resource i (r # rs) = (if has_id i r then Some r else find_resource i rs)"

text \<open>The list of senders or receivers of a device: the new map, and whether the id was added.\<close>

definition current_ids :: "goval \<Rightarrow> string list" where
  "current_ids v = (case as_strings v of Some ss \<Rightarrow> ss | None \<Rightarrow> [])"

definition add_to_list :: "string \<Rightarrow> string \<Rightarrow> (string \<times> goval) list \<Rightarrow> (string \<times> goval) list \<times> bool" where
  "add_to_list key i m =
     (let m1 = (if map_of m key = None then map_put key (VStrs []) m else m);
          ids = current_ids (field_of key m1) in
      if i \<in> set ids then (m1, False) else (map_put key (VStrs (ids @ [i])) m1, True))"

fun add_to_device :: "string \<Rightarrow> string \<Rightarrow> string \<Rightarrow> goval list \<Rightarrow> goval list \<times> goval option" where
  "add_to_device key deviceID i [] = ([], None)"
| "add_to_device key deviceID i (d # ds) =
     (if has_id deviceID d then
        (case add_to_list key i (case as_map d of Some m \<Rightarrow> m | None \<Rightarrow> []) of
           (m', added) \<Rightarrow> (VMap m' # ds, if added then Some (VMap m') else None))
      else (case add_to_device key deviceID i ds of (ds', r) \<Rightarrow> (d # ds', r)))"

subsection \<open>Registration\<close>

definition str_opt :: "string list option \<Rightarrow> goval" where
  "str_opt x = (case x of None \<Rightarrow> VNil | Some ss \<Rightarrow> VStrs ss)"

definition map_opt :: "(string \<times> goval) list option \<Rightarrow> goval" where
  "map_opt x = (case x of None \<Rightarrow> VNil | Some m \<Rightarrow> VMap m)"

definition int_map_opt :: "(string \<times> int) list option \<Rightarrow> goval" where
  "int_map_opt x = (case x of None \<Rightarrow> VNil | Some m \<Rightarrow> VIntMap m)"

definition maps_opt :: "(string \<times> goval) list list option \<Rightarrow> goval" where
  "maps_opt x = (case x of None \<Rightarrow> VNil | Some ms \<Rightarrow> VMaps ms)"

definition array_opt :: "goval list option \<Rightarrow> goval" where
  "array_opt x = (case x of None \<Rightarrow> VNil | Some xs \<Rightarrow> VArr xs)"

text \<open>The fields of the row upserted, after the id, in the order of the struct literal.\<close>

definition db_row :: "string \<Rightarrow> (string \<times> goval) list \<Rightarrow> goval list option" where
  "db_row t m =
     (let str = (\<lambda>k. VStr (getStringField m k)) in
      if t = ''devices'' then
        Some [str ''version'', str ''label'', str ''description'', str ''node_id'', map_opt (getMapField m ''tags''),
              str_opt (getStringSliceField m ''senders''), str_opt (getStringSliceField m ''receivers''),
              array_opt (getInterfaceSliceField m ''controls'')]
      else if t = ''sources'' then
        Some [str ''version'', str ''label'', str ''description'', str ''format'', str ''device_id'',
              str ''event_type'', map_opt (getMapField m ''tags''), int_map_opt (getIntMapField m ''grain_rate'')]
      else if t = ''flows'' then
        Some [str ''version'', str ''label'', str ''description'', str ''format'', str ''source_id'',
              str ''device_id'', str_opt (getStringSliceField m ''parents''), map_opt (getMapField m ''tags''),
              str ''media_type'', str ''event_type'', int_map_opt (getIntMapField m ''grain_rate'')]
      else if t = ''senders'' then
        Some [str ''version'', str ''label'', str ''description'', str ''device_id'', str ''flow_id'',
              str ''transport'', str_opt (getStringSliceField m ''interface_bindings''),
              map_opt (getMapField m ''tags''), maps_opt (getMapSliceField m ''transport_params'')]
      else if t = ''receivers'' then
        Some [str ''version'', str ''label'', str ''description'', str ''device_id'', str ''transport'',
              str_opt (getStringSliceField m ''interface_bindings''), map_opt (getMapField m ''tags''),
              maps_opt (getMapSliceField m ''transport_params'')]
      else None)"

definition upsert :: "string \<Rightarrow> string \<Rightarrow> (string \<times> goval) list \<Rightarrow> nmos_state \<Rightarrow> nmos_state" where
  "upsert t i m s =
     (if has_db s then
        (case db_row t m of None \<Rightarrow> s | Some row \<Rightarrow> s\<lparr> upserts := upserts s @ [(t, i, row)] \<rparr>)
      else s)"

definition store_and_link :: "string \<Rightarrow> string \<Rightarrow> (string \<times> goval) list \<Rightarrow> nmos_state \<Rightarrow> nmos_state" where
  "store_and_link t i m s =
     (let rs1 = (resources s)(t := store_resource i (VMap m) (resources s t)) in
      if t = ''senders'' \<or> t = ''receivers'' then
        (case as_string (field_of ''device_id'' m) of
           None \<Rightarrow> s\<lparr> resources := rs1 \<rparr>
         | Some deviceID \<Rightarrow>
             (case add_to_device t deviceID i (rs1 ''devices'') of
                (ds, changed) \<Rightarrow>
                  s\<lparr> resources := rs1(''devices'' := ds),
                     async_posts := async_posts s @
                       (case changed of None \<Rightarrow> [] | Some d \<Rightarrow> [(toSingular ''devices'', d)]) \<rparr>))
      else s\<lparr> resources := rs1 \<rparr>)"

definition broadcast_locked :: "string \<Rightarrow> goval \<Rightarrow> nmos_state \<Rightarrow> (nmos_state, unit) run" where
  "broadcast_locked t res s =
     run_bind (mu_RLock s) (\<lambda>s _. run_bind (mu_RUnlock s) (\<lambda>s _.
       Done (s\<lparr> updates := updates s @ [(t, res)] \<rparr>) ()))"

definition incrementAndGetVersion :: "string \<Rightarrow> nmos_state \<Rightarrow> nmos_state \<times> 8 word" where
  "incrementAndGetVersion t s =
     (let count = versionCounters s t;
          count' = (if count = 255 then 0 else count + 1) in
      (s\<lparr> versionCounters := (versionCounters s)(t := count') \<rparr>, count'))"

definition registerResourceToRegistry :: "string \<Rightarrow> goval \<Rightarrow> nmos_state \<Rightarrow> nmos_state" where
  "registerResourceToRegistry t res s = s\<lparr> posts := posts s @ [(toSingular t, res)] \<rparr>"

text \<open>
  The answer is whether the call returned without an error. The lock taken for the store is
  released by a deferred call, at the end of the function. The map of resources is made by the
  constructor and never nil.
\<close>

definition RegisterResource :: "string \<Rightarrow> goval \<Rightarrow> nmos_state \<Rightarrow> (nmos_state, bool) run" where
  "RegisterResource resourceType resource s =
     (let t = toPlural resourceType in
      run_bind (mu_Lock s) (\<lambda>s _. run_bind (mu_Unlock s) (\<lambda>s _.
        case (case as_map resource of
                None \<Rightarrow> None
              | Some m \<Rightarrow> map_option (\<lambda>i. (m, i)) (as_string (field_of ''id'' m))) of
          None \<Rightarrow> run_bind (mu_Unlock s) (\<lambda>s _. Done s False)
        | Some (m, i) \<Rightarrow>
            run_bind (mu_Lock (upsert t i m s)) (\<lambda>s _.
            run_bind (broadcast_locked t resource (store_and_link t i m s)) (\<lambda>s _.
              let s1 = (if peerToPeerMode s then fst (incrementAndGetVersion t s) else s);
                  s2 = (case deepcopy resource of
                          None \<Rightarrow> s1 | Some c \<Rightarrow> registerResourceToRegistry t c s1) in
              run_bind (mu_Unlock s2) (\<lambda>s _. Done s True))))))"

text \<open>The index of the first resource with the id.\<close>

fun resource_index :: "string \<Rightarrow> goval list \<Rightarrow> nat option" where
  "resource_index i [] = None"
| "resource_index i (r # rs) = (if has_id i r then Some 0 else map_option Suc (resource_index i rs))"

definition UpdateResource :: "string \<Rightarrow> string \<Rightarrow> (goval \<Rightarrow> goval) \<Rightarrow> nmos_state \<Rightarrow> (nmos_state, bool) run" where
  "UpdateResource resourceType i f s =
     (let t = toPlural resourceType in
      run_bind (mu_Lock s) (\<lambda>s _.
        case resource_index i (resources s t) of
          None \<Rightarrow> run_bind (mu_Unlock s) (\<lambda>s _. Done s False)
        | Some k \<Rightarrow>
            (let original = resources s t ! k; updated = f original in
             run_bind (mu_Unlock s) (\<lambda>s _. run_bind (mu_Lock s) (\<lambda>s _.
               run_bind (mu_Unlock (s\<lparr> resources := (resources s)(t := (resources s t)[k := updated]) \<rparr>)) (\<lambda>s _.
               run_bind (broadcast_locked t updated s) (\<lambda>s _. Done s True)))))))"

text \<open>
  The same with a PATCH to the registry at the end, a request with the plural type, the id and the
  resource. The answer is whether the call returned without an error.
\<close>

definition UpdateResourceInRegistry ::
  "bool \<Rightarrow> string \<Rightarrow> string \<Rightarrow> (goval \<Rightarrow> goval) \<Rightarrow> nmos_state \<Rightarrow> (nmos_state, bool \<times> (string \<times> string \<times> goval) list) run" where
  "UpdateResourceInRegistry accepted resourceType i f s =
     (let t = toPlural resourceType in
      run_bind (mu_Lock s) (\<lambda>s _.
        case resource_index i (resources s t) of
          None \<Rightarrow> run_bind (mu_Unlock s) (\<lambda>s _. Done s (False, []))
        | Some k \<Rightarrow>
            (let original = resources s t ! k; updated = f original in
             run_bind (mu_Unlock s) (\<lambda>s _. run_bind (mu_Lock s) (\<lambda>s _.
               run_bind (mu_Unlock (s\<lparr> resources := (resources s)(t := (resources s t)[k := updated]) \<rparr>)) (\<lambda>s _.
               run_bind (broadcast_locked t updated s) (\<lambda>s _. Done s (accepted, [(t, i, updated)]))))))))"

definition RegisterNode :: "bool \<Rightarrow> goval \<Rightarrow> nmos_state \<Rightarrow> (nmos_state, bool) run" where
  "RegisterNode accepted node s =
     (if \<not> isRunning s then Done s False
      else
        (let s1 = registerResourceToRegistry ''node'' node s in
         if \<not> accepted then Done s1 False
         else run_bind (mu_Lock s1) (\<lambda>s _.
           let ns = (case (case as_map node of None \<Rightarrow> None | Some m \<Rightarrow> as_string (field_of ''id'' m)) of
                       None \<Rightarrow> nodes s @ [node]
                     | Some i \<Rightarrow> store_resource i node (nodes s)) in
           run_bind (mu_Unlock (s\<lparr> nodes := ns \<rparr>)) (\<lambda>s _. Done s True))))"

definition resourceOrder :: "string list" where
  "resourceOrder = [''devices'', ''sources'', ''flows'', ''senders'', ''receivers'']"

text \<open>\<open>accepted\<close>: whether the registry takes the node; its answers for the others are only logged.\<close>

definition reRegisterAll :: "bool \<Rightarrow> goval \<Rightarrow> nmos_state \<Rightarrow> (nmos_state, unit) run" where
  "reRegisterAll accepted node s =
     run_bind (RegisterNode accepted node s) (\<lambda>s ok.
       if \<not> ok then Done s ()
       else run_bind (mu_RLock s) (\<lambda>s _.
         run_bind (mu_RUnlock (fold (\<lambda>t s. fold (registerResourceToRegistry t) (resources s t) s) resourceOrder s))
           (\<lambda>s _. Done s ())))"

subsection \<open>Unregistration\<close>

datatype child = Child (ch_id: string) (ch_device: string) (ch_type: string)

definition childTypes :: "string list" where
  "childTypes = [''receivers'', ''senders'', ''flows'', ''sources'']"

definition child_of :: "string \<Rightarrow> goval \<Rightarrow> child option" where
  "child_of t r =
     (case as_map r of
        None \<Rightarrow> None
      | Some m \<Rightarrow> (case (as_string (field_of ''id'' m), as_string (field_of ''device_id'' m)) of
          (Some i, Some d) \<Rightarrow> Some (Child i d t)
        | _ \<Rightarrow> None))"

definition allResources :: "nmos_state \<Rightarrow> child list" where
  "allResources s = concat (map (\<lambda>t. List.map_filter (child_of t) (resources s t)) childTypes)"

definition device_ids :: "child list \<Rightarrow> string list" where
  "device_ids cs = sort (remdups (map ch_device cs))"

text \<open>
  The requests of one device are sent by goroutines, in any order; the device follows when all
  have returned. A request is the plural type and the id of its path.
\<close>

inductive deletes :: "child list \<Rightarrow> string list \<Rightarrow> (string \<times> string) list \<Rightarrow> bool" for cs where
  none: "deletes cs [] []"
| device: "mset xs = mset (map (\<lambda>c. (ch_type c, ch_id c)) (filter (\<lambda>c. ch_device c = d) cs)) \<Longrightarrow>
    deletes cs ds rest \<Longrightarrow> deletes cs (d # ds) (xs @ (toPlural ''devices'', d) # rest)"

definition unregisterAll :: "nmos_state \<Rightarrow> (string \<times> string) list \<Rightarrow> bool" where
  "unregisterAll s reqs \<longleftrightarrow>
     (if registered s
      then \<exists>r. deletes (allResources s) (device_ids (allResources s)) r \<and> reqs = r @ [(toPlural ''node'', nodeID s)]
      else reqs = [])"

subsection \<open>Lemmas on the store\<close>

lemma has_id_VMap: "has_id i (VMap m) \<longleftrightarrow> field_of ''id'' m = VStr i"
  by (simp add: has_id_def)

lemma has_id_unique: "has_id i r \<Longrightarrow> has_id j r \<Longrightarrow> i = j"
  by (auto simp: has_id_def split: option.splits)

lemma find_store_resource:
  assumes "has_id i res"
  shows "find_resource j (store_resource i res rs) = (if j = i then Some res else find_resource j rs)"
  using assms by (induction rs) (auto dest: has_id_unique)

lemma field_of_map_put: "field_of k (map_put k' v m) = (if k = k' then v else field_of k m)"
  by (simp add: field_of_def)

lemma find_resource_index:
  "find_resource i rs = map_option (\<lambda>k. rs ! k) (resource_index i rs)"
  by (induction rs) (auto simp: option.map_comp comp_def)

lemma add_to_list_fields:
  assumes "add_to_list key i m = (m', added)" "key \<noteq> ''id''"
  shows "field_of key m' = VStrs (current_ids (field_of key m') ) \<or> \<not> added"
    and "current_ids (field_of key m') =
      (if i \<in> set (current_ids (field_of key m)) then current_ids (field_of key m)
       else current_ids (field_of key m) @ [i])"
    and "added \<longleftrightarrow> i \<notin> set (current_ids (field_of key m))"
    and "k \<noteq> key \<Longrightarrow> field_of k m' = field_of k m"
proof -
  have absent: "field_of key m = VNil" if "map_of m key = None" using that by (simp add: field_of_def)
  show "field_of key m' = VStrs (current_ids (field_of key m') ) \<or> \<not> added"
    using assms by (auto simp: add_to_list_def Let_def field_of_map_put current_ids_def split: if_split_asm)
  show "current_ids (field_of key m') =
      (if i \<in> set (current_ids (field_of key m)) then current_ids (field_of key m)
       else current_ids (field_of key m) @ [i])"
    using assms by (auto simp: add_to_list_def Let_def field_of_map_put current_ids_def absent split: if_split_asm)
  show "added \<longleftrightarrow> i \<notin> set (current_ids (field_of key m))"
    using assms by (auto simp: add_to_list_def Let_def field_of_map_put current_ids_def absent split: if_split_asm)
  show "k \<noteq> key \<Longrightarrow> field_of k m' = field_of k m"
    using assms by (auto simp: add_to_list_def Let_def field_of_map_put split: if_split_asm)
qed

lemma find_add_to_device:
  assumes "add_to_device key dev i ds = (ds', changed)" "key \<noteq> ''id''"
  shows "e \<noteq> dev \<Longrightarrow> find_resource e ds' = find_resource e ds"
    and "find_resource dev ds = Some (VMap d) \<Longrightarrow>
      \<exists>d' added. add_to_list key i d = (d', added) \<and> find_resource dev ds' = Some (VMap d') \<and>
        changed = (if added then Some (VMap d') else None)"
  using assms(1)
proof (induction ds arbitrary: ds')
  case (Cons r ds)
  have keeps: "has_id dev (VMap m')" if "add_to_list key i m = (m', added)" "has_id dev (VMap m)" for m m' added
    using add_to_list_fields(4) [OF that(1) assms(2), of "''id''"] that(2) assms(2) by (simp add: has_id_VMap)
  {
    case 1
    show ?case
    proof (cases "has_id dev r")
      case True
      then obtain m where r: "r = VMap m" by (cases r) (auto simp: has_id_def)
      obtain m' added where a: "add_to_list key i m = (m', added)" by force
      with 1(2) True r have "ds' = VMap m' # ds" by auto
      moreover have "has_id dev (VMap m')" using keeps [OF a] True r by simp
      ultimately show ?thesis using 1(1) True by (auto dest: has_id_unique)
    next
      case False
      then obtain ds1 where "add_to_device key dev i ds = (ds1, changed)" "ds' = r # ds1"
        using 1(2) by (auto split: prod.splits)
      with Cons.IH(1) [OF 1(1)] show ?thesis by simp
    qed
  next
    case 2
    show ?case
    proof (cases "has_id dev r")
      case True
      with 2(1) have r: "r = VMap d" by simp
      obtain m' added where a: "add_to_list key i d = (m', added)" by force
      with 2(2) True r have "ds' = VMap m' # ds" "changed = (if added then Some (VMap m') else None)" by auto
      with keeps [OF a] True r a show ?thesis by simp
    next
      case False
      then obtain ds1 where "add_to_device key dev i ds = (ds1, changed)" "ds' = r # ds1"
        using 2(2) by (auto split: prod.splits)
      with Cons.IH(2) False 2(1) show ?thesis by simp
    qed
  }
qed simp_all

lemma lock_free:
  "mu s = Unlocked \<Longrightarrow> mu_Lock s = Done (s\<lparr> mu := WriteLocked \<rparr>) ()"
  "mu s = WriteLocked \<Longrightarrow> mu_Unlock s = Done (s\<lparr> mu := Unlocked \<rparr>) ()"
  "mu s = Unlocked \<Longrightarrow> mu_Unlock s = FatalError"
  "mu s = WriteLocked \<Longrightarrow> mu_RLock s = Deadlock s"
  "mu s = Unlocked \<Longrightarrow> mu_RLock s = Done (s\<lparr> mu := ReadLocked 1 \<rparr>) ()"
  "mu s = ReadLocked (Suc 0) \<Longrightarrow> mu_RUnlock s = Done (s\<lparr> mu := Unlocked \<rparr>) ()"
  by (simp_all add: mu_Lock_def mu_Unlock_def mu_RLock_def mu_RUnlock_def)

lemma upsert_keeps [simp]: "mu (upsert t i m s) = mu s" "posts (upsert t i m s) = posts s"
    "resources (upsert t i m s) = resources s"
  by (simp_all add: upsert_def split: option.splits)

lemma store_and_link_keeps [simp]: "mu (store_and_link t i m s) = mu s" "posts (store_and_link t i m s) = posts s"
  by (simp_all add: store_and_link_def Let_def split: option.splits prod.splits)

lemma store_and_link_stored:
  "resources (store_and_link t i m s) t = store_resource i (VMap m) (resources s t)"
  by (auto simp: store_and_link_def Let_def split: option.splits prod.splits)

lemma broadcast_unlocked:
  "mu s = Unlocked \<Longrightarrow> broadcast_locked t r s = Done (s\<lparr> updates := updates s @ [(t, r)] \<rparr>) ()"
  by (simp add: broadcast_locked_def mu_RLock_def mu_RUnlock_def)

subsection \<open>Properties\<close>

lemma RegisterResource_hangs:
  assumes "mu s = Unlocked"
  shows "case (case as_map r of None \<Rightarrow> None | Some m \<Rightarrow> as_string (field_of ''id'' m)) of
      Some i \<Rightarrow> \<exists>s'. RegisterResource t r s = Deadlock s' \<and> mu s' = WriteLocked \<and>
        find_resource i (resources s' (toPlural t)) = Some r \<and> posts s' = posts s
    | None \<Rightarrow> RegisterResource t r s = FatalError"
proof (cases "as_map r")
  case None
  then show ?thesis using assms by (simp add: RegisterResource_def lock_free)
next
  case (Some m)
  then have r: "r = VMap m" by (cases r) simp_all
  show ?thesis
  proof (cases "as_string (field_of ''id'' m)")
    case None
    then show ?thesis using assms Some by (simp add: RegisterResource_def lock_free)
  next
    case i: (Some i)
    then have "has_id i r" by (simp add: r has_id_VMap) (cases "field_of ''id'' m"; simp)
    then show ?thesis using assms Some i
      by (simp add: RegisterResource_def lock_free Let_def broadcast_locked_def store_and_link_stored
          find_store_resource r)
  qed
qed

text \<open>
  C7. Registering a resource never returns. With an id, the resource is stored and then the call
  waits for the read lock while it holds the write lock, so the registry is not told; without
  one, it unlocks a lock that is not held, which ends the program.
\<close>

theorem RegisterResource_never_returns:
  assumes "mu s = Unlocked"
  shows "case (case as_map r of None \<Rightarrow> None | Some m \<Rightarrow> as_string (field_of ''id'' m)) of
      Some i \<Rightarrow> \<exists>s'. RegisterResource t r s = Deadlock s' \<and> mu s' = WriteLocked \<and>
        find_resource i (resources s' (toPlural t)) = Some r \<and> posts s' = posts s
    | None \<Rightarrow> RegisterResource t r s = FatalError"
  using RegisterResource_hangs [OF assms] .

definition empty_node :: nmos_state where
  "empty_node =
     \<lparr> mu = Unlocked, resources = (\<lambda>_. []), has_db = False, upserts = [], posts = [], async_posts = [],
       updates = [], peerToPeerMode = False, versionCounters = (\<lambda>_. 0), isRunning = True,
       registered = True, nodeID = ''n'', nodes = [] \<rparr>"

theorem RegisterResource_never_returns_witness:
  "\<exists>s'. RegisterResource ''device'' (VMap [(''id'', VStr ''d1'')]) empty_node = Deadlock s' \<and> posts s' = []"
  using RegisterResource_never_returns [of empty_node "''device''" "VMap [(''id'', VStr ''d1'')]"]
  by (auto simp: empty_node_def field_of_def)

text \<open>
  Storing a sender or a receiver enters its id in the list of its device: the list keeps its
  order and gets the id at its end unless it has it, no other field of the device and no other
  device changes, and the registry is told of the device exactly when its list changed.
\<close>

lemma store_links_device:
  assumes "t \<in> {''senders'', ''receivers''}" "as_string (field_of ''device_id'' m) = Some dev"
    and "find_resource dev (resources s ''devices'') = Some (VMap d)"
  shows "\<exists>d'. find_resource dev (resources (store_and_link t i m s) ''devices'') = Some (VMap d') \<and>
    current_ids (field_of t d') =
      (let old = current_ids (field_of t d) in if i \<in> set old then old else old @ [i]) \<and>
    (\<forall>k. k \<noteq> t \<longrightarrow> field_of k d' = field_of k d) \<and>
    (\<forall>e. e \<noteq> dev \<longrightarrow> find_resource e (resources (store_and_link t i m s) ''devices'') =
      find_resource e (resources s ''devices'')) \<and>
    async_posts (store_and_link t i m s) =
      async_posts s @ (if i \<in> set (current_ids (field_of t d)) then [] else [(''device'', VMap d')])"
proof -
  have t: "t \<noteq> ''id''" "t \<noteq> ''devices''" "t = ''senders'' \<or> t = ''receivers''" using assms(1) by auto
  let ?ds = "((resources s)(t := store_resource i (VMap m) (resources s t))) ''devices''"
  obtain ds' changed where a: "add_to_device t dev i ?ds = (ds', changed)" by force
  have ds: "?ds = resources s ''devices''" using t(2) by simp
  from find_add_to_device(2) [OF a t(1)] assms(3) ds obtain d' added where
    d': "add_to_list t i d = (d', added)" "find_resource dev ds' = Some (VMap d')"
      "changed = (if added then Some (VMap d') else None)" by auto
  note fields = add_to_list_fields [OF d'(1) t(1)]
  have eq: "store_and_link t i m s =
      s\<lparr> resources := ((resources s)(t := store_resource i (VMap m) (resources s t)))(''devices'' := ds'),
         async_posts := async_posts s @ (if added then [(''device'', VMap d')] else []) \<rparr>"
    using t(3) assms(2) a d'(3) by (simp add: store_and_link_def Let_def toSingular_def)
  show ?thesis
    using d'(2) fields(2,3,4) find_add_to_device(1) [OF a t(1)] ds
    by (intro exI [of _ d']) (simp add: eq Let_def)
qed

definition node_with_device :: nmos_state where
  "node_with_device =
     empty_node\<lparr> resources := (\<lambda>t. if t = ''devices'' then
        [VMap [(''id'', VStr ''d1''), (''senders'', VArr [VStr ''s1''])]] else []) \<rparr>"

lemma store_links_device_witness:
  "\<exists>d'. find_resource ''d1'' (resources (store_and_link ''senders'' ''s2''
        [(''id'', VStr ''s2''), (''device_id'', VStr ''d1'')] node_with_device) ''devices'') = Some (VMap d') \<and>
     current_ids (field_of ''senders'' d') = [''s1'', ''s2'']"
proof -
  have ids: "current_ids (VArr [VStr ''s1'']) = [''s1'']"
    by (simp add: current_ids_def string_items_def List.map_filter_simps)
  have "find_resource ''d1'' (resources node_with_device ''devices'') =
      Some (VMap [(''id'', VStr ''d1''), (''senders'', VArr [VStr ''s1''])])"
    by (simp add: node_with_device_def has_id_def field_of_def)
  with store_links_device [of "''senders''" "[(''id'', VStr ''s2''), (''device_id'', VStr ''d1'')]" "''d1''"
      node_with_device "[(''id'', VStr ''d1''), (''senders'', VArr [VStr ''s1''])]" "''s2''"]
  show ?thesis by (auto simp: field_of_def ids)
qed

text \<open>
  Updating a resource that is present returns with the lock free, having replaced the first resource
  with the id by the result of the function, and sends one update to the clients; the
  registry is not told. Updating one that is absent changes nothing.
\<close>

lemma UpdateResource_correct:
  assumes "mu s = Unlocked"
  shows "case resource_index i (resources s (toPlural t)) of
      None \<Rightarrow> UpdateResource t i f s = Done s False
    | Some k \<Rightarrow> \<exists>s'. UpdateResource t i f s = Done s' True \<and> mu s' = Unlocked \<and>
        find_resource i (resources s (toPlural t)) = Some (resources s (toPlural t) ! k) \<and>
        resources s' = (resources s)(toPlural t := (resources s (toPlural t))[k := f (resources s (toPlural t) ! k)]) \<and>
        updates s' = updates s @ [(toPlural t, f (resources s (toPlural t) ! k))] \<and> posts s' = posts s"
proof (cases "resource_index i (resources s (toPlural t))")
  case None
  then show ?thesis using assms by (simp add: UpdateResource_def lock_free flip: assms)
next
  case (Some k)
  then show ?thesis using assms
    by (simp add: UpdateResource_def Let_def lock_free broadcast_unlocked find_resource_index)
qed

lemma UpdateResourceInRegistry_correct:
  assumes "mu s = Unlocked"
  shows "case resource_index i (resources s (toPlural t)) of
      None \<Rightarrow> UpdateResourceInRegistry acc t i f s = Done s (False, [])
    | Some k \<Rightarrow> \<exists>s'. UpdateResourceInRegistry acc t i f s =
          Done s' (acc, [(toPlural t, i, f (resources s (toPlural t) ! k))]) \<and> mu s' = Unlocked \<and>
        resources s' = (resources s)(toPlural t := (resources s (toPlural t))[k := f (resources s (toPlural t) ! k)]) \<and>
        updates s' = updates s @ [(toPlural t, f (resources s (toPlural t) ! k))] \<and> posts s' = posts s"
proof (cases "resource_index i (resources s (toPlural t))")
  case None
  then show ?thesis using assms by (simp add: UpdateResourceInRegistry_def lock_free flip: assms)
next
  case (Some k)
  then show ?thesis using assms
    by (simp add: UpdateResourceInRegistry_def Let_def lock_free broadcast_unlocked)
qed

lemma UpdateResource_correct_witness:
  "\<exists>s'. UpdateResource ''device'' ''d1'' (\<lambda>_. VNil) node_with_device = Done s' True \<and> mu s' = Unlocked"
proof -
  have "mu node_with_device = Unlocked" by (simp add: node_with_device_def empty_node_def)
  moreover have "resource_index ''d1'' (resources node_with_device (toPlural ''device'')) = Some 0"
    by (simp add: node_with_device_def has_id_def field_of_def toPlural_def)
  ultimately show ?thesis
    using UpdateResource_correct [where s = node_with_device and i = "''d1''" and t = "''device''" and f = "\<lambda>_. VNil"] by fastforce
qed

text \<open>
  The copy of a resource for the registry loses every field that is nil, at each level of nested maps,
  and keeps every other one.
\<close>

lemma deepcopy_drops_nil:
  assumes "distinct (map fst m)"
  shows "\<exists>m'. deepcopy (VMap m) = Some (VMap m') \<and>
    (\<forall>k. map_of m' k = (case map_of m k of None \<Rightarrow> None | Some v \<Rightarrow> deepcopy_value v)) \<and>
    (\<forall>v. deepcopy_value v = None \<longleftrightarrow> v = VNil)"
proof -
  let ?copy = "\<lambda>m. concat (map (\<lambda>(k, v). case deepcopy_value v of None \<Rightarrow> [] | Some w \<Rightarrow> [(k, w)]) m)"
  have nil: "deepcopy_value v = None \<longleftrightarrow> v = VNil" for v by (cases v) simp_all
  have absent: "k \<notin> fst ` set m \<Longrightarrow> map_of (?copy m) k = None" for k and m :: "(string \<times> goval) list"
    by (induction m) (auto split: option.splits)
  have "map_of (?copy m) k = (case map_of m k of None \<Rightarrow> None | Some v \<Rightarrow> deepcopy_value v)" for k
    using assms by (induction m)
      (auto simp: absent simp del: map_of_eq_Some_iff Some_eq_map_of_iff split: option.splits)
  with nil show ?thesis by auto
qed

lemma deepcopy_drops_nil_witness:
  "\<exists>m'. deepcopy (VMap [(''id'', VStr ''s1''), (''manifest_href'', VNil)]) = Some (VMap m') \<and>
     map_of m' ''manifest_href'' = None \<and> map_of m' ''id'' = Some (VStr ''s1'')"
  using deepcopy_drops_nil [of "[(''id'', VStr ''s1''), (''manifest_href'', VNil)]"] by auto

lemma deletes_mset:
  "deletes cs ds r \<Longrightarrow> distinct ds \<Longrightarrow>
     mset r = mset (map (\<lambda>c. (ch_type c, ch_id c)) (filter (\<lambda>c. ch_device c \<in> set ds) cs))
       + mset (map (\<lambda>d. (''devices'', d)) ds)"
proof (induction rule: deletes.induct)
  case (device xs d ds rest)
  let ?of = "\<lambda>P. image_mset (\<lambda>c. (ch_type c, ch_id c)) (filter_mset P (mset cs))"
  have "filter_mset (\<lambda>c. ch_device c = d \<or> ch_device c \<in> set ds) (mset cs) =
      filter_mset (\<lambda>c. ch_device c = d) (mset cs) + filter_mset (\<lambda>c. ch_device c \<in> set ds) (mset cs)"
    using device.prems by (induction cs) auto
  then have "?of (\<lambda>c. ch_device c = d \<or> ch_device c \<in> set ds) =
      ?of (\<lambda>c. ch_device c = d) + ?of (\<lambda>c. ch_device c \<in> set ds)"
    by simp
  with device.hyps(1) device.IH device.prems show ?case by (simp add: toPlural_def)
qed simp

lemma deletes_order:
  "deletes cs ds r \<Longrightarrow> d \<in> set ds \<Longrightarrow> c \<in> set cs \<Longrightarrow> ch_device c = d \<Longrightarrow>
     \<exists>xs ys zs. r = xs @ (ch_type c, ch_id c) # ys @ (''devices'', d) # zs"
proof (induction rule: deletes.induct)
  case (device xs e ds rest)
  show ?case
  proof (cases "e = d")
    case True
    have "(ch_type c, ch_id c) \<in> set (map (\<lambda>c. (ch_type c, ch_id c)) (filter (\<lambda>c. ch_device c = e) cs))"
      using device.prems True by auto
    then have "(ch_type c, ch_id c) \<in> set xs" by (simp only: mset_eq_setD [OF device.hyps(1)])
    then obtain a b where "xs = a @ (ch_type c, ch_id c) # b" by (meson split_list)
    then show ?thesis using True by (intro exI [of _ a] exI [of _ b] exI [of _ rest]) (simp add: toPlural_def)
  next
    case False
    with device.prems device.IH obtain a b z where "rest = a @ (ch_type c, ch_id c) # b @ (''devices'', d) # z" by auto
    then show ?thesis
      by (intro exI [of _ "xs @ (toPlural ''devices'', e) # a"] exI [of _ b] exI [of _ z]) simp
  qed
qed simp

lemma child_types: "c \<in> set (allResources s) \<Longrightarrow> ch_type c \<noteq> ''devices''"
  by (auto simp: allResources_def childTypes_def List.map_filter_def child_of_def split: option.splits)

text \<open>
  Unregistration removes the children of a device before the device, and the node last; it asks
  for each child once, and for exactly the devices that have a child: a device without sources,
  flows, senders and receivers stays with the registry.
\<close>

lemma unregister_order:
  assumes "unregisterAll s reqs" "registered s"
  shows "\<exists>r. reqs = r @ [(''nodes'', nodeID s)] \<and>
    mset r = mset (map (\<lambda>c. (ch_type c, ch_id c)) (allResources s)) + mset (map (\<lambda>d. (''devices'', d)) (device_ids (allResources s))) \<and>
    (\<forall>c \<in> set (allResources s).
      \<exists>xs ys zs. r = xs @ (ch_type c, ch_id c) # ys @ (''devices'', ch_device c) # zs) \<and>
    (\<forall>d. (''devices'', d) \<in> set r \<longleftrightarrow> (\<exists>c \<in> set (allResources s). ch_device c = d))"
proof -
  let ?cs = "allResources s"
  from assms obtain r where r: "deletes ?cs (device_ids ?cs) r" "reqs = r @ [(''nodes'', nodeID s)]"
    by (auto simp: unregisterAll_def toPlural_def)
  have ids: "distinct (device_ids ?cs)" "set (device_ids ?cs) = ch_device ` set ?cs" by (simp_all add: device_ids_def)
  have all: "filter (\<lambda>c. ch_device c \<in> set (device_ids ?cs)) ?cs = ?cs" by (simp add: ids filter_id_conv)
  have m: "mset r = mset (map (\<lambda>c. (ch_type c, ch_id c)) ?cs) + mset (map (\<lambda>d. (''devices'', d)) (device_ids ?cs))"
    using deletes_mset [OF r(1) ids(1)] all by simp
  have "set r = set (map (\<lambda>c. (ch_type c, ch_id c)) ?cs) \<union> set (map (\<lambda>d. (''devices'', d)) (device_ids ?cs))"
    using arg_cong [OF m, of set_mset] by simp
  then have "(''devices'', d) \<in> set r \<longleftrightarrow> (\<exists>c \<in> set ?cs. ch_device c = d)" for d
    using child_types by (fastforce simp: ids)
  with m r(2) deletes_order [OF r(1)] ids(2) show ?thesis by blast
qed

definition node_with_sender :: nmos_state where
  "node_with_sender =
     empty_node\<lparr> resources := (\<lambda>t. if t = ''devices'' then [VMap [(''id'', VStr ''d0'')], VMap [(''id'', VStr ''d1'')]]
        else if t = ''senders'' then [VMap [(''id'', VStr ''s1''), (''device_id'', VStr ''d1'')]] else []) \<rparr>"

lemma unregister_order_witness:
  "unregisterAll node_with_sender [(''senders'', ''s1''), (''devices'', ''d1''), (''nodes'', ''n'')] \<and>
   (\<exists>r. [(''senders'', ''s1''), (''devices'', ''d1''), (''nodes'', ''n'')] = r @ [(''nodes'', ''n'')] \<and>
     (''devices'', ''d1'') \<in> set r \<and> (''devices'', ''d0'') \<notin> set r)"
proof -
  have all: "allResources node_with_sender = [Child ''s1'' ''d1'' ''senders'']"
    by (simp add: allResources_def childTypes_def node_with_sender_def child_of_def field_of_def List.map_filter_simps)
  have reg: "registered node_with_sender" "nodeID node_with_sender = ''n''"
    by (simp_all add: node_with_sender_def empty_node_def)
  have ids: "device_ids [Child ''s1'' ''d1'' ''senders''] = [''d1'']" by (simp add: device_ids_def)
  have "deletes [Child ''s1'' ''d1'' ''senders''] [''d1''] ([(''senders'', ''s1'')] @ (toPlural ''devices'', ''d1'') # [])"
    by (intro deletes.device deletes.none) simp
  then have u: "unregisterAll node_with_sender [(''senders'', ''s1''), (''devices'', ''d1''), (''nodes'', ''n'')]"
    unfolding unregisterAll_def all ids reg(2) if_P [OF reg(1)]
    by (intro exI [of _ "[(''senders'', ''s1''), (''devices'', ''d1'')]"]) (simp add: toPlural_def)
  from unregister_order [OF u reg(1)] obtain r where
    r: "[(''senders'', ''s1''), (''devices'', ''d1''), (''nodes'', ''n'')] = r @ [(''nodes'', ''n'')]"
    and d: "\<forall>d. (''devices'', d) \<in> set r \<longleftrightarrow> (\<exists>c \<in> set [Child ''s1'' ''d1'' ''senders'']. ch_device c = d)"
    unfolding all reg(2) by blast
  from d have "(''devices'', ''d1'') \<in> set r" "(''devices'', ''d0'') \<notin> set r" by simp_all
  with u r show ?thesis by blast
qed

text \<open>The names: the plural of a type is stable, and its singular names the same type.\<close>

lemma plural_singular: "toPlural (toSingular (toPlural t)) = toPlural t"
  by (simp add: toPlural_def toSingular_def)

text \<open>The version counter of a type counts its registrations modulo 256.\<close>

lemma version_step:
  "versionCounters (fst (incrementAndGetVersion t s)) u =
     (if u = t then versionCounters s t + 1 else versionCounters s u)"
  by (simp add: incrementAndGetVersion_def Let_def)

lemma version_counts:
  "versionCounters (((\<lambda>s. fst (incrementAndGetVersion t s)) ^^ n) s) u =
     (if u = t then versionCounters s t + of_nat n else versionCounters s u)"
  by (induction n arbitrary: u) (simp_all add: version_step)

lemma RegisterNode_accepted:
  assumes "mu s = Unlocked" "isRunning s"
  obtains s1 where "RegisterNode True node s = Done s1 True" "mu s1 = Unlocked" "resources s1 = resources s"
    "posts s1 = posts s @ [(''node'', node)]"
  using assms by (simp add: RegisterNode_def Let_def lock_free registerResourceToRegistry_def toSingular_def)

lemma fold_register:
  "fold (registerResourceToRegistry t) rs s = s\<lparr> posts := posts s @ map (Pair (toSingular t)) rs \<rparr>"
  by (induction rs arbitrary: s) (simp_all add: registerResourceToRegistry_def)

lemma fold_register_types:
  "fold (\<lambda>t s. fold (registerResourceToRegistry t) (resources s t) s) ts s =
     s\<lparr> posts := posts s @ concat (map (\<lambda>t. map (Pair (toSingular t)) (resources s t)) ts) \<rparr>"
  by (induction ts arbitrary: s) (simp_all add: fold_register)

text \<open>
  Registration with a registry that takes the node returns with the lock free and posts the node, then
  every stored resource once, in an order in which a resource comes after the ones it refers
  to: devices, sources, flows, senders, receivers.
\<close>

lemma reRegisterAll_order:
  assumes "mu s = Unlocked" "isRunning s"
  shows "\<exists>s'. reRegisterAll True node s = Done s' () \<and> mu s' = Unlocked \<and> resources s' = resources s \<and>
    posts s' = posts s @ (''node'', node) #
      map (Pair ''device'') (resources s ''devices'') @ map (Pair ''source'') (resources s ''sources'') @
      map (Pair ''flow'') (resources s ''flows'') @ map (Pair ''sender'') (resources s ''senders'') @
      map (Pair ''receiver'') (resources s ''receivers'')"
proof -
  from assms obtain s1 where s1: "RegisterNode True node s = Done s1 True" "mu s1 = Unlocked"
    "resources s1 = resources s" "posts s1 = posts s @ [(''node'', node)]"
    by (rule RegisterNode_accepted)
  then show ?thesis unfolding reRegisterAll_def fold_register_types
    by (simp add: lock_free resourceOrder_def toSingular_def)
qed

lemma reRegisterAll_order_witness:
  "\<exists>s'. reRegisterAll True (VMap [(''id'', VStr ''n'')]) node_with_sender = Done s' () \<and>
     map fst (posts s') = [''node'', ''device'', ''device'', ''sender'']"
proof -
  have "mu node_with_sender = Unlocked" "isRunning node_with_sender" "posts node_with_sender = []"
    "map (\<lambda>t. length (resources node_with_sender t)) [''devices'', ''sources'', ''flows'', ''senders'', ''receivers''] = [2, 0, 0, 1, 0]"
    by (simp_all add: node_with_sender_def empty_node_def)
  with reRegisterAll_order [of node_with_sender "VMap [(''id'', VStr ''n'')]"] show ?thesis
    by (auto simp: node_with_sender_def)
qed

end
