(* ===== verification/Gateway_Setup.thy ===== *)
theory Gateway_Setup
  imports Ncp_Laws Worker_Laws
begin

text \<open>
  The control tree the gateway builds for a receiver: \<open>setupDeviceNCP\<close> of \<open>internal/module/gateway.go\<close>,
  over the registry of the control server.

  The gateway keeps a pointer to each block it registers and adds members through it. The model adds
  them to the object the registry holds under the id of the block, which is that block as long as
  no other object was registered under its id in between; \<open>Gateway_Tree\<close> shows that.
\<close>

subsection \<open>What the gateway keeps of a receiver\<close>

text \<open>
  \<open>shureDeviceInfo\<close> without its controller, which is named by its address. Reading a key of an absent inner
  map gives what an empty map gives.
\<close>

record device_info =
  di_lastSeen :: int
  di_modelFamily :: ShureModelFamily
  di_nmosDeviceIDs :: "int \<Rightarrow> string option"
  di_deviceIndex :: int
  di_deviceOID :: int
  di_deviceInstance :: string
  di_parameterOIDs :: "string \<Rightarrow> int option"
  di_channelOIDs :: "int \<Rightarrow> int option"
  di_sourceIDs :: "int \<Rightarrow> string \<Rightarrow> string option"
  di_flowIDs :: "int \<Rightarrow> string \<Rightarrow> string option"
  di_senderIDs :: "int \<Rightarrow> string \<Rightarrow> string option"

definition new_device_info :: "int \<Rightarrow> ShureModelFamily \<Rightarrow> string \<Rightarrow> int \<Rightarrow> int \<Rightarrow> string \<Rightarrow> device_info" where
  "new_device_info now family deviceID index oid inst =
     \<lparr> di_lastSeen = now, di_modelFamily = family, di_nmosDeviceIDs = [0 \<mapsto> deviceID], di_deviceIndex = index,
       di_deviceOID = oid, di_deviceInstance = inst, di_parameterOIDs = Map.empty, di_channelOIDs = Map.empty,
       di_sourceIDs = (\<lambda>ch. Map.empty), di_flowIDs = (\<lambda>ch. Map.empty), di_senderIDs = (\<lambda>ch. Map.empty) \<rparr>"

subsection \<open>Classes\<close>

definition worker_class :: "int \<Rightarrow> string \<Rightarrow> string \<Rightarrow> string \<Rightarrow> bool \<Rightarrow> NcClassDescriptor" where
  "worker_class n name prop ty ro = NcClassDescriptor [] [1, 2, 1, n] name None
     [Described [] (prop_d 2 1 ''enabled'' ''NcBoolean'' True False False),
      Described [] (prop_d 3 1 prop ty ro False False)] [] []"

definition gain_class :: NcClassDescriptor where
  "gain_class = NcClassDescriptor [] [1, 2, 1, 10] ''GainWorker'' None
     [Described [] (prop_d 2 1 ''enabled'' ''NcBoolean'' True False False),
      Described [] (prop_d 3 1 ''gain'' ''NcFloat32'' False False False)]
     [NcMethodDescriptor [] (EId 3 2) ''IncAudioGain'' ''NcBoolean''
        [Described [] (ParameterDescriptor ''dB'' ''NcFloat32'' False False)] False,
      NcMethodDescriptor [] (EId 3 3) ''DecAudioGain'' ''NcBoolean''
        [Described [] (ParameterDescriptor ''dB'' ''NcFloat32'' False False)] False]
     []"

definition common_worker_classes :: "NcClassDescriptor list" where
  "common_worker_classes =
     [worker_class 11 ''MuteWorker'' ''mute'' ''NcBoolean'' False,
      worker_class 12 ''ChannelNameWorker'' ''channelName'' ''NcString'' False,
      worker_class 13 ''FrequencyWorker'' ''frequency'' ''NcString'' False,
      worker_class 14 ''GroupChannelWorker'' ''groupChannel'' ''NcString'' False,
      worker_class 15 ''TransmitterWorker'' ''transmitter'' ''NcString'' False,
      worker_class 16 ''BatteryWorker'' ''battery'' ''NcString'' False]"

definition qlxd_worker_classes :: "NcClassDescriptor list" where
  "qlxd_worker_classes =
     [worker_class 19 ''FwVerWorker'' ''fwVer'' ''NcString'' True,
      worker_class 20 ''DeviceIDWorker'' ''deviceID'' ''NcString'' False,
      worker_class 21 ''EncryptionWorker'' ''encryption'' ''NcBoolean'' False,
      worker_class 22 ''MacAddrWorker'' ''macAddr'' ''NcString'' True,
      worker_class 23 ''BattCycleWorker'' ''battCycle'' ''NcString'' True,
      worker_class 24 ''BattRunTimeWorker'' ''battRunTime'' ''NcString'' True,
      worker_class 25 ''BattTempFWorker'' ''battTempF'' ''NcString'' True,
      worker_class 26 ''BattTempCWorker'' ''battTempC'' ''NcString'' True,
      worker_class 27 ''BattTypeWorker'' ''battType'' ''NcString'' True,
      worker_class 28 ''BattChargeWorker'' ''battCharge'' ''NcString'' True,
      worker_class 29 ''BattHealthWorker'' ''battHealth'' ''NcString'' True,
      worker_class 30 ''BattBarsWorker'' ''battBars'' ''NcString'' True]"

definition qlxd_sensor_classes :: "NcClassDescriptor list" where
  "qlxd_sensor_classes =
     [worker_class 31 ''TxTypeWorker'' ''txType'' ''NcString'' True,
      worker_class 32 ''TxOffsetWorker'' ''txOffset'' ''NcString'' True,
      worker_class 33 ''TxRFPowerWorker'' ''txRFPower'' ''NcString'' True,
      worker_class 34 ''TxPwrLockWorker'' ''txPwrLock'' ''NcString'' True,
      worker_class 35 ''TxMenuLockWorker'' ''txMenuLock'' ''NcString'' True,
      worker_class 36 ''TxDeviceIDWorker'' ''txDeviceID'' ''NcString'' True,
      worker_class 37 ''TxMuteStatusWorker'' ''txMuteStatus'' ''NcString'' True,
      worker_class 38 ''TxMuteButtonStatusWorker'' ''txMuteButtonStatus'' ''NcString'' True,
      worker_class 39 ''TxPowerSourceWorker'' ''txPowerSource'' ''NcString'' True,
      worker_class 40 ''EncryptionWarningWorker'' ''encryptionWarning'' ''NcBoolean'' True]"

definition register_classes :: "ShureModelFamily \<Rightarrow> ncp_state \<Rightarrow> ncp_state" where
  "register_classes family st =
     (let st1 = fold RegisterClass (gain_class # common_worker_classes) st in
      if family = ModelFamilyQLXD then fold RegisterClass (qlxd_worker_classes @ qlxd_sensor_classes) st1 else st1)"

subsection \<open>Blocks and workers\<close>

text \<open>An object registered and then entered into its block.\<close>

definition register_child :: "int \<Rightarrow> int \<Rightarrow> nc_object \<Rightarrow> ncp_state \<Rightarrow> ncp_state" where
  "register_child bid oid ob st = block_add_item bid oid (RegisterNCPObject oid ob st)"

definition register_workers :: "int \<Rightarrow> nc_worker list \<Rightarrow> ncp_state \<Rightarrow> ncp_state" where
  "register_workers bid ws st = fold (\<lambda>w. register_child bid (bo_OID (wk_base w)) (OWorker w)) ws st"

text \<open>The entries of a map from parameters to ids, copied under the keys \<open>f\<close> gives them.\<close>

definition put_params :: "(string \<Rightarrow> string) \<Rightarrow> (string \<times> int) list \<Rightarrow> device_info \<Rightarrow> device_info" where
  "put_params f pm info = info\<lparr> di_parameterOIDs := fold (\<lambda>(p, oid) m. m(f p \<mapsto> oid)) pm (di_parameterOIDs info) \<rparr>"

definition setup_device_workers ::
  "ShureModelFamily \<Rightarrow> string \<Rightarrow> int \<Rightarrow> ncp_state \<times> device_info \<Rightarrow> ncp_state \<times> device_info" where
  "setup_device_workers family addr deviceOID s =
     (case CreateDeviceWorkers family (deviceOID * 100) addr of
        (ws, pm) \<Rightarrow> (register_workers deviceOID ws (fst s), put_params id pm (snd s)))"

definition setup_channel ::
  "ShureModelFamily \<Rightarrow> string \<Rightarrow> int \<Rightarrow> int \<Rightarrow> ncp_state \<times> device_info \<Rightarrow> ncp_state \<times> device_info" where
  "setup_channel family addr deviceOID ch s =
     (let channelOID = deviceOID + ch;
          block = NewBlock channelOID None (''Channel'' @ itoa ch) (''Channel '' @ itoa ch);
          st1 = register_child deviceOID channelOID (OBlock block) (fst s);
          info1 = (snd s)\<lparr> di_channelOIDs := (di_channelOIDs (snd s))(ch \<mapsto> channelOID) \<rparr> in
      case CreateChannelWorkers family ch (channelOID * 100) addr of
        (ws, pm) \<Rightarrow> (register_workers channelOID ws st1, put_params id pm info1))"

definition gain_worker :: "string \<Rightarrow> int \<Rightarrow> int \<Rightarrow> nc_worker" where
  "gain_worker addr ch oid =
     (NewWorker oid [1, 2, 1, 10] None ''GainWorker'' (''Ch'' @ itoa ch @ '' GainWorker''))
       \<lparr> wk_OnSet := SetChannelParam addr ch ''AUDIO_GAIN'', wk_OnMethod := GainMethods addr ch \<rparr>"

definition setup_gain_block ::
  "string \<Rightarrow> int \<Rightarrow> int \<Rightarrow> ncp_state \<times> device_info \<Rightarrow> ncp_state \<times> device_info" where
  "setup_gain_block addr channelOID ch s =
     (let base = channelOID * 1000;
          block = NewBlock (base + 1) None ''AudioGain'' (''Ch'' @ itoa ch @ '' AudioGain'');
          st1 = register_child channelOID (base + 1) (OBlock block) (fst s);
          st2 = register_child (base + 1) (base + 10) (OWorker (gain_worker addr ch (base + 10))) st1 in
      (st2, (snd s)\<lparr> di_parameterOIDs := (di_parameterOIDs (snd s))(channel_key ch ''AUDIO_GAIN'' \<mapsto> base + 10) \<rparr>))"

text \<open>The Battery and the Transmitter block are built alike, from the sub-workers of that name.\<close>

definition setup_sub_block ::
  "string \<Rightarrow> int \<Rightarrow> int \<Rightarrow> ShureModelFamily \<Rightarrow> string \<Rightarrow> int \<Rightarrow> int \<Rightarrow> ncp_state \<times> device_info \<Rightarrow> ncp_state \<times> device_info" where
  "setup_sub_block name blockOID workerBase family addr channelOID ch s =
     (let block = NewBlock blockOID None name (''Ch'' @ itoa ch @ '' '' @ name);
          st1 = register_child channelOID blockOID (OBlock block) (fst s) in
      case map_of (CreateChannelSubWorkers family ch workerBase addr) name of
        None \<Rightarrow> (st1, snd s)
      | Some (ws, pm) \<Rightarrow> (register_workers blockOID ws st1, put_params (channel_key ch) pm (snd s)))"

definition setup_sub_blocks ::
  "ShureModelFamily \<Rightarrow> string \<Rightarrow> int \<Rightarrow> int \<Rightarrow> ncp_state \<times> device_info \<Rightarrow> ncp_state \<times> device_info" where
  "setup_sub_blocks family addr deviceOID ch s =
     (let channelOID = deviceOID + ch; base = channelOID * 1000 in
      setup_sub_block ''Transmitter'' (base + 3) (base + 30) family addr channelOID ch
        (setup_sub_block ''Battery'' (base + 2) (base + 20) family addr channelOID ch
          (setup_gain_block addr channelOID ch s)))"

subsection \<open>The whole setup\<close>

definition device_block :: "int \<Rightarrow> string \<Rightarrow> nc_block" where
  "device_block deviceOID inst = NewBlock deviceOID None ''Device'' inst"

definition setup_tree ::
  "ShureModelFamily \<Rightarrow> string \<Rightarrow> int \<Rightarrow> int \<Rightarrow> ncp_state \<times> device_info \<Rightarrow> ncp_state \<times> device_info" where
  "setup_tree family addr deviceOID maxChannels s =
     (if family = ModelFamilyQLXD
      then fold (\<lambda>ch s. setup_sub_blocks family addr deviceOID ch (setup_channel family addr deviceOID ch s))
             [1..maxChannels] (setup_device_workers family addr deviceOID s)
      else fold (setup_channel family addr deviceOID) [1..maxChannels] s)"

text \<open>The last step enters the device into the root block.\<close>

definition setupDeviceNCP ::
  "string \<Rightarrow> string \<Rightarrow> int \<Rightarrow> ShureModelFamily \<Rightarrow> int \<Rightarrow> ncp_state \<times> device_info \<Rightarrow> ncp_state \<times> device_info" where
  "setupDeviceNCP addr inst deviceOID family maxChannels s =
     (let st1 = RegisterNCPObject deviceOID (OBlock (device_block deviceOID inst)) (register_classes family (fst s)) in
      case setup_tree family addr deviceOID maxChannels (st1, snd s) of
        (st2, info2) \<Rightarrow> (block_add_item 1 deviceOID st2, info2))"

end
