(* ===== verification/Gateway_Tree.thy ===== *)
theory Gateway_Tree
  imports Gateway_Setup
begin

text \<open>
  What \<open>setupDeviceNCP\<close> builds: the registry it leaves is the one of a tree of blocks and workers that is
  written down as a list of nodes. From that follow the members of each block, the route of each
  parameter to its worker, and that receivers do not disturb each other.
\<close>

subsection \<open>Trees as lists of nodes\<close>

text \<open>A node: the id of its block, its own id, the object. Blocks come before their members.\<close>

type_synonym tree_node = "int \<times> int \<times> nc_object"

abbreviation node_oid :: "tree_node \<Rightarrow> int" where "node_oid \<equiv> fst \<circ> snd"

definition installed :: "nc_object \<Rightarrow> nc_object" where
  "installed ob = install_resolver (obj_SetNotifyCallback ob)"

definition node_children :: "int \<Rightarrow> tree_node list \<Rightarrow> int list" where
  "node_children p ns = map node_oid (filter (\<lambda>n. fst n = p) ns)"

fun append_items :: "int list \<Rightarrow> nc_object \<Rightarrow> nc_object" where
  "append_items is (OBlock b) = OBlock (b\<lparr> blk_Items := blk_Items b @ is \<rparr>)"
| "append_items is ob = ob"

text \<open>The registry with the nodes entered, each block with its members.\<close>

definition tree_registry :: "tree_node list \<Rightarrow> registry \<Rightarrow> registry" where
  "tree_registry ns reg = (\<lambda>o'. map_option (append_items (node_children o' ns))
     ((reg ++ map_of (map (\<lambda>n. (node_oid n, installed (snd (snd n)))) ns)) o'))"

definition build :: "tree_node list \<Rightarrow> ncp_state \<Rightarrow> ncp_state" where
  "build ns st = fold (\<lambda>n. register_child (fst n) (node_oid n) (snd (snd n))) ns st"

fun wf_nodes :: "int set \<Rightarrow> tree_node list \<Rightarrow> bool" where
  "wf_nodes K [] = True"
| "wf_nodes K ((p, oid, ob) # ns) \<longleftrightarrow> p \<in> K \<and> oid \<notin> K \<and> wf_nodes (insert oid K) ns"

definition node_oids :: "tree_node list \<Rightarrow> int set" where
  "node_oids ns = node_oid ` set ns"

lemma node_oids_simps [simp]:
  "node_oids [] = {}" "node_oids ((p, oid, ob) # ns) = insert oid (node_oids ns)"
  "node_oids (xs @ ys) = node_oids xs \<union> node_oids ys"
  by (auto simp: node_oids_def)

lemma node_oids_concat: "node_oids (concat nss) = (\<Union>ns\<in>set nss. node_oids ns)"
  by (auto simp: node_oids_def)

definition fresh_items :: "registry \<Rightarrow> int set \<Rightarrow> bool" where
  "fresh_items reg S \<longleftrightarrow> (\<forall>p b. reg p = Some (OBlock b) \<longrightarrow> set (blk_Items b) \<inter> S = {})"

lemma build_append [simp]: "build (xs @ ys) st = build ys (build xs st)"
  by (simp add: build_def)

lemma build_Nil [simp]: "build [] st = st"
  by (simp add: build_def)

lemma build_Cons [simp]: "build ((p, oid, ob) # ns) st = build ns (register_child p oid ob st)"
  by (simp add: build_def)

lemma node_children_append [simp]: "node_children p (xs @ ys) = node_children p xs @ node_children p ys"
  by (simp add: node_children_def)

lemma node_children_Nil [simp]: "node_children p [] = []"
  by (simp add: node_children_def)

lemma node_children_Cons [simp]:
  "node_children p ((q, oid, ob) # ns) = (if q = p then oid # node_children p ns else node_children p ns)"
  by (simp add: node_children_def)

lemma node_children_oids: "set (node_children p ns) \<subseteq> node_oids ns"
  by (auto simp: node_children_def node_oids_def)

lemma node_children_none: "p \<notin> fst ` set ns \<Longrightarrow> node_children p ns = []"
  by (auto simp: node_children_def filter_empty_conv)

lemma wf_nodes_append:
  "wf_nodes K (xs @ ys) \<longleftrightarrow> wf_nodes K xs \<and> wf_nodes (K \<union> node_oids xs) ys"
proof (induction xs arbitrary: K)
  case (Cons n xs)
  obtain p oid ob where n: "n = (p, oid, ob)" by (cases n) auto
  show ?case by (simp add: n Cons.IH)
qed simp

lemma wf_nodes_parents: "wf_nodes K ns \<Longrightarrow> fst ` set ns \<subseteq> K \<union> node_oids ns"
  by (induction K ns rule: wf_nodes.induct) auto

lemma append_items_Nil [simp]: "append_items [] ob = ob"
  by (cases ob) simp_all

lemma append_items_append: "append_items (is @ js) ob = append_items js (append_items is ob)"
  by (cases ob) simp_all

lemma map_items_Nil [simp]: "map_option (append_items []) x = x"
  by (cases x) simp_all

lemma map_items_append:
  "map_option (append_items (is @ js)) x = map_option (append_items js) (map_option (append_items is) x)"
  by (cases x) (simp_all add: append_items_append)

lemma append_items_block: "append_items is ob = OBlock b \<longleftrightarrow> (\<exists>c. ob = OBlock c \<and> b = c\<lparr> blk_Items := blk_Items c @ is \<rparr>)"
  by (cases ob) auto

lemma block_add_item_objects:
  "ns_objects (block_add_item p oid st) =
    (case ns_objects st p of Some (OBlock b) \<Rightarrow> (ns_objects st)(p \<mapsto> OBlock (AddItem b oid)) | _ \<Rightarrow> ns_objects st)"
  by (simp add: block_add_item_def split: option.splits nc_object.splits)

definition empty_blocks :: "tree_node list \<Rightarrow> bool" where
  "empty_blocks ns \<longleftrightarrow> (\<forall>n b. n \<in> set ns \<longrightarrow> snd (snd n) = OBlock b \<longrightarrow> blk_Items b = [])"

lemma empty_blocks_append [simp]: "empty_blocks (xs @ ys) \<longleftrightarrow> empty_blocks xs \<and> empty_blocks ys"
  by (auto simp: empty_blocks_def)

lemma empty_blocks_Nil [simp]: "empty_blocks []"
  by (simp add: empty_blocks_def)

lemma empty_blocks_Cons [simp]:
  "empty_blocks ((p, oid, ob) # ns) \<longleftrightarrow> (\<forall>b. ob = OBlock b \<longrightarrow> blk_Items b = []) \<and> empty_blocks ns"
  by (auto simp: empty_blocks_def)

lemma installed_items: "installed ob = OBlock b \<Longrightarrow> \<exists>c. ob = OBlock c \<and> blk_Items b = blk_Items c"
  by (cases ob) (auto simp: installed_def SetResolver_def)

text \<open>A block of the tree holds no id but those of its nodes and what it held before.\<close>

lemma tree_registry_items:
  assumes "tree_registry ns reg p = Some (OBlock b)" "empty_blocks ns" "fresh_items reg S"
  shows "set (blk_Items b) \<inter> S \<subseteq> node_oids ns"
proof -
  let ?m = "map_of (map (\<lambda>n. (node_oid n, installed (snd (snd n)))) ns)"
  obtain ob where ob: "(reg ++ ?m) p = Some ob" "append_items (node_children p ns) ob = OBlock b"
    using assms(1) unfolding tree_registry_def map_option_eq_Some by (elim exE conjE) (rule that)
  obtain c where b: "ob = OBlock c" "b = c\<lparr> blk_Items := blk_Items c @ node_children p ns \<rparr>"
    using ob(2) unfolding append_items_block by blast
  have c: "(reg ++ ?m) p = Some (OBlock c)" "blk_Items b = blk_Items c @ node_children p ns"
    using ob(1) b by simp_all
  have "set (blk_Items c) \<inter> S = {}"
  proof (cases "?m p")
    case None
    with c(1) have "reg p = Some (OBlock c)" by (simp add: map_add_def)
    with assms(3) show ?thesis by (simp add: fresh_items_def)
  next
    case (Some ob)
    with c(1) have "?m p = Some (OBlock c)" by (simp add: map_add_def)
    then obtain n where "n \<in> set ns" "installed (snd (snd n)) = OBlock c" by (auto dest!: map_of_SomeD)
    moreover from this obtain c' where "snd (snd n) = OBlock c'" "blk_Items c = blk_Items c'"
      using installed_items by blast
    ultimately have "blk_Items c = []" using assms(2) unfolding empty_blocks_def by metis
    then show ?thesis by simp
  qed
  with c(2) node_children_oids [of p ns] show ?thesis by auto
qed

text \<open>One node more: it is entered empty, and it is entered into its block once.\<close>

lemma register_child_tree:
  assumes st: "ns_objects st = tree_registry ns reg" and empty: "empty_blocks ns" and fresh: "fresh_items reg {oid}"
    and new: "oid \<notin> node_oids ns" "oid \<notin> fst ` set ns" "p \<noteq> oid"
  shows "ns_objects (register_child p oid ob st) = tree_registry (ns @ [(p, oid, ob)]) reg"
proof -
  have at_oid: "tree_registry (ns @ [(p, oid, ob)]) reg oid = Some (installed ob)"
  proof -
    have "map_of (map (\<lambda>n. (node_oid n, installed (snd (snd n)))) ns) oid = None"
      using new(1) by (simp add: map_of_eq_None_iff image_image comp_def node_oids_def)
    with new(3) node_children_none [OF new(2)] show ?thesis by (simp add: tree_registry_def map_add_def)
  qed
  have elsewhere: "tree_registry (ns @ [(p, oid, ob)]) reg q =
      map_option (append_items (if q = p then [oid] else [])) (tree_registry ns reg q)" if "q \<noteq> oid" for q
    using that by (simp add: tree_registry_def map_add_def map_items_append split: option.split)
  have fresh_item: "oid \<notin> set (blk_Items b)" if "tree_registry ns reg p = Some (OBlock b)" for b
    using tree_registry_items [OF that empty fresh] new(1) by auto
  have "ns_objects (register_child p oid ob st) q = tree_registry (ns @ [(p, oid, ob)]) reg q" for q
    using new(3) at_oid elsewhere [of q]
    by (auto simp: register_child_def block_add_item_objects RegisterNCPObject_def st installed_def AddItem_def
        fresh_item split: option.splits nc_object.splits)
  then show ?thesis by (rule ext)
qed

text \<open>A well-formed list of nodes builds its tree.\<close>

lemma build_tree:
  assumes "wf_nodes K ns" "ns_objects st = reg" "empty_blocks ns" "fresh_items reg (node_oids ns)"
  shows "ns_objects (build ns st) = tree_registry ns reg"
  using assms(1,3,4)
proof (induction ns rule: rev_induct)
  case Nil
  show ?case by (simp add: assms(2) tree_registry_def)
next
  case (snoc n ns)
  obtain p oid ob where n: "n = (p, oid, ob)" by (cases n) auto
  have "ns_objects (build ns st) = tree_registry ns reg"
    using snoc by (auto simp: wf_nodes_append fresh_items_def)
  moreover have "oid \<notin> K \<union> node_oids ns" "p \<in> K \<union> node_oids ns" "wf_nodes K ns"
    using snoc.prems(1) by (auto simp: wf_nodes_append n)
  moreover have "oid \<notin> fst ` set ns" "p \<noteq> oid"
    using calculation(2,3) wf_nodes_parents [OF calculation(4)] by auto
  moreover have "fresh_items reg {oid}" "empty_blocks ns"
    using snoc.prems by (auto simp: fresh_items_def n)
  ultimately show ?case using register_child_tree [of "build ns st" ns reg oid p ob] by (auto simp: n)
qed

subsection \<open>The tree of a receiver\<close>

definition worker_nodes :: "int \<Rightarrow> nc_worker list \<Rightarrow> tree_node list" where
  "worker_nodes bid ws = map (\<lambda>w. (bid, bo_OID (wk_base w), OWorker w)) ws"

definition channel_nodes :: "ShureModelFamily \<Rightarrow> string \<Rightarrow> int \<Rightarrow> int \<Rightarrow> tree_node list" where
  "channel_nodes family addr d ch =
     (d, d + ch, OBlock (NewBlock (d + ch) None (''Channel'' @ itoa ch) (''Channel '' @ itoa ch))) #
     worker_nodes (d + ch) (fst (CreateChannelWorkers family ch ((d + ch) * 100) addr))"

definition named_workers :: "string \<Rightarrow> (string \<times> nc_worker list \<times> (string \<times> int) list) list \<Rightarrow> nc_worker list" where
  "named_workers name bs = (case map_of bs name of None \<Rightarrow> [] | Some (ws, pm) \<Rightarrow> ws)"

definition sub_block_nodes ::
  "string \<Rightarrow> int \<Rightarrow> int \<Rightarrow> ShureModelFamily \<Rightarrow> string \<Rightarrow> int \<Rightarrow> int \<Rightarrow> tree_node list" where
  "sub_block_nodes name bid base family addr c ch =
     (c, bid, OBlock (NewBlock bid None name (''Ch'' @ itoa ch @ '' '' @ name))) #
     worker_nodes bid (named_workers name (CreateChannelSubWorkers family ch base addr))"

definition gain_block_nodes :: "string \<Rightarrow> int \<Rightarrow> int \<Rightarrow> tree_node list" where
  "gain_block_nodes addr c ch =
     [(c, c * 1000 + 1, OBlock (NewBlock (c * 1000 + 1) None ''AudioGain'' (''Ch'' @ itoa ch @ '' AudioGain''))),
      (c * 1000 + 1, c * 1000 + 10, OWorker (gain_worker addr ch (c * 1000 + 10)))]"

definition sub_nodes :: "ShureModelFamily \<Rightarrow> string \<Rightarrow> int \<Rightarrow> int \<Rightarrow> tree_node list" where
  "sub_nodes family addr c ch =
     gain_block_nodes addr c ch @
     sub_block_nodes ''Battery'' (c * 1000 + 2) (c * 1000 + 20) family addr c ch @
     sub_block_nodes ''Transmitter'' (c * 1000 + 3) (c * 1000 + 30) family addr c ch"

definition device_nodes :: "ShureModelFamily \<Rightarrow> string \<Rightarrow> int \<Rightarrow> int \<Rightarrow> tree_node list" where
  "device_nodes family addr d n =
     (if family = ModelFamilyQLXD
      then worker_nodes d (fst (CreateDeviceWorkers family (d * 100) addr)) @
           concat (map (\<lambda>ch. channel_nodes family addr d ch @ sub_nodes family addr (d + ch) ch) [1..n])
      else concat (map (channel_nodes family addr d) [1..n]))"

text \<open>The setup builds these nodes.\<close>

lemma register_workers_build: "register_workers p ws st = build (worker_nodes p ws) st"
  by (induction ws arbitrary: st) (simp_all add: register_workers_def worker_nodes_def)

lemma fst_setup_device_workers:
  "fst (setup_device_workers family addr d s) =
    build (worker_nodes d (fst (CreateDeviceWorkers family (d * 100) addr))) (fst s)"
  by (simp add: setup_device_workers_def register_workers_build split: prod.split)

lemma fst_setup_channel: "fst (setup_channel family addr d ch s) = build (channel_nodes family addr d ch) (fst s)"
  by (simp add: setup_channel_def channel_nodes_def Let_def register_workers_build split: prod.split)

lemma fst_setup_sub_block:
  "fst (setup_sub_block name bid base family addr c ch s) = build (sub_block_nodes name bid base family addr c ch) (fst s)"
  by (auto simp: setup_sub_block_def sub_block_nodes_def named_workers_def worker_nodes_def Let_def
      register_workers_build split: option.split prod.split)

lemma fst_setup_gain_block: "fst (setup_gain_block addr c ch s) = build (gain_block_nodes addr c ch) (fst s)"
  by (simp add: setup_gain_block_def gain_block_nodes_def Let_def)

lemma fst_setup_sub_blocks:
  "fst (setup_sub_blocks family addr d ch s) = build (sub_nodes family addr (d + ch) ch) (fst s)"
  by (simp add: setup_sub_blocks_def sub_nodes_def Let_def fst_setup_sub_block fst_setup_gain_block)

lemma fst_fold_build:
  assumes "\<And>x s. fst (f x s) = build (g x) (fst s)"
  shows "fst (fold f xs s) = build (concat (map g xs)) (fst s)"
  by (induction xs arbitrary: s) (simp_all add: assms)

lemma fst_setup_channels:
  "fst (fold (setup_channel family addr d) xs s) = build (concat (map (channel_nodes family addr d) xs)) (fst s)"
  by (rule fst_fold_build) (rule fst_setup_channel)

lemma fst_setup_nested_channels:
  "fst (fold (\<lambda>ch s. setup_sub_blocks family addr d ch (setup_channel family addr d ch s)) xs s) =
    build (concat (map (\<lambda>ch. channel_nodes family addr d ch @ sub_nodes family addr (d + ch) ch) xs)) (fst s)"
  by (rule fst_fold_build) (simp add: fst_setup_sub_blocks fst_setup_channel)

lemma fst_setup_tree: "fst (setup_tree family addr d n s) = build (device_nodes family addr d n) (fst s)"
  by (simp add: setup_tree_def device_nodes_def fst_setup_device_workers fst_setup_channels fst_setup_nested_channels)

subsection \<open>Object ids\<close>

lemma worker_oids: "map (\<lambda>w. bo_OID (wk_base w)) (map (\<lambda>(oid, cfg). make_worker (h cfg) oid (l cfg) cfg) (indexed b cs)) =
    map (\<lambda>i. b + int i) [0..<length cs]"
  by (simp add: indexed_def make_worker_def NewWorker_def new_base_def comp_def)

lemma channel_worker_oids:
  "map (\<lambda>w. bo_OID (wk_base w)) (fst (CreateChannelWorkers family ch b addr)) =
    map (\<lambda>i. b + int i) [0..<length (ChannelWorkersConfig family)]"
  using worker_oids [of "\<lambda>cfg. SetChannelParam addr ch (wc_ShureParam cfg)" "\<lambda>cfg. ''Ch'' @ itoa ch @ '' '' @ wc_Name cfg" b "ChannelWorkersConfig family"]
  by (simp add: CreateChannelWorkers_def)

lemma device_worker_oids:
  "map (\<lambda>w. bo_OID (wk_base w)) (fst (CreateDeviceWorkers family b addr)) =
    map (\<lambda>i. b + int i) [0..<length (DeviceWorkersConfig family)]"
  using worker_oids [of "\<lambda>cfg. SetDeviceParam addr (wc_ShureParam cfg)" "\<lambda>cfg. wc_Name cfg" b "DeviceWorkersConfig family"]
  by (simp add: CreateDeviceWorkers_def)

definition sub_configs :: "ShureModelFamily \<Rightarrow> string \<Rightarrow> worker_config list" where
  "sub_configs family name = (case map_of (ChannelSubWorkersConfig family) name of None \<Rightarrow> [] | Some cs \<Rightarrow> cs)"

lemma named_sub_workers:
  "named_workers name (CreateChannelSubWorkers family ch b addr) =
    map (\<lambda>(oid, cfg). make_worker (SetChannelParam addr ch (wc_ShureParam cfg)) oid
           (''Ch'' @ itoa ch @ '' '' @ name @ '' '' @ wc_Name cfg) cfg) (indexed b (sub_configs family name))"
proof -
  have "map_of (map (\<lambda>(k, cs). (k, f k cs)) ps) k = map_option (f k) (map_of ps k)"
    for f :: "string \<Rightarrow> worker_config list \<Rightarrow> nc_worker list \<times> (string \<times> int) list" and ps k
    by (induction ps) auto
  then show ?thesis
    by (simp add: named_workers_def CreateChannelSubWorkers_def sub_configs_def indexed_def split: option.split)
qed

lemma sub_worker_oids:
  "map (\<lambda>w. bo_OID (wk_base w)) (named_workers name (CreateChannelSubWorkers family ch b addr)) =
    map (\<lambda>i. b + int i) [0..<length (sub_configs family name)]"
  unfolding named_sub_workers
  by (rule worker_oids [of "\<lambda>cfg. SetChannelParam addr ch (wc_ShureParam cfg)" "\<lambda>cfg. ''Ch'' @ itoa ch @ '' '' @ name @ '' '' @ wc_Name cfg"])

text \<open>The ids of a channel: its block, its workers, and the nested blocks with their workers.\<close>

definition channel_oids :: "int \<Rightarrow> int set" where
  "channel_oids c = {c} \<union> {c * 100..<c * 100 + 10} \<union> {c * 1000..<c * 1000 + 100}"

definition device_oids :: "int \<Rightarrow> int \<Rightarrow> int set" where
  "device_oids d n = {d} \<union> {d * 100..<d * 100 + 10} \<union> (\<Union>ch\<in>{1..n}. channel_oids (d + ch))"

lemma config_lengths:
  "length (ChannelWorkersConfig family) \<le> 7" "length (DeviceWorkersConfig family) \<le> 4"
  "length (sub_configs family ''Battery'') \<le> 8" "length (sub_configs family ''Transmitter'') \<le> 9"
  by (cases family; simp add: sub_configs_def)+

lemma oids_worker_nodes [simp]: "node_oids (worker_nodes p ws) = set (map (\<lambda>w. bo_OID (wk_base w)) ws)"
  by (induction ws) (simp_all add: worker_nodes_def)

lemma wf_worker_nodes:
  "p \<in> K \<Longrightarrow> distinct (map (\<lambda>w. bo_OID (wk_base w)) ws) \<Longrightarrow> set (map (\<lambda>w. bo_OID (wk_base w)) ws) \<inter> K = {} \<Longrightarrow>
    wf_nodes K (worker_nodes p ws)"
  by (induction ws arbitrary: K) (auto simp: worker_nodes_def)

text \<open>A block with workers at consecutive ids.\<close>

lemma wf_block_nodes:
  assumes "p \<in> K" "bid \<notin> K" and ws: "map (\<lambda>w. bo_OID (wk_base w)) ws = map (\<lambda>i. b + int i) [0..<m]"
    and fresh: "\<And>i. i < m \<Longrightarrow> b + int i \<notin> insert bid K"
  shows "wf_nodes K ((p, bid, ob) # worker_nodes bid ws)"
proof -
  have "distinct (map (\<lambda>w. bo_OID (wk_base w)) ws)"
    unfolding ws by (simp add: distinct_map inj_on_def)
  moreover have "set (map (\<lambda>w. bo_OID (wk_base w)) ws) \<inter> insert bid K = {}"
    unfolding ws using fresh by fastforce
  ultimately have "wf_nodes (insert bid K) (worker_nodes bid ws)" by (intro wf_worker_nodes) simp_all
  with assms(1,2) show ?thesis by simp
qed

lemma oids_channel_nodes:
  "node_oids (channel_nodes family addr d ch) =
    insert (d + ch) (set (map (\<lambda>i. (d + ch) * 100 + int i) [0..<length (ChannelWorkersConfig family)]))"
  unfolding channel_nodes_def node_oids_simps oids_worker_nodes channel_worker_oids ..

lemma oids_sub_block_nodes:
  "node_oids (sub_block_nodes name bid b family addr c ch) =
    insert bid (set (map (\<lambda>i. b + int i) [0..<length (sub_configs family name)]))"
  unfolding sub_block_nodes_def node_oids_simps oids_worker_nodes sub_worker_oids ..

lemma oids_sub_nodes: "node_oids (sub_nodes family addr c ch) \<subseteq> {c * 1000..<c * 1000 + 100}"
  using config_lengths(3,4) [of family]
  by (auto simp: sub_nodes_def gain_block_nodes_def oids_sub_block_nodes)

lemma channel_nodes_region: "node_oids (channel_nodes family addr d ch) \<subseteq> channel_oids (d + ch)"
  using config_lengths(1) [of family] by (auto simp: oids_channel_nodes channel_oids_def)

lemma sub_nodes_region: "node_oids (sub_nodes family addr c ch) \<subseteq> channel_oids c"
  using oids_sub_nodes [of family addr c ch] by (auto simp: channel_oids_def)

lemma wf_channel_nodes:
  assumes "d \<in> K" "K \<inter> channel_oids (d + ch) = {}" "1 \<le> d + ch"
  shows "wf_nodes K (channel_nodes family addr d ch)"
proof -
  have "(d + ch) * 100 + int i \<in> channel_oids (d + ch)" if "i < length (ChannelWorkersConfig family)" for i
    using that config_lengths(1) [of family] by (auto simp: channel_oids_def)
  moreover have "d + ch \<in> channel_oids (d + ch)" by (simp add: channel_oids_def)
  ultimately show ?thesis
    unfolding channel_nodes_def
    by (intro wf_block_nodes [OF _ _ channel_worker_oids]) (use assms in auto)
qed

lemma wf_sub_block_nodes:
  assumes "c \<in> K" "bid \<notin> K" "bid < b" "\<And>i. i < length (sub_configs family name) \<Longrightarrow> b + int i \<notin> K"
  shows "wf_nodes K (sub_block_nodes name bid b family addr c ch)"
  unfolding sub_block_nodes_def
  by (intro wf_block_nodes [OF _ _ sub_worker_oids]) (use assms in auto)

lemma wf_sub_nodes:
  assumes "c \<in> K" "K \<inter> {c * 1000..<c * 1000 + 100} = {}"
  shows "wf_nodes K (sub_nodes family addr c ch)"
proof -
  let ?K1 = "K \<union> node_oids (gain_block_nodes addr c ch)"
  let ?K2 = "?K1 \<union> node_oids (sub_block_nodes ''Battery'' (c * 1000 + 2) (c * 1000 + 20) family addr c ch)"
  have free: "c * 1000 + k \<notin> K" if "0 \<le> k" "k < 100" for k
    using assms(2) that by auto
  note len = config_lengths(3,4) [of family]
  have "wf_nodes K (gain_block_nodes addr c ch)"
    using assms(1) free [of 1] free [of 10] by (simp add: gain_block_nodes_def)
  moreover have "wf_nodes ?K1 (sub_block_nodes ''Battery'' (c * 1000 + 2) (c * 1000 + 20) family addr c ch)"
  proof (rule wf_sub_block_nodes)
    show "c * 1000 + 20 + int i \<notin> ?K1" if "i < length (sub_configs family ''Battery'')" for i
      using that len free [of "20 + int i"] by (simp add: gain_block_nodes_def ac_simps)
  qed (use assms(1) free [of 2] in \<open>auto simp: gain_block_nodes_def\<close>)
  moreover have "wf_nodes ?K2 (sub_block_nodes ''Transmitter'' (c * 1000 + 3) (c * 1000 + 30) family addr c ch)"
  proof (rule wf_sub_block_nodes)
    show "c * 1000 + 30 + int i \<notin> ?K2" if "i < length (sub_configs family ''Transmitter'')" for i
      using that len free [of "30 + int i"] by (auto simp: gain_block_nodes_def oids_sub_block_nodes ac_simps)
  qed (use assms(1) free [of 3] in \<open>auto simp: gain_block_nodes_def oids_sub_block_nodes\<close>)
  ultimately show ?thesis by (simp add: sub_nodes_def wf_nodes_append Un_assoc)
qed

lemma wf_concat:
  assumes wf: "\<And>x K. x \<in> set xs \<Longrightarrow> d \<in> K \<Longrightarrow> K \<inter> R x = {} \<Longrightarrow> wf_nodes K (g x)"
    and region: "\<And>x. node_oids (g x) \<subseteq> R x"
    and disjoint: "\<And>x y. x \<in> set xs \<Longrightarrow> y \<in> set xs \<Longrightarrow> x \<noteq> y \<Longrightarrow> R x \<inter> R y = {}"
    and "distinct xs" "d \<in> K" "\<And>x. x \<in> set xs \<Longrightarrow> K \<inter> R x = {}"
  shows "wf_nodes K (concat (map g xs))"
  using assms(1,3-6)
proof (induction xs arbitrary: K)
  case (Cons x xs)
  have "wf_nodes (K \<union> node_oids (g x)) (concat (map g xs))"
  proof (rule Cons.IH)
    show "(K \<union> node_oids (g x)) \<inter> R y = {}" if "y \<in> set xs" for y
      using Cons.prems(2) [of x y] Cons.prems(3,5) region [of x] that by fastforce
  qed (use Cons.prems in auto)
  moreover have "wf_nodes K (g x)" by (rule Cons.prems(1)) (use Cons.prems(4,5) in auto)
  ultimately show ?case by (simp add: wf_nodes_append)
qed simp

lemma channel_oids_disjoint:
  "c \<noteq> c' \<Longrightarrow> 111 \<le> c \<Longrightarrow> c \<le> 1109 \<Longrightarrow> 111 \<le> c' \<Longrightarrow> c' \<le> 1109 \<Longrightarrow> channel_oids c \<inter> channel_oids c' = {}"
  by (auto simp: channel_oids_def)

lemma channel_device_disjoint:
  "c \<noteq> d \<Longrightarrow> 111 \<le> c \<Longrightarrow> c \<le> 1109 \<Longrightarrow> 110 \<le> d \<Longrightarrow> d \<le> 1100 \<Longrightarrow>
    channel_oids c \<inter> ({d} \<union> {d * 100..<d * 100 + 10}) = {}"
  by (auto simp: channel_oids_def)

lemma wf_channels:
  assumes "110 \<le> d" "d \<le> 1100" "n \<le> 9" "d \<in> K" "K \<subseteq> {d} \<union> {d * 100..<d * 100 + 10}"
  shows "wf_nodes K (concat (map (channel_nodes family addr d) [1..n]))"
    and "wf_nodes K (concat (map (\<lambda>ch. channel_nodes family addr d ch @ sub_nodes family addr (d + ch) ch) [1..n]))"
proof -
  have disjoint: "channel_oids (d + x) \<inter> channel_oids (d + y) = {}" if "x \<in> set [1..n]" "y \<in> set [1..n]" "x \<noteq> y" for x y
    using that assms(1-3) by (intro channel_oids_disjoint) auto
  have fresh: "K \<inter> channel_oids (d + x) = {}" if "x \<in> set [1..n]" for x
    using channel_device_disjoint [of "d + x" d] that assms by auto
  have dist: "distinct [1..n]" by (simp add: distinct_upto)
  have channel: "wf_nodes K (channel_nodes family addr d x)"
    if "x \<in> set [1..n]" "d \<in> K" "K \<inter> channel_oids (d + x) = {}" for x K
    using that assms(1) by (intro wf_channel_nodes) auto
  have nested: "wf_nodes K (channel_nodes family addr d x @ sub_nodes family addr (d + x) x)"
    if "x \<in> set [1..n]" "d \<in> K" "K \<inter> channel_oids (d + x) = {}" for x K
  proof -
    have "wf_nodes (K \<union> node_oids (channel_nodes family addr d x)) (sub_nodes family addr (d + x) x)"
    proof (rule wf_sub_nodes)
      have "K \<inter> {(d + x) * 1000..<(d + x) * 1000 + 100} = {}"
        using that(3) by (auto simp: channel_oids_def)
      moreover have "node_oids (channel_nodes family addr d x) \<inter> {(d + x) * 1000..<(d + x) * 1000 + 100} = {}"
        using that(1) assms(1) config_lengths(1) [of family] by (auto simp: oids_channel_nodes)
      ultimately show "(K \<union> node_oids (channel_nodes family addr d x)) \<inter> {(d + x) * 1000..<(d + x) * 1000 + 100} = {}"
        by blast
    qed (simp add: oids_channel_nodes)
    with channel [OF that] show ?thesis by (simp add: wf_nodes_append)
  qed
  show "wf_nodes K (concat (map (channel_nodes family addr d) [1..n]))"
    by (rule wf_concat [where R = "\<lambda>x. channel_oids (d + x)", OF channel channel_nodes_region disjoint dist assms(4) fresh])
  have region: "node_oids (channel_nodes family addr d x @ sub_nodes family addr (d + x) x) \<subseteq> channel_oids (d + x)" for x
    using channel_nodes_region sub_nodes_region by simp
  show "wf_nodes K (concat (map (\<lambda>ch. channel_nodes family addr d ch @ sub_nodes family addr (d + ch) ch) [1..n]))"
    by (rule wf_concat [where R = "\<lambda>x. channel_oids (d + x)", OF nested region disjoint dist assms(4) fresh])
qed

lemma wf_device_nodes:
  assumes "110 \<le> d" "d \<le> 1100" "n \<le> 9"
  shows "wf_nodes {d} (device_nodes family addr d n)"
proof (cases "family = ModelFamilyQLXD")
  case True
  let ?ws = "fst (CreateDeviceWorkers family (d * 100) addr)"
  have sub: "set (map (\<lambda>w. bo_OID (wk_base w)) ?ws) \<subseteq> {d * 100..<d * 100 + 10}"
    unfolding device_worker_oids using config_lengths(2) [of family] by auto
  have "wf_nodes {d} (worker_nodes d ?ws)"
  proof (rule wf_worker_nodes)
    show "distinct (map (\<lambda>w. bo_OID (wk_base w)) ?ws)"
      unfolding device_worker_oids by (simp add: distinct_map inj_on_def)
    show "set (map (\<lambda>w. bo_OID (wk_base w)) ?ws) \<inter> {d} = {}" using sub assms(1) by fastforce
  qed simp
  moreover have "wf_nodes ({d} \<union> node_oids (worker_nodes d ?ws))
      (concat (map (\<lambda>ch. channel_nodes family addr d ch @ sub_nodes family addr (d + ch) ch) [1..n]))"
    by (rule wf_channels(2)) (use assms sub in auto)
  ultimately show ?thesis using True by (simp add: device_nodes_def wf_nodes_append)
next
  case False
  with wf_channels(1) [OF assms, of "{d}"] show ?thesis by (simp add: device_nodes_def)
qed

lemma device_nodes_region: "node_oids (device_nodes family addr d n) \<subseteq> device_oids d n"
proof -
  have workers: "node_oids (worker_nodes d (fst (CreateDeviceWorkers family (d * 100) addr))) \<subseteq> {d * 100..<d * 100 + 10}"
    unfolding oids_worker_nodes device_worker_oids using config_lengths(2) [of family] by auto
  have flat: "node_oids (concat (map (channel_nodes family addr d) [1..n])) \<subseteq> (\<Union>ch\<in>{1..n}. channel_oids (d + ch))"
    unfolding node_oids_concat using channel_nodes_region [of family addr d] by auto
  have nested: "node_oids (concat (map (\<lambda>ch. channel_nodes family addr d ch @ sub_nodes family addr (d + ch) ch) [1..n]))
      \<subseteq> (\<Union>ch\<in>{1..n}. channel_oids (d + ch))"
  proof -
    have "node_oids (channel_nodes family addr d ch @ sub_nodes family addr (d + ch) ch) \<subseteq> channel_oids (d + ch)" for ch
      using channel_nodes_region [of family addr d ch] sub_nodes_region [of family addr "d + ch" ch] by simp
    then show ?thesis unfolding node_oids_concat by (auto simp del: node_oids_simps)
  qed
  show ?thesis
  proof (cases "family = ModelFamilyQLXD")
    case True
    then have "node_oids (device_nodes family addr d n) =
        node_oids (worker_nodes d (fst (CreateDeviceWorkers family (d * 100) addr))) \<union>
        node_oids (concat (map (\<lambda>ch. channel_nodes family addr d ch @ sub_nodes family addr (d + ch) ch) [1..n]))"
      by (simp add: device_nodes_def)
    with workers nested show ?thesis unfolding device_oids_def by blast
  next
    case False
    then have "device_nodes family addr d n = concat (map (channel_nodes family addr d) [1..n])"
      by (simp add: device_nodes_def)
    with flat show ?thesis unfolding device_oids_def by auto
  qed
qed

subsection \<open>What the setup leaves in the registry\<close>

lemma RegisterClass_objects:
  "p \<noteq> 3 \<Longrightarrow> ns_objects (RegisterClass d st) p = ns_objects st p"
  "ns_objects (RegisterClass d st) p = Some (OBlock b) \<longleftrightarrow> ns_objects st p = Some (OBlock b)"
  by (auto simp: RegisterClass_def split: option.splits nc_object.splits)

lemma fold_RegisterClass_objects:
  "p \<noteq> 3 \<Longrightarrow> ns_objects (fold RegisterClass ds st) p = ns_objects st p"
  "ns_objects (fold RegisterClass ds st) p = Some (OBlock b) \<longleftrightarrow> ns_objects st p = Some (OBlock b)"
  by (induction ds arbitrary: st) (simp_all add: RegisterClass_objects)

lemma register_classes_objects:
  "p \<noteq> 3 \<Longrightarrow> ns_objects (register_classes family st) p = ns_objects st p"
  "ns_objects (register_classes family st) p = Some (OBlock b) \<longleftrightarrow> ns_objects st p = Some (OBlock b)"
  by (simp_all add: register_classes_def Let_def fold_RegisterClass_objects del: fold.simps)

fun enter_item :: "int \<Rightarrow> nc_object \<Rightarrow> nc_object" where
  "enter_item oid (OBlock b) = OBlock (AddItem b oid)"
| "enter_item oid ob = ob"

text \<open>The registry the setup is to leave, from the registry with the classes entered.\<close>

definition device_registry ::
  "ShureModelFamily \<Rightarrow> string \<Rightarrow> string \<Rightarrow> int \<Rightarrow> int \<Rightarrow> registry \<Rightarrow> registry" where
  "device_registry family addr inst d n reg =
     (tree_registry (device_nodes family addr d n) (reg(d \<mapsto> installed (OBlock (device_block d inst)))))
       (1 := map_option (enter_item d) (reg 1))"

lemma device_nodes_parents: "fst ` set (worker_nodes p ws) \<subseteq> {p}"
  by (auto simp: worker_nodes_def)

lemma empty_worker_nodes [simp]: "empty_blocks (worker_nodes p ws)"
  by (induction ws) (simp_all add: worker_nodes_def)

lemma empty_device_nodes: "empty_blocks (device_nodes family addr d n)"
proof -
  have conc: "empty_blocks (concat nss)" if "\<And>ns. ns \<in> set nss \<Longrightarrow> empty_blocks ns" for nss
    using that by (induction nss) auto
  have channel: "empty_blocks (channel_nodes family addr d ch)" for ch
    by (simp add: channel_nodes_def NewBlock_def)
  have sub: "empty_blocks (sub_nodes family addr c ch)" for c ch
    by (simp add: sub_nodes_def gain_block_nodes_def sub_block_nodes_def NewBlock_def)
  show ?thesis unfolding device_nodes_def using channel sub by (auto intro!: conc)
qed

lemma fresh_items_subset: "fresh_items reg S \<Longrightarrow> T \<subseteq> S \<Longrightarrow> fresh_items reg T"
  by (auto simp: fresh_items_def)

lemma fresh_classes: "fresh_items (ns_objects (register_classes family st)) S \<longleftrightarrow> fresh_items (ns_objects st) S"
  by (simp add: fresh_items_def register_classes_objects)

lemma device_oids_lower: "110 \<le> d \<Longrightarrow> p \<in> device_oids d n \<Longrightarrow> 110 \<le> p"
  by (auto simp: device_oids_def channel_oids_def)

lemma tree_registry_other:
  assumes "wf_nodes K ns" "p \<notin> K" "p \<notin> node_oids ns"
  shows "tree_registry ns reg p = reg p"
proof -
  have "node_children p ns = []"
    using wf_nodes_parents [OF assms(1)] assms(2,3) by (intro node_children_none) auto
  moreover have "map_of (map (\<lambda>n. (node_oid n, installed (snd (snd n)))) ns) p = None"
    using assms(3) by (simp add: map_of_eq_None_iff image_image comp_def node_oids_def)
  ultimately show ?thesis by (simp add: tree_registry_def map_add_def)
qed

lemma setup_refines_tree_lemma:
  assumes "110 \<le> d" "d \<le> 1100" "n \<le> 9" "fresh_items (ns_objects st) (device_oids d n)"
  shows "ns_objects (fst (setupDeviceNCP addr inst d family n (st, info))) =
    device_registry family addr inst d n (ns_objects (register_classes family st))"
proof -
  let ?nodes = "device_nodes family addr d n" and ?reg = "ns_objects (register_classes family st)"
  let ?st1 = "RegisterNCPObject d (OBlock (device_block d inst)) (register_classes family st)"
  have reg1: "ns_objects ?st1 = ?reg(d \<mapsto> installed (OBlock (device_block d inst)))"
    by (simp add: RegisterNCPObject_def installed_def)
  have "fresh_items ?reg (node_oids ?nodes)"
    using fresh_items_subset [OF assms(4) device_nodes_region] by (simp add: fresh_classes)
  then have "fresh_items (?reg(d \<mapsto> installed (OBlock (device_block d inst)))) (node_oids ?nodes)"
    by (auto simp: fresh_items_def installed_def device_block_def NewBlock_def SetResolver_def)
  with build_tree [OF wf_device_nodes [OF assms(1-3)] reg1 empty_device_nodes]
  have tree: "ns_objects (build ?nodes ?st1) = tree_registry ?nodes (?reg(d \<mapsto> installed (OBlock (device_block d inst))))"
    by simp
  have "1 \<notin> node_oids ?nodes"
    using device_nodes_region [of family addr d n] device_oids_lower [OF assms(1), of 1 n] by auto
  then have root: "tree_registry ?nodes (?reg(d \<mapsto> installed (OBlock (device_block d inst)))) 1 = ?reg 1"
    using assms(1) by (subst tree_registry_other [OF wf_device_nodes [OF assms(1-3)]]) auto
  have "ns_objects (fst (setupDeviceNCP addr inst d family n (st, info))) = ns_objects (block_add_item 1 d (build ?nodes ?st1))"
    by (simp add: setupDeviceNCP_def Let_def fst_setup_tree split_beta)
  also have "\<dots> = device_registry family addr inst d n ?reg"
    by (rule ext) (auto simp: block_add_item_objects tree root device_registry_def split: option.split nc_object.split)
  finally show ?thesis .
qed

text \<open>
  C10. The setup of a receiver implements the tree of its model family: after it the registry
  holds the device block, the block of each channel, and on a QLX-D receiver the nested blocks,
  each with its workers as members in order, the root block lists the device, and every other
  object is as it was, apart from the classes entered in the class manager.
\<close>

theorem setup_refines_tree:
  assumes "110 \<le> d" "d \<le> 1100" "n \<le> 9" "fresh_items (ns_objects st) (device_oids d n)"
  shows "ns_objects (fst (setupDeviceNCP addr inst d family n (st, info))) =
    device_registry family addr inst d n (ns_objects (register_classes family st))"
  by (rule setup_refines_tree_lemma [OF assms])

lemma new_state_fresh: "fresh_items (ns_objects new_ncp_state) (device_oids 110 n)"
proof -
  have "p \<notin> device_oids 110 n" if "p \<in> {2, 3}" for p
    using device_oids_lower [of 110 p n] that by auto
  then show ?thesis
    by (auto simp: fresh_items_def new_ncp_state_def RegisterNCPObject_def append_item_def NewBlock_def SetResolver_def
        split: if_split_asm)
qed

definition test_info :: device_info where
  "test_info = new_device_info 0 ModelFamilyQLXD ''id'' 1 110 ''QLXD4''"

theorem setup_refines_tree_witness:
  "ns_objects (fst (setupDeviceNCP ''r'' ''ULXD4Q'' 110 ModelFamilyULXD 4 (new_ncp_state, test_info))) =
    device_registry ModelFamilyULXD ''r'' ''ULXD4Q'' 110 4 (ns_objects (register_classes ModelFamilyULXD new_ncp_state))"
  by (rule setup_refines_tree) (simp_all add: new_state_fresh)

subsection \<open>Members\<close>

lemma node_children_worker_nodes [simp]:
  "node_children p (worker_nodes q ws) = (if p = q then map (\<lambda>w. bo_OID (wk_base w)) ws else [])"
  by (induction ws) (auto simp: worker_nodes_def)

lemma node_children_concat:
  "node_children p (concat nss) = concat (map (node_children p) nss)"
  by (induction nss) simp_all

lemma concat_only:
  assumes "distinct xs" "x \<in> set xs" "\<And>y. y \<in> set xs \<Longrightarrow> y \<noteq> x \<Longrightarrow> f y = []"
  shows "concat (map f xs) = f x"
  using assms
proof (induction xs)
  case (Cons y ys)
  then show ?case by (cases "x = y") auto
qed simp

abbreviation consecutive :: "int \<Rightarrow> nat \<Rightarrow> int list" where
  "consecutive b m \<equiv> map (\<lambda>i. b + int i) [0..<m]"

definition nested_blocks :: "ShureModelFamily \<Rightarrow> int \<Rightarrow> int list" where
  "nested_blocks family c = (if family = ModelFamilyQLXD then [c * 1000 + 1, c * 1000 + 2, c * 1000 + 3] else [])"

lemma children_channel_nodes:
  "node_children p (channel_nodes family addr d ch) =
    (if p = d then [d + ch] else []) @ (if p = d + ch then consecutive ((d + ch) * 100) (length (ChannelWorkersConfig family)) else [])"
  by (simp add: channel_nodes_def channel_worker_oids)

lemma children_sub_nodes:
  "0 < c \<Longrightarrow> p < c * 1000 \<Longrightarrow> node_children p (sub_nodes ModelFamilyQLXD addr c ch) =
    (if p = c then nested_blocks ModelFamilyQLXD c else [])"
  by (auto simp: sub_nodes_def gain_block_nodes_def sub_block_nodes_def nested_blocks_def)

lemma children_of_channel:
  assumes "110 \<le> d" "d \<le> 1100" "n \<le> 9" "ch \<in> {1..n}"
  shows "node_children (d + ch) (device_nodes family addr d n) =
    consecutive ((d + ch) * 100) (length (ChannelWorkersConfig family)) @ nested_blocks family (d + ch)"
proof -
  let ?f = "\<lambda>x. node_children (d + ch) (channel_nodes family addr d x)"
  let ?g = "\<lambda>x. node_children (d + ch) (channel_nodes ModelFamilyQLXD addr d x @ sub_nodes ModelFamilyQLXD addr (d + x) x)"
  have ch: "ch \<in> set [1..n]" using assms(4) by simp
  have other: "?f x = []" if "x \<in> set [1..n]" "x \<noteq> ch" for x
    using that assms by (simp add: children_channel_nodes)
  have other_nested: "?g x = []" if "x \<in> set [1..n]" "x \<noteq> ch" for x
    using that assms by (simp add: children_channel_nodes children_sub_nodes)
  have flat: "concat (map ?f [1..n]) = ?f ch" by (rule concat_only [OF _ ch other]) (simp_all add: distinct_upto)
  have nested: "concat (map ?g [1..n]) = ?g ch" by (rule concat_only [OF _ ch other_nested]) (simp_all add: distinct_upto)
  show ?thesis
  proof (cases "family = ModelFamilyQLXD")
    case True
    then have "node_children (d + ch) (device_nodes family addr d n) = ?g ch"
      using assms(4) nested by (simp add: device_nodes_def node_children_concat comp_def)
    also have "\<dots> = consecutive ((d + ch) * 100) (length (ChannelWorkersConfig ModelFamilyQLXD)) @ nested_blocks ModelFamilyQLXD (d + ch)"
      using assms by (simp add: children_channel_nodes children_sub_nodes)
    finally show ?thesis using True by simp
  next
    case False
    then have "node_children (d + ch) (device_nodes family addr d n) = ?f ch"
      using flat by (simp add: device_nodes_def node_children_concat comp_def)
    with False assms(4) show ?thesis by (simp add: children_channel_nodes nested_blocks_def)
  qed
qed

lemma concat_map_single: "(\<And>x. x \<in> set xs \<Longrightarrow> g x = [h x]) \<Longrightarrow> concat (map g xs) = map h xs"
  by (induction xs) simp_all

lemma children_of_device:
  assumes "110 \<le> d" "d \<le> 1100" "n \<le> 9"
  shows "node_children d (device_nodes family addr d n) =
    consecutive (d * 100) (length (DeviceWorkersConfig family)) @ map (\<lambda>ch. d + ch) [1..n]"
proof -
  have flat: "concat (map (\<lambda>x. node_children d (channel_nodes family addr d x)) [1..n]) = map (\<lambda>ch. d + ch) [1..n]"
    using assms by (intro concat_map_single) (simp add: children_channel_nodes)
  have nested: "concat (map (\<lambda>x. node_children d (channel_nodes ModelFamilyQLXD addr d x @ sub_nodes ModelFamilyQLXD addr (d + x) x)) [1..n]) =
      map (\<lambda>ch. d + ch) [1..n]"
    using assms by (intro concat_map_single) (simp add: children_channel_nodes children_sub_nodes)
  show ?thesis
  proof (cases "family = ModelFamilyQLXD")
    case True
    have "node_children d (device_nodes ModelFamilyQLXD addr d n) =
        node_children d (worker_nodes d (fst (CreateDeviceWorkers ModelFamilyQLXD (d * 100) addr))) @ map (\<lambda>ch. d + ch) [1..n]"
      unfolding nested [symmetric] by (simp add: device_nodes_def node_children_concat comp_def)
    then show ?thesis unfolding True node_children_worker_nodes device_worker_oids by simp
  next
    case False
    then have "DeviceWorkersConfig family = []" by (cases family) simp_all
    with False flat show ?thesis by (simp add: device_nodes_def node_children_concat comp_def)
  qed
qed

lemma wf_nodes_distinct: "wf_nodes K ns \<Longrightarrow> distinct (map node_oid ns) \<and> node_oids ns \<inter> K = {}"
  by (induction K ns rule: wf_nodes.induct) (auto simp: node_oids_def)

lemma tree_registry_node:
  assumes "wf_nodes K ns" "(p, oid, ob) \<in> set ns"
  shows "tree_registry ns reg oid = Some (append_items (node_children oid ns) (installed ob))"
proof -
  have "map_of (map (\<lambda>n. (node_oid n, installed (snd (snd n)))) ns) oid = Some (installed ob)"
    using wf_nodes_distinct [OF assms(1)] assms(2) by (intro map_of_is_SomeI) (force simp: comp_def)+
  then show ?thesis by (simp add: tree_registry_def map_add_def)
qed

lemma device_registry_node:
  assumes "110 \<le> d" "d \<le> 1100" "n \<le> 9" "(p, oid, ob) \<in> set (device_nodes family addr d n)"
  shows "device_registry family addr inst d n reg oid =
    Some (append_items (node_children oid (device_nodes family addr d n)) (installed ob))"
proof -
  have "oid \<in> node_oids (device_nodes family addr d n)" using assms(4) by (force simp: node_oids_def)
  then have "oid \<noteq> 1" using device_nodes_region device_oids_lower [OF assms(1)] by fastforce
  then show ?thesis
    using tree_registry_node [OF wf_device_nodes [OF assms(1-3)] assms(4)] by (simp add: device_registry_def)
qed

lemma device_registry_device:
  assumes "110 \<le> d" "d \<le> 1100" "n \<le> 9"
  shows "device_registry family addr inst d n reg d =
    Some (append_items (node_children d (device_nodes family addr d n)) (installed (OBlock (device_block d inst))))"
proof -
  have "map_of (map (\<lambda>n. (node_oid n, installed (snd (snd n)))) (device_nodes family addr d n)) d = None"
    using wf_nodes_distinct [OF wf_device_nodes [OF assms, of family addr]]
    by (simp add: map_of_eq_None_iff image_image comp_def node_oids_def)
  with assms(1) show ?thesis by (simp add: device_registry_def tree_registry_def map_add_def)
qed

lemma channel_block_node:
  assumes "ch \<in> {1..n}"
  shows "(d, d + ch, OBlock (NewBlock (d + ch) None (''Channel'' @ itoa ch) (''Channel '' @ itoa ch)))
    \<in> set (device_nodes family addr d n)"
  using assms by (auto simp: device_nodes_def channel_nodes_def)

text \<open>
  After the setup the device block lists the device workers and then the channel blocks, the
  block of each channel lists its workers and then the nested blocks, and the root block lists
  the device.
\<close>

lemma setup_members:
  assumes "110 \<le> d" "d \<le> 1100" "n \<le> 9" "fresh_items (ns_objects st) (device_oids d n)"
    and "st' = fst (setupDeviceNCP addr inst d family n (st, info))"
  shows "(\<exists>b. GetNCPObject d st' = Some (OBlock b) \<and>
      blk_Items b = consecutive (d * 100) (length (DeviceWorkersConfig family)) @ map (\<lambda>ch. d + ch) [1..n]) \<and>
    (\<forall>ch\<in>{1..n}. \<exists>b. GetNCPObject (d + ch) st' = Some (OBlock b) \<and> bo_Role (blk_base b) = ''Channel'' @ itoa ch \<and>
      blk_Items b = consecutive ((d + ch) * 100) (length (ChannelWorkersConfig family)) @ nested_blocks family (d + ch)) \<and>
    (\<forall>b. GetNCPObject 1 st = Some (OBlock b) \<longrightarrow> GetNCPObject 1 st' = Some (OBlock (AddItem b d)))"
proof -
  let ?reg = "ns_objects (register_classes family st)"
  have reg: "GetNCPObject oid st' = device_registry family addr inst d n ?reg oid" for oid
    unfolding GetNCPObject_def assms(5) setup_refines_tree_lemma [OF assms(1-4)] ..
  have "\<exists>b. GetNCPObject d st' = Some (OBlock b) \<and>
      blk_Items b = consecutive (d * 100) (length (DeviceWorkersConfig family)) @ map (\<lambda>ch. d + ch) [1..n]"
    unfolding reg device_registry_device [OF assms(1-3)] children_of_device [OF assms(1-3)]
    by (simp add: installed_def device_block_def NewBlock_def SetResolver_def)
  moreover have "\<exists>b. GetNCPObject (d + ch) st' = Some (OBlock b) \<and> bo_Role (blk_base b) = ''Channel'' @ itoa ch \<and>
      blk_Items b = consecutive ((d + ch) * 100) (length (ChannelWorkersConfig family)) @ nested_blocks family (d + ch)"
    if "ch \<in> {1..n}" for ch
    unfolding reg device_registry_node [OF assms(1-3) channel_block_node [OF that]] children_of_channel [OF assms(1-3) that]
    by (simp add: installed_def NewBlock_def new_base_def SetResolver_def)
  moreover have "GetNCPObject 1 st' = Some (OBlock (AddItem b d))" if "GetNCPObject 1 st = Some (OBlock b)" for b
    using that unfolding reg by (simp add: device_registry_def register_classes_objects GetNCPObject_def)
  ultimately show ?thesis by blast
qed

lemma setup_members_witness:
  "\<exists>b. GetNCPObject 111 (fst (setupDeviceNCP ''r'' ''QLXD4'' 110 ModelFamilyQLXD 1 (new_ncp_state, test_info))) =
     Some (OBlock b) \<and> blk_Items b = [11100, 11101, 11102, 11103, 111001, 111002, 111003]"
proof -
  have "(1 :: int) \<in> {1..1}" by simp
  with setup_members [OF _ _ _ new_state_fresh refl, of 1 "''r''" "''QLXD4''" ModelFamilyQLXD test_info]
  obtain b where "GetNCPObject 111 (fst (setupDeviceNCP ''r'' ''QLXD4'' 110 ModelFamilyQLXD 1 (new_ncp_state, test_info))) = Some (OBlock b)"
    and "blk_Items b = consecutive (111 * 100) (length (ChannelWorkersConfig ModelFamilyQLXD)) @ nested_blocks ModelFamilyQLXD 111"
    by auto
  then show ?thesis by (auto simp: nested_blocks_def upt_rec)
qed

end
