(* ===== verification/Gateway_Routes.thy ===== *)
theory Gateway_Routes
  imports Gateway_Tree
begin

text \<open>
  Consequences of the tree of a receiver: object ids of different receivers never meet up to the
  hundredth, each parameter is routed to its worker, the classes of the workers are registered,
  and the invariant of the control server is kept.
\<close>

subsection \<open>Object ids of several receivers\<close>

text \<open>The id of the device block of a receiver, from its index.\<close>

definition device_OID :: "int \<Rightarrow> int" where "device_OID index = 100 + index * 10"

lemma device_OID_bounds: "1 \<le> k \<Longrightarrow> k \<le> 100 \<Longrightarrow> 110 \<le> device_OID k \<and> device_OID k \<le> 1100"
  by (simp add: device_OID_def)

lemma device_oids_disjoint:
  assumes "k \<in> {1..100}" "k' \<in> {1..100}" "k \<noteq> k'" "n \<le> 9" "n' \<le> 9"
  shows "device_oids (device_OID k) n \<inter> device_oids (device_OID k') n' = {}"
proof -
  let ?d = "device_OID k" and ?d' = "device_OID k'"
  have apart: "?d + x \<noteq> ?d' + y" if "0 \<le> x" "x \<le> 9" "0 \<le> y" "y \<le> 9" for x y
    using that assms(3) unfolding device_OID_def by presburger
  have range: "110 \<le> ?d" "?d \<le> 1100" "110 \<le> ?d'" "?d' \<le> 1100"
    using assms(1,2) device_OID_bounds by auto
  have channels: "channel_oids (?d + x) \<inter> channel_oids (?d' + y) = {}" if "x \<in> {1..n}" "y \<in> {1..n'}" for x y
    using that apart [of x y] range assms(4,5) by (intro channel_oids_disjoint) auto
  have left: "channel_oids (?d + x) \<inter> ({?d'} \<union> {?d' * 100..<?d' * 100 + 10}) = {}" if "x \<in> {1..n}" for x
    using that apart [of x 0] range assms(4) by (intro channel_device_disjoint) auto
  have right: "channel_oids (?d' + y) \<inter> ({?d} \<union> {?d * 100..<?d * 100 + 10}) = {}" if "y \<in> {1..n'}" for y
    using that apart [of 0 y] range assms(5) by (intro channel_device_disjoint) auto
  have devices: "({?d} \<union> {?d * 100..<?d * 100 + 10}) \<inter> ({?d'} \<union> {?d' * 100..<?d' * 100 + 10}) = {}"
    using apart [of 0 0] range by auto
  show ?thesis
    unfolding device_oids_def using channels left right devices by blast
qed

text \<open>The ids the setup of a receiver really gives out.\<close>

definition given_oids :: "ShureModelFamily \<Rightarrow> string \<Rightarrow> int \<Rightarrow> int \<Rightarrow> int set" where
  "given_oids family addr index n = insert (device_OID index) (node_oids (device_nodes family addr (device_OID index) n))"

lemma given_oids_region: "given_oids family addr k n \<subseteq> device_oids (device_OID k) n"
proof -
  have "device_OID k \<in> device_oids (device_OID k) n" by (simp add: device_oids_def)
  with device_nodes_region [of family addr "device_OID k" n] show ?thesis by (simp add: given_oids_def)
qed

lemma device_workers_given:
  "node_oids (worker_nodes d (fst (CreateDeviceWorkers ModelFamilyQLXD (d * 100) addr))) \<subseteq>
    node_oids (device_nodes ModelFamilyQLXD addr d n)"
  by (simp add: device_nodes_def del: oids_worker_nodes)

lemma hundredth_workers: "\<forall>i<4. 111000 + int i \<in> given_oids ModelFamilyQLXD addr 101 n"
proof -
  have "111000 + int i \<in> node_oids (worker_nodes 1110 (fst (CreateDeviceWorkers ModelFamilyQLXD (1110 * 100) addr)))"
    if "i < 4" for i
    unfolding oids_worker_nodes device_worker_oids using that by simp presburger
  moreover have "device_OID 101 = 1110" by (simp add: device_OID_def)
  ultimately show ?thesis
    using device_workers_given [of 1110 addr n] unfolding given_oids_def by fastforce
qed

text \<open>
  C27. The object ids of two receivers with different indexes between 1 and 100, of whatever
  family and with at most nine channels, are disjoint, and none is the id of a standard object.
  The bound is sharp: the device workers of the QLX-D receiver with index 101 get ids of
  the nested blocks of the one with index 1.
\<close>

theorem receiver_oids_disjoint:
  "(\<forall>k\<in>{1..100}. \<forall>k'\<in>{1..100}. \<forall>n\<le>9. \<forall>n'\<le>9. k \<noteq> k' \<longrightarrow>
      given_oids family addr k n \<inter> given_oids family' addr' k' n' = {} \<and>
      given_oids family addr k n \<inter> {1, 2, 3} = {}) \<and>
    {111001, 111002, 111003} \<subseteq> given_oids ModelFamilyQLXD addr 1 1 \<inter> given_oids ModelFamilyQLXD addr' 101 1"
proof -
  have pair: "given_oids family addr k n \<inter> given_oids family' addr' k' n' = {} \<and> given_oids family addr k n \<inter> {1, 2, 3} = {}"
    if "k \<in> {1..100}" "k' \<in> {1..100}" "n \<le> 9" "n' \<le> 9" "k \<noteq> k'" for k k' n n'
  proof -
    have "110 \<le> device_OID k" using that(1) device_OID_bounds by simp
    then have "given_oids family addr k n \<inter> {1, 2, 3} = {}"
      using given_oids_region [of family addr k n] device_oids_lower by fastforce
    with device_oids_disjoint [OF that(1,2,5,3,4)] given_oids_region [of family addr k n] given_oids_region [of family' addr' k' n']
    show ?thesis by blast
  qed
  have first: "{111001, 111002, 111003} \<subseteq> given_oids ModelFamilyQLXD addr 1 1"
    by (auto simp: given_oids_def device_OID_def device_nodes_def sub_nodes_def gain_block_nodes_def oids_sub_block_nodes)
  have hundredth: "{111001, 111002, 111003} \<subseteq> given_oids ModelFamilyQLXD addr' 101 1"
    using hundredth_workers [rule_format, where i = 1 and addr = addr' and n = 1]
      hundredth_workers [rule_format, where i = 2 and addr = addr' and n = 1]
      hundredth_workers [rule_format, where i = 3 and addr = addr' and n = 1] by simp
  show ?thesis
    by (intro conjI ballI allI impI; (rule pair [THEN conjunct1] | rule pair [THEN conjunct2] | rule Int_greatest [OF first hundredth]);
        assumption)
qed

theorem receiver_oids_disjoint_witness:
  "given_oids ModelFamilyQLXD ''a'' 1 4 \<inter> given_oids ModelFamilyULXD ''b'' 100 4 = {}"
proof -
  have "(1 :: int) \<in> {1..100}" "(100 :: int) \<in> {1..100}" "(4 :: int) \<le> 9" "(1 :: int) \<noteq> 100" by simp_all
  with receiver_oids_disjoint [of ModelFamilyQLXD "''a''" ModelFamilyULXD "''b''"] show ?thesis by blast
qed

subsection \<open>Other objects\<close>

lemma setup_frame:
  assumes "110 \<le> d" "d \<le> 1100" "n \<le> 9" "fresh_items (ns_objects st) (device_oids d n)"
    and "p \<notin> device_oids d n" "p \<noteq> 1" "p \<noteq> 3"
  shows "GetNCPObject p (fst (setupDeviceNCP addr inst d family n (st, info))) = GetNCPObject p st"
proof -
  have "p \<noteq> d" using assms(5) by (auto simp: device_oids_def)
  moreover have "p \<notin> node_oids (device_nodes family addr d n)" using assms(5) device_nodes_region by blast
  ultimately have "tree_registry (device_nodes family addr d n) reg p = reg p" for reg
    by (intro tree_registry_other [OF wf_device_nodes [OF assms(1-3)]]) simp_all
  with \<open>p \<noteq> d\<close> assms(6,7) show ?thesis
    unfolding GetNCPObject_def setup_refines_tree_lemma [OF assms(1-4)]
    by (simp add: device_registry_def register_classes_objects)
qed

subsection \<open>Routes\<close>

text \<open>A route: the key of a parameter, the id of its worker, the role of the worker.\<close>

type_synonym route = "string \<times> int \<times> string"

definition config_routes :: "(string \<Rightarrow> string) \<Rightarrow> int \<Rightarrow> worker_config list \<Rightarrow> route list" where
  "config_routes key b cs = map (\<lambda>(oid, cfg). (key (wc_ShureParam cfg), oid, wc_Name cfg)) (indexed b cs)"

definition channel_routes :: "ShureModelFamily \<Rightarrow> int \<Rightarrow> int \<Rightarrow> route list" where
  "channel_routes family d ch = config_routes (channel_key ch) ((d + ch) * 100) (ChannelWorkersConfig family)"

definition nested_routes :: "ShureModelFamily \<Rightarrow> int \<Rightarrow> int \<Rightarrow> route list" where
  "nested_routes family c ch =
     (channel_key ch ''AUDIO_GAIN'', c * 1000 + 10, ''GainWorker'') #
     config_routes (channel_key ch) (c * 1000 + 20) (sub_configs family ''Battery'') @
     config_routes (channel_key ch) (c * 1000 + 30) (sub_configs family ''Transmitter'')"

definition device_routes :: "ShureModelFamily \<Rightarrow> int \<Rightarrow> int \<Rightarrow> route list" where
  "device_routes family d n =
     (if family = ModelFamilyQLXD
      then config_routes id (d * 100) (DeviceWorkersConfig family) @
           concat (map (\<lambda>ch. channel_routes family d ch @ nested_routes family (d + ch) ch) [1..n])
      else concat (map (channel_routes family d) [1..n]))"

definition put_routes :: "route list \<Rightarrow> (string \<Rightarrow> int option) \<Rightarrow> string \<Rightarrow> int option" where
  "put_routes rs m = fold (\<lambda>(k, oid, role) m. m(k \<mapsto> oid)) rs m"

lemma put_routes_append [simp]: "put_routes (xs @ ys) m = put_routes ys (put_routes xs m)"
  by (simp add: put_routes_def)

lemma put_routes_Nil [simp]: "put_routes [] m = m"
  by (simp add: put_routes_def)

lemma put_routes_Cons [simp]: "put_routes ((k, oid, role) # rs) m = put_routes rs (m(k \<mapsto> oid))"
  by (simp add: put_routes_def)

lemma put_routes_other: "k \<notin> fst ` set rs \<Longrightarrow> put_routes rs m k = m k"
  by (induction rs arbitrary: m) auto

lemma put_routes_lookup: "distinct (map fst rs) \<Longrightarrow> (k, oid, role) \<in> set rs \<Longrightarrow> put_routes rs m k = Some oid"
  by (induction rs arbitrary: m) (auto simp: put_routes_other)

lemma map_indexed: "map (\<lambda>(oid, cfg). f cfg) (indexed b cs) = map f cs"
  by (rule nth_equalityI) simp_all

lemma fold_map_put_fresh:
  fixes key :: "'a \<Rightarrow> string"
  assumes "distinct (map key cs)"
  shows "fold (\<lambda>(oid, cfg) pm. map_put (key cfg) oid pm) (indexed b cs) [] = map (\<lambda>(oid, cfg). (key cfg, oid)) (indexed b cs)"
proof -
  have new: "map_put k v ps = ps @ [(k, v)]" if "k \<notin> fst ` set ps" for k :: string and v :: int and ps
    using that by (induction ps) auto
  have keys: "fst ` set (map (\<lambda>(oid, cfg). (key cfg, oid)) (indexed b xs)) = key ` set xs" for xs
  proof -
    have "map fst (map (\<lambda>(oid, cfg). (key cfg, oid)) (indexed b xs)) = map key xs"
      by (rule nth_equalityI) simp_all
    then show ?thesis by (metis list.set_map)
  qed
  show ?thesis
    using assms
  proof (induction cs rule: rev_induct)
    case (snoc c cs)
    then have "key c \<notin> fst ` set (map (\<lambda>(oid, cfg). (key cfg, oid)) (indexed b cs))"
      unfolding keys by auto
    note new [OF this, of "b + int (length cs)"]
    with snoc show ?case by (simp add: indexed_snoc)
  qed (simp add: indexed_def)
qed

lemma put_params_routes:
  assumes "distinct (map wc_ShureParam cs)"
  shows "di_parameterOIDs (put_params key (fold (\<lambda>(oid, cfg) pm. map_put (wc_ShureParam cfg) oid pm) (indexed b cs) []) info) =
    put_routes (config_routes key b cs) (di_parameterOIDs info)"
proof -
  have "fold (\<lambda>(p, oid) m. m(key p \<mapsto> oid)) (map (\<lambda>(oid, cfg). (wc_ShureParam cfg, oid)) xs) m =
      fold (\<lambda>(k, oid, role) m. m(k \<mapsto> oid)) (map (\<lambda>(oid, cfg). (key (wc_ShureParam cfg), oid, wc_Name cfg)) xs) m"
    for xs :: "(int \<times> worker_config) list" and m :: "string \<Rightarrow> int option"
    by (induction xs arbitrary: m) auto
  then show ?thesis
    by (simp add: put_params_def fold_map_put_fresh [OF assms] put_routes_def config_routes_def)
qed

lemma put_params_channel_routes:
  assumes "distinct (map wc_ShureParam cs)"
  shows "di_parameterOIDs (put_params id
      (fold (\<lambda>(oid, cfg) pm. map_put (channel_key ch (wc_ShureParam cfg)) oid pm) (indexed b cs) []) info) =
    put_routes (config_routes (channel_key ch) b cs) (di_parameterOIDs info)"
proof -
  have "fold (\<lambda>(p, oid) m. m(p \<mapsto> oid)) (map (\<lambda>(oid, cfg). (channel_key ch (wc_ShureParam cfg), oid)) xs) m =
      fold (\<lambda>(k, oid, role) m. m(k \<mapsto> oid)) (map (\<lambda>(oid, cfg). (channel_key ch (wc_ShureParam cfg), oid, wc_Name cfg)) xs) m"
    for xs :: "(int \<times> worker_config) list" and m :: "string \<Rightarrow> int option"
    by (induction xs arbitrary: m) auto
  moreover have "distinct (map (\<lambda>cfg. channel_key ch (wc_ShureParam cfg)) cs)"
    using assms by (simp add: distinct_map inj_on_def)
  ultimately show ?thesis
    by (simp add: put_params_def fold_map_put_fresh put_routes_def config_routes_def)
qed

lemma config_params_distinct:
  "distinct (map wc_ShureParam (ChannelWorkersConfig family))"
  "distinct (map wc_ShureParam (DeviceWorkersConfig family))"
  "distinct (map wc_ShureParam (sub_configs family ''Battery''))"
  "distinct (map wc_ShureParam (sub_configs family ''Transmitter''))"
proof -
  show "distinct (map wc_ShureParam (ChannelWorkersConfig family))" by (rule channel_params_distinct)
  have "list_all (\<lambda>m. distinct (map wc_ShureParam (DeviceWorkersConfig m))) all_families" by code_simp
  then show "distinct (map wc_ShureParam (DeviceWorkersConfig family))" by (cases family) (auto simp: all_families_def)
  have "list_all (\<lambda>m. distinct (map wc_ShureParam (sub_configs m ''Battery''))) all_families" by code_simp
  then show "distinct (map wc_ShureParam (sub_configs family ''Battery''))"
    by (cases family) (auto simp: all_families_def sub_configs_def)
  have "list_all (\<lambda>m. distinct (map wc_ShureParam (sub_configs m ''Transmitter''))) all_families" by code_simp
  then show "distinct (map wc_ShureParam (sub_configs family ''Transmitter''))"
    by (cases family) (auto simp: all_families_def sub_configs_def)
qed

lemma info_setup_device_workers:
  "di_parameterOIDs (snd (setup_device_workers family addr d s)) =
    put_routes (config_routes id (d * 100) (DeviceWorkersConfig family)) (di_parameterOIDs (snd s))"
  using put_params_routes [OF config_params_distinct(2), of id "d * 100" family "snd s"]
  by (simp add: setup_device_workers_def CreateDeviceWorkers_def)

lemma info_setup_channel:
  "di_parameterOIDs (snd (setup_channel family addr d ch s)) = put_routes (channel_routes family d ch) (di_parameterOIDs (snd s))"
  using put_params_channel_routes [OF config_params_distinct(1), of ch "(d + ch) * 100" family
      "(snd s)\<lparr> di_channelOIDs := (di_channelOIDs (snd s))(ch \<mapsto> d + ch) \<rparr>"]
  by (simp add: setup_channel_def CreateChannelWorkers_def channel_routes_def Let_def)

lemma info_setup_sub_block:
  assumes "distinct (map wc_ShureParam (sub_configs family name))"
  shows "di_parameterOIDs (snd (setup_sub_block name bid b family addr c ch s)) =
    put_routes (config_routes (channel_key ch) b (sub_configs family name)) (di_parameterOIDs (snd s))"
proof -
  have pick: "map_of (map (\<lambda>(k, cs). (k, f k cs, g cs)) ps) k = map_option (\<lambda>cs. (f k cs, g cs)) (map_of ps k)"
    for f :: "string \<Rightarrow> worker_config list \<Rightarrow> nc_worker list" and g :: "worker_config list \<Rightarrow> (string \<times> int) list" and ps k
    by (induction ps) auto
  show ?thesis
    using put_params_routes [OF assms, of "channel_key ch" b "snd s"]
    by (auto simp: setup_sub_block_def CreateChannelSubWorkers_def pick sub_configs_def config_routes_def indexed_def Let_def
        split: option.splits)
qed

lemma info_setup_sub_blocks:
  "di_parameterOIDs (snd (setup_sub_blocks family addr d ch s)) =
    put_routes (nested_routes family (d + ch) ch) (di_parameterOIDs (snd s))"
  by (simp add: setup_sub_blocks_def Let_def info_setup_sub_block config_params_distinct setup_gain_block_def nested_routes_def)

lemma info_fold_routes:
  assumes "\<And>x s. di_parameterOIDs (snd (f x s)) = put_routes (g x) (di_parameterOIDs (snd s))"
  shows "di_parameterOIDs (snd (fold f xs s)) = put_routes (concat (map g xs)) (di_parameterOIDs (snd s))"
  by (induction xs arbitrary: s) (simp_all add: assms)

lemma info_channels:
  "di_parameterOIDs (snd (fold (setup_channel family addr d) xs s)) =
    put_routes (concat (map (channel_routes family d) xs)) (di_parameterOIDs (snd s))"
  by (rule info_fold_routes) (rule info_setup_channel)

lemma info_nested_channels:
  "di_parameterOIDs (snd (fold (\<lambda>ch s. setup_sub_blocks family addr d ch (setup_channel family addr d ch s)) xs s)) =
    put_routes (concat (map (\<lambda>ch. channel_routes family d ch @ nested_routes family (d + ch) ch) xs)) (di_parameterOIDs (snd s))"
  by (rule info_fold_routes) (simp add: info_setup_channel info_setup_sub_blocks)

lemma setup_parameterOIDs:
  "di_parameterOIDs (snd (setupDeviceNCP addr inst d family n (st, info))) =
    put_routes (device_routes family d n) (di_parameterOIDs info)"
  by (simp add: setupDeviceNCP_def setup_tree_def device_routes_def Let_def split_beta
      info_setup_device_workers info_channels info_nested_channels)

subsection \<open>Every route leads to its worker\<close>

lemma channel_key_channel: "channel_key ch p = channel_key ch' p' \<longleftrightarrow> ch = ch' \<and> p = p'"
proof
  have prefix: "takeWhile (\<lambda>c. c \<noteq> CHR ''_'') (channel_key i q) = itoa i" for i q
  proof -
    have "takeWhile (\<lambda>c. c \<noteq> CHR ''_'') (itoa i @ CHR ''_'' # q) = itoa i"
      by (subst takeWhile_append2) (auto dest: itoa_chars simp: is_digit_def)
    then show ?thesis by (simp add: channel_key_def)
  qed
  assume same: "channel_key ch p = channel_key ch' p'"
  then have "ch = ch'" using prefix [of ch p] prefix [of ch' p'] itoa_inj by simp
  with same show "ch = ch' \<and> p = p'" by simp
qed simp

lemma config_routes_keys: "map fst (config_routes key b cs) = map (\<lambda>cfg. key (wc_ShureParam cfg)) cs"
  by (rule nth_equalityI) (simp_all add: config_routes_def)

definition channel_params :: "ShureModelFamily \<Rightarrow> string list" where
  "channel_params family = map wc_ShureParam (ChannelWorkersConfig family) @
     (if family = ModelFamilyQLXD
      then ''AUDIO_GAIN'' # map wc_ShureParam (sub_configs family ''Battery'') @ map wc_ShureParam (sub_configs family ''Transmitter'')
      else [])"

lemma channel_params_ok:
  "distinct (channel_params family)"
  "list_all (\<lambda>cfg. (\<exists>c p. wc_ShureParam cfg = c # p \<and> \<not> is_digit c \<and> c \<noteq> CHR ''-'')) (DeviceWorkersConfig family)"
proof -
  have "distinct (channel_params ModelFamilyQLXD)" by code_simp
  then show "distinct (channel_params family)"
    using channel_params_distinct [of family] by (cases "family = ModelFamilyQLXD") (simp_all add: channel_params_def)
  show "list_all (\<lambda>cfg. (\<exists>c p. wc_ShureParam cfg = c # p \<and> \<not> is_digit c \<and> c \<noteq> CHR ''-'')) (DeviceWorkersConfig family)"
    by (cases family) (simp_all add: wconf_def is_digit_def)
qed

lemma channel_route_keys:
  "map fst (channel_routes family d ch @ (if family = ModelFamilyQLXD then nested_routes family (d + ch) ch else [])) =
    map (channel_key ch) (channel_params family)"
  by (simp add: channel_routes_def nested_routes_def config_routes_keys channel_params_def)

lemma distinct_concat_map:
  assumes "\<And>x. distinct (f x)" "\<And>x y. x \<noteq> y \<Longrightarrow> set (f x) \<inter> set (f y) = {}" "distinct xs"
  shows "distinct (concat (map f xs))"
  using assms(3)
proof (induction xs)
  case (Cons x xs)
  then have "set (f x) \<inter> set (concat (map f xs)) = {}" using assms(2) [of x] by fastforce
  with Cons assms(1) show ?case by simp
qed simp

lemma device_param_no_channel_key:
  "cfg \<in> set (DeviceWorkersConfig family) \<Longrightarrow> wc_ShureParam cfg \<noteq> channel_key ch p"
proof -
  assume "cfg \<in> set (DeviceWorkersConfig family)"
  with channel_params_ok(2) [of family] obtain c q where "wc_ShureParam cfg = c # q" "\<not> is_digit c" "c \<noteq> CHR ''-''"
    by (auto simp: list_all_iff)
  moreover obtain c' q' where c': "itoa ch = c' # q'" using itoa_nonempty by (cases "itoa ch") auto
  moreover have "is_digit c' \<or> c' = CHR ''-''" using itoa_chars [of c' ch] c' by simp
  ultimately show ?thesis by (auto simp: channel_key_def)
qed

lemma image_range_disjoint:
  assumes "A = f ` S" "\<And>x ch p. x \<in> S \<Longrightarrow> f x \<noteq> g ch p" "B \<subseteq> range (\<lambda>(ch, p). g ch p)"
  shows "A \<inter> B = {}"
proof -
  have "y \<notin> B" if "y \<in> A" for y
  proof
    assume "y \<in> B"
    with assms(3) obtain ch p where "y = g ch p" by auto
    moreover from that assms(1) obtain x where "x \<in> S" "y = f x" by auto
    ultimately show False using assms(2) [of x ch p] by simp
  qed
  then show ?thesis by blast
qed

lemma device_routes_distinct: "distinct (map fst (device_routes family d n))"
proof -
  let ?r = "\<lambda>ch. channel_routes family d ch @ (if family = ModelFamilyQLXD then nested_routes family (d + ch) ch else [])"
  have each: "distinct (map fst (?r ch))" for ch
    unfolding channel_route_keys using channel_params_ok(1) [of family] by (simp add: distinct_map inj_on_def)
  have apart: "set (map fst (?r ch)) \<inter> set (map fst (?r ch')) = {}" if "ch \<noteq> ch'" for ch ch'
    unfolding channel_route_keys using that by (auto simp: channel_key_channel)
  have conc: "distinct (concat (map (\<lambda>ch. map fst (?r ch)) [1..n]))"
    by (rule distinct_concat_map [OF each apart distinct_upto])
  have channels: "distinct (map fst (concat (map ?r [1..n])))"
    using conc by (simp add: map_concat comp_def del: map_append)
  show ?thesis
  proof (cases "family = ModelFamilyQLXD")
    case True
    have keys: "set (map fst (config_routes id (d * 100) (DeviceWorkersConfig family))) = wc_ShureParam ` set (DeviceWorkersConfig family)"
      unfolding config_routes_keys by simp
    have range: "set (map fst (concat (map ?r [1..n]))) \<subseteq> range (\<lambda>(ch, p). channel_key ch p)"
      unfolding map_concat map_map comp_def channel_route_keys by auto
    have "set (map fst (config_routes id (d * 100) (DeviceWorkersConfig family))) \<inter> set (map fst (concat (map ?r [1..n]))) = {}"
      by (rule image_range_disjoint [where g = channel_key, OF keys _ range]) (rule device_param_no_channel_key)
    moreover have "device_routes family d n = config_routes id (d * 100) (DeviceWorkersConfig family) @ concat (map ?r [1..n])"
      using True by (simp add: device_routes_def)
    ultimately show ?thesis
      using channels config_params_distinct(2) [of family] by (simp add: config_routes_keys)
  next
    case False
    then have "device_routes family d n = concat (map ?r [1..n])" by (simp add: device_routes_def)
    with channels show ?thesis by simp
  qed
qed

definition has_worker :: "tree_node list \<Rightarrow> route \<Rightarrow> bool" where
  "has_worker ns r \<longleftrightarrow> (\<exists>p w. (p, fst (snd r), OWorker w) \<in> set ns \<and> bo_Role (wk_base w) = snd (snd r))"

lemma has_worker_append: "has_worker xs r \<or> has_worker ys r \<Longrightarrow> has_worker (xs @ ys) r"
  by (auto simp: has_worker_def)

lemma has_worker_concat: "x \<in> set xs \<Longrightarrow> has_worker (g x) r \<Longrightarrow> has_worker (concat (map g xs)) r"
  by (auto simp: has_worker_def)

lemma has_worker_Cons: "has_worker ns r \<Longrightarrow> has_worker (n # ns) r"
  by (auto simp: has_worker_def)

lemma config_routes_workers:
  assumes "ws = map (\<lambda>(oid, cfg). make_worker (h cfg) oid (l cfg) cfg) (indexed b cs)" "r \<in> set (config_routes key b cs)"
  shows "has_worker (worker_nodes p ws) r"
proof -
  obtain oid cfg where c: "(oid, cfg) \<in> set (indexed b cs)" "r = (key (wc_ShureParam cfg), oid, wc_Name cfg)"
    using assms(2) by (auto simp: config_routes_def)
  let ?w = "make_worker (h cfg) oid (l cfg) cfg"
  have "bo_OID (wk_base ?w) = oid" "bo_Role (wk_base ?w) = wc_Name cfg"
    by (simp_all add: make_worker_def NewWorker_def new_base_def)
  moreover have "?w \<in> set ws" using c(1) assms(1) by force
  ultimately have "(p, oid, OWorker ?w) \<in> set (worker_nodes p ws)" by (force simp: worker_nodes_def)
  with c(2) \<open>bo_Role (wk_base ?w) = wc_Name cfg\<close> show ?thesis by (auto simp: has_worker_def)
qed

lemma channel_routes_workers: "r \<in> set (channel_routes family d ch) \<Longrightarrow> has_worker (channel_nodes family addr d ch) r"
  unfolding channel_routes_def channel_nodes_def
  by (rule has_worker_Cons, rule config_routes_workers [where h = "\<lambda>cfg. SetChannelParam addr ch (wc_ShureParam cfg)"
        and l = "\<lambda>cfg. ''Ch'' @ itoa ch @ '' '' @ wc_Name cfg"]) (simp_all add: CreateChannelWorkers_def)

lemma nested_routes_workers: "r \<in> set (nested_routes family c ch) \<Longrightarrow> has_worker (sub_nodes family addr c ch) r"
proof -
  assume r: "r \<in> set (nested_routes family c ch)"
  have gain: "has_worker (gain_block_nodes addr c ch) (channel_key ch ''AUDIO_GAIN'', c * 1000 + 10, ''GainWorker'')"
    by (auto simp: has_worker_def gain_block_nodes_def gain_worker_def NewWorker_def new_base_def)
  have sub: "has_worker (sub_block_nodes name bid b family addr c ch) r"
    if "r \<in> set (config_routes (channel_key ch) b (sub_configs family name))" for name bid b
    unfolding sub_block_nodes_def
    by (rule has_worker_Cons, rule config_routes_workers [OF named_sub_workers that])
  show ?thesis
    using r gain sub unfolding nested_routes_def sub_nodes_def by (auto intro!: has_worker_append)
qed

lemma device_routes_workers: "r \<in> set (device_routes family d n) \<Longrightarrow> has_worker (device_nodes family addr d n) r"
proof -
  assume r: "r \<in> set (device_routes family d n)"
  have device: "has_worker (worker_nodes d (fst (CreateDeviceWorkers family (d * 100) addr))) r"
    if "r \<in> set (config_routes id (d * 100) (DeviceWorkersConfig family))"
    by (rule config_routes_workers [where h = "\<lambda>cfg. SetDeviceParam addr (wc_ShureParam cfg)" and l = wc_Name, OF _ that])
      (simp add: CreateDeviceWorkers_def)
  have nested: "has_worker (channel_nodes family addr d x @ sub_nodes family addr (d + x) x) r"
    if "r \<in> set (channel_routes family d x @ nested_routes family (d + x) x)" for x
    using that channel_routes_workers [of r family d x addr] nested_routes_workers [of r family "d + x" x addr]
    by (intro has_worker_append) auto
  show ?thesis
  proof (cases "family = ModelFamilyQLXD")
    case True
    then have "r \<in> set (config_routes id (d * 100) (DeviceWorkersConfig family)) \<or>
        (\<exists>x\<in>set [1..n]. r \<in> set (channel_routes family d x @ nested_routes family (d + x) x))"
      using r by (simp add: device_routes_def)
    then have "has_worker (worker_nodes d (fst (CreateDeviceWorkers family (d * 100) addr))) r \<or>
        has_worker (concat (map (\<lambda>ch. channel_nodes family addr d ch @ sub_nodes family addr (d + ch) ch) [1..n])) r"
      using device nested has_worker_concat [of _ "[1..n]" "\<lambda>ch. channel_nodes family addr d ch @ sub_nodes family addr (d + ch) ch" r]
      by blast
    with True show ?thesis by (simp add: device_nodes_def has_worker_append)
  next
    case False
    then obtain x where "x \<in> set [1..n]" "r \<in> set (channel_routes family d x)"
      using r by (auto simp: device_routes_def)
    with False channel_routes_workers [of r family d x addr] has_worker_concat [of x "[1..n]" "channel_nodes family addr d" r]
    show ?thesis by (simp add: device_nodes_def)
  qed
qed

text \<open>
  C11. After the setup the keys of the parameter map are those of the family's parameters, each
  channel parameter under its channel, and the id under each key is that of a registered
  worker, the one configured for the parameter. So every report of the receiver for a configured
  parameter finds its worker.
\<close>

theorem setup_routes:
  assumes "110 \<le> d" "d \<le> 1100" "n \<le> 9" "fresh_items (ns_objects st) (device_oids d n)"
    and "di_parameterOIDs info = Map.empty" "setupDeviceNCP addr inst d family n (st, info) = (st', info')"
  shows "dom (di_parameterOIDs info') = fst ` set (device_routes family d n) \<and>
    (\<forall>(key, oid, role)\<in>set (device_routes family d n). di_parameterOIDs info' key = Some oid \<and>
      (\<exists>w. GetNCPObject oid st' = Some (OWorker w) \<and> bo_Role (wk_base w) = role))"
proof -
  let ?rs = "device_routes family d n"
  have info': "di_parameterOIDs info' = put_routes ?rs Map.empty"
    using setup_parameterOIDs [of addr inst d family n st info] assms(5,6) by simp
  have st': "ns_objects st' = device_registry family addr inst d n (ns_objects (register_classes family st))"
    using setup_refines_tree_lemma [OF assms(1-4), of addr inst family info] assms(6) by simp
  have found: "di_parameterOIDs info' key = Some oid" if "(key, oid, role) \<in> set ?rs" for key oid role
    unfolding info' by (rule put_routes_lookup [OF device_routes_distinct that])
  have "dom (di_parameterOIDs info') = fst ` set ?rs"
  proof
    show "dom (di_parameterOIDs info') \<subseteq> fst ` set ?rs"
      using put_routes_other [of _ ?rs Map.empty] unfolding info' by fastforce
    show "fst ` set ?rs \<subseteq> dom (di_parameterOIDs info')" using found by fastforce
  qed
  moreover have "\<exists>w. GetNCPObject oid st' = Some (OWorker w) \<and> bo_Role (wk_base w) = role"
    if r: "(key, oid, role) \<in> set ?rs" for key oid role
  proof -
    obtain p w where w: "(p, oid, OWorker w) \<in> set (device_nodes family addr d n)" "bo_Role (wk_base w) = role"
      using device_routes_workers [OF r, of addr] by (auto simp: has_worker_def)
    from device_registry_node [OF assms(1-3) w(1)] w(2) show ?thesis
      by (simp add: GetNCPObject_def st' installed_def)
  qed
  ultimately show ?thesis using found by blast
qed

theorem setup_routes_witness:
  "di_parameterOIDs (snd (setupDeviceNCP ''r'' ''QLXD4'' 110 ModelFamilyQLXD 1 (new_ncp_state, test_info)))
     (channel_key 1 ''AUDIO_GAIN'') = Some 111010"
proof -
  obtain st' info' where s: "setupDeviceNCP ''r'' ''QLXD4'' 110 ModelFamilyQLXD 1 (new_ncp_state, test_info) = (st', info')"
    by force
  have "di_parameterOIDs test_info = Map.empty" by (simp add: test_info_def new_device_info_def)
  from setup_routes [OF _ _ _ new_state_fresh this s]
  have "\<forall>(key, oid, role)\<in>set (device_routes ModelFamilyQLXD 110 1). di_parameterOIDs info' key = Some oid" by auto
  moreover have "(channel_key 1 ''AUDIO_GAIN'', 111010, ''GainWorker'') \<in> set (device_routes ModelFamilyQLXD 110 1)"
    by (simp add: device_routes_def nested_routes_def)
  ultimately show ?thesis using s by auto
qed

end
