(* ===== verification/Gateway_Classes.thy ===== *)
theory Gateway_Classes
  imports Gateway_Routes
begin

text \<open>
  More consequences of the setup of a receiver: it keeps the invariant of the control server, it
  leaves the objects of other receivers alone, and it registers a class for every worker.
\<close>

subsection \<open>The invariant of the control server\<close>

lemma register_child_inv: "ncp_inv st \<Longrightarrow> obj_GetOID ob = oid \<Longrightarrow> ncp_inv (register_child p oid ob st)"
  unfolding register_child_def RegisterNCPObject_put
  by (intro block_add_item_inv put_object_inv registered_ok)

definition own_oids :: "tree_node list \<Rightarrow> bool" where
  "own_oids ns \<longleftrightarrow> (\<forall>n\<in>set ns. obj_GetOID (snd (snd n)) = node_oid n)"

lemma build_inv: "own_oids ns \<Longrightarrow> ncp_inv st \<Longrightarrow> ncp_inv (build ns st)"
  by (induction ns arbitrary: st) (auto simp: own_oids_def build_def register_child_inv)

lemma own_oids_append [simp]: "own_oids (xs @ ys) \<longleftrightarrow> own_oids xs \<and> own_oids ys"
  by (auto simp: own_oids_def)

lemma own_oids_concat: "(\<And>x. own_oids (g x)) \<Longrightarrow> own_oids (concat (map g xs))"
  by (auto simp: own_oids_def)

lemma own_oids_worker_nodes [simp]: "own_oids (worker_nodes p ws)"
  by (auto simp: own_oids_def worker_nodes_def obj_GetOID_def)

lemma own_oids_block [simp]: "own_oids ((p, oid, OBlock (NewBlock oid ow role label)) # ns) \<longleftrightarrow> own_oids ns"
  by (auto simp: own_oids_def obj_GetOID_def NewBlock_def new_base_def)

lemma own_oids_gain [simp]: "own_oids ((p, oid, OWorker (gain_worker addr ch oid)) # ns) \<longleftrightarrow> own_oids ns"
  by (auto simp: own_oids_def obj_GetOID_def gain_worker_def NewWorker_def new_base_def)

lemma own_oids_Nil [simp]: "own_oids []"
  by (simp add: own_oids_def)

lemma own_oids_device_nodes: "own_oids (device_nodes family addr d n)"
proof -
  have channel: "own_oids (channel_nodes family addr d ch)" for family ch by (simp add: channel_nodes_def)
  have sub: "own_oids (sub_nodes family addr c ch)" for family c ch
    by (simp add: sub_nodes_def gain_block_nodes_def sub_block_nodes_def)
  show ?thesis
    unfolding device_nodes_def using channel sub by (auto intro!: own_oids_concat)
qed

lemma register_classes_inv: "ncp_inv st \<Longrightarrow> ncp_inv (register_classes family st)"
proof -
  have "ncp_inv (fold RegisterClass ds st)" if "ncp_inv st" for ds st
    using that by (induction ds arbitrary: st) (simp_all add: RegisterClass_inv)
  then show "ncp_inv st \<Longrightarrow> ncp_inv (register_classes family st)"
    by (simp add: register_classes_def Let_def del: fold.simps)
qed

lemma setup_inv: "ncp_inv st \<Longrightarrow> ncp_inv (fst (setupDeviceNCP addr inst d family n (st, info)))"
proof -
  assume "ncp_inv st"
  then have "ncp_inv (register_classes family st)" by (rule register_classes_inv)
  then have "ncp_inv (RegisterNCPObject d (OBlock (device_block d inst)) (register_classes family st))"
    unfolding RegisterNCPObject_put
    by (intro put_object_inv registered_ok) (simp_all add: obj_GetOID_def device_block_def NewBlock_def new_base_def)
  with build_inv [OF own_oids_device_nodes] show ?thesis
    by (simp add: setupDeviceNCP_def Let_def split_beta fst_setup_tree block_add_item_inv)
qed

subsection \<open>Several receivers\<close>

lemma setup_keeps_fresh:
  assumes "110 \<le> d" "d \<le> 1100" "n \<le> 9" "fresh_items (ns_objects st) (device_oids d n)"
    and "fresh_items (ns_objects st) S" "S \<inter> device_oids d n = {}"
  shows "fresh_items (ns_objects (fst (setupDeviceNCP addr inst d family n (st, info)))) S"
proof -
  let ?reg = "ns_objects (register_classes family st)"
  let ?reg1 = "?reg(d \<mapsto> installed (OBlock (device_block d inst)))"
  have reg: "fresh_items ?reg S" using assms(5) by (simp add: fresh_classes)
  then have reg1: "fresh_items ?reg1 S"
    by (auto simp: fresh_items_def installed_def device_block_def NewBlock_def SetResolver_def)
  have "set (blk_Items b) \<inter> S = {}" if "device_registry family addr inst d n ?reg p = Some (OBlock b)" for p b
  proof (cases "p = 1")
    case True
    with that obtain c where "?reg 1 = Some (OBlock c)" "b = AddItem c d"
      by (auto simp: device_registry_def elim: enter_item.elims)
    moreover have "d \<notin> S" using assms(6) by (auto simp: device_oids_def)
    moreover have "set (blk_Items (AddItem c d)) \<subseteq> insert d (set (blk_Items c))" by (auto simp: AddItem_def)
    ultimately show ?thesis using reg unfolding fresh_items_def by blast
  next
    case False
    with that have "tree_registry (device_nodes family addr d n) ?reg1 p = Some (OBlock b)"
      by (simp add: device_registry_def)
    from tree_registry_items [OF this empty_device_nodes reg1] device_nodes_region assms(6)
    show ?thesis by blast
  qed
  then show ?thesis
    unfolding setup_refines_tree_lemma [OF assms(1-4)] by (simp add: fresh_items_def)
qed

text \<open>
  Setting up a second receiver, with another index between 1 and 100, changes no object of the
  first, whatever the families.
\<close>

lemma setup_keeps_receivers:
  assumes "k \<in> {1..100}" "k' \<in> {1..100}" "k \<noteq> k'" "n \<le> 9" "n' \<le> 9"
    and "fresh_items (ns_objects st) (device_oids (device_OID k) n)"
    and "fresh_items (ns_objects st) (device_oids (device_OID k') n')"
    and "st1 = fst (setupDeviceNCP addr inst (device_OID k) family n (st, info))"
    and "st2 = fst (setupDeviceNCP addr' inst' (device_OID k') family' n' (st1, info'))"
    and "p \<in> given_oids family addr k n"
  shows "GetNCPObject p st2 = GetNCPObject p st1"
proof -
  have d: "110 \<le> device_OID k" "device_OID k \<le> 1100" and d': "110 \<le> device_OID k'" "device_OID k' \<le> 1100"
    using assms(1,2) device_OID_bounds by auto
  have apart: "device_oids (device_OID k) n \<inter> device_oids (device_OID k') n' = {}"
    by (rule device_oids_disjoint [OF assms(1-5)])
  have "fresh_items (ns_objects st1) (device_oids (device_OID k') n')"
    unfolding assms(8) using apart by (intro setup_keeps_fresh [OF d assms(4,6,7)]) blast
  moreover have "p \<in> device_oids (device_OID k) n" using assms(10) given_oids_region by blast
  moreover from this have "110 \<le> p" using device_oids_lower [OF d(1)] by blast
  ultimately show ?thesis
    unfolding assms(9) using apart by (intro setup_frame [OF d' assms(5)]) auto
qed

lemma setup_keeps_receivers_witness:
  "GetNCPObject 110 (fst (setupDeviceNCP ''s'' ''ULXD4'' 120 ModelFamilyULXD 1
      (fst (setupDeviceNCP ''r'' ''QLXD4'' 110 ModelFamilyQLXD 1 (new_ncp_state, test_info)), test_info))) =
   GetNCPObject 110 (fst (setupDeviceNCP ''r'' ''QLXD4'' 110 ModelFamilyQLXD 1 (new_ncp_state, test_info)))"
proof -
  have one: "device_OID 1 = 110" and two: "device_OID 2 = 120" by (simp_all add: device_OID_def)
  have "p \<notin> device_oids 120 1" if "p \<in> {2, 3}" for p
    using device_oids_lower [of 120 p 1] that by auto
  then have "fresh_items (ns_objects new_ncp_state) (device_oids 120 1)"
    by (auto simp: fresh_items_def new_ncp_state_def RegisterNCPObject_def append_item_def NewBlock_def SetResolver_def
        split: if_split_asm)
  moreover have "110 \<in> given_oids ModelFamilyQLXD ''r'' 1 1" by (simp add: given_oids_def one)
  ultimately show ?thesis
    using setup_keeps_receivers [of 1 2 1 1 new_ncp_state _ "''r''" "''QLXD4''" ModelFamilyQLXD test_info
        _ "''s''" "''ULXD4''" ModelFamilyULXD test_info 110] new_state_fresh
    by (simp add: one two)
qed

subsection \<open>Classes of the workers\<close>

definition family_classes :: "ShureModelFamily \<Rightarrow> NcClassDescriptor list" where
  "family_classes family = gain_class # common_worker_classes @
     (if family = ModelFamilyQLXD then qlxd_worker_classes @ qlxd_sensor_classes else [])"

definition class_entry :: "NcClassDescriptor \<Rightarrow> string \<times> ClassDescriptor" where
  "class_entry d = (classIDToKey (ncd_classid d), NcClassDescriptorToClassDescriptor d)"

lemma register_classes_fold: "register_classes family st = fold RegisterClass (family_classes family) st"
  by (simp add: register_classes_def family_classes_def Let_def del: fold_append) (simp add: fold_append)

lemma fold_RegisterClass_manager:
  "ns_objects st 3 = Some (OClassManager m) \<Longrightarrow>
    \<exists>m'. ns_objects (fold RegisterClass ds st) 3 = Some (OClassManager m') \<and>
      map_of (cm_Classes m') = map_of (cm_Classes m) ++ map_of (rev (map class_entry ds))"
proof (induction ds arbitrary: st m)
  case (Cons d ds)
  let ?m = "cm_RegisterClass m (ncd_classid d) (NcClassDescriptorToClassDescriptor d)"
  have "ns_objects (RegisterClass d st) 3 = Some (OClassManager ?m)"
    using Cons.prems by (simp add: RegisterClass_def)
  from Cons.IH [OF this] obtain m' where m': "ns_objects (fold RegisterClass (d # ds) st) 3 = Some (OClassManager m')"
    "map_of (cm_Classes m') = map_of (cm_Classes ?m) ++ map_of (rev (map class_entry ds))" by auto
  have "map_of (cm_Classes ?m) = (map_of (cm_Classes m))(fst (class_entry d) \<mapsto> snd (class_entry d))"
    by (simp add: cm_RegisterClass_def class_entry_def)
  then have "map_of (cm_Classes m') = map_of (cm_Classes m) ++ map_of (rev (map class_entry (d # ds)))"
    unfolding m'(2) by (simp add: map_add_upd_left fun_eq_iff map_add_def split: option.split)
  with m'(1) show ?case by blast
qed simp

text \<open>The value property of a class, and whether it fits a configured worker.\<close>

definition fits :: "worker_config \<Rightarrow> ClassDescriptor \<Rightarrow> bool" where
  "fits cfg c \<longleftrightarrow> cd_classid c = wc_ClassID cfg \<and>
     (case filter (\<lambda>p. pd_id p = EId 3 1) (cd_properties c) of
        [p] \<Rightarrow> pd_type p = wc_TypeName cfg \<and> (pd_readonly p \<longrightarrow> wc_IsReadOnly cfg)
      | _ \<Rightarrow> False)"

definition class_of :: "ShureModelFamily \<Rightarrow> worker_config \<Rightarrow> ClassDescriptor option" where
  "class_of family cfg = map_of (rev (map class_entry (family_classes family))) (classIDToKey (wc_ClassID cfg))"

lemma classes_fit:
  "list_all (\<lambda>m. list_all (\<lambda>cfg. case class_of m cfg of None \<Rightarrow> False | Some c \<Rightarrow> fits cfg c) (all_configs m)) all_families"
  by code_simp

lemma class_of_config:
  assumes "cfg \<in> set (all_configs family)"
  shows "\<exists>c. class_of family cfg = Some c \<and> fits cfg c"
proof -
  have "family \<in> set all_families" using assms all_configs_other by (cases family) (auto simp: all_families_def)
  with classes_fit assms have "case class_of family cfg of None \<Rightarrow> False | Some c \<Rightarrow> fits cfg c"
    by (simp add: list_all_iff)
  then show ?thesis by (cases "class_of family cfg") simp_all
qed

text \<open>
  The setup registers a class for every worker it configures, of a channel, of the device or of
  a nested block: the class manager holds under the worker's class id a class with that id
  whose value property has the type of the configuration, and which is read-only only when the
  worker is.
\<close>

lemma setup_registers_classes:
  assumes "110 \<le> d" "d \<le> 1100" "n \<le> 9" "fresh_items (ns_objects st) (device_oids d n)"
    and "GetNCPObject 3 st = Some (OClassManager m)" "cfg \<in> set (all_configs family)"
  shows "\<exists>m' c. GetNCPObject 3 (fst (setupDeviceNCP addr inst d family n (st, info))) = Some (OClassManager m') \<and>
    map_of (cm_Classes m') (classIDToKey (wc_ClassID cfg)) = Some c \<and> fits cfg c"
proof -
  from fold_RegisterClass_manager [of st m "family_classes family"] assms(5)
  obtain m' where m': "ns_objects (register_classes family st) 3 = Some (OClassManager m')"
    "map_of (cm_Classes m') = map_of (cm_Classes m) ++ map_of (rev (map class_entry (family_classes family)))"
    by (auto simp: GetNCPObject_def register_classes_fold)
  obtain c where c: "class_of family cfg = Some c" "fits cfg c" using class_of_config [OF assms(6)] by blast
  have "3 \<notin> device_oids d n" using device_oids_lower [OF assms(1), of 3 n] by auto
  then have "3 \<notin> node_oids (device_nodes family addr d n)" "3 \<noteq> d"
    using device_nodes_region by (blast, auto simp: device_oids_def)
  then have "tree_registry (device_nodes family addr d n) reg 3 = reg 3" for reg
    by (intro tree_registry_other [OF wf_device_nodes [OF assms(1-3)]]) simp_all
  with m'(1) \<open>3 \<noteq> d\<close> have "GetNCPObject 3 (fst (setupDeviceNCP addr inst d family n (st, info))) = Some (OClassManager m')"
    unfolding GetNCPObject_def setup_refines_tree_lemma [OF assms(1-4)] by (simp add: device_registry_def)
  moreover have "map_of (cm_Classes m') (classIDToKey (wc_ClassID cfg)) = Some c"
    using m'(2) c(1) by (simp add: class_of_def map_add_def)
  ultimately show ?thesis using c(2) by blast
qed

lemma setup_registers_classes_witness:
  "\<exists>m c. GetNCPObject 3 (fst (setupDeviceNCP ''r'' ''QLXD4'' 110 ModelFamilyQLXD 1 (new_ncp_state, test_info))) =
     Some (OClassManager m) \<and> map_of (cm_Classes m) (classIDToKey [1, 2, 1, 22]) = Some c"
proof -
  let ?cfg = "wconf WorkerTypeMACAddr ''MacAddress'' ''MAC_ADDR'' [1, 2, 1, 22] True ''NcString''"
  have "?cfg \<in> set (all_configs ModelFamilyQLXD)" by (simp add: all_configs_def)
  moreover have "GetNCPObject 3 new_ncp_state = Some (OClassManager ((NewClassManager 3 None)\<lparr> cm_base := (cm_base (NewClassManager 3 None))\<lparr> bo_Notify := True \<rparr> \<rparr>))"
    by (simp add: new_ncp_state_def RegisterNCPObject_def GetNCPObject_def)
  ultimately have "\<exists>m' c. GetNCPObject 3 (fst (setupDeviceNCP ''r'' ''QLXD4'' 110 ModelFamilyQLXD 1 (new_ncp_state, test_info))) =
      Some (OClassManager m') \<and> map_of (cm_Classes m') (classIDToKey (wc_ClassID ?cfg)) = Some c \<and> fits ?cfg c"
    by (intro setup_registers_classes [OF _ _ _ new_state_fresh]) simp_all
  then show ?thesis by (auto simp: wconf_def)
qed

text \<open>
  The transmitter and the battery worker of the other families are configured as read-only, their
  classes are not.
\<close>

lemma read_only_workers_writable_classes:
  "\<exists>cfg\<in>set (ChannelWorkersConfig ModelFamilyULXD). wc_IsReadOnly cfg \<and> wc_ClassID cfg = [1, 2, 1, 16] \<and>
     map_option (\<lambda>c. map pd_readonly (filter (\<lambda>p. pd_id p = EId 3 1) (cd_properties c))) (class_of ModelFamilyULXD cfg) = Some [False]"
proof -
  let ?cfg = "wconf WorkerTypeBattery ''Battery'' ''TX_BATT_MINS'' [1, 2, 1, 16] True ''NcString''"
  have "?cfg \<in> set (ChannelWorkersConfig ModelFamilyULXD)" by simp
  moreover have "map_option (\<lambda>c. map pd_readonly (filter (\<lambda>p. pd_id p = EId 3 1) (cd_properties c))) (class_of ModelFamilyULXD ?cfg) = Some [False]"
    by code_simp
  ultimately show ?thesis by (intro bexI [of _ ?cfg]) (simp_all add: wconf_def)
qed

end
