(* ===== verification/Gateway_Events.thy ===== *)
theory Gateway_Events
  imports Gateway_Classes Is07_Events Nmos_Resources Tpci_Parse Shure_Commands
begin

text \<open>
  The handling of a report of a receiver by the gateway: \<open>handleShureDevice\<close> of
  \<open>internal/module/gateway.go\<close>, over the control server, the events, the node resources and what the gateway
  keeps of its receivers.

  One report is one atomic step, as only one goroutine handles them. What goes out, frames to event clients,
  notifications to control clients, commands to receivers and requests to the registry, is logged
  in order.
\<close>

subsection \<open>State\<close>

datatype effect =
    WroteFrame conn ws_frame
  | Notified client notification
  | SentCommand string string
  | PatchedRegistry string string goval
  | StoredReceiver string device_info

text \<open>
  \<open>g_mu\<close> is the lock of the gateway. Where a step finds it held, another goroutine holds it, and the step waits:
  that is a deadlock for good when the holder never returns.
\<close>

record gateway =
  g_mu :: lock
  g_ncp :: ncp_state
  g_events :: is07_state
  g_nmos :: nmos_state
  g_controls :: "string \<Rightarrow> (string \<times> goval) list list"
  g_ctrls :: "(string \<times> device_info) list"
  g_log :: "effect list"

text \<open>
  What the outside answers: floats as text, whether a command can be sent and the order of the map of classes
  (\<open>ge_nca\<close>), the text of a time, the connections that can be written, the digest, whether the registry
  accepts a PATCH, the order of the map of parameters of a command, and the address, the interface
  and the id of the node.
\<close>

record gw_env =
  ge_nca :: nca_env
  ge_stamp :: "int \<Rightarrow> string"
  ge_ok :: "conn \<Rightarrow> bool"
  ge_sha256 :: "string \<Rightarrow> string"
  ge_accepted :: bool
  ge_order :: param_order
  ge_listen :: string
  ge_interface :: string
  ge_nodeID :: string

definition set_info :: "string \<Rightarrow> (device_info \<Rightarrow> device_info) \<Rightarrow> gateway \<Rightarrow> gateway" where
  "set_info addr f g = g\<lparr> g_ctrls := map (\<lambda>(a, i). (a, if a = addr then f i else i)) (g_ctrls g) \<rparr>"

subsection \<open>Events\<close>

definition getNMOSEventType :: "string \<Rightarrow> string" where
  "getNMOSEventType param =
     (if param \<in> set [''AUDIO_MUTE'', ''MUTE'', ''TX_MUTE_STATUS''] then ''boolean''
      else if param \<in> set
        [''AUDIO_GAIN'', ''AUDIO_LEVEL_PEAK'', ''AUDIO_LEVEL_RMS'', ''AUDIO_LEVEL'', ''AUDIO_LVL'',
         ''CHAN_QUALITY'',
         ''RF_RSSI'', ''RF_RSSI_A'', ''RF_RSSI_B'', ''RF_RSSI_C'', ''RF_RSSI_D'',
         ''RF_RSSI_F1'', ''RF_RSSI_F2'', ''RF_LEVEL'', ''RX_RF_LVL'',
         ''TX_BATT_BARS'', ''TX_BATT_CHARGE_PERCENT'', ''TX_BATT_MINS'', ''TX_BATT_TEMP_C'',
         ''TX_BATT_CYCLE_COUNT'', ''TX_BATT_HEALTH_PERCENT'',
         ''AUDIO_LED_BITMAP'', ''RF_LED_BITMAP_A'', ''RF_LED_BITMAP_B'',
         ''RF_LED_BITMAP_C'', ''RF_LED_BITMAP_D'', ''RF_LED_BITMAP_F1'', ''RF_LED_BITMAP_F2''] then ''number''
      else ''string'')"

text \<open>An event to broadcast for a channel: parameter, event type, value.\<close>

type_synonym param_event = "string \<times> string \<times> goval"

text \<open>The inline branch for Axient Digital, and the function the fallback calls.\<close>

definition axient_events :: "SampleReport \<Rightarrow> param_event list" where
  "axient_events s =
     [(''CHAN_QUALITY'', ''number'', VInt (sr_Quality s)),
      (''AUDIO_LED_BITMAP'', ''number'', VInt (sr_AudioLEDBitmap s)),
      (''AUDIO_LEVEL_PEAK'', ''number'', VInt (AudioLevelPeakDBFS s)),
      (''AUDIO_LEVEL_RMS'', ''number'', VInt (AudioLevelRMSDBFS s)),
      (''ANTENNA_STATUS'', ''string'', VStr (sr_RFAntStatus s)),
      (''RF_LED_BITMAP_A'', ''number'', VInt (sr_RFBitmapA s)),
      (''RF_RSSI_A'', ''number'', VInt (RFRSSI_A_DBM s)),
      (''RF_LED_BITMAP_B'', ''number'', VInt (sr_RFBitmapB s)),
      (''RF_RSSI_B'', ''number'', VInt (RFRSSI_B_DBM s))] @
     (if 0 < sr_RFBitmapC s \<or> 0 < sr_RFRSSI_C s
      then [(''RF_LED_BITMAP_C'', ''number'', VInt (sr_RFBitmapC s)),
            (''RF_RSSI_C'', ''number'', VInt (RFRSSI_C_DBM s)),
            (''RF_LED_BITMAP_D'', ''number'', VInt (sr_RFBitmapD s)),
            (''RF_RSSI_D'', ''number'', VInt (RFRSSI_D_DBM s))] else []) @
     (if 0 < sr_RFBitmapF1 s \<or> 0 < sr_RFRSSI_F1 s
      then [(''RF_LED_BITMAP_F1'', ''number'', VInt (sr_RFBitmapF1 s)),
            (''RF_RSSI_F1'', ''number'', VInt (RFRSSI_F1_DBM s))] else []) @
     (if 0 < sr_RFBitmapF2 s \<or> 0 < sr_RFRSSI_F2 s
      then [(''RF_LED_BITMAP_F2'', ''number'', VInt (sr_RFBitmapF2 s)),
            (''RF_RSSI_F2'', ''number'', VInt (RFRSSI_F2_DBM s))] else [])"

definition handleAxientSampleEvents :: "SampleReport \<Rightarrow> param_event list" where
  "handleAxientSampleEvents s =
     [(''CHAN_QUALITY'', ''number'', VInt (sr_Quality s)),
      (''AUDIO_LED_BITMAP'', ''number'', VInt (sr_AudioLEDBitmap s)),
      (''AUDIO_LEVEL_PEAK'', ''number'', VInt (AudioLevelPeakDBFS s)),
      (''AUDIO_LEVEL_RMS'', ''number'', VInt (AudioLevelRMSDBFS s)),
      (''ANTENNA_A_ACTIVE'', ''boolean'', VBool (AntennaAActive s)),
      (''ANTENNA_B_ACTIVE'', ''boolean'', VBool (AntennaBActive s))] @
     (if 0 < sr_RFBitmapC s \<or> 0 < sr_RFRSSI_C s
      then [(''ANTENNA_C_ACTIVE'', ''boolean'', VBool (AntennaCActive s))] else []) @
     (if 0 < sr_RFBitmapD s \<or> 0 < sr_RFRSSI_D s
      then [(''ANTENNA_D_ACTIVE'', ''boolean'', VBool (AntennaDActive s))] else []) @
     [(''RF_LED_BITMAP_A'', ''number'', VInt (sr_RFBitmapA s)),
      (''RF_RSSI_A'', ''number'', VInt (RFRSSI_A_DBM s)),
      (''RF_LED_BITMAP_B'', ''number'', VInt (sr_RFBitmapB s)),
      (''RF_RSSI_B'', ''number'', VInt (RFRSSI_B_DBM s))] @
     (if 0 < sr_RFBitmapC s \<or> 0 < sr_RFRSSI_C s
      then [(''RF_LED_BITMAP_C'', ''number'', VInt (sr_RFBitmapC s)),
            (''RF_RSSI_C'', ''number'', VInt (RFRSSI_C_DBM s)),
            (''RF_LED_BITMAP_D'', ''number'', VInt (sr_RFBitmapD s)),
            (''RF_RSSI_D'', ''number'', VInt (RFRSSI_D_DBM s))] else []) @
     (if 0 < sr_RFBitmapF1 s \<or> 0 < sr_RFRSSI_F1 s
      then [(''RF_LED_BITMAP_F1'', ''number'', VInt (sr_RFBitmapF1 s)),
            (''RF_RSSI_F1'', ''number'', VInt (RFRSSI_F1_DBM s))] else []) @
     (if 0 < sr_RFBitmapF2 s \<or> 0 < sr_RFRSSI_F2 s
      then [(''RF_LED_BITMAP_F2'', ''number'', VInt (sr_RFBitmapF2 s)),
            (''RF_RSSI_F2'', ''number'', VInt (RFRSSI_F2_DBM s))] else [])"

definition ulxd_events :: "ULXDSampleReport \<Rightarrow> param_event list" where
  "ulxd_events s =
     [(''ANTENNA_A_ACTIVE'', ''boolean'', VBool (ur_AntStatus s = ''AX'')),
      (''ANTENNA_B_ACTIVE'', ''boolean'', VBool (ur_AntStatus s = ''XB'')),
      (''RF_LEVEL'', ''number'', VInt (ULXD_RFLevelDBM s)),
      (''AUDIO_LEVEL_PEAK'', ''number'', VInt (ULXD_AudioLevelDBFS s)),
      (''AUDIO_LEVEL_RMS'', ''number'', VInt (ULXD_AudioLevelDBFS s))]"

definition handleULXDSampleEvents :: "ULXDSampleReport \<Rightarrow> param_event list" where
  "handleULXDSampleEvents s =
     [(''ANTENNA_A_ACTIVE'', ''boolean'', VBool (ur_AntStatus s = ''AX'')),
      (''ANTENNA_B_ACTIVE'', ''boolean'', VBool (ur_AntStatus s = ''XB'')),
      (''RF_LEVEL'', ''number'', VInt (ULXD_RFLevelDBM s)),
      (''AUDIO_LVL'', ''number'', VInt (ULXD_AudioLevelDBFS s))]"

text \<open>The inline branch for SLX-D and \<open>handleSLDXSampleEvents\<close> broadcast the same.\<close>

definition handleSLDXSampleEvents :: "SLDXSampleReport \<Rightarrow> param_event list" where
  "handleSLDXSampleEvents s =
     [(''AUDIO_LEVEL_PEAK'', ''number'', VInt (SLDX_AudioPeakDBFS s)),
      (''AUDIO_LEVEL_RMS'', ''number'', VInt (SLDX_AudioRMSDBFS s)),
      (''RF_RSSI'', ''number'', VInt (SLDX_RFRSSIDBM s))]"

definition events_of :: "('a \<Rightarrow> param_event list) \<Rightarrow> 'a option \<Rightarrow> param_event list" where
  "events_of f x = (case x of None \<Rightarrow> [] | Some s \<Rightarrow> f s)"

text \<open>The events of a SAMPLE line, and the family found when it was not known.\<close>

definition detected_sample :: "string \<Rightarrow> param_event list \<times> ShureModelFamily option" where
  "detected_sample raw =
     (let format = DetectSampleFormat raw in
      if format = ''axient'' then
        (case ParseSampleReport raw of None \<Rightarrow> ([], None) | Some s \<Rightarrow> (handleAxientSampleEvents s, Some ModelFamilyAxientDigital))
      else if format = ''ulxd'' then
        (case ParseULXDSampleReport raw of None \<Rightarrow> ([], None) | Some s \<Rightarrow> (handleULXDSampleEvents s, Some ModelFamilyULXD))
      else if format = ''sldx'' then
        (case ParseSLDXSampleReport raw of None \<Rightarrow> ([], None) | Some s \<Rightarrow> (handleSLDXSampleEvents s, Some ModelFamilySLXD))
      else ([], None))"

fun sample_events :: "ShureModelFamily \<Rightarrow> string \<Rightarrow> param_event list \<times> ShureModelFamily option" where
  "sample_events ModelFamilyAxientDigital raw = (events_of axient_events (ParseSampleReport raw), None)"
| "sample_events ModelFamilyULXD raw = (events_of ulxd_events (ParseULXDSampleReport raw), None)"
| "sample_events ModelFamilyQLXD raw = (events_of ulxd_events (ParseULXDSampleReport raw), None)"
| "sample_events ModelFamilySLXD raw = (events_of handleSLDXSampleEvents (ParseSLDXSampleReport raw), None)"
| "sample_events ModelFamilySLXDPlus raw = (events_of handleSLDXSampleEvents (ParseSLDXSampleReport raw), None)"
| "sample_events (OtherFamily s) raw = detected_sample raw"

text \<open>A parameter without a source is skipped; a missing flow is the empty id.\<close>

definition broadcast_param :: "gw_env \<Rightarrow> int \<Rightarrow> device_info \<Rightarrow> int \<Rightarrow> param_event \<Rightarrow> gateway \<Rightarrow> gateway" where
  "broadcast_param env now info ch ev g =
     (case ev of (param, ty, v) \<Rightarrow>
       (case di_sourceIDs info ch param of
          None \<Rightarrow> g
        | Some sID \<Rightarrow>
            (case BroadcastEvent (ge_stamp env) now (ge_ok env) sID
                    (case di_flowIDs info ch param of None \<Rightarrow> [] | Some f \<Rightarrow> f) ty v (g_events g) of
               (s, ws) \<Rightarrow> g\<lparr> g_events := s, g_log := g_log g @ map (\<lambda>(c, fr). WroteFrame c fr) ws \<rparr>)))"

definition handle_sample :: "gw_env \<Rightarrow> int \<Rightarrow> string \<Rightarrow> TPCIReport \<Rightarrow> device_info \<Rightarrow> gateway \<Rightarrow> gateway" where
  "handle_sample env now addr report info g =
     (case sample_events (di_modelFamily info) (tr_Raw report) of
        (evs, family) \<Rightarrow>
          (let g1 = (case family of None \<Rightarrow> g | Some m \<Rightarrow> set_info addr (di_modelFamily_update (\<lambda>_. m)) g) in
           fold (broadcast_param env now info (tr_Channel report)) evs g1))"

subsection \<open>Workers\<close>

text \<open>\<open>worker.SetProperty\<close> with the value of the report, on an object that is a worker.\<close>

definition set_worker :: "gw_env \<Rightarrow> int \<Rightarrow> string \<Rightarrow> gateway \<Rightarrow> gateway" where
  "set_worker env oid value g =
     (case GetNCPObject oid (g_ncp g) of
        Some (OWorker w) \<Rightarrow>
          (case obj_SetProperty (ge_nca env) (OWorker w) (EId 3 1) (VStr value) of
             (ob, ns, cs, ok) \<Rightarrow>
               g\<lparr> g_ncp := put_object oid ob (g_ncp g),
                  g_log := g_log g @ map (\<lambda>(a, c). SentCommand a c) cs @
                    map (\<lambda>(c, n). Notified c n) (deliver (g_ncp g) ns) \<rparr>)
      | _ \<Rightarrow> g)"

definition set_worker_opt :: "gw_env \<Rightarrow> int option \<Rightarrow> string \<Rightarrow> gateway \<Rightarrow> gateway" where
  "set_worker_opt env oid value g = (case oid of None \<Rightarrow> g | Some i \<Rightarrow> set_worker env i value g)"

definition metered_report :: "gw_env \<Rightarrow> int \<Rightarrow> TPCIReport \<Rightarrow> device_info \<Rightarrow> gateway \<Rightarrow> gateway" where
  "metered_report env now report info g =
     (let param = tr_Param report; ch = tr_Channel report;
          g1 = broadcast_param env now info ch (param, getNMOSEventType param, VStr (tr_Value report)) g in
      set_worker_opt env (di_parameterOIDs info (channel_key ch param)) (tr_Value report) g1)"

text \<open>The keys a report is looked up under, in order.\<close>

definition lookup_keys :: "ShureModelFamily \<Rightarrow> TPCIReport \<Rightarrow> string list" where
  "lookup_keys family report =
     (let param = tr_Param report; normalized = replace_byte (CHR '' '') [] param; ch = tr_Channel report in
      [channel_key ch param, channel_key ch normalized] @
      (if family = ModelFamilyQLXD then [param, normalized] else []))"

fun first_hit :: "(string \<Rightarrow> int option) \<Rightarrow> string list \<Rightarrow> int option" where
  "first_hit m [] = None"
| "first_hit m (k # ks) = (case m k of Some oid \<Rightarrow> Some oid | None \<Rightarrow> first_hit m ks)"

definition rep_report :: "gw_env \<Rightarrow> TPCIReport \<Rightarrow> device_info \<Rightarrow> gateway \<Rightarrow> gateway" where
  "rep_report env report info g =
     set_worker_opt env (first_hit (di_parameterOIDs info) (lookup_keys (di_modelFamily info) report)) (tr_Value report) g"

subsection \<open>The device resource\<close>

definition resource_tags :: "(string \<times> goval) list \<Rightarrow> (string \<times> goval) list" where
  "resource_tags res = (case as_map (field_of ''tags'' res) of Some t \<Rightarrow> t | None \<Rightarrow> [])"

text \<open>What is set before the tags.\<close>

definition head_fields :: "string \<Rightarrow> TPCIReport \<Rightarrow> (string \<times> goval) list \<Rightarrow> (string \<times> goval) list" where
  "head_fields addr report res =
     (let r1 = map_put ''tags'' (VMap (resource_tags res)) res;
          r2 = (if tr_Param report = ''MODEL''
                then map_put ''description'' (VStr (tr_Value report @ '' at '' @ addr)) r1 else r1) in
      if tr_Param report = ''DEVICE_ID'' then map_put ''label'' (VStr (tr_Value report)) r2 else r2)"

definition sample_tag_names :: "string list" where
  "sample_tag_names = [''channel_quality'', ''audio_led_bitmap'', ''audio_peak'', ''audio_rms'', ''antenna_status'',
     ''rf_led_bitmap_a'', ''rf_rssi_a'', ''rf_led_bitmap_b'', ''rf_rssi_b'']"

definition report_tags :: "TPCIReport \<Rightarrow> (string \<times> goval) list \<Rightarrow> (string \<times> goval) list" where
  "report_tags report tags =
     (let t1 = map_put (tr_Param report) (VStrs [tr_Value report]) tags;
          vals = str_fields (tr_Value report) in
      if tr_Type report = ''SAMPLE'' \<and> tr_Param report = ''ALL'' \<and> 9 \<le> length vals
      then fold (\<lambda>(n, v). map_put n (VStrs [v])) (zip sample_tag_names vals) t1
      else t1)"

definition device_update :: "string \<Rightarrow> string \<Rightarrow> TPCIReport \<Rightarrow> (string \<times> goval) list \<Rightarrow> (string \<times> goval) list" where
  "device_update ver addr report res =
     map_put ''version'' (VStr ver)
       (map_put ''tags'' (VMap (report_tags report (resource_tags res))) (head_fields addr report res))"

definition control_type :: "string \<Rightarrow> string" where
  "control_type value = (if value = ''ON'' \<or> value = ''OFF'' then ''boolean'' else if has_prefix value ''{'' then ''string'' else ''number'')"

definition add_control :: "TPCIReport \<Rightarrow> (string \<times> goval) list list \<Rightarrow> (string \<times> goval) list list" where
  "add_control report cs =
     (if tr_Param report \<in> {''METER_RATE'', ''SAMPLE'', ''ALL''} \<or> (\<exists>c\<in>set cs. field_of ''name'' c = VStr (tr_Param report))
      then cs
      else cs @ [[(''name'', VStr (tr_Param report)), (''type'', VStr (control_type (tr_Value report))),
                  (''value'', VStr (tr_Value report))]])"

definition lift_nmos :: "(nmos_state, 'a) run \<Rightarrow> gateway \<Rightarrow> (gateway \<Rightarrow> 'a \<Rightarrow> (gateway, 'b) run) \<Rightarrow> (gateway, 'b) run" where
  "lift_nmos r g k = (case r of Done s a \<Rightarrow> k (g\<lparr> g_nmos := s \<rparr>) a | Deadlock s \<Rightarrow> Deadlock (g\<lparr> g_nmos := s \<rparr>) | FatalError \<Rightarrow> FatalError)"

text \<open>
  The update of the device resource. Its function runs with the lock of the node free and only when the resource
  is there; it changes the map in place, so the nested update of the label shows the fields set so far.
  \<open>ver\<close> is the text of two clock readings.
\<close>

definition update_device :: "gw_env \<Rightarrow> string \<Rightarrow> string \<Rightarrow> string \<Rightarrow> TPCIReport \<Rightarrow> gateway \<Rightarrow> (gateway, unit) run" where
  "update_device env ver addr deviceID report g =
     (case find_resource deviceID (resources (g_nmos g) ''devices'') of
        Some (VMap res) \<Rightarrow>
          (let g1 = (if tr_Param report = ''MODEL''
                     then set_info addr (di_modelFamily_update (\<lambda>_. DetectModelFamily (tr_Value report))) g else g);
               finish = (\<lambda>g.
                 lift_nmos (UpdateResource ''devices'' deviceID (\<lambda>_. VMap (device_update ver addr report res)) (g_nmos g))
                   (g\<lparr> g_controls := (g_controls g)(deviceID := add_control report (g_controls g deviceID)) \<rparr>) (\<lambda>g _. Done g ())) in
           if tr_Param report = ''DEVICE_ID'' then
             lift_nmos (UpdateResourceInRegistry (ge_accepted env) ''devices'' deviceID (\<lambda>_. VMap (head_fields addr report res)) (g_nmos g1))
               g1 (\<lambda>g a. finish (g\<lparr> g_log := g_log g @ map (\<lambda>(t, i, r). PatchedRegistry t i r) (snd a) \<rparr>))
           else finish g1)
      | _ \<Rightarrow> lift_nmos (UpdateResource ''devices'' deviceID id (g_nmos g)) g (\<lambda>g _. Done g ()))"

subsection \<open>One report\<close>

text \<open>The device of a channel, that of channel 0 when the channel has none; empty when there is none.\<close>

definition report_device :: "device_info \<Rightarrow> int \<Rightarrow> string" where
  "report_device info ch =
     (case di_nmosDeviceIDs info ch of
        Some d \<Rightarrow> d
      | None \<Rightarrow> (case di_nmosDeviceIDs info 0 of Some d \<Rightarrow> d | None \<Rightarrow> []))"

definition handleShureDevice :: "gw_env \<Rightarrow> int \<Rightarrow> string \<Rightarrow> string \<Rightarrow> TPCIReport \<Rightarrow> gateway \<Rightarrow> (gateway, unit) run" where
  "handleShureDevice env now ver addr report g =
     (if g_mu g \<noteq> Unlocked then Deadlock g
      else case map_of (g_ctrls g) addr of
        None \<Rightarrow> Done g ()
      | Some info \<Rightarrow>
          (let g1 = (if tr_Type report = ''SAMPLE'' \<and> tr_Param report = ''ALL''
                     then handle_sample env now addr report info g else g);
               g2 = (if IsMeteredParam (tr_Param report) then metered_report env now report info g1 else g1);
               g3 = (if tr_Type report = ''REP'' \<and> tr_Param report \<noteq> ''ALL'' then rep_report env report info g2 else g2);
               deviceID = report_device info (tr_Channel report) in
           if deviceID = [] then Done g3 () else update_device env ver addr deviceID report g3))"

end
