(* ===== verification/Gateway_Event_Laws.thy ===== *)
theory Gateway_Event_Laws
  imports Gateway_Events
begin

text \<open>
  What the handling of a report guarantees: which events a SAMPLE line gives and of which type, which worker a
  report sets and what that sends, what becomes of the device resource, and the invariant that
  every report keeps.
\<close>

subsection \<open>Events of SAMPLE lines\<close>

text \<open>The parameters a family registers sources for and no SAMPLE line gives an event for.\<close>

definition never_fed :: "ShureModelFamily \<Rightarrow> string set" where
  "never_fed m = {p \<in> set (GetIS07MeteredParams m). \<forall>raw. p \<notin> fst ` set (fst (sample_events m raw))}"

text \<open>A line with every field of an Axient Digital receiver, and one for the other families.\<close>

definition full_line :: string where
  "full_line = ''< SAMPLE 1 01 01 001 001 XX 01 001 01 001 01 001 01 001 01 001 01 001 >''"

definition short_line :: string where
  "short_line = ''< SAMPLE 1 ALL AX 100 030 >''"

lemma axient_fed:
  "set (GetIS07MeteredParams ModelFamilyAxientDigital) - {''ANTENNA_A_ACTIVE'', ''ANTENNA_B_ACTIVE''} \<subseteq>
    fst ` set (fst (sample_events ModelFamilyAxientDigital full_line))"
  by code_simp

lemma short_fed:
  "set (GetIS07MeteredParams ModelFamilyULXD) - {''AUDIO_LVL''} \<subseteq> fst ` set (fst (sample_events ModelFamilyULXD short_line))"
  "set (GetIS07MeteredParams ModelFamilyQLXD) - {''AUDIO_LVL''} \<subseteq> fst ` set (fst (sample_events ModelFamilyQLXD short_line))"
  "set (GetIS07MeteredParams ModelFamilySLXD) - {} \<subseteq> fst ` set (fst (sample_events ModelFamilySLXD short_line))"
  "set (GetIS07MeteredParams ModelFamilySLXDPlus) - {} \<subseteq> fst ` set (fst (sample_events ModelFamilySLXDPlus short_line))"
  by code_simp+

lemma never_fed_eq:
  assumes "set (GetIS07MeteredParams m) - U \<subseteq> fst ` set (fst (sample_events m line))"
    and "U \<subseteq> set (GetIS07MeteredParams m)" "\<And>raw p. p \<in> U \<Longrightarrow> p \<notin> fst ` set (fst (sample_events m raw))"
  shows "never_fed m = U"
  using assms unfolding never_fed_def by blast

text \<open>
  The sources no SAMPLE line ever feeds: on Axient Digital receivers those of the two antennas, on ULX-D and
  QLX-D receivers that of the audio level, on the others none. They are registered for every channel and stay
  without an event from SAMPLE.
\<close>

lemma sample_never_fed:
  "never_fed ModelFamilyAxientDigital = {''ANTENNA_A_ACTIVE'', ''ANTENNA_B_ACTIVE''} \<and>
   never_fed ModelFamilyULXD = {''AUDIO_LVL''} \<and> never_fed ModelFamilyQLXD = {''AUDIO_LVL''} \<and>
   never_fed ModelFamilySLXD = {} \<and> never_fed ModelFamilySLXDPlus = {}"
proof -
  have "never_fed ModelFamilyAxientDigital = {''ANTENNA_A_ACTIVE'', ''ANTENNA_B_ACTIVE''}"
    by (rule never_fed_eq [OF axient_fed]) (auto simp: events_of_def axient_events_def split: option.splits)
  moreover have "never_fed ModelFamilyULXD = {''AUDIO_LVL''}"
    by (rule never_fed_eq [OF short_fed(1)]) (auto simp: events_of_def ulxd_events_def split: option.splits)
  moreover have "never_fed ModelFamilyQLXD = {''AUDIO_LVL''}"
    by (rule never_fed_eq [OF short_fed(2)]) (auto simp: events_of_def ulxd_events_def split: option.splits)
  moreover have "never_fed ModelFamilySLXD = {}"
    by (rule never_fed_eq [OF short_fed(3)]) simp_all
  moreover have "never_fed ModelFamilySLXDPlus = {}"
    by (rule never_fed_eq [OF short_fed(4)]) simp_all
  ultimately show ?thesis by blast
qed

fun value_fits :: "string \<Rightarrow> goval \<Rightarrow> bool" where
  "value_fits ty (VInt i) \<longleftrightarrow> ty = ''number''"
| "value_fits ty (VBool b) \<longleftrightarrow> ty = ''boolean''"
| "value_fits ty (VStr s) \<longleftrightarrow> ty = ''string''"
| "value_fits ty v \<longleftrightarrow> False"

definition antenna_flags :: "string set" where
  "antenna_flags = {''ANTENNA_A_ACTIVE'', ''ANTENNA_B_ACTIVE'', ''ANTENNA_C_ACTIVE'', ''ANTENNA_D_ACTIVE''}"

definition typed_event :: "param_event \<Rightarrow> bool" where
  "typed_event ev = (case ev of (p, ty, v) \<Rightarrow>
     value_fits ty v \<and> (if p \<in> antenna_flags then ty = ''boolean'' \<and> getNMOSEventType p = ''string'' else ty = getNMOSEventType p))"

lemma typed_events:
  "list_all typed_event (axient_events s)" "list_all typed_event (handleAxientSampleEvents s)"
  "list_all typed_event (ulxd_events u)" "list_all typed_event (handleULXDSampleEvents u)"
  "list_all typed_event (handleSLDXSampleEvents x)"
  by (simp_all add: axient_events_def handleAxientSampleEvents_def ulxd_events_def handleULXDSampleEvents_def
      handleSLDXSampleEvents_def typed_event_def antenna_flags_def getNMOSEventType_def)

lemma typed_sample_events: "list_all typed_event (fst (sample_events m raw))"
  by (cases m) (simp_all add: events_of_def detected_sample_def Let_def typed_events split: option.split)

text \<open>
  C17. Every event of a SAMPLE line has a value of the type it names, and the type its source was registered
  with, except for the antenna flags: their sources are registered as string and their events
  are boolean.
\<close>

theorem sample_event_types:
  assumes "(p, ty, v) \<in> set (fst (sample_events m raw))"
  shows "value_fits ty v \<and> (if p \<in> antenna_flags then ty = ''boolean'' \<and> getNMOSEventType p = ''string'' else ty = getNMOSEventType p)"
  using typed_sample_events [of m raw] assms by (auto simp: list_all_iff typed_event_def)

theorem sample_event_types_witness:
  "\<exists>v. (''ANTENNA_A_ACTIVE'', ''boolean'', v) \<in> set (fst (sample_events ModelFamilyULXD short_line)) \<and>
     value_fits ''boolean'' v \<and> getNMOSEventType ''ANTENNA_A_ACTIVE'' = ''string''"
proof -
  have "(''ANTENNA_A_ACTIVE'', ''boolean'', VBool True) \<in> set (fst (sample_events ModelFamilyULXD short_line))" by code_simp
  from sample_event_types [OF this] this show ?thesis by (auto simp: antenna_flags_def)
qed

subsection \<open>What a step of the handling keeps\<close>

lemma set_info_keeps [simp]:
  "g_ncp (set_info a f g) = g_ncp g" "g_events (set_info a f g) = g_events g" "g_nmos (set_info a f g) = g_nmos g"
  "g_controls (set_info a f g) = g_controls g" "g_log (set_info a f g) = g_log g" "g_mu (set_info a f g) = g_mu g"
  "map fst (g_ctrls (set_info a f g)) = map fst (g_ctrls g)"
  by (auto simp: set_info_def)

lemma set_info_other: "b \<noteq> a \<Longrightarrow> map_of (g_ctrls (set_info a f g)) b = map_of (g_ctrls g) b"
proof -
  have "map_of (map (\<lambda>(c, i). (c, if c = a then f i else i)) xs) b = map_of xs b" if "b \<noteq> a" for xs
    using that by (induction xs) auto
  then show "b \<noteq> a \<Longrightarrow> ?thesis" by (simp add: set_info_def)
qed

lemma broadcast_param_keeps [simp]:
  "g_ncp (broadcast_param env now info ch ev g) = g_ncp g" "g_nmos (broadcast_param env now info ch ev g) = g_nmos g"
  "g_controls (broadcast_param env now info ch ev g) = g_controls g" "g_ctrls (broadcast_param env now info ch ev g) = g_ctrls g"
  "g_mu (broadcast_param env now info ch ev g) = g_mu g"
  by (simp_all add: broadcast_param_def split: prod.splits option.splits)

lemma broadcast_param_inv: "is07_inv (g_events g) \<Longrightarrow> is07_inv (g_events (broadcast_param env now info ch ev g))"
  by (auto simp: broadcast_param_def intro: is07_step_inv [OF is07_step.broadcast] split: prod.splits option.splits)

lemma fold_broadcast_keeps [simp]:
  "g_ncp (fold (broadcast_param env now info ch) evs g) = g_ncp g"
  "g_nmos (fold (broadcast_param env now info ch) evs g) = g_nmos g"
  "g_controls (fold (broadcast_param env now info ch) evs g) = g_controls g"
  "g_ctrls (fold (broadcast_param env now info ch) evs g) = g_ctrls g"
  "g_mu (fold (broadcast_param env now info ch) evs g) = g_mu g"
  by (induction evs arbitrary: g) simp_all

lemma fold_broadcast_inv: "is07_inv (g_events g) \<Longrightarrow> is07_inv (g_events (fold (broadcast_param env now info ch) evs g))"
  by (induction evs arbitrary: g) (simp_all add: broadcast_param_inv)

lemma set_worker_keeps [simp]:
  "g_events (set_worker env oid v g) = g_events g" "g_nmos (set_worker env oid v g) = g_nmos g"
  "g_controls (set_worker env oid v g) = g_controls g" "g_ctrls (set_worker env oid v g) = g_ctrls g"
  "g_mu (set_worker env oid v g) = g_mu g"
  by (simp_all add: set_worker_def split: prod.splits option.splits nc_object.splits)

lemma set_worker_inv: "ncp_inv (g_ncp g) \<Longrightarrow> ncp_inv (g_ncp (set_worker env oid v g))"
proof (cases "\<exists>w. GetNCPObject oid (g_ncp g) = Some (OWorker w)")
  case True
  then obtain w where w: "ns_objects (g_ncp g) oid = Some (OWorker w)" by (auto simp: GetNCPObject_def)
  obtain ob ns cs ok where s: "obj_SetProperty (ge_nca env) (OWorker w) (EId 3 1) (VStr v) = (ob, ns, cs, ok)" by (metis prod_cases4)
  assume "ncp_inv (g_ncp g)"
  from put_same_sig [OF this w set_keeps_sig [OF s]] show ?thesis
    using w s by (simp add: set_worker_def GetNCPObject_def del: obj_SetProperty.simps)
next
  case False
  assume "ncp_inv (g_ncp g)"
  with False show ?thesis by (auto simp: set_worker_def split: option.splits nc_object.splits)
qed

lemma set_worker_objects:
  "dom (ns_objects (g_ncp (set_worker env oid v g))) = dom (ns_objects (g_ncp g))"
  "p \<noteq> oid \<Longrightarrow> ns_objects (g_ncp (set_worker env oid v g)) p = ns_objects (g_ncp g) p"
  by (auto simp: set_worker_def put_object_def GetNCPObject_def split: prod.splits option.splits nc_object.splits)

lemma set_worker_opt_keeps [simp]:
  "g_events (set_worker_opt env oid v g) = g_events g" "g_nmos (set_worker_opt env oid v g) = g_nmos g"
  "g_controls (set_worker_opt env oid v g) = g_controls g" "g_ctrls (set_worker_opt env oid v g) = g_ctrls g"
  "g_mu (set_worker_opt env oid v g) = g_mu g"
  by (simp_all add: set_worker_opt_def split: option.split)

lemma set_worker_opt_inv: "ncp_inv (g_ncp g) \<Longrightarrow> ncp_inv (g_ncp (set_worker_opt env oid v g))"
  by (simp add: set_worker_opt_def set_worker_inv split: option.split)

lemma set_worker_opt_dom: "dom (ns_objects (g_ncp (set_worker_opt env oid v g))) = dom (ns_objects (g_ncp g))"
  by (simp add: set_worker_opt_def set_worker_objects split: option.split)

subsection \<open>The device resource\<close>

lemma resource_index_update:
  "resource_index i rs = Some k \<Longrightarrow> has_id i x \<Longrightarrow> resource_index i (rs[k := x]) = Some k \<and> k < length rs"
  by (induction rs arbitrary: k) (auto split: if_split_asm)

lemma find_resource_update:
  "resource_index i rs = Some k \<Longrightarrow> has_id i x \<Longrightarrow> find_resource i (rs[k := x]) = Some x"
  using resource_index_update [of i rs k x] by (auto simp: find_resource_index)

lemma find_resource_has_id: "find_resource i rs = Some r \<Longrightarrow> has_id i r"
  by (induction rs) (auto split: if_split_asm)

lemma head_fields_field:
  "field_of k (head_fields addr report res) =
    (if k = ''label'' \<and> tr_Param report = ''DEVICE_ID'' then VStr (tr_Value report)
     else if k = ''description'' \<and> tr_Param report = ''MODEL'' then VStr (tr_Value report @ '' at '' @ addr)
     else if k = ''tags'' then VMap (resource_tags res) else field_of k res)"
  by (simp add: head_fields_def Let_def field_of_map_put)

lemma device_update_field:
  "field_of k (device_update ver addr report res) =
    (if k = ''version'' then VStr ver
     else if k = ''tags'' then VMap (report_tags report (resource_tags res))
     else field_of k (head_fields addr report res))"
  by (simp add: device_update_def field_of_map_put)

lemma update_keeps_id:
  "has_id i (VMap (head_fields addr report res)) \<longleftrightarrow> has_id i (VMap res)"
  "has_id i (VMap (device_update ver addr report res)) \<longleftrightarrow> has_id i (VMap res)"
  by (simp_all add: has_id_VMap device_update_field head_fields_field)

lemma fold_tags_other:
  "k \<notin> fst ` set nvs \<Longrightarrow> field_of k (fold (\<lambda>(n, v). map_put n (VStrs [v])) nvs m) = field_of k m"
  by (induction nvs arbitrary: m) (auto simp: field_of_map_put)

lemma report_tags_field:
  "field_of (tr_Param report) (report_tags report tags) = VStrs [tr_Value report]"
  "k \<noteq> tr_Param report \<Longrightarrow> k \<notin> set sample_tag_names \<Longrightarrow> field_of k (report_tags report tags) = field_of k tags"
proof -
  have names: "fst ` set (zip sample_tag_names vals) \<subseteq> set sample_tag_names" for vals :: "string list"
    by (auto dest: set_zip_leftD)
  moreover have "''ALL'' \<notin> set sample_tag_names" by (simp add: sample_tag_names_def)
  ultimately have all: "''ALL'' \<notin> fst ` set (zip sample_tag_names vals)" for vals :: "string list" by blast
  show "field_of (tr_Param report) (report_tags report tags) = VStrs [tr_Value report]"
    using all by (auto simp: report_tags_def Let_def fold_tags_other field_of_map_put)
  assume k: "k \<noteq> tr_Param report" "k \<notin> set sample_tag_names"
  then have "k \<notin> fst ` set (zip sample_tag_names vals)" for vals :: "string list" using names by blast
  with k(1) show "field_of k (report_tags report tags) = field_of k tags"
    by (auto simp: report_tags_def Let_def fold_tags_other field_of_map_put)
qed

text \<open>The update finishes, with the lock free, and touches only the resource, the controls and the family.\<close>

lemma UpdateResource_done:
  assumes "mu s = Unlocked"
  obtains s' b where "UpdateResource t i f s = Done s' b" "mu s' = Unlocked"
  using UpdateResource_correct [OF assms, where i = i and t = t and f = f] assms by (cases "resource_index i (resources s (toPlural t))") auto

lemma devices_plural [simp]: "toPlural ''devices'' = ''devices''"
  by (simp add: toPlural_def)

lemma UpdateResource_present:
  assumes "mu s = Unlocked" "find_resource i (resources s ''devices'') = Some r" "has_id i x"
  obtains s' where "UpdateResource ''devices'' i (\<lambda>_. x) s = Done s' True" "mu s' = Unlocked"
    "find_resource i (resources s' ''devices'') = Some x"
proof -
  obtain k where k: "resource_index i (resources s ''devices'') = Some k"
    using assms(2) by (auto simp: find_resource_index)
  from UpdateResource_correct [OF assms(1), where i = i and t = "''devices''" and f = "\<lambda>_. x"] k
  obtain s' where "UpdateResource ''devices'' i (\<lambda>_. x) s = Done s' True" "mu s' = Unlocked"
    "resources s' = (resources s)(''devices'' := (resources s ''devices'')[k := x])" by auto
  moreover from this(3) have "find_resource i (resources s' ''devices'') = Some x"
    using find_resource_update [OF k assms(3)] by simp
  ultimately show thesis using that by blast
qed

lemma UpdateResourceInRegistry_present:
  assumes "mu s = Unlocked" "find_resource i (resources s ''devices'') = Some r" "has_id i x"
  obtains s' where "UpdateResourceInRegistry acc ''devices'' i (\<lambda>_. x) s = Done s' (acc, [(''devices'', i, x)])" "mu s' = Unlocked"
    "find_resource i (resources s' ''devices'') = Some x"
proof -
  obtain k where k: "resource_index i (resources s ''devices'') = Some k"
    using assms(2) by (auto simp: find_resource_index)
  from UpdateResourceInRegistry_correct [OF assms(1), where i = i and t = "''devices''" and acc = acc and f = "\<lambda>_. x"] k
  obtain s' where "UpdateResourceInRegistry acc ''devices'' i (\<lambda>_. x) s = Done s' (acc, [(''devices'', i, x)])" "mu s' = Unlocked"
    "resources s' = (resources s)(''devices'' := (resources s ''devices'')[k := x])" by auto
  moreover from this(3) have "find_resource i (resources s' ''devices'') = Some x"
    using find_resource_update [OF k assms(3)] by simp
  ultimately show thesis using that by blast
qed

definition same_but_device :: "string \<Rightarrow> gateway \<Rightarrow> gateway \<Rightarrow> bool" where
  "same_but_device addr g g' \<longleftrightarrow> g_mu g' = g_mu g \<and> g_ncp g' = g_ncp g \<and> g_events g' = g_events g \<and> mu (g_nmos g') = Unlocked \<and>
     (\<exists>es. g_log g' = g_log g @ es) \<and>
     map fst (g_ctrls g') = map fst (g_ctrls g) \<and> (\<forall>b. b \<noteq> addr \<longrightarrow> map_of (g_ctrls g') b = map_of (g_ctrls g) b)"

lemma update_device_present:
  assumes "mu (g_nmos g) = Unlocked" "find_resource dev (resources (g_nmos g) ''devices'') = Some (VMap res)"
  shows "\<exists>g'. update_device env ver addr dev report g = Done g' () \<and> same_but_device addr g g' \<and>
    find_resource dev (resources (g_nmos g') ''devices'') = Some (VMap (device_update ver addr report res)) \<and>
    g_controls g' = (g_controls g)(dev := add_control report (g_controls g dev))"
proof -
  define g1 where "g1 = (if tr_Param report = ''MODEL''
    then set_info addr (di_modelFamily_update (\<lambda>_. DetectModelFamily (tr_Value report))) g else g)"
  have g1: "g_mu g1 = g_mu g" "g_ncp g1 = g_ncp g" "g_events g1 = g_events g" "g_nmos g1 = g_nmos g" "g_controls g1 = g_controls g" "g_log g1 = g_log g"
    "map fst (g_ctrls g1) = map fst (g_ctrls g)" "\<And>b. b \<noteq> addr \<Longrightarrow> map_of (g_ctrls g1) b = map_of (g_ctrls g) b"
    by (simp_all add: g1_def set_info_other)
  let ?finish = "\<lambda>g :: gateway. lift_nmos (UpdateResource ''devices'' dev (\<lambda>_. VMap (device_update ver addr report res)) (g_nmos g))
    (g\<lparr> g_controls := (g_controls g)(dev := add_control report (g_controls g dev)) \<rparr>) (\<lambda>g _. Done g ())"
  have upd: "update_device env ver addr dev report g =
    (if tr_Param report = ''DEVICE_ID'' then
       lift_nmos (UpdateResourceInRegistry (ge_accepted env) ''devices'' dev (\<lambda>_. VMap (head_fields addr report res)) (g_nmos g1))
         g1 (\<lambda>g a. ?finish (g\<lparr> g_log := g_log g @ map (\<lambda>(t, i, r). PatchedRegistry t i r) (snd a) \<rparr>))
     else ?finish g1)"
    unfolding update_device_def assms(2) g1_def by (simp add: Let_def)
  have id: "has_id dev (VMap res)" by (rule find_resource_has_id [OF assms(2)])
  show ?thesis
  proof (cases "tr_Param report = ''DEVICE_ID''")
    case True
    from id have "has_id dev (VMap (head_fields addr report res))" by (simp add: update_keeps_id)
    from UpdateResourceInRegistry_present [OF assms this, of "ge_accepted env"]
    obtain s1 where s1: "UpdateResourceInRegistry (ge_accepted env) ''devices'' dev (\<lambda>_. VMap (head_fields addr report res)) (g_nmos g) =
        Done s1 (ge_accepted env, [(''devices'', dev, VMap (head_fields addr report res))])" "mu s1 = Unlocked"
      "find_resource dev (resources s1 ''devices'') = Some (VMap (head_fields addr report res))" .
    from id have "has_id dev (VMap (device_update ver addr report res))" by (simp add: update_keeps_id)
    from UpdateResource_present [OF s1(2,3) this]
    obtain s2 where "UpdateResource ''devices'' dev (\<lambda>_. VMap (device_update ver addr report res)) s1 = Done s2 True" "mu s2 = Unlocked"
      "find_resource dev (resources s2 ''devices'') = Some (VMap (device_update ver addr report res))" .
    with s1 g1 True show ?thesis unfolding upd by (simp add: lift_nmos_def same_but_device_def)
  next
    case False
    from id have "has_id dev (VMap (device_update ver addr report res))" by (simp add: update_keeps_id)
    from UpdateResource_present [OF assms this]
    obtain s2 where "UpdateResource ''devices'' dev (\<lambda>_. VMap (device_update ver addr report res)) (g_nmos g) = Done s2 True" "mu s2 = Unlocked"
      "find_resource dev (resources s2 ''devices'') = Some (VMap (device_update ver addr report res))" .
    with g1 False show ?thesis unfolding upd by (simp add: lift_nmos_def same_but_device_def)
  qed
qed

lemma update_device_done:
  assumes "mu (g_nmos g) = Unlocked"
  shows "\<exists>g'. update_device env ver addr dev report g = Done g' () \<and> same_but_device addr g g'"
proof (cases "\<exists>res. find_resource dev (resources (g_nmos g) ''devices'') = Some (VMap res)")
  case True
  with update_device_present [OF assms] show ?thesis by blast
next
  case False
  obtain s b where "UpdateResource ''devices'' dev id (g_nmos g) = Done s b" "mu s = Unlocked"
    by (rule UpdateResource_done [OF assms])
  with False show ?thesis
    by (auto simp: update_device_def lift_nmos_def same_but_device_def split: option.splits goval.splits)
qed

subsection \<open>One report\<close>

text \<open>The state before the device resource is updated.\<close>

definition before_update :: "gw_env \<Rightarrow> int \<Rightarrow> string \<Rightarrow> TPCIReport \<Rightarrow> device_info \<Rightarrow> gateway \<Rightarrow> gateway" where
  "before_update env now addr report info g =
     (let g1 = (if tr_Type report = ''SAMPLE'' \<and> tr_Param report = ''ALL''
                then handle_sample env now addr report info g else g);
          g2 = (if IsMeteredParam (tr_Param report) then metered_report env now report info g1 else g1) in
      if tr_Type report = ''REP'' \<and> tr_Param report \<noteq> ''ALL'' then rep_report env report info g2 else g2)"

lemma handle_unfold:
  "g_mu g = Unlocked \<Longrightarrow> map_of (g_ctrls g) addr = Some info \<Longrightarrow> handleShureDevice env now ver addr report g =
    (if report_device info (tr_Channel report) = [] then Done (before_update env now addr report info g) ()
     else update_device env ver addr (report_device info (tr_Channel report)) report (before_update env now addr report info g))"
  by (simp add: handleShureDevice_def before_update_def Let_def)

lemma handle_sample_keeps [simp]:
  "g_ncp (handle_sample env now addr report info g) = g_ncp g" "g_nmos (handle_sample env now addr report info g) = g_nmos g"
  "g_controls (handle_sample env now addr report info g) = g_controls g"
  "map fst (g_ctrls (handle_sample env now addr report info g)) = map fst (g_ctrls g)"
  "g_mu (handle_sample env now addr report info g) = g_mu g"
  by (auto simp: handle_sample_def Let_def split: prod.split option.split)

lemma handle_sample_other: "b \<noteq> addr \<Longrightarrow> map_of (g_ctrls (handle_sample env now addr report info g)) b = map_of (g_ctrls g) b"
  by (auto simp: handle_sample_def Let_def set_info_other split: prod.split option.split)

lemma handle_sample_inv: "is07_inv (g_events g) \<Longrightarrow> is07_inv (g_events (handle_sample env now addr report info g))"
  by (auto simp: handle_sample_def Let_def fold_broadcast_inv split: prod.split option.split)

lemma metered_report_keeps [simp]:
  "g_nmos (metered_report env now report info g) = g_nmos g" "g_controls (metered_report env now report info g) = g_controls g"
  "g_ctrls (metered_report env now report info g) = g_ctrls g" "g_mu (metered_report env now report info g) = g_mu g"
  by (simp_all add: metered_report_def Let_def)

lemma rep_report_keeps [simp]:
  "g_nmos (rep_report env report info g) = g_nmos g" "g_controls (rep_report env report info g) = g_controls g"
  "g_ctrls (rep_report env report info g) = g_ctrls g" "g_events (rep_report env report info g) = g_events g"
  "g_mu (rep_report env report info g) = g_mu g"
  by (simp_all add: rep_report_def)

lemma before_update_keeps:
  "g_nmos (before_update env now addr report info g) = g_nmos g" "g_mu (before_update env now addr report info g) = g_mu g"
  "g_controls (before_update env now addr report info g) = g_controls g"
  "map fst (g_ctrls (before_update env now addr report info g)) = map fst (g_ctrls g)"
  "b \<noteq> addr \<Longrightarrow> map_of (g_ctrls (before_update env now addr report info g)) b = map_of (g_ctrls g) b"
  "dom (ns_objects (g_ncp (before_update env now addr report info g))) = dom (ns_objects (g_ncp g))"
  by (simp_all add: before_update_def Let_def handle_sample_other metered_report_def rep_report_def set_worker_opt_dom)

lemma before_update_inv:
  "ncp_inv (g_ncp g) \<Longrightarrow> ncp_inv (g_ncp (before_update env now addr report info g))"
  "is07_inv (g_events g) \<Longrightarrow> is07_inv (g_events (before_update env now addr report info g))"
  by (simp_all add: before_update_def Let_def metered_report_def rep_report_def set_worker_opt_inv broadcast_param_inv
      handle_sample_inv)

text \<open>The invariant of the gateway.\<close>

definition gateway_inv :: "gateway \<Rightarrow> bool" where
  "gateway_inv g \<longleftrightarrow> g_mu g = Unlocked \<and> ncp_inv (g_ncp g) \<and> is07_inv (g_events g) \<and> mu (g_nmos g) = Unlocked \<and> distinct (map fst (g_ctrls g))"

lemma handle_report:
  assumes "gateway_inv g"
  shows "\<exists>g'. handleShureDevice env now ver addr report g = Done g' () \<and> gateway_inv g' \<and>
    dom (ns_objects (g_ncp g')) = dom (ns_objects (g_ncp g)) \<and>
    (\<forall>b. b \<noteq> addr \<longrightarrow> map_of (g_ctrls g') b = map_of (g_ctrls g) b)"
proof (cases "map_of (g_ctrls g) addr")
  case None
  with assms show ?thesis by (simp add: handleShureDevice_def gateway_inv_def)
next
  case (Some info)
  let ?g3 = "before_update env now addr report info g"
  have free: "g_mu g = Unlocked" using assms by (simp add: gateway_inv_def)
  have mu: "mu (g_nmos ?g3) = Unlocked" using assms by (simp add: gateway_inv_def before_update_keeps)
  have ok: "ncp_inv (g_ncp ?g3) \<and> is07_inv (g_events ?g3)" using assms by (simp add: gateway_inv_def before_update_inv)
  have "\<exists>g'. handleShureDevice env now ver addr report g = Done g' () \<and> same_but_device addr ?g3 g'"
  proof (cases "report_device info (tr_Channel report) = []")
    case True
    with mu show ?thesis by (simp add: handle_unfold [OF free Some] same_but_device_def)
  next
    case False
    with update_device_done [OF mu] show ?thesis by (simp add: handle_unfold [OF free Some])
  qed
  then obtain g' where "handleShureDevice env now ver addr report g = Done g' ()" "same_but_device addr ?g3 g'" by blast
  with ok assms show ?thesis by (auto simp: gateway_inv_def same_but_device_def before_update_keeps)
qed

text \<open>
  C9. Every report, whatever it says and whoever it is from, is handled to the end: the handler returns, the
  locks of the gateway and of the node are free, the invariants of the control server and of the events hold again, no
  object is registered or removed, and what the gateway keeps of the other receivers is as it was.
\<close>

theorem report_keeps_invariant:
  assumes "gateway_inv g"
  shows "\<exists>g'. handleShureDevice env now ver addr report g = Done g' () \<and> gateway_inv g' \<and>
    dom (ns_objects (g_ncp g')) = dom (ns_objects (g_ncp g)) \<and>
    (\<forall>b. b \<noteq> addr \<longrightarrow> map_of (g_ctrls g') b = map_of (g_ctrls g) b)"
  using assms by (rule handle_report)

text \<open>
  C13. A report for a device whose resource is there leaves it with the new version, with the value under the
  tag of the parameter, with the value as label when the parameter is DEVICE_ID and in the description when it
  is MODEL, and otherwise as it was. A control for the parameter is added when there is none; one
  that is there keeps its first value.
\<close>

theorem report_updates_device:
  assumes "gateway_inv g" "map_of (g_ctrls g) addr = Some info" "report_device info (tr_Channel report) = dev" "dev \<noteq> []"
    and "find_resource dev (resources (g_nmos g) ''devices'') = Some (VMap res)"
  shows "\<exists>g' res' tags. handleShureDevice env now ver addr report g = Done g' () \<and>
    find_resource dev (resources (g_nmos g') ''devices'') = Some (VMap res') \<and>
    field_of ''version'' res' = VStr ver \<and> field_of ''tags'' res' = VMap tags \<and>
    field_of (tr_Param report) tags = VStrs [tr_Value report] \<and>
    (\<forall>k. k \<noteq> tr_Param report \<longrightarrow> k \<notin> set sample_tag_names \<longrightarrow> field_of k tags = field_of k (resource_tags res)) \<and>
    field_of ''label'' res' = (if tr_Param report = ''DEVICE_ID'' then VStr (tr_Value report) else field_of ''label'' res) \<and>
    field_of ''description'' res' = (if tr_Param report = ''MODEL'' then VStr (tr_Value report @ '' at '' @ addr) else field_of ''description'' res) \<and>
    (\<forall>k. k \<notin> {''version'', ''tags'', ''label'', ''description''} \<longrightarrow> field_of k res' = field_of k res) \<and>
    g_controls g' dev = add_control report (g_controls g dev)"
proof -
  let ?g3 = "before_update env now addr report info g"
  let ?res = "device_update ver addr report res"
  have free: "g_mu g = Unlocked" using assms(1) by (simp add: gateway_inv_def)
  have mu: "mu (g_nmos ?g3) = Unlocked" using assms(1) by (simp add: gateway_inv_def before_update_keeps)
  have "find_resource dev (resources (g_nmos ?g3) ''devices'') = Some (VMap res)"
    using assms(5) by (simp add: before_update_keeps)
  from update_device_present [OF mu this]
  obtain g' where g': "update_device env ver addr dev report ?g3 = Done g' ()"
    "find_resource dev (resources (g_nmos g') ''devices'') = Some (VMap ?res)"
    "g_controls g' = (g_controls ?g3)(dev := add_control report (g_controls ?g3 dev))" by blast
  have "handleShureDevice env now ver addr report g = Done g' ()"
    using g'(1) assms(3,4) by (simp add: handle_unfold [OF free assms(2)])
  moreover have "\<forall>k. k \<notin> {''version'', ''tags'', ''label'', ''description''} \<longrightarrow> field_of k ?res = field_of k res"
    by (simp add: device_update_field head_fields_field)
  moreover have "\<forall>k. k \<noteq> tr_Param report \<longrightarrow> k \<notin> set sample_tag_names \<longrightarrow>
      field_of k (report_tags report (resource_tags res)) = field_of k (resource_tags res)"
    by (intro allI impI) (rule report_tags_field(2))
  moreover have "field_of ''version'' ?res = VStr ver" "field_of ''tags'' ?res = VMap (report_tags report (resource_tags res))"
    "field_of ''label'' ?res = (if tr_Param report = ''DEVICE_ID'' then VStr (tr_Value report) else field_of ''label'' res)"
    "field_of ''description'' ?res = (if tr_Param report = ''MODEL'' then VStr (tr_Value report @ '' at '' @ addr) else field_of ''description'' res)"
    by (simp_all add: device_update_field head_fields_field)
  moreover have "g_controls g' dev = add_control report (g_controls g dev)" by (simp add: g'(3) before_update_keeps)
  ultimately show ?thesis
    using g'(2) report_tags_field(1) by (intro exI [of _ g'] exI [of _ ?res] exI [of _ "report_tags report (resource_tags res)"] conjI)
qed

text \<open>A gateway with one QLX-D receiver, as its setup leaves it.\<close>

definition test_gateway :: gateway where
  "test_gateway =
     (let s = setupDeviceNCP ''r'' ''QLXD4'' 110 ModelFamilyQLXD 1 (new_ncp_state, test_info) in
      \<lparr> g_mu = Unlocked, g_ncp = fst s, g_events = no_events,
        g_nmos = empty_node\<lparr> resources := (\<lambda>_. [])(''devices'' := [VMap [(''id'', VStr ''id'')]]) \<rparr>,
        g_controls = (\<lambda>_. []), g_ctrls = [(''r'', snd s)], g_log = [] \<rparr>)"

definition test_report :: "string \<Rightarrow> string \<Rightarrow> TPCIReport" where
  "test_report param value = \<lparr> tr_Type = ''REP'', tr_Channel = 1, tr_Param = param, tr_Value = value, tr_Raw = [] \<rparr>"

definition test_gw_env :: gw_env where
  "test_gw_env = \<lparr> ge_nca = test_env, ge_stamp = (\<lambda>t. itoa t), ge_ok = (\<lambda>c. True), ge_sha256 = (\<lambda>s. s), ge_accepted = True,
     ge_order = (\<lambda>ps. ps), ge_listen = ''h:1'', ge_interface = ''eth0'', ge_nodeID = ''n'' \<rparr>"

lemma test_gateway_inv: "gateway_inv test_gateway"
proof -
  have "is07_inv no_events" by (simp add: is07_inv_def no_events_def)
  with setup_inv [OF new_ncp_inv] show ?thesis
    by (simp add: gateway_inv_def test_gateway_def Let_def empty_node_def)
qed

lemma test_gateway_info: "map_of (g_ctrls test_gateway) ''r'' =
    Some (snd (setupDeviceNCP ''r'' ''QLXD4'' 110 ModelFamilyQLXD 1 (new_ncp_state, test_info)))"
  by (simp add: test_gateway_def Let_def)

theorem report_keeps_invariant_witness:
  "\<exists>g'. handleShureDevice test_gw_env 0 ''1:1'' ''r'' (test_report ''AUDIO_GAIN'' ''030'') test_gateway = Done g' () \<and> gateway_inv g'"
  using report_keeps_invariant [OF test_gateway_inv, of test_gw_env 0 "''1:1''" "''r''" "test_report ''AUDIO_GAIN'' ''030''"] by blast

text \<open>The setup does not touch the device ids.\<close>

lemma put_params_device [simp]: "di_nmosDeviceIDs (put_params f pm i) = di_nmosDeviceIDs i"
  by (simp add: put_params_def)

lemma setup_channel_device: "di_nmosDeviceIDs (snd (setup_channel family addr d ch s)) = di_nmosDeviceIDs (snd s)"
  by (simp add: setup_channel_def Let_def split: prod.split)

lemma setup_sub_block_device: "di_nmosDeviceIDs (snd (setup_sub_block name bid b family addr c ch s)) = di_nmosDeviceIDs (snd s)"
  by (simp add: setup_sub_block_def Let_def split: prod.split option.split)

lemma setup_sub_blocks_device: "di_nmosDeviceIDs (snd (setup_sub_blocks family addr d ch s)) = di_nmosDeviceIDs (snd s)"
  by (simp add: setup_sub_blocks_def Let_def setup_sub_block_device setup_gain_block_def)

lemma setup_device_ids: "di_nmosDeviceIDs (snd (setupDeviceNCP addr inst d family n (st, info))) = di_nmosDeviceIDs info"
proof -
  have "di_nmosDeviceIDs (snd (fold (setup_channel family addr d) xs s)) = di_nmosDeviceIDs (snd s)" for xs s
    by (induction xs arbitrary: s) (simp_all add: setup_channel_device)
  moreover have "di_nmosDeviceIDs (snd (fold (\<lambda>ch s. setup_sub_blocks ModelFamilyQLXD addr d ch (setup_channel ModelFamilyQLXD addr d ch s)) xs s)) =
      di_nmosDeviceIDs (snd s)" for xs s
    by (induction xs arbitrary: s) (simp_all add: setup_channel_device setup_sub_blocks_device)
  moreover have "di_nmosDeviceIDs (snd (setup_device_workers family addr d s)) = di_nmosDeviceIDs (snd s)" for family s
    by (simp add: setup_device_workers_def split: prod.split)
  ultimately show ?thesis by (simp add: setupDeviceNCP_def setup_tree_def Let_def split_beta)
qed

lemma test_report_device:
  "report_device (snd (setupDeviceNCP ''r'' ''QLXD4'' 110 ModelFamilyQLXD 1 (new_ncp_state, test_info))) (tr_Channel (test_report p v)) = ''id''"
  by (simp add: report_device_def setup_device_ids test_report_def test_info_def new_device_info_def)

theorem report_updates_device_witness:
  "\<exists>g' res'. handleShureDevice test_gw_env 0 ''1:1'' ''r'' (test_report ''DEVICE_ID'' ''Stage'') test_gateway = Done g' () \<and>
     find_resource ''id'' (resources (g_nmos g') ''devices'') = Some (VMap res') \<and> field_of ''label'' res' = VStr ''Stage''"
proof -
  have "find_resource ''id'' (resources (g_nmos test_gateway) ''devices'') = Some (VMap [(''id'', VStr ''id'')])"
    by (simp add: test_gateway_def Let_def has_id_def field_of_def)
  from report_updates_device [where report = "test_report ''DEVICE_ID'' ''Stage''" and env = test_gw_env and now = 0 and ver = "''1:1''",
      OF test_gateway_inv test_gateway_info test_report_device _ this]
  show ?thesis by (fastforce simp: test_report_def)
qed

subsection \<open>The worker of a report\<close>





subsection \<open>The lookup of a parameter\<close>

lemma fields_acc_no_space:
  "w \<in> set (fields_acc acc s) \<Longrightarrow> list_all (\<lambda>c. \<not> is_space c) acc \<Longrightarrow> list_all (\<lambda>c. \<not> is_space c) w"
proof (induction acc s rule: fields_acc.induct)
  case (1 cur)
  then show ?case by (simp split: if_split_asm)
next
  case (2 cur c s)
  show ?case
  proof (cases "is_space c")
    case True
    have "w = cur \<or> w \<in> set (fields_acc [] s)" using 2(4) True by (simp split: if_split_asm)
    then show ?thesis using 2(1,2,5) True by (cases "cur = []") auto
  next
    case False
    with 2(3,4,5) show ?thesis by simp
  qed
qed

lemma str_fields_no_space: "w \<in> set (str_fields s) \<Longrightarrow> CHR '' '' \<notin> set w"
  using fields_acc_no_space [of w "[]" s] by (auto simp: str_fields_def list_all_iff is_space_def)

lemma field_no_space: "i < length (str_fields s) \<Longrightarrow> CHR '' '' \<notin> set (str_fields s ! i)"
  using str_fields_no_space nth_mem by blast

lemma parsed_param_no_space: "ParseTPCIResponse line = Some report \<Longrightarrow> CHR '' '' \<notin> set (tr_Param report)"
  by (auto simp: ParseTPCIResponse_def Let_def field_no_space split: if_split_asm option.splits)

text \<open>
  For a report the parser made, the lookups under the name without its spaces never differ from those under
  the name: a parsed parameter is one word. The worker is the one under the channel and the
  name, and on a QLX-D receiver, when there is none, the one under the name alone.
\<close>

lemma parsed_report_lookup:
  assumes "ParseTPCIResponse line = Some report"
  shows "first_hit m (lookup_keys family report) =
    (case m (channel_key (tr_Channel report) (tr_Param report)) of
       Some oid \<Rightarrow> Some oid
     | None \<Rightarrow> if family = ModelFamilyQLXD then m (tr_Param report) else None)"
proof -
  have "replace_byte (CHR '' '') [] (tr_Param report) = tr_Param report"
    by (rule replace_byte_ident [OF parsed_param_no_space [OF assms]])
  then show ?thesis by (simp add: lookup_keys_def Let_def split: option.split)
qed

lemma parsed_report_lookup_witness:
  "\<exists>report. ParseTPCIResponse ''< REP 1 AUDIO GAIN 030 >'' = Some report \<and> tr_Param report = ''AUDIO'' \<and>
     first_hit [channel_key 1 ''AUDIO_GAIN'' \<mapsto> 111010] (lookup_keys ModelFamilyULXD report) = None"
proof -
  let ?r = "\<lparr> tr_Type = ''REP'', tr_Channel = 1, tr_Param = ''AUDIO'', tr_Value = ''GAIN 030'', tr_Raw = ''< REP 1 AUDIO GAIN 030 >'' \<rparr>"
  have parsed: "ParseTPCIResponse ''< REP 1 AUDIO GAIN 030 >'' = Some ?r" by code_simp
  from parsed_report_lookup [OF parsed, of "[channel_key 1 ''AUDIO_GAIN'' \<mapsto> 111010]" ModelFamilyULXD] parsed
  show ?thesis by simp
qed

end
