(* ===== verification/Receiver_Discovery.thy ===== *)
theory Receiver_Discovery
  imports Message_Bus
begin

text \<open>
  The discovery of receivers in \<open>internal/infrastructure/mdns_discovery.go\<close>: what is read from an entry of mDNS and from a
  packet of the Shure discovery protocol, and which devices are put into the channel to the gateway.

  The sockets and the mDNS library are not modelled; an address is the text of a \<open>net.IP\<close>, and parsing one is a parameter.
\<close>

subsection \<open>Devices\<close>

record discovered_device =
  dv_Instance :: string
  dv_Host :: string
  dv_Address :: string
  dv_Port :: int
  dv_Info :: "(string \<times> string) list"

text \<open>An entry of the mDNS library with the texts of its addresses; one without an address is skipped.\<close>

record service_entry =
  en_Instance :: string
  en_HostName :: string
  en_Port :: int
  en_AddrIPv4 :: "string list"
  en_AddrIPv6 :: "string list"

definition browsed_device :: "service_entry \<Rightarrow> discovered_device option" where
  "browsed_device entry =
     map_option (\<lambda>addr. \<lparr> dv_Instance = en_Instance entry, dv_Host = en_HostName entry, dv_Address = addr,
         dv_Port = en_Port entry, dv_Info = [(''source'', ''mdns'')] \<rparr>)
       (case en_AddrIPv4 entry of a # _ \<Rightarrow> Some a
        | [] \<Rightarrow> (case en_AddrIPv6 entry of a # _ \<Rightarrow> Some a | [] \<Rightarrow> None))"

subsection \<open>Packets\<close>

definition extractValue :: "string \<Rightarrow> string \<Rightarrow> string" where
  "extractValue payload key =
     (let search = key @ ''='' in
      case str_index payload search of
        None \<Rightarrow> []
      | Some start \<Rightarrow>
          (let rest = drop (start + length search) payload in
           case (case str_index rest '')'' of Some e \<Rightarrow> Some e | None \<Rightarrow> str_index rest '','') of
             None \<Rightarrow> rest
           | Some e \<Rightarrow> take e rest))"

text \<open>The first of the delimiters that are there ends the address.\<close>

definition delimiters :: "string list" where
  "delimiters = ['':'', ''/'', '','', '')'']"

definition first_end :: "string \<Rightarrow> nat option" where
  "first_end rest =
     fold (\<lambda>del e. case str_index rest del of
         None \<Rightarrow> e
       | Some pos \<Rightarrow> (case e of None \<Rightarrow> Some pos | Some k \<Rightarrow> if pos < k then Some pos else e)) delimiters None"

definition extractIPFromPayload :: "string \<Rightarrow> string" where
  "extractIPFromPayload payload =
     (case str_index payload ''esta.sdt/'' of
        None \<Rightarrow> []
      | Some start \<Rightarrow>
          (let rest = drop (start + length ''esta.sdt/'') payload in
           case first_end rest of None \<Rightarrow> rest | Some e \<Rightarrow> take e rest))"

text \<open>\<open>parseIP\<close>: the text of the address \<open>net.ParseIP\<close> reads; that of a text it does not read is \<open><nil>\<close>.\<close>

definition packet_device :: "(string \<Rightarrow> string option) \<Rightarrow> string \<Rightarrow> discovered_device option" where
  "packet_device parseIP payload =
     (if \<not> str_contains payload ''acn-fctn'' then None
      else
        (let model = extractValue payload ''acn-fctn''; ip = extractIPFromPayload payload in
         if ip = [] then None
         else Some \<lparr> dv_Instance = model, dv_Host = model,
                dv_Address = (case parseIP ip of Some a \<Rightarrow> a | None \<Rightarrow> ''<nil>''), dv_Port = 2202,
                dv_Info = [(''source'', ''shure_discovery''), (''model'', model)] \<rparr>))"

subsection \<open>The channel to the gateway\<close>

record discoverer =
  ds_lastSent :: "string \<rightharpoonup> int"
  ds_devices :: "discovered_device list"

definition NewShureDiscoverer :: discoverer where
  "NewShureDiscoverer = \<lparr> ds_lastSent = Map.empty, ds_devices = [] \<rparr>"

definition devices_cap :: nat where "devices_cap = 20"

definition resend_after :: int where "resend_after = 30 * 10 ^ 9"

text \<open>Times are in nanoseconds.\<close>

definition recently :: "int \<Rightarrow> string \<Rightarrow> discoverer \<Rightarrow> bool" where
  "recently now key d = (case ds_lastSent d key of None \<Rightarrow> False | Some before \<Rightarrow> now - before < resend_after)"

text \<open>\<open>ended\<close>: the context has ended and the select takes that case, which it may whether the channel has room or not.\<close>

definition sendDevice :: "int \<Rightarrow> bool \<Rightarrow> discovered_device \<Rightarrow> discoverer \<Rightarrow> discoverer" where
  "sendDevice now ended dev d =
     (let key = dv_Address dev in
      if recently now key d then d
      else
        (let d1 = d\<lparr> ds_lastSent := (ds_lastSent d)(key \<mapsto> now) \<rparr> in
         if ended then d1
         else (case chan_send devices_cap dev (ds_devices d1) of
                 Some q \<Rightarrow> d1\<lparr> ds_devices := q \<rparr>
               | None \<Rightarrow> d1)))"

subsection \<open>What a packet yields\<close>

lemma has_prefix_longer: "length p \<le> length s \<Longrightarrow> has_prefix (s @ t) p \<longleftrightarrow> has_prefix s p"
  by (simp add: has_prefix_def)

text \<open>Where a text is found does not depend on what follows it.\<close>

lemma str_index_extend: "str_index s p = Some i \<Longrightarrow> p \<noteq> [] \<Longrightarrow> str_index (s @ t) p = Some i"
proof (induction s arbitrary: i)
  case Nil
  then show ?case by (simp split: if_splits)
next
  case (Cons c s)
  show ?case
  proof (cases "has_prefix (c # s) p")
    case True
    then have "length p \<le> length (c # s)" by (metis has_prefix_def length_take min.cobounded1)
    with True Cons.prems(1) show ?thesis using has_prefix_longer [of p "c # s" t] by simp
  next
    case False
    with Cons.prems obtain j where j: "str_index s p = Some j" "i = Suc j" by auto
    then have "length p \<le> length s"
    proof (induction s arbitrary: j i)
      case Nil
      then show ?case using Cons.prems(2) by (simp split: if_splits)
    next
      case (Cons d s)
      show ?case
      proof (cases "has_prefix (d # s) p")
        case True
        then show ?thesis by (metis has_prefix_def length_take min.cobounded1)
      next
        case False
        with Cons.prems obtain k where "str_index s p = Some k" by auto
        from Cons.IH [OF this refl] show ?thesis by simp
      qed
    qed
    with False have "\<not> has_prefix (c # s @ t) p" using has_prefix_longer [of p "c # s" t] by simp
    with Cons.IH [OF j(1) Cons.prems(2)] j(2) show ?thesis by simp
  qed
qed

lemma str_index_absent: "c \<notin> set s \<Longrightarrow> str_index s [c] = None"
  by (induction s) (auto simp: has_prefix_def)

lemma str_index_char: "c \<notin> set s \<Longrightarrow> str_index (s @ c # t) [c] = Some (length s)"
  by (induction s) (auto simp: has_prefix_def)

lemma str_index_char_after: "c \<notin> set s \<Longrightarrow> str_index (s @ t) [c] = map_option ((+) (length s)) (str_index t [c])"
  by (cases "str_index t [c]"; induction s) (auto simp: has_prefix_def)

definition is_delimiter :: "char \<Rightarrow> bool" where
  "is_delimiter c \<longleftrightarrow> [c] \<in> set delimiters"

text \<open>The loop over the delimiters keeps the least position.\<close>

lemma fold_least:
  assumes "\<And>del k. del \<in> set dels \<Longrightarrow> pos del = Some k \<Longrightarrow> m \<le> k" "\<And>k. e = Some k \<Longrightarrow> m \<le> k"
    and "e = Some m \<or> (\<exists>del\<in>set dels. pos del = Some m)"
  shows "fold (\<lambda>del e. case pos del of
      None \<Rightarrow> e
    | Some p \<Rightarrow> (case e of None \<Rightarrow> Some p | Some k \<Rightarrow> if p < k then Some p else e)) dels e = Some (m :: nat)"
  using assms
proof (induction dels arbitrary: e)
  case Nil
  then show ?case by simp
next
  case (Cons del dels)
  let ?e = "case pos del of None \<Rightarrow> e | Some p \<Rightarrow> (case e of None \<Rightarrow> Some p | Some k \<Rightarrow> if p < k then Some p else e)"
  have ge: "m \<le> p" if "pos del = Some p" for p using Cons.prems(1) [of del] that by simp
  have "m \<le> k" if "?e = Some k" for k
    using that Cons.prems(2) ge by (auto split: option.splits if_splits)
  moreover have "?e = Some m \<or> (\<exists>del\<in>set dels. pos del = Some m)"
    using Cons.prems(2,3) ge by (fastforce split: option.splits)
  moreover have "m \<le> k" if "d \<in> set dels" "pos d = Some k" for d k using Cons.prems(1) [of d k] that by simp
  ultimately have "fold (\<lambda>del e. case pos del of
      None \<Rightarrow> e
    | Some p \<Rightarrow> (case e of None \<Rightarrow> Some p | Some k \<Rightarrow> if p < k then Some p else e)) dels ?e = Some m"
    by (intro Cons.IH) blast+
  then show ?case by simp
qed

lemma first_end_found:
  assumes "\<forall>c\<in>set ip. \<not> is_delimiter c" "is_delimiter d"
  shows "first_end (ip @ d # rest) = Some (length ip)"
  unfolding first_end_def
proof (rule fold_least)
  fix del k assume "del \<in> set delimiters" and k: "str_index (ip @ d # rest) del = Some k"
  then obtain c where c: "del = [c]" "is_delimiter c" by (auto simp: delimiters_def is_delimiter_def)
  with assms(1) have "c \<notin> set ip" by blast
  from str_index_char_after [OF this, of "d # rest"] k c(1) show "length ip \<le> k" by auto
next
  have "d \<notin> set ip" using assms by blast
  with assms(2) show "None = Some (length ip) \<or> (\<exists>del\<in>set delimiters. str_index (ip @ d # rest) del = Some (length ip))"
    by (auto simp: is_delimiter_def str_index_char intro: bexI [of _ "[d]"])
qed simp

lemma first_end_none:
  assumes "\<forall>c\<in>set ip. \<not> is_delimiter c"
  shows "first_end ip = None"
proof -
  have "CHR '':'' \<notin> set ip" "CHR ''/'' \<notin> set ip" "CHR '','' \<notin> set ip" "CHR '')'' \<notin> set ip"
    using assms by (auto simp: is_delimiter_def delimiters_def)
  then show ?thesis by (simp add: first_end_def delimiters_def str_index_absent)
qed

lemma extractIP_found:
  assumes "str_index (pre @ ''esta.sdt/'') ''esta.sdt/'' = Some (length pre)" "\<forall>c\<in>set ip. \<not> is_delimiter c"
    and "rest = [] \<or> is_delimiter (hd rest)"
  shows "extractIPFromPayload (pre @ ''esta.sdt/'' @ ip @ rest) = ip"
proof -
  have at: "str_index (pre @ ''esta.sdt/'' @ ip @ rest) ''esta.sdt/'' = Some (length pre)"
    using str_index_extend [OF assms(1), of "ip @ rest"] by simp
  show ?thesis
  proof (cases rest)
    case Nil
    then show ?thesis using at first_end_none [OF assms(2)] by (simp add: extractIPFromPayload_def Let_def)
  next
    case (Cons d rest')
    then show ?thesis using at first_end_found [OF assms(2), of d rest'] assms(3) by (simp add: extractIPFromPayload_def Let_def)
  qed
qed

lemma extractValue_found:
  assumes "str_index (pre @ key @ ''='') (key @ ''='') = Some (length pre)" "CHR '')'' \<notin> set v"
  shows "extractValue (pre @ key @ ''='' @ v @ '')'' @ rest) key = v"
proof -
  have "str_index (pre @ key @ ''='' @ v @ '')'' @ rest) (key @ ''='') = Some (length pre)"
    using str_index_extend [OF assms(1), of "v @ '')'' @ rest"] by simp
  then show ?thesis using str_index_char [OF assms(2), of rest] by (simp add: extractValue_def Let_def)
qed

lemma str_contains_middle: "p \<noteq> [] \<Longrightarrow> str_contains (s @ p @ t) p"
proof (induction s)
  case Nil
  then obtain c q where p: "p = c # q" by (cases p) auto
  have "has_prefix (p @ t) p" by simp
  then show ?case unfolding p by (simp add: str_contains_def)
next
  case (Cons c s)
  then show ?case by (simp add: str_contains_def)
qed

text \<open>
  A packet is read back as it was written: when \<open>acn-fctn=\<close> and \<open>esta.sdt/\<close> first occur where they were put, the
  instance is the text up to the closing parenthesis, which may hold commas, and the address the text up to
  the first delimiter or the end of the packet.
\<close>

lemma packet_read:
  assumes "str_index (pre @ ''acn-fctn='') ''acn-fctn='' = Some (length pre)" "CHR '')'' \<notin> set model"
    and "str_index (pre @ ''acn-fctn='' @ model @ '')'' @ mid @ ''esta.sdt/'') ''esta.sdt/'' =
      Some (length (pre @ ''acn-fctn='' @ model @ '')'' @ mid))"
    and "\<forall>c\<in>set ip. \<not> is_delimiter c" "ip \<noteq> []" "rest = [] \<or> is_delimiter (hd rest)"
  shows "packet_device parseIP (pre @ ''acn-fctn='' @ model @ '')'' @ mid @ ''esta.sdt/'' @ ip @ rest) =
    Some \<lparr> dv_Instance = model, dv_Host = model, dv_Address = (case parseIP ip of Some a \<Rightarrow> a | None \<Rightarrow> ''<nil>''), dv_Port = 2202,
      dv_Info = [(''source'', ''shure_discovery''), (''model'', model)] \<rparr>"
proof -
  let ?payload = "pre @ ''acn-fctn='' @ model @ '')'' @ mid @ ''esta.sdt/'' @ ip @ rest"
  have "str_contains ?payload ''acn-fctn''" using str_contains_middle [of "''acn-fctn''" pre] by simp
  moreover have "extractValue ?payload ''acn-fctn'' = model"
    using extractValue_found [of pre "''acn-fctn''" model "mid @ ''esta.sdt/'' @ ip @ rest"] assms(1,2) by simp
  moreover have "extractIPFromPayload ?payload = ip"
    using extractIP_found [of "pre @ ''acn-fctn='' @ model @ '')'' @ mid" ip rest] assms(3,4,6) by simp
  ultimately show ?thesis using assms(5) by (simp add: packet_device_def Let_def)
qed

lemma packet_read_witness:
  "packet_device Some ''(acn-fctn=AD4D,x),(csl-esta.dmp=esta.sdt/10.0.0.5:57383;esta.dmp/cd:1)'' =
     Some \<lparr> dv_Instance = ''AD4D,x'', dv_Host = ''AD4D,x'', dv_Address = ''10.0.0.5'', dv_Port = 2202,
       dv_Info = [(''source'', ''shure_discovery''), (''model'', ''AD4D,x'')] \<rparr>"
proof -
  have "str_index (''('' @ ''acn-fctn='') ''acn-fctn='' = Some (length ''('')" "CHR '')'' \<notin> set ''AD4D,x''"
    "str_index (''('' @ ''acn-fctn='' @ ''AD4D,x'' @ '')'' @ '',(csl-esta.dmp='' @ ''esta.sdt/'') ''esta.sdt/'' =
      Some (length (''('' @ ''acn-fctn='' @ ''AD4D,x'' @ '')'' @ '',(csl-esta.dmp=''))"
    "\<forall>c\<in>set ''10.0.0.5''. \<not> is_delimiter c" "''10.0.0.5'' \<noteq> []"
    "'':57383;esta.dmp/cd:1)'' = [] \<or> is_delimiter (hd '':57383;esta.dmp/cd:1)'')"
    by (simp_all add: has_prefix_def is_delimiter_def delimiters_def)
  from packet_read [OF this, of Some] show ?thesis by simp
qed

subsection \<open>What the channel receives\<close>

text \<open>
  After an announcement the last one passed on is less than thirty seconds old. The device enters the channel unless
  it did recently or the channel is full; in the latter case it is lost, and so is every
  announcement of the address in the next thirty seconds, however empty the channel is then.
\<close>

lemma sendDevice_limits:
  assumes "dv_Address dev' = dv_Address dev" "later - now < resend_after" "\<not> recently now (dv_Address dev) d"
  shows "recently now (dv_Address dev) (sendDevice now False dev d) \<and>
    ds_devices (sendDevice now False dev d) =
      (if length (ds_devices d) < devices_cap then ds_devices d @ [dev] else ds_devices d) \<and>
    ds_lastSent (sendDevice now False dev d) = (ds_lastSent d)(dv_Address dev \<mapsto> now) \<and>
    ds_devices (sendDevice later False dev' ((sendDevice now False dev d)\<lparr> ds_devices := q \<rparr>)) = q"
proof -
  have "sendDevice now False dev d =
      d\<lparr> ds_lastSent := (ds_lastSent d)(dv_Address dev \<mapsto> now),
         ds_devices := (if length (ds_devices d) < devices_cap then ds_devices d @ [dev] else ds_devices d) \<rparr>"
    using assms(3) by (simp add: sendDevice_def Let_def chan_send_def)
  with assms(1,2) show ?thesis by (simp add: recently_def resend_after_def sendDevice_def)
qed

lemma sendDevice_recent: "recently now (dv_Address dev) d \<Longrightarrow> sendDevice now e dev d = d"
  by (simp add: sendDevice_def Let_def)

definition test_announcement :: discovered_device where
  "test_announcement = \<lparr> dv_Instance = ''AD4D'', dv_Host = ''AD4D'', dv_Address = ''10.0.0.5'', dv_Port = 2202, dv_Info = [] \<rparr>"

lemma sendDevice_limits_witness:
  "let full = NewShureDiscoverer\<lparr> ds_devices := replicate 20 test_announcement \<rparr> in
   ds_devices (sendDevice 0 False test_announcement full) = ds_devices full \<and>
   ds_devices (sendDevice (29 * 10 ^ 9) False test_announcement ((sendDevice 0 False test_announcement full)\<lparr> ds_devices := [] \<rparr>)) = []"
proof -
  let ?full = "NewShureDiscoverer\<lparr> ds_devices := replicate 20 test_announcement \<rparr>"
  have "\<not> recently 0 (dv_Address test_announcement) ?full" "29 * 10 ^ 9 - 0 < resend_after"
    by (simp_all add: recently_def NewShureDiscoverer_def resend_after_def)
  from sendDevice_limits [OF refl this(2) this(1), of "[]"] show ?thesis by (simp add: Let_def devices_cap_def)
qed

end
