(* ===== verification/Gateway_Devices.thy ===== *)
theory Gateway_Devices
  imports Gateway_Event_Laws Receiver_Discovery
begin

text \<open>
  How receivers come and go in \<open>internal/module/gateway.go\<close>: the filter on what discovery finds, the addition of a
  receiver with its control tree, its first commands and its registration with the node, the
  sources, flows and senders of its metered parameters, and the removal of those not seen.

  The registration of a resource is an argument, \<open>reg\<close>: the node's \<open>RegisterResource\<close>, or a function that
  returns. \<open>ver\<close> is the text of a version.
\<close>

subsection \<open>Discovery\<close>

text \<open>The address a device is added under, if it passes the filter.\<close>

definition handleDiscovery :: "discovered_device \<Rightarrow> string option" where
  "handleDiscovery dev =
     (if str_contains (to_upper (dv_Instance dev)) ''WWB'' then None
      else if DetectModelFamily (dv_Instance dev) = ModelFamilyAxientDigital \<and> \<not> has_prefix (to_upper (dv_Instance dev)) ''AD''
      then None
      else Some (dv_Address dev @ '':'' @ itoa (dv_Port dev)))"

subsection \<open>Sources, flows and senders\<close>

type_synonym register = "string \<Rightarrow> goval \<Rightarrow> nmos_state \<Rightarrow> (nmos_state, bool) run"

fun fold_run :: "('x \<Rightarrow> 's \<Rightarrow> ('s, unit) run) \<Rightarrow> 'x list \<Rightarrow> 's \<Rightarrow> ('s, unit) run" where
  "fold_run f [] s = Done s ()"
| "fold_run f (x # xs) s = run_bind (f x s) (\<lambda>s _. fold_run f xs s)"

definition register_resource :: "register \<Rightarrow> string \<Rightarrow> (string \<times> goval) list \<Rightarrow> gateway \<Rightarrow> (gateway, unit) run" where
  "register_resource reg t m g = lift_nmos (reg t (VMap m) (g_nmos g)) g (\<lambda>g _. Done g ())"

definition resource_id :: "gw_env \<Rightarrow> string \<Rightarrow> string \<Rightarrow> int \<Rightarrow> string \<Rightarrow> string" where
  "resource_id env kind deviceID ch param =
     DeriveUUID (ge_sha256 env) (kind @ ''-'' @ deviceID @ ''-'' @ itoa ch @ ''-'' @ param)"

definition source_resource :: "gw_env \<Rightarrow> string \<Rightarrow> int \<Rightarrow> string \<Rightarrow> string \<Rightarrow> string \<Rightarrow> (string \<times> goval) list" where
  "source_resource env ver ch param deviceID inst =
     [(''id'', VStr (resource_id env ''source'' deviceID ch param)),
      (''version'', VStr ver),
      (''label'', VStr (inst @ '' Channel '' @ itoa ch @ '' '' @ param)),
      (''description'', VStr (''Event source for '' @ param @ '' on Channel '' @ itoa ch)),
      (''format'', VStr ''urn:x-nmos:format:data''),
      (''device_id'', VStr deviceID),
      (''event_type'', VStr (getNMOSEventType param)),
      (''tags'', VMap []),
      (''grain_rate'', VIntMap [(''numerator'', 1), (''denominator'', 1000000000)])]"

definition flow_resource :: "gw_env \<Rightarrow> string \<Rightarrow> int \<Rightarrow> string \<Rightarrow> string \<Rightarrow> string \<Rightarrow> (string \<times> goval) list" where
  "flow_resource env ver ch param deviceID inst =
     [(''id'', VStr (resource_id env ''flow'' deviceID ch param)),
      (''version'', VStr ver),
      (''label'', VStr (inst @ '' Channel '' @ itoa ch @ '' '' @ param @ '' Flow'')),
      (''description'', VStr (''Event flow for '' @ param @ '' on Channel '' @ itoa ch)),
      (''format'', VStr ''urn:x-nmos:format:data''),
      (''source_id'', VStr (resource_id env ''source'' deviceID ch param)),
      (''device_id'', VStr deviceID),
      (''parents'', VStrs []),
      (''tags'', VMap []),
      (''media_type'', VStr ''application/json''),
      (''event_type'', VStr (getNMOSEventType param)),
      (''grain_rate'', VIntMap [(''numerator'', 1), (''denominator'', 1000000000)])]"

definition rest_api_url :: "gw_env \<Rightarrow> string \<Rightarrow> string" where
  "rest_api_url env sourceID = ''http://'' @ ge_listen env @ ''/x-nmos/events/v1.0/sources/'' @ sourceID @ ''/''"

definition sender_resource :: "gw_env \<Rightarrow> string \<Rightarrow> int \<Rightarrow> string \<Rightarrow> string \<Rightarrow> string \<Rightarrow> (string \<times> goval) list" where
  "sender_resource env ver ch param deviceID inst =
     (let sourceID = resource_id env ''source'' deviceID ch param in
      [(''id'', VStr (resource_id env ''sender'' deviceID ch param)),
       (''version'', VStr ver),
       (''label'', VStr (inst @ '' Channel '' @ itoa ch @ '' '' @ param @ '' Sender'')),
       (''description'', VStr (''IS-07 event sender for '' @ param @ '' on Channel '' @ itoa ch)),
       (''device_id'', VStr deviceID),
       (''flow_id'', VStr (resource_id env ''flow'' deviceID ch param)),
       (''transport'', VStr ''urn:x-nmos:transport:websocket''),
       (''interface_bindings'', VStrs [ge_interface env]),
       (''manifest_href'', VNil),
       (''tags'', VMap [(''ext_is_07_source_id'', VStrs [sourceID]),
                        (''ext_is_07_rest_api_url'', VStrs [rest_api_url env sourceID])]),
       (''transport_params'', VMaps
          [[(''connection_uri'', VStr (''ws://'' @ ge_listen env @ ''/x-nmos/events/v1.0/ws'')),
            (''connection_authorization'', VBool False),
            (''ext_is_07_rest_api_url'', VStr (rest_api_url env sourceID)),
            (''ext_is_07_source_id'', VStr sourceID)]])])"

definition put_ids :: "gw_env \<Rightarrow> string \<Rightarrow> int \<Rightarrow> string \<Rightarrow> device_info \<Rightarrow> device_info" where
  "put_ids env deviceID ch param info =
     info\<lparr> di_sourceIDs := (di_sourceIDs info)(ch := (di_sourceIDs info ch)(param \<mapsto> resource_id env ''source'' deviceID ch param)),
           di_flowIDs := (di_flowIDs info)(ch := (di_flowIDs info ch)(param \<mapsto> resource_id env ''flow'' deviceID ch param)),
           di_senderIDs := (di_senderIDs info)(ch := (di_senderIDs info ch)(param \<mapsto> resource_id env ''sender'' deviceID ch param)) \<rparr>"

text \<open>The callers hold the lock of the gateway. The results of the registrations are not looked at.\<close>

definition ensureIS07Resources ::
  "register \<Rightarrow> gw_env \<Rightarrow> string \<Rightarrow> string \<Rightarrow> string \<Rightarrow> int \<Rightarrow> string \<Rightarrow> string \<Rightarrow> gateway \<Rightarrow> (gateway, unit) run" where
  "ensureIS07Resources reg env ver addr deviceID ch inst param g =
     (case map_of (g_ctrls g) addr of
        None \<Rightarrow> Done g ()
      | Some info \<Rightarrow>
          if di_sourceIDs info ch param \<noteq> None then Done g ()
          else run_bind (register_resource reg ''sources'' (source_resource env ver ch param deviceID inst)
                           (set_info addr (put_ids env deviceID ch param) g)) (\<lambda>g _.
               run_bind (register_resource reg ''flows'' (flow_resource env ver ch param deviceID inst) g) (\<lambda>g _.
               register_resource reg ''senders'' (sender_resource env ver ch param deviceID inst) g)))"

definition ensureIS07ResourcesForChannel ::
  "register \<Rightarrow> gw_env \<Rightarrow> string \<Rightarrow> string \<Rightarrow> ShureModelFamily \<Rightarrow> string \<Rightarrow> int \<Rightarrow> string \<Rightarrow> gateway \<Rightarrow> (gateway, unit) run" where
  "ensureIS07ResourcesForChannel reg env ver addr family deviceID ch inst g =
     fold_run (ensureIS07Resources reg env ver addr deviceID ch inst) (GetIS07MeteredParams family) g"

subsection \<open>Adding a receiver\<close>

definition device_resource :: "gw_env \<Rightarrow> string \<Rightarrow> string \<Rightarrow> string \<Rightarrow> discovered_device \<Rightarrow> (string \<times> goval) list" where
  "device_resource env ver addr deviceID dev =
     [(''id'', VStr deviceID),
      (''version'', VStr ver),
      (''label'', VStr (dv_Instance dev)),
      (''description'', VStr (''Axient Digital at '' @ addr)),
      (''tags'', VMap [(''source'', VStr (case map_of (dv_Info dev) ''source'' of None \<Rightarrow> [] | Some s \<Rightarrow> s))]),
      (''node_id'', VStr (ge_nodeID env)),
      (''senders'', VStrs []),
      (''receivers'', VStrs []),
      (''controls'', VArr
         [VMap [(''type'', VStr ''urn:x-nmos:control:sr-ctrl/v1.0''),
                (''href'', VStr (''http://'' @ ge_listen env @ ''/x-nmos/connection/v1.1/''))],
          VMap [(''type'', VStr ''urn:x-nmos:control:events/v1.0''),
                (''href'', VStr (''http://'' @ ge_listen env @ ''/x-nmos/events/v1.0/''))],
          VMap [(''type'', VStr ''urn:x-nmos:control:ncp/v1.0''),
                (''href'', VStr (''ws://'' @ ge_listen env @ ''/x-nmos/node/v1.3/ncp''))]])]"

definition get_all :: "gw_env \<Rightarrow> int \<Rightarrow> string" where
  "get_all env ch = Build (ne_float (ge_nca env)) (ge_order env) (WithParam (WithIndex (NewShureCommand ''GET'') ch) ''ALL'' CNil)"

definition meter_rate_command :: "int \<Rightarrow> string" where
  "meter_rate_command ch = ''< SET '' @ itoa ch @ '' METER_RATE 01000 >'' @ newline"

definition first_commands :: "gw_env \<Rightarrow> ShureModelFamily \<Rightarrow> int \<Rightarrow> string list" where
  "first_commands env family maxChannels =
     (if 1 < maxChannels \<and> (family = ModelFamilyAxientDigital \<or> family = ModelFamilyULXD) then [get_all env 0] else []) @
     map (get_all env) [1..maxChannels] @ map meter_rate_command [1..maxChannels]"

text \<open>What is set up under the lock before the node is told.\<close>

definition enter_receiver :: "gw_env \<Rightarrow> int \<Rightarrow> discovered_device \<Rightarrow> string \<Rightarrow> gateway \<Rightarrow> gateway" where
  "enter_receiver env now dev addr g =
     (let deviceID = DeriveUUID (ge_sha256 env) (''device-'' @ addr);
          deviceIndex = int (length (g_ctrls g)) + 1;
          deviceOID = 100 + deviceIndex * 10;
          family = DetectModelFamily (dv_Instance dev);
          maxChannels = MaxChannelsFromModel (dv_Instance dev) in
      case setupDeviceNCP addr (dv_Instance dev) deviceOID family maxChannels
             (g_ncp g, new_device_info now family deviceID deviceIndex deviceOID (dv_Instance dev)) of
        (st, info) \<Rightarrow>
          g\<lparr> g_ncp := st, g_ctrls := g_ctrls g @ [(addr, info)],
             g_log := g_log g @ map (SentCommand addr) (first_commands env family maxChannels) \<rparr>)"

definition channel_resources ::
  "register \<Rightarrow> gw_env \<Rightarrow> string \<Rightarrow> string \<Rightarrow> ShureModelFamily \<Rightarrow> string \<Rightarrow> string \<Rightarrow> int \<Rightarrow> gateway \<Rightarrow> (gateway, unit) run" where
  "channel_resources reg env ver addr family deviceID inst i g =
     ensureIS07ResourcesForChannel reg env ver addr family deviceID i inst
       (set_info addr (\<lambda>info. info\<lparr> di_nmosDeviceIDs := (di_nmosDeviceIDs info)(i \<mapsto> deviceID),
          di_sourceIDs := (di_sourceIDs info)(i := Map.empty), di_flowIDs := (di_flowIDs info)(i := Map.empty),
          di_senderIDs := (di_senderIDs info)(i := Map.empty) \<rparr>) g)"

definition store_receiver :: "string \<Rightarrow> gateway \<Rightarrow> gateway" where
  "store_receiver addr g =
     (case map_of (g_ctrls g) addr of
        None \<Rightarrow> g
      | Some info \<Rightarrow> if has_db (g_nmos g) then g\<lparr> g_log := g_log g @ [StoredReceiver addr info] \<rparr> else g)"

text \<open>
  \<open>started\<close>: whether the controller could be started. Between the first look at the map, after which the lock
  is released, and the second no other step comes, so the second is left out.
\<close>

definition addShureController ::
  "register \<Rightarrow> gw_env \<Rightarrow> int \<Rightarrow> string \<Rightarrow> bool \<Rightarrow> string \<Rightarrow> discovered_device \<Rightarrow> gateway \<Rightarrow> (gateway, unit) run" where
  "addShureController reg env now ver started addr dev g =
     (if g_mu g \<noteq> Unlocked then Deadlock g
      else if map_of (g_ctrls g) addr \<noteq> None then Done (set_info addr (di_lastSeen_update (\<lambda>_. now)) g) ()
      else if \<not> started then Done g ()
      else
        (let deviceID = DeriveUUID (ge_sha256 env) (''device-'' @ addr);
             family = DetectModelFamily (dv_Instance dev);
             maxChannels = MaxChannelsFromModel (dv_Instance dev);
             g1 = enter_receiver env now dev addr (g\<lparr> g_mu := WriteLocked \<rparr>) in
         run_bind (register_resource reg ''devices'' (device_resource env ver addr deviceID dev) g1) (\<lambda>g _.
         run_bind (fold_run (channel_resources reg env ver addr family deviceID (dv_Instance dev)) [1..maxChannels] g) (\<lambda>g _.
         Done ((store_receiver addr g)\<lparr> g_mu := Unlocked \<rparr>) ()))))"

text \<open>What the loop over the discovered devices does with one of them.\<close>

definition handle_found ::
  "register \<Rightarrow> gw_env \<Rightarrow> int \<Rightarrow> string \<Rightarrow> bool \<Rightarrow> discovered_device \<Rightarrow> gateway \<Rightarrow> (gateway, unit) run" where
  "handle_found reg env now ver started dev g =
     (case handleDiscovery dev of None \<Rightarrow> Done g () | Some addr \<Rightarrow> addShureController reg env now ver started addr dev g)"

subsection \<open>Removal\<close>

definition stale_after :: int where "stale_after = 2 * 60 * 10 ^ 9"

definition stale_addrs :: "int \<Rightarrow> gateway \<Rightarrow> string list" where
  "stale_addrs now g = map fst (filter (\<lambda>(a, info). stale_after < now - di_lastSeen info) (g_ctrls g))"

text \<open>
  One tick. \<open>stops addr\<close>: whether stopping the controller at the address returns. The tick waits for the first
  that does not; the lock is free then.
\<close>

fun remove_all :: "(string \<Rightarrow> bool) \<Rightarrow> string list \<Rightarrow> gateway \<Rightarrow> (gateway, unit) run" where
  "remove_all stops [] g = Done g ()"
| "remove_all stops (a # as) g =
     (if map_of (g_ctrls g) a = None then remove_all stops as g
      else if \<not> stops a then Deadlock g
      else remove_all stops as (g\<lparr> g_ctrls := filter (\<lambda>(b, info). b \<noteq> a) (g_ctrls g) \<rparr>))"

definition reapStaleDevices :: "(string \<Rightarrow> bool) \<Rightarrow> int \<Rightarrow> gateway \<Rightarrow> (gateway, unit) run" where
  "reapStaleDevices stops now g =
     (if g_mu g \<noteq> Unlocked then Deadlock g else remove_all stops (stale_addrs now g) g)"

end
