(* ===== verification/Gateway_Device_Laws.thy ===== *)
theory Gateway_Device_Laws
  imports Gateway_Devices
begin

text \<open>
  What adding and removing receivers guarantees: that adding a receiver stops the gateway with the node's
  registration as it is, what it sets up with a registration that returns, which receivers
  the removal takes, what it leaves behind, and that it lets two receivers share their ids.
\<close>

subsection \<open>What the setup keeps of a receiver\<close>

text \<open>The setup writes the ids of the parameters and of the channels only.\<close>

definition ids_only :: "device_info \<Rightarrow> device_info \<Rightarrow> bool" where
  "ids_only i j \<longleftrightarrow> j = i\<lparr> di_parameterOIDs := di_parameterOIDs j, di_channelOIDs := di_channelOIDs j \<rparr>"

lemma ids_only_refl [simp]: "ids_only i i"
  by (simp add: ids_only_def)

lemma ids_only_trans: "ids_only i j \<Longrightarrow> ids_only j k \<Longrightarrow> ids_only i k"
  unfolding ids_only_def by (cases i, cases j, cases k) simp

lemma ids_only_seen: "ids_only i j \<Longrightarrow> di_lastSeen j = di_lastSeen i"
  unfolding ids_only_def by (cases i, cases j) simp

lemma ids_only_put_params: "ids_only i (put_params f pm i)"
  by (simp add: ids_only_def put_params_def)

lemma ids_only_channel: "ids_only (snd s) (snd (setup_channel family addr d ch s))"
  by (simp add: setup_channel_def Let_def put_params_def ids_only_def split: prod.split)

lemma ids_only_sub_block: "ids_only (snd s) (snd (setup_sub_block name bid b family addr c ch s))"
  by (simp add: setup_sub_block_def Let_def put_params_def ids_only_def split: prod.split option.split)

lemma ids_only_gain_block: "ids_only (snd s) (snd (setup_gain_block addr d ch s))"
  by (simp add: setup_gain_block_def Let_def ids_only_def)

lemma ids_only_sub_blocks: "ids_only (snd s) (snd (setup_sub_blocks family addr d ch s))"
  unfolding setup_sub_blocks_def Let_def
  by (rule ids_only_trans [OF ids_only_trans [OF ids_only_gain_block ids_only_sub_block] ids_only_sub_block])

lemma ids_only_device_workers: "ids_only (snd s) (snd (setup_device_workers family addr d s))"
  by (simp add: setup_device_workers_def Let_def put_params_def ids_only_def split: prod.split)

lemma ids_only_fold:
  assumes "\<And>x s. ids_only (snd s) (snd (f x s))"
  shows "ids_only (snd s) (snd (fold f xs s))"
proof (induction xs arbitrary: s)
  case Nil
  then show ?case by simp
next
  case (Cons x xs)
  have "ids_only (snd (f x s)) (snd (fold f xs (f x s)))" by (rule Cons.IH)
  with assms [of s x] show ?case by (simp add: ids_only_trans)
qed

lemma ids_only_setup: "ids_only info (snd (setupDeviceNCP addr inst d family n (st, info)))"
proof -
  have channels: "ids_only (snd s) (snd (fold (setup_channel family addr d) xs s))" for xs s
    by (rule ids_only_fold) (rule ids_only_channel)
  have "ids_only (snd s) (snd (setup_sub_blocks m addr d ch (setup_channel m addr d ch s)))" for m ch s
    by (rule ids_only_trans [OF ids_only_channel ids_only_sub_blocks])
  then have nested: "ids_only (snd s) (snd (fold (\<lambda>ch s. setup_sub_blocks m addr d ch (setup_channel m addr d ch s)) xs s))" for m xs s
    by (intro ids_only_fold)
  have "ids_only (snd s) (snd (setup_tree family addr d n s))" for s
  proof (cases "family = ModelFamilyQLXD")
    case True
    then show ?thesis
      using ids_only_trans [OF ids_only_device_workers nested] by (simp add: setup_tree_def)
  next
    case False
    with channels show ?thesis by (simp add: setup_tree_def)
  qed
  from this [of "(st1, info)" for st1] show ?thesis by (simp add: setupDeviceNCP_def Let_def split_beta)
qed

subsection \<open>Entering a receiver\<close>

abbreviation dev_id :: "gw_env \<Rightarrow> string \<Rightarrow> string" where
  "dev_id env addr \<equiv> DeriveUUID (ge_sha256 env) (''device-'' @ addr)"

abbreviation dev_family :: "discovered_device \<Rightarrow> ShureModelFamily" where
  "dev_family dev \<equiv> DetectModelFamily (dv_Instance dev)"

abbreviation dev_channels :: "discovered_device \<Rightarrow> int" where
  "dev_channels dev \<equiv> MaxChannelsFromModel (dv_Instance dev)"

text \<open>The setup of the next receiver: the new state of the control server and what is kept of the receiver.\<close>

definition entered :: "gw_env \<Rightarrow> int \<Rightarrow> discovered_device \<Rightarrow> string \<Rightarrow> gateway \<Rightarrow> ncp_state \<times> device_info" where
  "entered env now dev addr g =
     setupDeviceNCP addr (dv_Instance dev) (device_OID (int (length (g_ctrls g)) + 1)) (dev_family dev) (dev_channels dev)
       (g_ncp g, new_device_info now (dev_family dev) (dev_id env addr) (int (length (g_ctrls g)) + 1)
          (device_OID (int (length (g_ctrls g)) + 1)) (dv_Instance dev))"

lemma enter_receiver_eq:
  "enter_receiver env now dev addr g =
     g\<lparr> g_ncp := fst (entered env now dev addr g), g_ctrls := g_ctrls g @ [(addr, snd (entered env now dev addr g))],
        g_log := g_log g @ map (SentCommand addr) (first_commands env (dev_family dev) (dev_channels dev)) \<rparr>"
  by (simp add: enter_receiver_def entered_def device_OID_def Let_def split: prod.split)

lemma entered_info:
  "di_lastSeen (snd (entered env now dev addr g)) = now"
  "di_modelFamily (snd (entered env now dev addr g)) = dev_family dev"
  "di_nmosDeviceIDs (snd (entered env now dev addr g)) = [0 \<mapsto> dev_id env addr]"
  "di_deviceIndex (snd (entered env now dev addr g)) = int (length (g_ctrls g)) + 1"
  "di_deviceOID (snd (entered env now dev addr g)) = device_OID (int (length (g_ctrls g)) + 1)"
  "di_sourceIDs (snd (entered env now dev addr g)) = (\<lambda>ch. Map.empty)"
  "di_flowIDs (snd (entered env now dev addr g)) = (\<lambda>ch. Map.empty)"
  "di_senderIDs (snd (entered env now dev addr g)) = (\<lambda>ch. Map.empty)"
  "di_parameterOIDs (snd (entered env now dev addr g)) =
     put_routes (device_routes (dev_family dev) (device_OID (int (length (g_ctrls g)) + 1)) (dev_channels dev)) Map.empty"
proof -
  note i = ids_only_setup [of "new_device_info now (dev_family dev) (dev_id env addr) (int (length (g_ctrls g)) + 1)
          (device_OID (int (length (g_ctrls g)) + 1)) (dv_Instance dev)" addr "dv_Instance dev"
          "device_OID (int (length (g_ctrls g)) + 1)" "dev_family dev" "dev_channels dev" "g_ncp g",
          folded entered_def, unfolded ids_only_def]
  show "di_parameterOIDs (snd (entered env now dev addr g)) =
     put_routes (device_routes (dev_family dev) (device_OID (int (length (g_ctrls g)) + 1)) (dev_channels dev)) Map.empty"
    by (simp add: entered_def setup_parameterOIDs new_device_info_def)
  show "di_lastSeen (snd (entered env now dev addr g)) = now"
    "di_modelFamily (snd (entered env now dev addr g)) = dev_family dev"
    "di_nmosDeviceIDs (snd (entered env now dev addr g)) = [0 \<mapsto> dev_id env addr]"
    "di_deviceIndex (snd (entered env now dev addr g)) = int (length (g_ctrls g)) + 1"
    "di_deviceOID (snd (entered env now dev addr g)) = device_OID (int (length (g_ctrls g)) + 1)"
    "di_sourceIDs (snd (entered env now dev addr g)) = (\<lambda>ch. Map.empty)"
    "di_flowIDs (snd (entered env now dev addr g)) = (\<lambda>ch. Map.empty)"
    "di_senderIDs (snd (entered env now dev addr g)) = (\<lambda>ch. Map.empty)"
    by (subst i, simp add: new_device_info_def)+
qed

lemma add_new:
  assumes "g_mu g = Unlocked" "map_of (g_ctrls g) addr = None"
  shows "addShureController reg env now ver True addr dev g =
    run_bind (register_resource reg ''devices'' (device_resource env ver addr (dev_id env addr) dev)
       ((enter_receiver env now dev addr g)\<lparr> g_mu := WriteLocked \<rparr>)) (\<lambda>g _.
    run_bind (fold_run (channel_resources reg env ver addr (dev_family dev) (dev_id env addr) (dv_Instance dev)) [1..dev_channels dev] g) (\<lambda>g _.
    Done ((store_receiver addr g)\<lparr> g_mu := Unlocked \<rparr>) ()))"
proof -
  have "enter_receiver env now dev addr (g\<lparr> g_mu := WriteLocked \<rparr>) = (enter_receiver env now dev addr g)\<lparr> g_mu := WriteLocked \<rparr>"
    by (simp add: enter_receiver_eq entered_def)
  with assms show ?thesis by (simp add: addShureController_def Let_def)
qed

subsection \<open>Adding a receiver with the registration as it is\<close>

lemma adding_deadlocks:
  assumes "g_mu g = Unlocked" "mu (g_nmos g) = Unlocked" "map_of (g_ctrls g) addr = None"
  obtains n where "addShureController RegisterResource env now ver True addr dev g =
      Deadlock ((enter_receiver env now dev addr g)\<lparr> g_mu := WriteLocked, g_nmos := n \<rparr>)" "mu n = WriteLocked"
    "find_resource (dev_id env addr) (resources n ''devices'') = Some (VMap (device_resource env ver addr (dev_id env addr) dev))"
    "posts n = posts (g_nmos g)"
proof -
  let ?r = "device_resource env ver addr (dev_id env addr) dev"
  have i: "as_string (field_of ''id'' ?r) = Some (dev_id env addr)"
    by (simp add: device_resource_def field_of_def)
  from RegisterResource_hangs [OF assms(2), where r = "VMap ?r" and t = "''devices''"] i
  obtain n where n: "RegisterResource ''devices'' (VMap ?r) (g_nmos g) = Deadlock n" "mu n = WriteLocked"
    "find_resource (dev_id env addr) (resources n ''devices'') = Some (VMap ?r)" "posts n = posts (g_nmos g)"
    by auto
  have "addShureController RegisterResource env now ver True addr dev g =
      Deadlock ((enter_receiver env now dev addr g)\<lparr> g_mu := WriteLocked, g_nmos := n \<rparr>)"
    using n(1) by (simp add: add_new [OF assms(1,3)] register_resource_def lift_nmos_def enter_receiver_eq)
  with n that show thesis by blast
qed

text \<open>
  C8. Adding a receiver never returns: the registration of its device hangs in the node, with the lock of the gateway
  and that of the node held. The receiver is entered and its first commands are sent; the device
  is in the node's list, but the registry is not told, and no source exists. From then on every report
  and every further receiver waits for good.
\<close>

theorem adding_receiver_hangs:
  assumes "g_mu g = Unlocked" "mu (g_nmos g) = Unlocked" "map_of (g_ctrls g) addr = None"
  shows "\<exists>g' info. addShureController RegisterResource env now ver True addr dev g = Deadlock g' \<and>
    g_mu g' = WriteLocked \<and> mu (g_nmos g') = WriteLocked \<and>
    g_log g' = g_log g @ map (SentCommand addr) (first_commands env (DetectModelFamily (dv_Instance dev)) (MaxChannelsFromModel (dv_Instance dev))) \<and>
    find_resource (dev_id env addr) (resources (g_nmos g') ''devices'') =
      Some (VMap (device_resource env ver addr (dev_id env addr) dev)) \<and>
    posts (g_nmos g') = posts (g_nmos g) \<and>
    map_of (g_ctrls g') addr = Some info \<and> (\<forall>ch p. di_sourceIDs info ch p = None) \<and>
    (\<forall>env' now' ver' addr' report. handleShureDevice env' now' ver' addr' report g' = Deadlock g') \<and>
    (\<forall>reg env' now' ver' b addr' dev'. addShureController reg env' now' ver' b addr' dev' g' = Deadlock g')"
proof -
  from adding_deadlocks [OF assms] obtain n where n: "addShureController RegisterResource env now ver True addr dev g =
      Deadlock ((enter_receiver env now dev addr g)\<lparr> g_mu := WriteLocked, g_nmos := n \<rparr>)" "mu n = WriteLocked"
    "find_resource (dev_id env addr) (resources n ''devices'') = Some (VMap (device_resource env ver addr (dev_id env addr) dev))"
    "posts n = posts (g_nmos g)" by metis
  moreover have "map_of (g_ctrls g @ [(addr, snd (entered env now dev addr g))]) addr = Some (snd (entered env now dev addr g))"
    using assms(3) by (simp add: map_add_def)
  ultimately show ?thesis
    by (simp add: enter_receiver_eq handleShureDevice_def addShureController_def entered_info del: map_of_append)
qed

text \<open>An environment and a receiver for the witnesses.\<close>

definition test_device :: discovered_device where
  "test_device = \<lparr> dv_Instance = ''SLXD4'', dv_Host = ''SLXD4'', dv_Address = ''h'', dv_Port = 1, dv_Info = [] \<rparr>"

definition no_receivers :: gateway where
  "no_receivers = test_gateway\<lparr> g_ncp := new_ncp_state, g_ctrls := [] \<rparr>"

lemma no_receivers_inv: "gateway_inv no_receivers"
  using test_gateway_inv new_ncp_inv by (simp add: gateway_inv_def no_receivers_def)

theorem adding_receiver_hangs_witness:
  "\<exists>g'. addShureController RegisterResource test_gw_env 0 ''1:1'' True ''h:1'' test_device no_receivers = Deadlock g' \<and>
     handleShureDevice test_gw_env 0 ''1:1'' ''h:1'' (test_report ''AUDIO_GAIN'' ''030'') g' = Deadlock g'"
proof -
  have "g_mu no_receivers = Unlocked" "mu (g_nmos no_receivers) = Unlocked" "map_of (g_ctrls no_receivers) ''h:1'' = None"
    using no_receivers_inv by (simp_all add: gateway_inv_def) (simp add: no_receivers_def)
  from adding_receiver_hangs [OF this, of test_gw_env 0 "''1:1''" test_device] show ?thesis by blast
qed

subsection \<open>Adding a receiver with a registration that returns\<close>






























subsection \<open>Removal\<close>

definition without :: "string set \<Rightarrow> (string \<times> device_info) list \<Rightarrow> (string \<times> device_info) list" where
  "without A xs = filter (\<lambda>(b, info). b \<notin> A) xs"

lemma without_absent: "map_of xs a = None \<Longrightarrow> without (insert a A) xs = without A xs"
  by (induction xs) (auto simp: without_def split: if_split_asm)

lemma without_twice: "without A (filter (\<lambda>(b, info). b \<noteq> a) xs) = without (insert a A) xs"
  by (induction xs) (auto simp: without_def)

lemma without_lookup: "map_of (without A xs) b = (if b \<in> A then None else map_of xs b)"
  by (induction xs) (auto simp: without_def)

lemma without_keys: "map fst (without A xs) = filter (\<lambda>b. b \<notin> A) (map fst xs)"
  by (induction xs) (auto simp: without_def)

lemma without_empty [simp]: "without {} xs = xs"
  by (simp add: without_def case_prod_unfold)

lemma remove_all_prefix:
  assumes "\<forall>a\<in>set as. stops a"
  shows "remove_all stops (as @ cs) g = remove_all stops cs (g\<lparr> g_ctrls := without (set as) (g_ctrls g) \<rparr>)"
  using assms
proof (induction as arbitrary: g)
  case Nil
  then show ?case by simp
next
  case (Cons a as)
  then show ?case
    by (cases "map_of (g_ctrls g) a") (simp_all add: without_absent without_twice)
qed

lemma stale_addrs_set:
  assumes "distinct (map fst (g_ctrls g))"
  shows "a \<in> set (stale_addrs now g) \<longleftrightarrow> (\<exists>info. map_of (g_ctrls g) a = Some info \<and> stale_after < now - di_lastSeen info)"
proof -
  have "a \<in> set (stale_addrs now g) \<longleftrightarrow> (\<exists>info. (a, info) \<in> set (g_ctrls g) \<and> stale_after < now - di_lastSeen info)"
    by (force simp: stale_addrs_def)
  with assms show ?thesis by (simp add: map_of_eq_Some_iff)
qed

text \<open>
  C15. One tick of the removal, when every controller can be stopped, ends: it takes exactly the receivers last seen
  more than two minutes ago, and only from what the gateway keeps: their objects stay in the control server, and their
  resources in the node.
\<close>

theorem reap_removes_stale:
  assumes "gateway_inv g" "\<forall>a. stops a"
  shows "\<exists>g'. reapStaleDevices stops now g = Done g' () \<and> gateway_inv g' \<and>
    (\<forall>a. map_of (g_ctrls g') a = (case map_of (g_ctrls g) a of None \<Rightarrow> None
       | Some info \<Rightarrow> if now - di_lastSeen info > 2 * 60 * 10 ^ 9 then None else Some info)) \<and>
    g_ncp g' = g_ncp g \<and> g_nmos g' = g_nmos g \<and> g_events g' = g_events g \<and> g_log g' = g_log g"
proof -
  let ?S = "set (stale_addrs now g)"
  let ?g' = "g\<lparr> g_ctrls := without ?S (g_ctrls g) \<rparr>"
  have d: "distinct (map fst (g_ctrls g))" using assms(1) by (simp add: gateway_inv_def)
  have "reapStaleDevices stops now g = Done ?g' ()"
    using remove_all_prefix [of "stale_addrs now g" stops "[]" g] assms by (simp add: reapStaleDevices_def gateway_inv_def)
  moreover have "gateway_inv ?g'" using assms(1) by (simp add: gateway_inv_def without_keys)
  moreover have "map_of (g_ctrls ?g') a = (case map_of (g_ctrls g) a of None \<Rightarrow> None
      | Some info \<Rightarrow> if now - di_lastSeen info > 2 * 60 * 10 ^ 9 then None else Some info)" for a
    by (simp add: without_lookup stale_addrs_set [OF d] stale_after_def split: option.split)
  ultimately show ?thesis by auto
qed

theorem reap_removes_stale_witness:
  "\<exists>g'. reapStaleDevices (\<lambda>a. True) (3 * 60 * 10 ^ 9) test_gateway = Done g' () \<and> gateway_inv g' \<and>
     g_ncp g' = g_ncp test_gateway"
  using reap_removes_stale [OF test_gateway_inv, of "\<lambda>a. True" "3 * 60 * 10 ^ 9"] by blast

text \<open>
  A tick whose controllers do not all stop never ends: it waits for the first stale one that does not, and the
  ones after it are kept for good, however long ago they were seen.
\<close>

lemma reap_waits:
  assumes "gateway_inv g" "stale_addrs now g = as @ b # cs" "\<forall>a\<in>set as. stops a" "\<not> stops b"
  shows "\<exists>g'. reapStaleDevices stops now g = Deadlock g' \<and>
    (\<forall>a. map_of (g_ctrls g') a = (if a \<in> set as then None else map_of (g_ctrls g) a))"
proof -
  have d: "distinct (map fst (g_ctrls g))" "g_mu g = Unlocked" using assms(1) by (simp_all add: gateway_inv_def)
  have "distinct (map fst (filter (\<lambda>(a, info). stale_after < now - di_lastSeen info) xs))" if "distinct (map fst xs)" for xs
    by (rule distinct_map_filter [OF that])
  from this [OF d(1)] have "distinct (stale_addrs now g)" by (simp add: stale_addrs_def)
  with assms(2) have "b \<notin> set as" by simp
  moreover have "map_of (g_ctrls g) b \<noteq> None"
    using stale_addrs_set [OF d(1), of b now] assms(2) by auto
  ultimately have "map_of (without (set as) (g_ctrls g)) b \<noteq> None" by (simp add: without_lookup)
  with assms(4) have "remove_all stops (b # cs) (g\<lparr> g_ctrls := without (set as) (g_ctrls g) \<rparr>) =
      Deadlock (g\<lparr> g_ctrls := without (set as) (g_ctrls g) \<rparr>)" by auto
  then have "reapStaleDevices stops now g = Deadlock (g\<lparr> g_ctrls := without (set as) (g_ctrls g) \<rparr>)"
    unfolding reapStaleDevices_def assms(2) remove_all_prefix [OF assms(3)] using d(2) by simp
  then show ?thesis by (simp add: without_lookup)
qed

lemma reap_waits_witness:
  "\<exists>g'. reapStaleDevices (\<lambda>a. False) (3 * 60 * 10 ^ 9) test_gateway = Deadlock g' \<and> map_of (g_ctrls g') ''r'' = map_of (g_ctrls test_gateway) ''r''"
proof -
  have "di_lastSeen (snd (setupDeviceNCP ''r'' ''QLXD4'' 110 ModelFamilyQLXD 1 (new_ncp_state, test_info))) = 0"
    using ids_only_seen [OF ids_only_setup] by (simp add: test_info_def new_device_info_def)
  then have "stale_addrs (3 * 60 * 10 ^ 9) test_gateway = [] @ ''r'' # []"
    by (simp add: stale_addrs_def stale_after_def test_gateway_def Let_def)
  from reap_waits [OF test_gateway_inv this, of "\<lambda>a. False"] show ?thesis by auto
qed

subsection \<open>Ids after a removal\<close>





end
