(* ===== verification/Gateway_Pipeline.thy ===== *)
theory Gateway_Pipeline
  imports Gateway_Device_Laws Shure_Link
begin

text \<open>
  The way of a report through the program: the goroutines of \<open>internal/module/gateway.go\<close> that put the events of a
  receiver into the message bus and take the messages out of it (\<open>listenToShureEvents\<close>, \<open>processMessages\<close>), with the bus between
  them and the handler of reports behind it. Last, the way of an announcement, from the discovery to the
  time a receiver was last seen.

  A step passes on one event, moves one message inside the bus, or handles one message. The bus stays open.
\<close>

subsection \<open>Messages\<close>

text \<open>A payload that is no report is \<open>None\<close>.\<close>

record message =
  msg_Type :: message_type
  msg_Payload :: "TPCIReport option"
  msg_Source :: string

definition report_message :: "string \<Rightarrow> TPCIReport \<Rightarrow> message" where
  "report_message addr report = \<lparr> msg_Type = ShureDeviceMsg, msg_Payload = Some report, msg_Source = addr \<rparr>"

definition handleNMOSNode :: "message \<Rightarrow> gateway \<Rightarrow> (gateway, unit) run" where
  "handleNMOSNode msg g = Done g ()"

definition process_message :: "gw_env \<Rightarrow> int \<Rightarrow> string \<Rightarrow> message \<Rightarrow> gateway \<Rightarrow> (gateway, unit) run" where
  "process_message env now ver msg g =
     (case msg_Type msg of
        ShureDeviceMsg \<Rightarrow> (case msg_Payload msg of
            None \<Rightarrow> Done g ()
          | Some report \<Rightarrow> handleShureDevice env now ver (msg_Source msg) report g)
      | NMOSNodeMsg \<Rightarrow> handleNMOSNode msg g
      | _ \<Rightarrow> Done g ())"

subsection \<open>The pipeline\<close>

text \<open>\<open>pl_events\<close>: the reports of each receiver that its reader has found or will find and that are not passed on yet.\<close>

record pipeline =
  pl_events :: "string \<Rightarrow> TPCIReport list"
  pl_bus :: "message bus"
  pl_gateway :: gateway

definition pipeline_start :: "(string \<Rightarrow> string) \<Rightarrow> gateway \<Rightarrow> pipeline" where
  "pipeline_start bytes g =
     \<lparr> pl_events = (\<lambda>addr. readEvents (bytes addr)), pl_bus = NewInMemoryMessageBus, pl_gateway = g \<rparr>"

inductive pipeline_step :: "gw_env \<Rightarrow> pipeline \<Rightarrow> message action \<Rightarrow> pipeline \<Rightarrow> bool" for env where
  listen: "pl_events p addr = report # rest \<Longrightarrow> bus_step (pl_bus p) (Put (report_message addr report)) b \<Longrightarrow>
    pipeline_step env p (Put (report_message addr report)) (p\<lparr> pl_events := (pl_events p)(addr := rest), pl_bus := b \<rparr>)"
| move: "bus_step (pl_bus p) Internal b \<Longrightarrow> pipeline_step env p Internal (p\<lparr> pl_bus := b \<rparr>)"
| handle: "bus_step (pl_bus p) (Take msg) b \<Longrightarrow> process_message env now ver msg (pl_gateway p) = Done g () \<Longrightarrow>
    pipeline_step env p (Take msg) (p\<lparr> pl_bus := b, pl_gateway := g \<rparr>)"

text \<open>The specification: messages handled one after the other, at any times.\<close>

inductive handled :: "gw_env \<Rightarrow> message list \<Rightarrow> gateway \<Rightarrow> gateway \<Rightarrow> bool" for env where
  nothing: "handled env [] g g"
| another: "handled env ms g g1 \<Longrightarrow> process_message env now ver m g1 = Done g2 () \<Longrightarrow> handled env (ms @ [m]) g g2"

lemma process_done:
  assumes "gateway_inv g"
  shows "\<exists>g'. process_message env now ver m g = Done g' () \<and> gateway_inv g'"
proof (cases "msg_Type m = ShureDeviceMsg \<and> msg_Payload m \<noteq> None")
  case True
  then obtain r where "msg_Payload m = Some r" "msg_Type m = ShureDeviceMsg" by blast
  with handle_report [OF assms, of env now ver "msg_Source m" r] show ?thesis by (auto simp: process_message_def)
next
  case False
  with assms show ?thesis by (auto simp: process_message_def handleNMOSNode_def split: message_type.split)
qed


lemma runs_snoc: "runs R s as s' \<Longrightarrow> R s' a s'' \<Longrightarrow> runs R s (as @ [a]) s''"
  by (induction rule: runs.induct) (auto intro: runs.intros)

text \<open>The messages of one receiver.\<close>

definition from_addr :: "string \<Rightarrow> message list \<Rightarrow> message list" where
  "from_addr addr ms = filter (\<lambda>m. msg_Source m = addr) ms"

definition pipeline_ok :: "gw_env \<Rightarrow> (string \<Rightarrow> string) \<Rightarrow> gateway \<Rightarrow> message action list \<Rightarrow> pipeline \<Rightarrow> bool" where
  "pipeline_ok env bytes g as p \<longleftrightarrow>
     runs bus_step NewInMemoryMessageBus as (pl_bus p) \<and> handled env (takes as) g (pl_gateway p) \<and>
     (\<forall>addr. from_addr addr (puts as) @ map (report_message addr) (pl_events p addr) =
        map (report_message addr) (readEvents (bytes addr)))"

lemma pipeline_step_ok:
  assumes "pipeline_step env p a p'" "pipeline_ok env bytes g as p"
  shows "pipeline_ok env bytes g (as @ [a]) p'"
  using assms(1)
proof cases
  case (listen addr report rest b)
  from assms(2) have "runs bus_step NewInMemoryMessageBus (as @ [a]) (pl_bus p')"
    using listen by (auto simp: pipeline_ok_def intro: runs_snoc)
  moreover have "from_addr addr' (puts (as @ [a])) @ map (report_message addr') (pl_events p' addr') =
      map (report_message addr') (readEvents (bytes addr'))" for addr'
  proof -
    have "from_addr addr' (puts as) @ map (report_message addr') (pl_events p addr') = map (report_message addr') (readEvents (bytes addr'))"
      using assms(2) by (simp add: pipeline_ok_def)
    with listen show ?thesis by (cases "addr' = addr") (auto simp: from_addr_def puts_def report_message_def)
  qed
  moreover have "takes (as @ [a]) = takes as" "pl_gateway p' = pl_gateway p" using listen by (simp_all add: takes_def)
  ultimately show ?thesis using assms(2) by (simp add: pipeline_ok_def)
next
  case (move b)
  with assms(2) show ?thesis by (auto simp: pipeline_ok_def takes_def puts_def intro: runs_snoc)
next
  case (handle msg b now ver g')
  have "handled env (takes as @ [msg]) g (pl_gateway p')"
    using handle assms(2) by (auto simp: pipeline_ok_def intro: handled.another)
  moreover have "takes (as @ [a]) = takes as @ [msg]" "puts (as @ [a]) = puts as" using handle by (simp_all add: takes_def puts_def)
  moreover have "runs bus_step NewInMemoryMessageBus (as @ [a]) (pl_bus p')"
    using handle assms(2) by (auto simp: pipeline_ok_def intro: runs_snoc)
  ultimately show ?thesis using handle assms(2) by (simp add: pipeline_ok_def)
qed

lemma pipeline_runs_ok:
  "runs (pipeline_step env) p bs p' \<Longrightarrow> pipeline_ok env bytes g as p \<Longrightarrow> pipeline_ok env bytes g (as @ bs) p'"
proof (induction arbitrary: as rule: runs.induct)
  case (go p a p1 bs p2)
  from go.IH [OF pipeline_step_ok [OF go.hyps(1) go.prems]] show ?case by simp
qed simp

lemma pipeline_start_ok: "pipeline_ok env bytes g [] (pipeline_start bytes g)"
  by (simp add: pipeline_ok_def pipeline_start_def takes_def puts_def from_addr_def runs.halt handled.nothing)

lemma pipeline_reached: "runs (pipeline_step env) (pipeline_start bytes g) as p \<Longrightarrow> pipeline_ok env bytes g as p"
  using pipeline_runs_ok [OF _ pipeline_start_ok] by fastforce

lemma from_addr_append: "from_addr addr (xs @ ys) = from_addr addr xs @ from_addr addr ys"
  by (simp add: from_addr_def)

text \<open>
  C5. However the goroutines interleave, the gateway is in the state that handling messages one after the other leads
  to, in the order they were passed on; and for each receiver the messages handled, those in flight and those not
  passed on yet are together the reports of its byte stream, none lost, doubled or overtaken.
\<close>

theorem pipeline_order:
  assumes "runs (pipeline_step env) (pipeline_start bytes g) as p"
  shows "handled env (takes as) g (pl_gateway p) \<and> takes as @ in_flight (pl_bus p) = puts as \<and>
    from_addr addr (takes as) @ from_addr addr (in_flight (pl_bus p)) @ map (report_message addr) (pl_events p addr) =
      map (report_message addr) (readEvents (bytes addr))"
proof -
  note ok = pipeline_reached [OF assms, unfolded pipeline_ok_def]
  then have order: "takes as @ in_flight (pl_bus p) = puts as"
    using msg_bus.runs_order [of NewInMemoryMessageBus as "pl_bus p"] by (simp add: new_bus_flight)
  from ok have "from_addr addr (puts as) @ map (report_message addr) (pl_events p addr) = map (report_message addr) (readEvents (bytes addr))"
    by blast
  then have "from_addr addr (takes as @ in_flight (pl_bus p)) @ map (report_message addr) (pl_events p addr) =
      map (report_message addr) (readEvents (bytes addr))"
    unfolding order .
  from ok order this [unfolded from_addr_append] show ?thesis by simp
qed

text \<open>The bus can be emptied by steps of the pipeline, which handle what they take.\<close>

lemma lift_drain:
  "runs bus_step b as b' \<Longrightarrow> puts as = [] \<Longrightarrow> pl_bus p = b \<Longrightarrow> gateway_inv (pl_gateway p) \<Longrightarrow>
    \<exists>p'. runs (pipeline_step env) p as p' \<and> pl_bus p' = b' \<and> pl_events p' = pl_events p \<and> gateway_inv (pl_gateway p')"
proof (induction arbitrary: p rule: runs.induct)
  case (halt b)
  then show ?case by (auto intro: runs.halt)
next
  case (go b a b1 as b2)
  have rest: "puts as = []" "put_of a = []" using go.prems(1) by (simp_all add: puts_def)
  obtain g where g: "pipeline_step env p a (p\<lparr> pl_bus := b1, pl_gateway := g \<rparr>)" "gateway_inv g"
  proof (cases a)
    case Internal
    then have "pipeline_step env p a (p\<lparr> pl_bus := b1 \<rparr>)" using go.hyps(1) go.prems(2) pipeline_step.move by blast
    then show thesis using that [of "pl_gateway p"] go.prems(3) by simp
  next
    case (Take m)
    obtain g where "process_message env 0 [] m (pl_gateway p) = Done g ()" "gateway_inv g"
      using process_done [OF go.prems(3)] by blast
    then show thesis using that [of g] Take go.hyps(1) go.prems(2) by (auto intro: pipeline_step.handle)
  qed (use rest in simp)
  from go.IH [OF rest(1), of "p\<lparr> pl_bus := b1, pl_gateway := g \<rparr>"] g(2)
  obtain p' where "runs (pipeline_step env) (p\<lparr> pl_bus := b1, pl_gateway := g \<rparr>) as p'" "pl_bus p' = b2"
    "pl_events p' = pl_events p" "gateway_inv (pl_gateway p')" by auto
  with g(1) show ?case by (blast intro: runs.go)
qed

lemma pipeline_drain:
  assumes "bus_ok (pl_bus p)" "\<not> bus_cancelled (pl_bus p)" "gateway_inv (pl_gateway p)"
  shows "\<exists>as p'. runs (pipeline_step env) p as p' \<and> in_flight (pl_bus p') = [] \<and> pl_events p' = pl_events p \<and>
    bus_ok (pl_bus p') \<and> \<not> bus_cancelled (pl_bus p') \<and> gateway_inv (pl_gateway p')"
proof -
  from drain [OF assms(1,2)] obtain as b where b: "runs bus_step (pl_bus p) as b" "puts as = []" "in_flight b = []" by blast
  with lift_drain [OF b(1,2) refl assms(3)] runs_ok [OF b(1) assms(1)] assms(2) show ?thesis by metis
qed

lemma pipeline_drain_events:
  "pl_events p addr = rs \<Longrightarrow> bus_ok (pl_bus p) \<Longrightarrow> \<not> bus_cancelled (pl_bus p) \<Longrightarrow> gateway_inv (pl_gateway p) \<Longrightarrow>
    \<exists>as p'. runs (pipeline_step env) p as p' \<and> in_flight (pl_bus p') = [] \<and> pl_events p' addr = [] \<and> gateway_inv (pl_gateway p')"
proof (induction rs arbitrary: p)
  case Nil
  with pipeline_drain [of p env] show ?case by metis
next
  case (Cons r rs)
  from pipeline_drain [OF Cons.prems(2-4), of env] obtain as p1 where p1: "runs (pipeline_step env) p as p1"
    "in_flight (pl_bus p1) = []" "pl_events p1 = pl_events p" "bus_ok (pl_bus p1)" "\<not> bus_cancelled (pl_bus p1)" "gateway_inv (pl_gateway p1)"
    by blast
  let ?m = "report_message addr r" and ?b = "pl_bus p1"
  let ?p2 = "p1\<lparr> pl_events := (pl_events p1)(addr := rs), pl_bus := ?b\<lparr> sendChan := sendChan ?b @ [?m] \<rparr> \<rparr>"
  have "\<not> bus_closed ?b" "sendChan ?b = []" using p1 by (auto simp: bus_ok_def in_flight_def)
  then have send: "bus_step ?b (Put ?m) (?b\<lparr> sendChan := sendChan ?b @ [?m] \<rparr>)"
    by (intro bus_step.send) (simp add: bus_Send_Sent channel_cap_def)
  then have "pipeline_step env p1 (Put ?m) ?p2"
    using p1(3) Cons.prems(1) by (intro pipeline_step.listen) simp_all
  then have to_p2: "runs (pipeline_step env) p (as @ [Put ?m]) ?p2" using p1(1) by (rule runs_snoc [rotated])
  from bus_step_ok [OF send p1(4)] p1(5) have "bus_ok (pl_bus ?p2)" "\<not> bus_cancelled (pl_bus ?p2)" by simp_all
  with Cons.IH [of ?p2] p1(6) obtain bs p3 where "runs (pipeline_step env) ?p2 bs p3" "in_flight (pl_bus p3) = []"
    "pl_events p3 addr = []" "gateway_inv (pl_gateway p3)" by auto
  with runs_append [OF to_p2] show ?case by blast
qed


definition test_bytes :: "string \<Rightarrow> string" where
  "test_bytes addr = (if addr = ''r'' then ''< REP 1 AUDIO_GAIN 030 >'' else [])"

theorem pipeline_order_witness:
  "\<exists>as p. runs (pipeline_step test_gw_env) (pipeline_start test_bytes test_gateway) as p \<and> handled test_gw_env (takes as) test_gateway (pl_gateway p) \<and>
     from_addr ''r'' (takes as) = map (report_message ''r'') (readEvents ''< REP 1 AUDIO_GAIN 030 >'')"
proof -
  have "bus_ok (pl_bus (pipeline_start test_bytes test_gateway))" "\<not> bus_cancelled (pl_bus (pipeline_start test_bytes test_gateway))"
    "gateway_inv (pl_gateway (pipeline_start test_bytes test_gateway))"
    using new_bus_ok test_gateway_inv by (simp_all add: pipeline_start_def NewInMemoryMessageBus_def)
  from pipeline_drain_events [OF refl this, where addr = "''r''" and env = test_gw_env] obtain as p
    where p: "runs (pipeline_step test_gw_env) (pipeline_start test_bytes test_gateway) as p" "in_flight (pl_bus p) = []" "pl_events p ''r'' = []"
    by blast
  from pipeline_order [OF p(1), of "''r''"] p show ?thesis by (auto simp: from_addr_def test_bytes_def)
qed


subsection \<open>Announcements\<close>

text \<open>
  A receiver the gateway knows that announces itself is not removed in the next ninety seconds: the announcement
  is passed on, or one was in the last thirty seconds, and each that is passed on and handled counts as seeing the receiver.
  \<open>arrival\<close> is the time of the announcement, \<open>seen\<close> that of its handling, and the earlier ones have been handled.
\<close>

lemma announced_receiver_kept:
  assumes "handleDiscovery dev = Some addr" "gateway_inv g" "map_of (g_ctrls g) addr = Some info"
    and "ds_devices d = []" "\<And>before. ds_lastSent d (dv_Address dev) = Some before \<Longrightarrow> before \<le> di_lastSeen info"
    and "arrival \<le> seen" "tick \<le> arrival + 90 * 10 ^ 9"
  shows "\<exists>g'. fold_run (handle_found reg env seen ver started) (ds_devices (sendDevice arrival False dev d)) g = Done g' () \<and>
    addr \<notin> set (stale_addrs tick g')"
proof (cases "recently arrival (dv_Address dev) d")
  case True
  then obtain before where before: "ds_lastSent d (dv_Address dev) = Some before" "arrival - before < resend_after"
    by (auto simp: recently_def split: option.splits)
  have "i = info" if "(addr, i) \<in> set (g_ctrls g)" for i
    using that assms(2,3) by (metis gateway_inv_def map_of_is_SomeI option.inject)
  then have "addr \<notin> set (stale_addrs tick g)"
    using assms(5) [OF before(1)] before(2) assms(7) by (auto simp: stale_addrs_def stale_after_def resend_after_def)
  then show ?thesis using sendDevice_recent [OF True] assms(4) by simp
next
  case False
  have "handle_found reg env seen ver started dev g = Done (set_info addr (di_lastSeen_update (\<lambda>_. seen)) g) ()"
    using assms(1-3) by (simp add: handle_found_def addShureController_def gateway_inv_def)
  moreover have "ds_devices (sendDevice arrival False dev d) = [dev]"
    using False assms(4) by (simp add: sendDevice_def Let_def chan_send_def devices_cap_def)
  moreover have "addr \<notin> set (stale_addrs tick (set_info addr (di_lastSeen_update (\<lambda>_. seen)) g))"
    using assms(6,7) by (auto simp: stale_addrs_def stale_after_def set_info_def split: if_splits)
  ultimately show ?thesis by simp
qed

definition known_gateway :: gateway where
  "known_gateway = no_receivers\<lparr> g_ctrls := [(''h:1'', test_info\<lparr> di_lastSeen := 0 \<rparr>)] \<rparr>"

lemma announced_receiver_kept_witness:
  "\<exists>g'. fold_run (handle_found store_only test_gw_env 5 ''1:1'' True)
       (ds_devices (sendDevice 0 False test_device NewShureDiscoverer)) known_gateway = Done g' () \<and>
     ''h:1'' \<notin> set (stale_addrs (90 * 10 ^ 9) g')"
proof -
  have "handleDiscovery test_device = Some ''h:1''" by code_simp
  moreover have "gateway_inv known_gateway" using no_receivers_inv by (simp add: gateway_inv_def known_gateway_def)
  moreover have "map_of (g_ctrls known_gateway) ''h:1'' = Some (test_info\<lparr> di_lastSeen := 0 \<rparr>)" by (simp add: known_gateway_def)
  moreover have "ds_devices NewShureDiscoverer = []" by (simp add: NewShureDiscoverer_def)
  ultimately show ?thesis
    by (rule announced_receiver_kept) (simp_all add: NewShureDiscoverer_def)
qed

end
