(* ===== verification/Registry_Client.thy ===== *)
theory Registry_Client
  imports Nmos_Resources Receiver_Discovery
begin

text \<open>
  The node as a client of a registry, in \<open>internal/infrastructure/nmos_controller.go\<close>: how a registry is found, the
  registration at the start, the heartbeat, the monitor of the registry and the polling of its nodes.

  The goroutines of the heartbeat and of the monitor are flags, and one tick of each is a step. What discovery finds and
  what the registry answers are arguments; \<open>node\<close> is the resource of the node.
\<close>

subsection \<open>Finding a registry\<close>

type_synonym DiscoveryMode = string

definition DiscoveryModeDNSSD :: DiscoveryMode where "DiscoveryModeDNSSD = ''dns_sd''"
definition DiscoveryModeMDNS :: DiscoveryMode where "DiscoveryModeMDNS = ''mdns''"
definition DiscoveryModeStatic :: DiscoveryMode where "DiscoveryModeStatic = ''static''"

record RegistryDiscoveryConfig =
  rc_Mode :: DiscoveryMode
  rc_Domain :: string
  rc_StaticRegistry :: string

text \<open>The first entry mDNS yields within five seconds, and the records of a DNS name with their ports.\<close>

record dns_env =
  dn_entry :: "service_entry option"
  dn_srv :: "string \<Rightarrow> (string \<times> int) list option"

definition registry_at :: "string \<Rightarrow> int \<Rightarrow> string" where
  "registry_at host port = ''http://'' @ host @ '':'' @ itoa port"

definition discoverMDNS :: "dns_env \<Rightarrow> string option" where
  "discoverMDNS env =
     map_option (\<lambda>entry. registry_at
       (case en_AddrIPv4 entry of a # _ \<Rightarrow> a
        | [] \<Rightarrow> (case en_AddrIPv6 entry of a # _ \<Rightarrow> a | [] \<Rightarrow> en_HostName entry)) (en_Port entry)) (dn_entry env)"

definition discoverUnicastDNS :: "dns_env \<Rightarrow> string \<Rightarrow> string option" where
  "discoverUnicastDNS env domain =
     (case dn_srv env (''_nmos-register._tcp.'' @ trim_suffix domain ''.'') of
        None \<Rightarrow> None
      | Some [] \<Rightarrow> None
      | Some ((target, port) # _) \<Rightarrow> Some (registry_at (trim_suffix target ''.'') port))"

definition discoverDNS :: "dns_env \<Rightarrow> string \<Rightarrow> string option" where
  "discoverDNS env domain = (if domain = ''local.'' then discoverMDNS env else discoverUnicastDNS env domain)"

definition discoverStatic :: "RegistryDiscoveryConfig \<Rightarrow> string option" where
  "discoverStatic cfg = (if rc_StaticRegistry cfg = [] then None else Some (rc_StaticRegistry cfg))"

definition discoverRegistry :: "dns_env \<Rightarrow> RegistryDiscoveryConfig \<Rightarrow> string option" where
  "discoverRegistry env cfg =
     (if rc_Mode cfg = DiscoveryModeStatic then discoverStatic cfg
      else if rc_Mode cfg = DiscoveryModeMDNS then discoverDNS env ''local.''
      else if rc_Mode cfg = DiscoveryModeDNSSD then discoverDNS env (rc_Domain cfg)
      else discoverDNS env ''local.'')"

subsection \<open>State\<close>

record registry_client =
  rg_node :: nmos_state
  registryURL :: string
  currentRegistryURL :: string
  monitoringRegistry :: bool
  registryResolved :: "string option"
  heartbeat_on :: bool
  monitor_on :: bool

definition new_client :: "nmos_state \<Rightarrow> registry_client" where
  "new_client n =
     \<lparr> rg_node = n, registryURL = ''http://localhost:8000'', currentRegistryURL = [], monitoringRegistry = False,
       registryResolved = None, heartbeat_on = False, monitor_on = False \<rparr>"

text \<open>An operation of the node.\<close>

definition on_node :: "(nmos_state \<Rightarrow> (nmos_state, 'a) run) \<Rightarrow> registry_client \<Rightarrow> (registry_client, 'a) run" where
  "on_node f s =
     (case f (rg_node s) of
        Done n a \<Rightarrow> Done (s\<lparr> rg_node := n \<rparr>) a
      | Deadlock n \<Rightarrow> Deadlock (s\<lparr> rg_node := n \<rparr>)
      | FatalError \<Rightarrow> FatalError)"

definition set_registered :: "bool \<Rightarrow> registry_client \<Rightarrow> registry_client" where
  "set_registered b s = s\<lparr> rg_node := (rg_node s)\<lparr> registered := b \<rparr> \<rparr>"

definition setPeerToPeerMode :: "bool \<Rightarrow> registry_client \<Rightarrow> registry_client" where
  "setPeerToPeerMode b s = s\<lparr> rg_node := (rg_node s)\<lparr> peerToPeerMode := b \<rparr> \<rparr>"

subsection \<open>Registration\<close>

text \<open>
  Whether the registry accepts the node, which is posted twice: once here and once by the registration of
  everything.
\<close>

definition registerWithRegistry :: "bool \<times> bool \<Rightarrow> goval \<Rightarrow> string \<Rightarrow> registry_client \<Rightarrow> (registry_client, bool) run" where
  "registerWithRegistry oks node url s =
     run_bind (on_node (RegisterNode (fst oks) node) (s\<lparr> registryURL := url, currentRegistryURL := url \<rparr>)) (\<lambda>s ok.
       if \<not> ok then Done s False
       else run_bind (on_node (reRegisterAll (snd oks) node) s) (\<lambda>s _. Done s True))"

definition stay_peer :: "registry_client \<Rightarrow> registry_client" where
  "stay_peer s = setPeerToPeerMode True (set_registered False (s\<lparr> monitoringRegistry := False \<rparr>))"

definition discoverAndRegister ::
  "string option \<Rightarrow> bool \<times> bool \<Rightarrow> goval \<Rightarrow> registry_client \<Rightarrow> (registry_client, unit) run" where
  "discoverAndRegister discovered oks node s =
     (let s0 = s\<lparr> monitoringRegistry := True \<rparr>;
          url = (case discovered of Some u \<Rightarrow> u | None \<Rightarrow> registryURL s);
          s1 = (case discovered of
                  Some u \<Rightarrow> s0\<lparr> registryURL := u, currentRegistryURL := u \<rparr>
                | None \<Rightarrow> s0\<lparr> currentRegistryURL := [] \<rparr>) in
      if url = [] then Done (stay_peer s1) ()
      else run_bind (registerWithRegistry oks node url s1) (\<lambda>s ok.
        if \<not> ok then Done (stay_peer s) ()
        else Done ((setPeerToPeerMode False (set_registered True s))
          \<lparr> registryResolved := (case registryResolved s of None \<Rightarrow> Some url | Some u \<Rightarrow> Some u),
            heartbeat_on := True, monitor_on := True \<rparr>) ()))"

subsection \<open>Monitor and heartbeat\<close>

definition monitor_tick ::
  "string option \<Rightarrow> bool \<times> bool \<Rightarrow> goval \<Rightarrow> registry_client \<Rightarrow> (registry_client, unit) run" where
  "monitor_tick discovered oks node s =
     (if \<not> monitoringRegistry s then Done (s\<lparr> monitor_on := False \<rparr>) ()
      else (case discovered of
          None \<Rightarrow> Done s ()
        | Some newURL \<Rightarrow>
            if newURL \<noteq> currentRegistryURL s
            then run_bind (registerWithRegistry oks node newURL s) (\<lambda>s _. Done s ())
            else Done s ()))"

definition rediscoverAndReregister ::
  "string option \<Rightarrow> bool \<times> bool \<Rightarrow> goval \<Rightarrow> registry_client \<Rightarrow> (registry_client, unit) run" where
  "rediscoverAndReregister discovered oks node s =
     (case discovered of
        None \<Rightarrow> Done (s\<lparr> monitoringRegistry := False \<rparr>) ()
      | Some newURL \<Rightarrow>
          run_bind (registerWithRegistry oks node newURL
            (s\<lparr> currentRegistryURL := newURL, registryURL := newURL, monitoringRegistry := True \<rparr>)) (\<lambda>s _. Done s ()))"

text \<open>The outcome of a heartbeat: no request could be made, it was not answered, or its status.\<close>

datatype heartbeat = NoRequest | NoAnswer | Status int

definition performHeartbeat ::
  "heartbeat \<Rightarrow> string option \<Rightarrow> bool \<times> bool \<Rightarrow> goval \<Rightarrow> registry_client \<Rightarrow> (registry_client, unit) run" where
  "performHeartbeat h discovered oks node s =
     (case h of
        NoRequest \<Rightarrow> Done s ()
      | NoAnswer \<Rightarrow> rediscoverAndReregister discovered oks node s
      | Status c \<Rightarrow>
          if c = 200 then Done s ()
          else if c = 404 \<or> c = 410 then rediscoverAndReregister discovered oks node s
          else Done s ())"

text \<open>
  What can happen after the start: a heartbeat, a tick of the monitor, an operation of the node that leaves the
  registration alone, and the end.
\<close>

inductive registry_step :: "registry_client \<Rightarrow> registry_client \<Rightarrow> bool" where
  heartbeat: "heartbeat_on s \<Longrightarrow> performHeartbeat h discovered oks node s = Done s' () \<Longrightarrow> registry_step s s'"
| monitor: "monitor_on s \<Longrightarrow> monitor_tick discovered oks node s = Done s' () \<Longrightarrow> registry_step s s'"
| other: "registered n = registered (rg_node s) \<Longrightarrow> peerToPeerMode n = peerToPeerMode (rg_node s) \<Longrightarrow>
    registry_step s (s\<lparr> rg_node := n \<rparr>)"
| ending: "registry_step s (s\<lparr> heartbeat_on := False, monitor_on := False, rg_node := (rg_node s)\<lparr> isRunning := False \<rparr> \<rparr>)"

subsection \<open>Polling\<close>

text \<open>
  The nodes the registry lists, when it answers; the events put into the channel. The two operations run on one
  goroutine.
\<close>

definition GetNodes :: "goval list option \<Rightarrow> nmos_state \<Rightarrow> (nmos_state, goval list option) run" where
  "GetNodes answer s =
     (if \<not> isRunning s then Done s None
      else (case answer of
          None \<Rightarrow> Done s None
        | Some ns \<Rightarrow> run_bind (mu_Lock s) (\<lambda>s _. run_bind (mu_Unlock (s\<lparr> nodes := ns \<rparr>)) (\<lambda>s _. Done s (Some ns)))))"

definition pollEvents :: "goval list option \<Rightarrow> nmos_state \<Rightarrow> (nmos_state, (nat \<times> nat) list) run" where
  "pollEvents answer s =
     run_bind (GetNodes answer s) (\<lambda>s ns.
       case ns of
         None \<Rightarrow> Done s []
       | Some ns \<Rightarrow> run_bind (mu_RLock s) (\<lambda>s _.
           let currentCount = length (nodes s) in
           run_bind (mu_RUnlock s) (\<lambda>s _.
             if length ns \<noteq> currentCount
             then run_bind (mu_Lock s) (\<lambda>s _. run_bind (mu_Unlock (s\<lparr> nodes := ns \<rparr>)) (\<lambda>s _. Done s [(currentCount, length ns)]))
             else Done s [])))"

subsection \<open>Laws\<close>

text \<open>What a registration leaves.\<close>

lemma RegisterNode_refused:
  assumes "mu s = Unlocked" "isRunning s"
  shows "RegisterNode False node s = Done (s\<lparr> posts := posts s @ [(''node'', node)] \<rparr>) False"
  using assms by (simp add: RegisterNode_def Let_def registerResourceToRegistry_def toSingular_def)

lemma RegisterNode_keeps:
  assumes "RegisterNode ok node s = Done s' a"
  shows "registered s' = registered s \<and> peerToPeerMode s' = peerToPeerMode s \<and> isRunning s' = isRunning s \<and> resources s' = resources s"
  using assms by (auto simp: RegisterNode_def Let_def registerResourceToRegistry_def mu_Lock_def mu_Unlock_def split: if_split_asm)

lemma reRegisterAll_keeps:
  assumes "reRegisterAll ok node s = Done s' a"
  shows "registered s' = registered s \<and> peerToPeerMode s' = peerToPeerMode s \<and> isRunning s' = isRunning s \<and> resources s' = resources s"
proof (cases "RegisterNode ok node s")
  case (Done s1 b)
  with assms RegisterNode_keeps [OF Done] show ?thesis unfolding reRegisterAll_def fold_register_types
    by (auto simp: mu_RLock_def mu_RUnlock_def split: if_split_asm lock.splits)
qed (use assms in \<open>simp_all add: reRegisterAll_def\<close>)

lemma on_node_Done: "on_node f s = Done s' a \<longleftrightarrow> (\<exists>n. f (rg_node s) = Done n a \<and> s' = s\<lparr> rg_node := n \<rparr>)"
  by (auto simp: on_node_def split: run.splits)

lemma register_keeps:
  assumes "registerWithRegistry oks node url s = Done s' ok"
  shows "registered (rg_node s') = registered (rg_node s) \<and> peerToPeerMode (rg_node s') = peerToPeerMode (rg_node s) \<and>
    heartbeat_on s' = heartbeat_on s \<and> monitor_on s' = monitor_on s \<and> monitoringRegistry s' = monitoringRegistry s \<and>
    isRunning (rg_node s') = isRunning (rg_node s) \<and> resources (rg_node s') = resources (rg_node s)"
proof -
  let ?s = "s\<lparr> registryURL := url, currentRegistryURL := url \<rparr>"
  from assms obtain s1 b where s1: "on_node (RegisterNode (fst oks) node) ?s = Done s1 b"
    "(if b then \<exists>c. on_node (reRegisterAll (snd oks) node) s1 = Done s' c else s' = s1)"
    unfolding registerWithRegistry_def by (cases "on_node (RegisterNode (fst oks) node) ?s";
      cases "on_node (reRegisterAll (snd oks) node) (case on_node (RegisterNode (fst oks) node) ?s of Done s1 b \<Rightarrow> s1 | _ \<Rightarrow> s)")
      (auto split: if_split_asm)
  from s1(1) have "registered (rg_node s1) = registered (rg_node s) \<and> peerToPeerMode (rg_node s1) = peerToPeerMode (rg_node s) \<and>
      heartbeat_on s1 = heartbeat_on s \<and> monitor_on s1 = monitor_on s \<and> monitoringRegistry s1 = monitoringRegistry s \<and>
      isRunning (rg_node s1) = isRunning (rg_node s) \<and> resources (rg_node s1) = resources (rg_node s)"
    by (auto simp: on_node_Done dest: RegisterNode_keeps)
  with s1(2) show ?thesis by (auto simp: on_node_Done split: if_split_asm dest: reRegisterAll_keeps)
qed

lemma register_accepted:
  assumes "mu (rg_node s) = Unlocked" "isRunning (rg_node s)"
  obtains s' where "registerWithRegistry (True, True) node url s = Done s' True" "registryURL s' = url" "currentRegistryURL s' = url"
    "mu (rg_node s') = Unlocked"
    "posts (rg_node s') = posts (rg_node s) @ (''node'', node) # (''node'', node) #
       concat (map (\<lambda>t. map (Pair (toSingular t)) (resources (rg_node s) t)) resourceOrder)"
proof -
  obtain n1 where n1: "RegisterNode True node (rg_node s) = Done n1 True" "mu n1 = Unlocked" "resources n1 = resources (rg_node s)"
    "posts n1 = posts (rg_node s) @ [(''node'', node)]"
    using assms by (rule RegisterNode_accepted)
  with RegisterNode_keeps [OF n1(1)] assms(2) have "isRunning n1" by simp
  with n1(2) obtain n2 where n2: "RegisterNode True node n1 = Done n2 True" "mu n2 = Unlocked" "resources n2 = resources n1"
    "posts n2 = posts n1 @ [(''node'', node)]"
    by (rule RegisterNode_accepted)
  have "\<exists>s'. registerWithRegistry (True, True) node url s = Done s' True \<and> registryURL s' = url \<and> currentRegistryURL s' = url \<and>
      mu (rg_node s') = Unlocked \<and> posts (rg_node s') = posts (rg_node s) @ (''node'', node) # (''node'', node) #
        concat (map (\<lambda>t. map (Pair (toSingular t)) (resources (rg_node s) t)) resourceOrder)"
    by (simp add: registerWithRegistry_def on_node_def n1 n2 reRegisterAll_def fold_register_types lock_free)
  with that show thesis by blast
qed

lemma register_returns:
  assumes "mu (rg_node s) = Unlocked" "isRunning (rg_node s)"
  obtains s' where "registerWithRegistry (ok, b) node url s = Done s' ok" "mu (rg_node s') = Unlocked"
    "registryURL s' = url" "currentRegistryURL s' = url"
proof (cases ok)
  case False
  have "\<exists>s'. registerWithRegistry (False, b) node url s = Done s' False \<and> mu (rg_node s') = Unlocked \<and>
      registryURL s' = url \<and> currentRegistryURL s' = url"
    using assms by (simp add: registerWithRegistry_def on_node_def RegisterNode_refused)
  with False show thesis by (auto intro: that)
next
  case True
  obtain n1 where n1: "RegisterNode True node (rg_node s) = Done n1 True" "mu n1 = Unlocked" "resources n1 = resources (rg_node s)"
    using assms by (rule RegisterNode_accepted)
  with RegisterNode_keeps [OF n1(1)] assms(2) have run: "isRunning n1" by simp
  show thesis
  proof (cases b)
    case True
    from register_accepted [OF assms, of node url] obtain s' where "registerWithRegistry (True, True) node url s = Done s' True"
      "registryURL s' = url" "currentRegistryURL s' = url" "mu (rg_node s') = Unlocked" by metis
    with \<open>ok\<close> True that show thesis by simp
  next
    case False
    have "\<exists>s'. registerWithRegistry (True, False) node url s = Done s' True \<and> mu (rg_node s') = Unlocked \<and>
        registryURL s' = url \<and> currentRegistryURL s' = url"
      using RegisterNode_refused [OF n1(2) run]
      by (simp add: registerWithRegistry_def on_node_def n1 reRegisterAll_def)
    with \<open>ok\<close> False show thesis by (auto intro: that)
  qed
qed

subsection \<open>The start\<close>

text \<open>
  The start of the node returns whatever discovery finds and the registry answers. The node counts as registered, with
  the heartbeat and the monitor running, exactly when the registry takes it; in the other case it is in
  peer-to-peer mode and starts neither.
\<close>

lemma registration_outcome:
  assumes "mu (rg_node s) = Unlocked" "isRunning (rg_node s)"
  shows "\<exists>s'. discoverAndRegister discovered (ok, b) node s = Done s' () \<and> mu (rg_node s') = Unlocked \<and>
    isRunning (rg_node s') \<and> resources (rg_node s') = resources (rg_node s) \<and>
    (let url = (case discovered of Some u \<Rightarrow> u | None \<Rightarrow> registryURL s); taken = (url \<noteq> [] \<and> ok) in
     registered (rg_node s') = taken \<and> peerToPeerMode (rg_node s') = (\<not> taken) \<and> monitoringRegistry s' = taken \<and>
     heartbeat_on s' = (taken \<or> heartbeat_on s) \<and> monitor_on s' = (taken \<or> monitor_on s) \<and>
     (taken \<longrightarrow> registryURL s' = url \<and> currentRegistryURL s' = url))"
proof -
  let ?s0 = "s\<lparr> monitoringRegistry := True \<rparr>"
  define url where "url = (case discovered of Some u \<Rightarrow> u | None \<Rightarrow> registryURL s)"
  define s1 where "s1 = (case discovered of Some u \<Rightarrow> ?s0\<lparr> registryURL := u, currentRegistryURL := u \<rparr>
    | None \<Rightarrow> ?s0\<lparr> currentRegistryURL := [] \<rparr>)"
  have s1: "rg_node s1 = rg_node s" "heartbeat_on s1 = heartbeat_on s" "monitor_on s1 = monitor_on s" "monitoringRegistry s1"
    by (simp_all add: s1_def split: option.split)
  have unfold: "discoverAndRegister discovered (ok, b) node s =
      (if url = [] then Done (stay_peer s1) ()
       else run_bind (registerWithRegistry (ok, b) node url s1) (\<lambda>s ok.
         if \<not> ok then Done (stay_peer s) ()
         else Done ((setPeerToPeerMode False (set_registered True s))
           \<lparr> registryResolved := (case registryResolved s of None \<Rightarrow> Some url | Some u \<Rightarrow> Some u),
             heartbeat_on := True, monitor_on := True \<rparr>) ()))"
    unfolding discoverAndRegister_def Let_def url_def s1_def by (rule refl)
  from assms s1(1) have "mu (rg_node s1) = Unlocked" "isRunning (rg_node s1)" by simp_all
  then obtain s2 where s2: "registerWithRegistry (ok, b) node url s1 = Done s2 ok" "mu (rg_node s2) = Unlocked"
    "registryURL s2 = url" "currentRegistryURL s2 = url" by (rule register_returns)
  from register_keeps [OF s2(1)] s2 s1 assms show ?thesis
    unfolding unfold url_def [symmetric] by (simp add: stay_peer_def setPeerToPeerMode_def set_registered_def Let_def)
qed

definition running_node :: nmos_state where
  "running_node = empty_node\<lparr> isRunning := True, resources := (\<lambda>_. [])(''devices'' := [VMap [(''id'', VStr ''d1'')]]) \<rparr>"

lemma registration_outcome_witness:
  "\<exists>s'. discoverAndRegister None (True, True) (VMap []) (new_client running_node) = Done s' () \<and> registered (rg_node s') \<and>
     registryURL s' = ''http://localhost:8000''"
proof -
  have "mu (rg_node (new_client running_node)) = Unlocked" "isRunning (rg_node (new_client running_node))"
    by (simp_all add: new_client_def running_node_def empty_node_def)
  from registration_outcome [OF this, of None True True "VMap []"] show ?thesis by (auto simp: new_client_def Let_def)
qed

subsection \<open>What stays\<close>

text \<open>No step starts a goroutine, and none changes whether the node counts as registered or is in peer-to-peer mode.\<close>

lemma rediscover_keeps:
  assumes "rediscoverAndReregister discovered oks node s = Done s' a"
  shows "registered (rg_node s') = registered (rg_node s) \<and> peerToPeerMode (rg_node s') = peerToPeerMode (rg_node s) \<and>
    heartbeat_on s' = heartbeat_on s \<and> monitor_on s' = monitor_on s \<and> monitoringRegistry s' = (discovered \<noteq> None)"
proof (cases discovered)
  case None
  with assms show ?thesis by (auto simp: rediscoverAndReregister_def)
next
  case (Some url)
  let ?s = "s\<lparr> currentRegistryURL := url, registryURL := url, monitoringRegistry := True \<rparr>"
  from assms Some obtain b where "registerWithRegistry oks node url ?s = Done s' b"
    by (cases "registerWithRegistry oks node url ?s") (simp_all add: rediscoverAndReregister_def)
  from register_keeps [OF this] Some show ?thesis by simp
qed

lemma heartbeat_keeps:
  assumes "performHeartbeat h discovered oks node s = Done s' a"
  shows "registered (rg_node s') = registered (rg_node s) \<and> peerToPeerMode (rg_node s') = peerToPeerMode (rg_node s) \<and>
    heartbeat_on s' = heartbeat_on s \<and> monitor_on s' = monitor_on s"
  using assms rediscover_keeps [of discovered oks node s s' a]
  by (auto simp: performHeartbeat_def split: heartbeat.splits if_split_asm)

lemma monitor_keeps:
  assumes "monitor_tick discovered oks node s = Done s' a"
  shows "registered (rg_node s') = registered (rg_node s) \<and> peerToPeerMode (rg_node s') = peerToPeerMode (rg_node s) \<and>
    heartbeat_on s' = heartbeat_on s \<and> (monitor_on s' \<longrightarrow> monitor_on s)"
proof (cases "\<exists>url. monitoringRegistry s \<and> discovered = Some url \<and> url \<noteq> currentRegistryURL s")
  case True
  then obtain url b where "registerWithRegistry oks node url s = Done s' b"
    using assms by (auto simp: monitor_tick_def elim!: run_bind.elims)
  from register_keeps [OF this] show ?thesis by simp
next
  case False
  with assms show ?thesis by (auto simp: monitor_tick_def split: option.splits if_split_asm)
qed

lemma step_keeps:
  "registry_step s s' \<Longrightarrow> registered (rg_node s') = registered (rg_node s) \<and> peerToPeerMode (rg_node s') = peerToPeerMode (rg_node s) \<and>
    (heartbeat_on s' \<longrightarrow> heartbeat_on s) \<and> (monitor_on s' \<longrightarrow> monitor_on s)"
  by (induction rule: registry_step.induct) (auto dest: heartbeat_keeps monitor_keeps)

lemma steps_keep:
  "registry_step\<^sup>*\<^sup>* s s' \<Longrightarrow> registered (rg_node s') = registered (rg_node s) \<and> peerToPeerMode (rg_node s') = peerToPeerMode (rg_node s) \<and>
    (heartbeat_on s' \<longrightarrow> heartbeat_on s) \<and> (monitor_on s' \<longrightarrow> monitor_on s)"
  by (induction rule: rtranclp_induct) (auto dest: step_keeps)

text \<open>
  A node whose first registration fails is never registered: whatever happens later, it stays unregistered and in
  peer-to-peer mode, and neither the heartbeat nor the monitor ever runs.
\<close>

lemma failed_registration_final:
  assumes "discoverAndRegister discovered oks node (new_client n) = Done s ()" "\<not> registered (rg_node s)" "mu n = Unlocked" "isRunning n"
    and "registry_step\<^sup>*\<^sup>* s t"
  shows "\<not> registered (rg_node t) \<and> peerToPeerMode (rg_node t) \<and> \<not> heartbeat_on t \<and> \<not> monitor_on t"
proof -
  have "mu (rg_node (new_client n)) = Unlocked" "isRunning (rg_node (new_client n))" using assms(3,4) by (simp_all add: new_client_def)
  from registration_outcome [OF this, of discovered "fst oks" "snd oks" node] assms(1,2)
  have "peerToPeerMode (rg_node s) \<and> \<not> heartbeat_on s \<and> \<not> monitor_on s" by (auto simp: Let_def new_client_def)
  with steps_keep [OF assms(5)] assms(2) show ?thesis by blast
qed

lemma failed_registration_final_witness:
  "\<exists>s t. discoverAndRegister None (False, True) (VMap []) (new_client running_node) = Done s () \<and>
     registry_step\<^sup>*\<^sup>* s t \<and> \<not> heartbeat_on t"
proof -
  have n: "mu running_node = Unlocked" "isRunning running_node" by (simp_all add: running_node_def empty_node_def)
  then have "mu (rg_node (new_client running_node)) = Unlocked" "isRunning (rg_node (new_client running_node))"
    by (simp_all add: new_client_def)
  from registration_outcome [OF this, of None False True "VMap []"] obtain s
    where s: "discoverAndRegister None (False, True) (VMap []) (new_client running_node) = Done s ()" "\<not> registered (rg_node s)"
    by (auto simp: Let_def)
  let ?t = "s\<lparr> rg_node := rg_node s \<rparr>"
  have "registry_step\<^sup>*\<^sup>* s ?t" by (rule r_into_rtranclp, rule registry_step.other) simp_all
  with failed_registration_final [OF s n this] s show ?thesis by blast
qed

text \<open>
  When a heartbeat fails and no registry is found then, the next tick of the monitor ends it for good: no later
  heartbeat, which may find a registry again, starts it again. The node still counts as registered and does not enter
  peer-to-peer mode.
\<close>

lemma lost_registry_ends_monitor:
  assumes "h = NoAnswer \<or> h = Status 404 \<or> h = Status 410" "performHeartbeat h None oks node s = Done s1 ()"
    and "monitor_tick discovered oks' node s1 = Done s2 ()" "registry_step\<^sup>*\<^sup>* s2 t"
  shows "\<not> monitor_on t \<and> registered (rg_node t) = registered (rg_node s) \<and> peerToPeerMode (rg_node t) = peerToPeerMode (rg_node s)"
proof -
  have "rediscoverAndReregister None oks node s = Done s1 ()" using assms(1,2) by (auto simp: performHeartbeat_def)
  from rediscover_keeps [OF this] have "\<not> monitoringRegistry s1" by simp
  with assms(3) have "\<not> monitor_on s2" by (auto simp: monitor_tick_def)
  with steps_keep [OF assms(4)] monitor_keeps [OF assms(3)] heartbeat_keeps [OF assms(2)] show ?thesis by auto
qed

lemma lost_registry_ends_monitor_witness:
  "let s = (new_client running_node)\<lparr> monitoringRegistry := True, heartbeat_on := True, monitor_on := True \<rparr> in
   \<exists>s1 s2 t. performHeartbeat NoAnswer None (True, True) (VMap []) s = Done s1 () \<and>
     monitor_tick None (True, True) (VMap []) s1 = Done s2 () \<and> heartbeat_on s2 \<and>
     performHeartbeat NoAnswer (Some ''http://r:80'') (True, True) (VMap []) s2 = Done t () \<and> monitoringRegistry t \<and> \<not> monitor_on t"
proof -
  let ?s = "(new_client running_node)\<lparr> monitoringRegistry := True, heartbeat_on := True, monitor_on := True \<rparr>"
  let ?s1 = "?s\<lparr> monitoringRegistry := False \<rparr>" and ?s2 = "?s\<lparr> monitoringRegistry := False, monitor_on := False \<rparr>"
  have s1: "performHeartbeat NoAnswer None (True, True) (VMap []) ?s = Done ?s1 ()"
    by (simp add: performHeartbeat_def rediscoverAndReregister_def)
  have s2: "monitor_tick None (True, True) (VMap []) ?s1 = Done ?s2 ()" by (simp add: monitor_tick_def)
  let ?u = "?s2\<lparr> currentRegistryURL := ''http://r:80'', registryURL := ''http://r:80'', monitoringRegistry := True \<rparr>"
  have "mu (rg_node ?u) = Unlocked" "isRunning (rg_node ?u)" by (simp_all add: new_client_def running_node_def empty_node_def)
  then obtain t where "registerWithRegistry (True, True) (VMap []) ''http://r:80'' ?u = Done t True"
    by (rule register_accepted) (rule that)
  then have h: "performHeartbeat NoAnswer (Some ''http://r:80'') (True, True) (VMap []) ?s2 = Done t ()"
    by (simp add: performHeartbeat_def rediscoverAndReregister_def)
  then have "monitoringRegistry t" by (auto simp: performHeartbeat_def dest: rediscover_keeps)
  moreover have "registry_step\<^sup>*\<^sup>* ?s2 t"
    by (rule r_into_rtranclp, rule registry_step.heartbeat [OF _ h]) simp
  note lost_registry_ends_monitor [OF disjI1 [OF refl] s1 s2 this]
  ultimately show ?thesis using s1 s2 h by (auto simp: Let_def)
qed



text \<open>
  The polling of the registry never reports a change: it compares the number of nodes the registry lists with that of
  the list it has just stored.
\<close>

lemma poll_never_reports:
  assumes "mu s = Unlocked"
  shows "\<exists>s'. pollEvents answer s = Done s' [] \<and> mu s' = Unlocked \<and>
    nodes s' = (case answer of Some ns \<Rightarrow> if isRunning s then ns else nodes s | None \<Rightarrow> nodes s)"
  using assms by (cases answer) (simp_all add: pollEvents_def GetNodes_def lock_free Let_def)

lemma poll_never_reports_witness:
  "\<exists>s'. pollEvents (Some [VNil, VNil]) running_node = Done s' [] \<and> length (nodes running_node) = 0 \<and> length (nodes s') = 2"
proof -
  have "mu running_node = Unlocked" by (simp add: running_node_def empty_node_def)
  from poll_never_reports [OF this, of "Some [VNil, VNil]"] show ?thesis by (auto simp: running_node_def empty_node_def)
qed

end
