(* ===== verification/Sql_Table.thy ===== *)
theory Sql_Table
  imports Nmos_Resources "HOL-Library.List_Lexorder" "HOL-Library.Char_ord"
begin

text \<open>
  Tables of the database library as \<open>internal/infrastructure/database.go\<close> uses them: rows, the four kinds of
  statement its operations execute, and the JSON texts it keeps in columns.

  A column of JSON text holds the document, the empty text being \<open>None\<close>. Strings are taken to be valid UTF-8.
  Foreign keys are declared by the schema and, by default, not enforced.
\<close>

subsection \<open>Rows and statements\<close>

datatype sqlval = SNull | SText string | SInt int | SJson "json option" | STime int

type_synonym row = "(string \<times> sqlval) list"

definition column :: "string \<Rightarrow> row \<Rightarrow> sqlval" where
  "column c r = (case map_of r c of None \<Rightarrow> SNull | Some v \<Rightarrow> v)"

text \<open>\<open>SET c = excluded.c\<close> for the listed columns.\<close>

definition set_columns :: "string list \<Rightarrow> row \<Rightarrow> row \<Rightarrow> row" where
  "set_columns cs new r = map (\<lambda>(c, v). (c, if c \<in> set cs then column c new else v)) r"

text \<open>\<open>INSERT INTO t (...) VALUES (...) ON CONFLICT(key) DO UPDATE SET c = excluded.c, ...\<close>\<close>

fun sql_upsert :: "string \<Rightarrow> string list \<Rightarrow> row \<Rightarrow> row list \<Rightarrow> row list" where
  "sql_upsert key cs new [] = [new]"
| "sql_upsert key cs new (r # rs) =
     (if column key r = column key new then set_columns cs new r # rs else r # sql_upsert key cs new rs)"

text \<open>\<open>UPDATE t SET ... WHERE key = v\<close>, \<open>DELETE FROM t WHERE key = v\<close>, \<open>SELECT ... WHERE c = v\<close>\<close>

definition sql_update :: "string \<Rightarrow> sqlval \<Rightarrow> row \<Rightarrow> row list \<Rightarrow> row list" where
  "sql_update key v new t = map (\<lambda>r. if column key r = v then set_columns (map fst new) new r else r) t"

definition sql_delete :: "string \<Rightarrow> sqlval \<Rightarrow> row list \<Rightarrow> row list" where
  "sql_delete key v t = filter (\<lambda>r. column key r \<noteq> v) t"

definition sql_where :: "string \<Rightarrow> sqlval \<Rightarrow> row list \<Rightarrow> row list" where
  "sql_where c v t = filter (\<lambda>r. column c r = v) t"

definition time_of :: "sqlval \<Rightarrow> int" where
  "time_of v = (case v of STime t \<Rightarrow> t | _ \<Rightarrow> 0)"

text \<open>
  \<open>ORDER BY created_at DESC\<close>; the order of rows with equal times is \<open>ties\<close>. Times are kept as texts, whose order is that of the
  times as long as they are of one time zone.
\<close>

definition newest_first :: "(row list \<Rightarrow> row list) \<Rightarrow> row list \<Rightarrow> row list" where
  "newest_first ties t = sort_key (\<lambda>r. - time_of (column ''created_at'' r)) (ties t)"

text \<open>\<open>QueryRow\<close>: the first row, if there is one.\<close>

fun first_row :: "row list \<Rightarrow> row option" where
  "first_row [] = None"
| "first_row (r # rs) = Some r"

text \<open>\<open>Scan\<close> into a string, a number, a time, a \<open>sql.NullString\<close> whose text is read, and one whose validity is.\<close>

fun scan_string :: "sqlval \<Rightarrow> string" where
  "scan_string (SText s) = s"
| "scan_string v = []"

fun scan_int :: "sqlval \<Rightarrow> int" where
  "scan_int (SInt i) = i"
| "scan_int v = 0"

fun scan_json :: "sqlval \<Rightarrow> json option" where
  "scan_json (SJson j) = j"
| "scan_json v = None"

fun scan_null_string :: "sqlval \<Rightarrow> string option" where
  "scan_null_string (SText s) = Some s"
| "scan_null_string v = None"

fun scan_null_int :: "sqlval \<Rightarrow> int option" where
  "scan_null_int (SInt i) = Some i"
| "scan_null_int v = None"

subsection \<open>JSON texts\<close>

text \<open>
  The \<open>float64\<close> nearest to a number, and the number a \<open>float64\<close> is written as: \<open>None\<close> when it is not finite,
  \<open>Some None\<close> when it has a fraction or an exponent.
\<close>

record json_env =
  je_float :: "int \<Rightarrow> 64 word"
  je_whole :: "64 word \<Rightarrow> int option option"

lemma opt_map_cong [fundef_cong]:
  "xs = ys \<Longrightarrow> (\<And>x. x \<in> set ys \<Longrightarrow> f x = g x) \<Longrightarrow> opt_map f xs = opt_map g ys"
  by (induction ys arbitrary: xs) (simp_all split: option.split)

text \<open>\<open>json.Marshal\<close>: maps are written with their keys sorted. The last equation covers values no caller passes.\<close>

fun json_of :: "json_env \<Rightarrow> goval \<Rightarrow> json option" where
  "json_of e VNil = Some JNull"
| "json_of e (VBool b) = Some (JBool b)"
| "json_of e (VInt i) = Some (JNum (Some i) (je_float e i))"
| "json_of e (VFloat w) = map_option (\<lambda>i. JNum i w) (je_whole e w)"
| "json_of e (VStr s) = Some (JStr s)"
| "json_of e (VArr xs) = map_option JArr (opt_map (json_of e) xs)"
| "json_of e (VMap kvs) = map_option (JObj \<circ> sort_key fst) (opt_map (\<lambda>(k, v). map_option (Pair k) (json_of e v)) kvs)"
| "json_of e (VInts is) = Some (JArr (map (\<lambda>i. JNum (Some i) (je_float e i)) is))"
| "json_of e (VStrs ss) = Some (JArr (map JStr ss))"
| "json_of e (VMaps ms) =
     map_option JArr (opt_map (\<lambda>m. map_option (JObj \<circ> sort_key fst) (opt_map (\<lambda>(k, v). map_option (Pair k) (json_of e v)) m)) ms)"
| "json_of e (VIntMap m) = Some (JObj (sort_key fst (map (\<lambda>(k, i). (k, JNum (Some i) (je_float e i))) m)))"
| "json_of e v = None"

text \<open>The error of \<open>json.Marshal\<close> is dropped, which leaves the empty text.\<close>

definition jsonMarshal :: "json_env \<Rightarrow> goval \<Rightarrow> sqlval" where
  "jsonMarshal e v = SJson (json_of e v)"

text \<open>
  \<open>json.Unmarshal\<close> into a nil map or slice; its error is dropped. A value of another kind leaves the target nil, and an
  element of another kind is the zero value.
\<close>

definition jsonUnmarshalMap :: "json option \<Rightarrow> (string \<times> goval) list option" where
  "jsonUnmarshalMap t =
     (case t of Some (JObj kvs) \<Rightarrow> Some (fold (\<lambda>(k, v) m. map_put k v m) (map (\<lambda>(k, v). (k, any_of_json v)) kvs) []) | _ \<Rightarrow> None)"

definition string_or_zero :: "json \<Rightarrow> string" where
  "string_or_zero j = (case dec_string j [] of Some s \<Rightarrow> s | None \<Rightarrow> [])"

definition int_or_zero :: "json \<Rightarrow> int" where
  "int_or_zero j = (case dec_int j 0 of Some i \<Rightarrow> i | None \<Rightarrow> 0)"

definition jsonUnmarshalSlice :: "json option \<Rightarrow> string list option" where
  "jsonUnmarshalSlice t = (case t of Some (JArr xs) \<Rightarrow> Some (map string_or_zero xs) | _ \<Rightarrow> None)"

definition jsonUnmarshalIntSlice :: "json option \<Rightarrow> int list option" where
  "jsonUnmarshalIntSlice t = (case t of Some (JArr xs) \<Rightarrow> Some (map int_or_zero xs) | _ \<Rightarrow> None)"

definition jsonUnmarshalInterfaceSlice :: "json option \<Rightarrow> goval list option" where
  "jsonUnmarshalInterfaceSlice t = (case t of Some (JArr xs) \<Rightarrow> Some (map any_of_json xs) | _ \<Rightarrow> None)"

definition jsonUnmarshalIntMap :: "json option \<Rightarrow> (string \<times> int) list option" where
  "jsonUnmarshalIntMap t =
     (case t of Some (JObj kvs) \<Rightarrow> Some (fold (\<lambda>(k, j) m. map_put k (int_or_zero j) m) kvs []) | _ \<Rightarrow> None)"

definition jsonUnmarshalStringIntMap :: "json option \<Rightarrow> (string \<times> int) list option" where
  "jsonUnmarshalStringIntMap = jsonUnmarshalIntMap"

text \<open>A key that is no number is skipped.\<close>

definition jsonUnmarshalIntIntMap :: "json option \<Rightarrow> (int \<times> int) list option" where
  "jsonUnmarshalIntIntMap t =
     (case t of Some (JObj kvs) \<Rightarrow>
        Some (fold (\<lambda>(k, j) m. case atoi k of None \<Rightarrow> m | Some i \<Rightarrow> map_put i (int_or_zero j) m) kvs [])
      | _ \<Rightarrow> None)"

definition string_map :: "json \<Rightarrow> (string \<times> string) list option" where
  "string_map j = (case j of JObj kvs \<Rightarrow> Some (fold (\<lambda>(k, j) m. map_put k (string_or_zero j) m) kvs []) | _ \<Rightarrow> None)"

definition jsonUnmarshalStringStringMapMap :: "json option \<Rightarrow> (int \<times> (string \<times> string) list option) list option" where
  "jsonUnmarshalStringStringMapMap t =
     (case t of Some (JObj kvs) \<Rightarrow>
        Some (fold (\<lambda>(k, j) m. case atoi k of None \<Rightarrow> m | Some i \<Rightarrow> map_put i (string_map j) m) kvs [])
      | _ \<Rightarrow> None)"

text \<open>The slice of maps of a sender or a receiver, read in place; an element that is no object is a nil map.\<close>

definition unmarshal_maps :: "json option \<Rightarrow> (string \<times> goval) list list option" where
  "unmarshal_maps t =
     (case t of Some (JArr xs) \<Rightarrow>
        Some (map (\<lambda>j. case jsonUnmarshalMap (Some j) of Some m \<Rightarrow> m | None \<Rightarrow> []) xs) | _ \<Rightarrow> None)"

text \<open>Maps with numbers as keys, as \<open>json.Marshal\<close> sees them.\<close>

definition int_keys :: "(int \<times> int) list \<Rightarrow> (string \<times> int) list" where
  "int_keys m = map (\<lambda>(k, v). (itoa k, v)) m"

definition string_map_val :: "(string \<times> string) list option \<Rightarrow> goval" where
  "string_map_val m = (case m of None \<Rightarrow> VNil | Some kvs \<Rightarrow> VMap (map (\<lambda>(k, v). (k, VStr v)) kvs))"

definition string_map_map_val :: "(int \<times> (string \<times> string) list option) list option \<Rightarrow> goval" where
  "string_map_map_val m = (case m of None \<Rightarrow> VNil | Some kvs \<Rightarrow> VMap (map (\<lambda>(k, v). (itoa k, string_map_val v)) kvs))"

end
