(* ===== verification/Database.thy ===== *)
theory Database
  imports Sql_Table
begin

text \<open>
  The operations of \<open>internal/infrastructure/database.go\<close>: one record for each struct, its row, the columns an
  upsert sets on a conflict and the scan of a row, and one definition for each operation, over tables
  of rows and the lock. A time is in nanoseconds, the zero time being 0.
\<close>

subsection \<open>Structs\<close>

record Device =
  Device_ID :: string
  Device_Version :: string
  Device_Label :: string
  Device_Description :: string
  Device_NodeID :: string
  Device_Tags :: "(string \<times> goval) list option"
  Device_Senders :: "string list option"
  Device_Receivers :: "string list option"
  Device_Controls :: "goval list option"
  Device_CreatedAt :: int
  Device_UpdatedAt :: int

record Source =
  Source_ID :: string
  Source_Version :: string
  Source_Label :: string
  Source_Description :: string
  Source_Format :: string
  Source_DeviceID :: string
  Source_EventType :: string
  Source_Tags :: "(string \<times> goval) list option"
  Source_GrainRate :: "(string \<times> int) list option"
  Source_CreatedAt :: int
  Source_UpdatedAt :: int

record Flow =
  Flow_ID :: string
  Flow_Version :: string
  Flow_Label :: string
  Flow_Description :: string
  Flow_Format :: string
  Flow_SourceID :: string
  Flow_DeviceID :: string
  Flow_Parents :: "string list option"
  Flow_Tags :: "(string \<times> goval) list option"
  Flow_MediaType :: string
  Flow_EventType :: string
  Flow_GrainRate :: "(string \<times> int) list option"
  Flow_CreatedAt :: int
  Flow_UpdatedAt :: int

record Sender =
  Sender_ID :: string
  Sender_Version :: string
  Sender_Label :: string
  Sender_Description :: string
  Sender_DeviceID :: string
  Sender_FlowID :: string
  Sender_Transport :: string
  Sender_InterfaceBindings :: "string list option"
  Sender_ManifestHref :: "string option"
  Sender_Tags :: "(string \<times> goval) list option"
  Sender_TransportParams :: "(string \<times> goval) list list option"
  Sender_CreatedAt :: int
  Sender_UpdatedAt :: int

record Receiver =
  Receiver_ID :: string
  Receiver_Version :: string
  Receiver_Label :: string
  Receiver_Description :: string
  Receiver_DeviceID :: string
  Receiver_Transport :: string
  Receiver_InterfaceBindings :: "string list option"
  Receiver_ManifestHref :: "string option"
  Receiver_Tags :: "(string \<times> goval) list option"
  Receiver_TransportParams :: "(string \<times> goval) list list option"
  Receiver_CreatedAt :: int
  Receiver_UpdatedAt :: int

record ShureDevice =
  ShureDevice_Address :: string
  ShureDevice_DeviceID :: string
  ShureDevice_DeviceOID :: int
  ShureDevice_DeviceInstance :: string
  ShureDevice_ModelFamily :: string
  ShureDevice_LastSeen :: int
  ShureDevice_ParameterOIDs :: "(string \<times> int) list option"
  ShureDevice_ChannelOIDs :: "(int \<times> int) list option"
  ShureDevice_SourceIDs :: "(int \<times> (string \<times> string) list option) list option"
  ShureDevice_FlowIDs :: "(int \<times> (string \<times> string) list option) list option"
  ShureDevice_SenderIDs :: "(int \<times> (string \<times> string) list option) list option"
  ShureDevice_CreatedAt :: int
  ShureDevice_UpdatedAt :: int

record NCPObject =
  NCPObject_OID :: int
  NCPObject_ClassID :: "int list option"
  NCPObject_Role :: string
  NCPObject_Label :: string
  NCPObject_Properties :: "(string \<times> goval) list option"
  NCPObject_OwnerOID :: "int option"
  NCPObject_CreatedAt :: int
  NCPObject_UpdatedAt :: int

record IS07Event =
  IS07Event_SourceID :: string
  IS07Event_EventType :: string
  IS07Event_Data :: "(string \<times> goval) list option"
  IS07Event_Timestamp :: int
  IS07Event_UpdatedAt :: int

subsection \<open>Rows\<close>

text \<open>The values of an INSERT, the columns set on a conflict, and what is read from a row.\<close>

definition ints_opt :: "int list option \<Rightarrow> goval" where
  "ints_opt x = (case x of None \<Rightarrow> VNil | Some is \<Rightarrow> VInts is)"

definition Device_row :: "json_env \<Rightarrow> Device \<Rightarrow> row" where
  "Device_row e x =
     [(''id'', SText (Device_ID x)),
      (''version'', SText (Device_Version x)),
      (''label'', SText (Device_Label x)),
      (''description'', SText (Device_Description x)),
      (''node_id'', SText (Device_NodeID x)),
      (''tags'', jsonMarshal e (map_opt (Device_Tags x))),
      (''senders'', jsonMarshal e (str_opt (Device_Senders x))),
      (''receivers'', jsonMarshal e (str_opt (Device_Receivers x))),
      (''controls'', jsonMarshal e (array_opt (Device_Controls x))),
      (''created_at'', STime (Device_CreatedAt x)),
      (''updated_at'', STime (Device_UpdatedAt x))]"

definition Device_set :: "string list" where
  "Device_set = [''version'', ''label'', ''description'', ''node_id'', ''tags'', ''senders'', ''receivers'', ''controls'', ''updated_at'']"

definition Device_scan :: "row \<Rightarrow> Device" where
  "Device_scan r =
     \<lparr> Device_ID = scan_string (column ''id'' r),
       Device_Version = scan_string (column ''version'' r),
       Device_Label = scan_string (column ''label'' r),
       Device_Description = scan_string (column ''description'' r),
       Device_NodeID = scan_string (column ''node_id'' r),
       Device_Tags = jsonUnmarshalMap (scan_json (column ''tags'' r)),
       Device_Senders = jsonUnmarshalSlice (scan_json (column ''senders'' r)),
       Device_Receivers = jsonUnmarshalSlice (scan_json (column ''receivers'' r)),
       Device_Controls = jsonUnmarshalInterfaceSlice (scan_json (column ''controls'' r)),
       Device_CreatedAt = time_of (column ''created_at'' r),
       Device_UpdatedAt = time_of (column ''updated_at'' r) \<rparr>"

definition Source_row :: "json_env \<Rightarrow> Source \<Rightarrow> row" where
  "Source_row e x =
     [(''id'', SText (Source_ID x)),
      (''version'', SText (Source_Version x)),
      (''label'', SText (Source_Label x)),
      (''description'', SText (Source_Description x)),
      (''format'', SText (Source_Format x)),
      (''device_id'', SText (Source_DeviceID x)),
      (''event_type'', SText (Source_EventType x)),
      (''tags'', jsonMarshal e (map_opt (Source_Tags x))),
      (''grain_rate'', jsonMarshal e (int_map_opt (Source_GrainRate x))),
      (''created_at'', STime (Source_CreatedAt x)),
      (''updated_at'', STime (Source_UpdatedAt x))]"

definition Source_set :: "string list" where
  "Source_set = [''version'', ''label'', ''description'', ''format'', ''device_id'', ''event_type'', ''tags'', ''grain_rate'', ''updated_at'']"

definition Source_scan :: "row \<Rightarrow> Source" where
  "Source_scan r =
     \<lparr> Source_ID = scan_string (column ''id'' r),
       Source_Version = scan_string (column ''version'' r),
       Source_Label = scan_string (column ''label'' r),
       Source_Description = scan_string (column ''description'' r),
       Source_Format = scan_string (column ''format'' r),
       Source_DeviceID = scan_string (column ''device_id'' r),
       Source_EventType = scan_string (column ''event_type'' r),
       Source_Tags = jsonUnmarshalMap (scan_json (column ''tags'' r)),
       Source_GrainRate = jsonUnmarshalStringIntMap (scan_json (column ''grain_rate'' r)),
       Source_CreatedAt = time_of (column ''created_at'' r),
       Source_UpdatedAt = time_of (column ''updated_at'' r) \<rparr>"

definition Flow_row :: "json_env \<Rightarrow> Flow \<Rightarrow> row" where
  "Flow_row e x =
     [(''id'', SText (Flow_ID x)),
      (''version'', SText (Flow_Version x)),
      (''label'', SText (Flow_Label x)),
      (''description'', SText (Flow_Description x)),
      (''format'', SText (Flow_Format x)),
      (''source_id'', SText (Flow_SourceID x)),
      (''device_id'', SText (Flow_DeviceID x)),
      (''parents'', jsonMarshal e (str_opt (Flow_Parents x))),
      (''tags'', jsonMarshal e (map_opt (Flow_Tags x))),
      (''media_type'', SText (Flow_MediaType x)),
      (''event_type'', SText (Flow_EventType x)),
      (''grain_rate'', jsonMarshal e (int_map_opt (Flow_GrainRate x))),
      (''created_at'', STime (Flow_CreatedAt x)),
      (''updated_at'', STime (Flow_UpdatedAt x))]"

definition Flow_set :: "string list" where
  "Flow_set = [''version'', ''label'', ''description'', ''format'', ''source_id'', ''device_id'', ''parents'', ''tags'', ''media_type'', ''event_type'', ''grain_rate'', ''updated_at'']"

definition Flow_scan :: "row \<Rightarrow> Flow" where
  "Flow_scan r =
     \<lparr> Flow_ID = scan_string (column ''id'' r),
       Flow_Version = scan_string (column ''version'' r),
       Flow_Label = scan_string (column ''label'' r),
       Flow_Description = scan_string (column ''description'' r),
       Flow_Format = scan_string (column ''format'' r),
       Flow_SourceID = scan_string (column ''source_id'' r),
       Flow_DeviceID = scan_string (column ''device_id'' r),
       Flow_Parents = jsonUnmarshalSlice (scan_json (column ''parents'' r)),
       Flow_Tags = jsonUnmarshalMap (scan_json (column ''tags'' r)),
       Flow_MediaType = scan_string (column ''media_type'' r),
       Flow_EventType = scan_string (column ''event_type'' r),
       Flow_GrainRate = jsonUnmarshalStringIntMap (scan_json (column ''grain_rate'' r)),
       Flow_CreatedAt = time_of (column ''created_at'' r),
       Flow_UpdatedAt = time_of (column ''updated_at'' r) \<rparr>"

definition Sender_row :: "json_env \<Rightarrow> Sender \<Rightarrow> row" where
  "Sender_row e x =
     [(''id'', SText (Sender_ID x)),
      (''version'', SText (Sender_Version x)),
      (''label'', SText (Sender_Label x)),
      (''description'', SText (Sender_Description x)),
      (''device_id'', SText (Sender_DeviceID x)),
      (''flow_id'', SText (Sender_FlowID x)),
      (''transport'', SText (Sender_Transport x)),
      (''interface_bindings'', jsonMarshal e (str_opt (Sender_InterfaceBindings x))),
      (''manifest_href'', (case Sender_ManifestHref x of None \<Rightarrow> SNull | Some s \<Rightarrow> SText s)),
      (''tags'', jsonMarshal e (map_opt (Sender_Tags x))),
      (''transport_params'', jsonMarshal e (maps_opt (Sender_TransportParams x))),
      (''created_at'', STime (Sender_CreatedAt x)),
      (''updated_at'', STime (Sender_UpdatedAt x))]"

definition Sender_set :: "string list" where
  "Sender_set = [''version'', ''label'', ''description'', ''device_id'', ''flow_id'', ''transport'', ''interface_bindings'', ''manifest_href'', ''tags'', ''transport_params'', ''updated_at'']"

definition Sender_scan :: "row \<Rightarrow> Sender" where
  "Sender_scan r =
     \<lparr> Sender_ID = scan_string (column ''id'' r),
       Sender_Version = scan_string (column ''version'' r),
       Sender_Label = scan_string (column ''label'' r),
       Sender_Description = scan_string (column ''description'' r),
       Sender_DeviceID = scan_string (column ''device_id'' r),
       Sender_FlowID = scan_string (column ''flow_id'' r),
       Sender_Transport = scan_string (column ''transport'' r),
       Sender_InterfaceBindings = jsonUnmarshalSlice (scan_json (column ''interface_bindings'' r)),
       Sender_ManifestHref = scan_null_string (column ''manifest_href'' r),
       Sender_Tags = jsonUnmarshalMap (scan_json (column ''tags'' r)),
       Sender_TransportParams = unmarshal_maps (scan_json (column ''transport_params'' r)),
       Sender_CreatedAt = time_of (column ''created_at'' r),
       Sender_UpdatedAt = time_of (column ''updated_at'' r) \<rparr>"

definition Receiver_row :: "json_env \<Rightarrow> Receiver \<Rightarrow> row" where
  "Receiver_row e x =
     [(''id'', SText (Receiver_ID x)),
      (''version'', SText (Receiver_Version x)),
      (''label'', SText (Receiver_Label x)),
      (''description'', SText (Receiver_Description x)),
      (''device_id'', SText (Receiver_DeviceID x)),
      (''transport'', SText (Receiver_Transport x)),
      (''interface_bindings'', jsonMarshal e (str_opt (Receiver_InterfaceBindings x))),
      (''manifest_href'', (case Receiver_ManifestHref x of None \<Rightarrow> SNull | Some s \<Rightarrow> SText s)),
      (''tags'', jsonMarshal e (map_opt (Receiver_Tags x))),
      (''transport_params'', jsonMarshal e (maps_opt (Receiver_TransportParams x))),
      (''created_at'', STime (Receiver_CreatedAt x)),
      (''updated_at'', STime (Receiver_UpdatedAt x))]"

definition Receiver_set :: "string list" where
  "Receiver_set = [''version'', ''label'', ''description'', ''device_id'', ''transport'', ''interface_bindings'', ''manifest_href'', ''tags'', ''transport_params'', ''updated_at'']"

definition Receiver_scan :: "row \<Rightarrow> Receiver" where
  "Receiver_scan r =
     \<lparr> Receiver_ID = scan_string (column ''id'' r),
       Receiver_Version = scan_string (column ''version'' r),
       Receiver_Label = scan_string (column ''label'' r),
       Receiver_Description = scan_string (column ''description'' r),
       Receiver_DeviceID = scan_string (column ''device_id'' r),
       Receiver_Transport = scan_string (column ''transport'' r),
       Receiver_InterfaceBindings = jsonUnmarshalSlice (scan_json (column ''interface_bindings'' r)),
       Receiver_ManifestHref = scan_null_string (column ''manifest_href'' r),
       Receiver_Tags = jsonUnmarshalMap (scan_json (column ''tags'' r)),
       Receiver_TransportParams = unmarshal_maps (scan_json (column ''transport_params'' r)),
       Receiver_CreatedAt = time_of (column ''created_at'' r),
       Receiver_UpdatedAt = time_of (column ''updated_at'' r) \<rparr>"

definition ShureDevice_row :: "json_env \<Rightarrow> ShureDevice \<Rightarrow> row" where
  "ShureDevice_row e x =
     [(''address'', SText (ShureDevice_Address x)),
      (''device_id'', SText (ShureDevice_DeviceID x)),
      (''device_oid'', SInt (ShureDevice_DeviceOID x)),
      (''device_instance'', SText (ShureDevice_DeviceInstance x)),
      (''model_family'', SText (ShureDevice_ModelFamily x)),
      (''last_seen'', STime (ShureDevice_LastSeen x)),
      (''parameter_oids'', jsonMarshal e (int_map_opt (ShureDevice_ParameterOIDs x))),
      (''channel_oids'', jsonMarshal e (int_map_opt (map_option int_keys (ShureDevice_ChannelOIDs x)))),
      (''source_ids'', jsonMarshal e (string_map_map_val (ShureDevice_SourceIDs x))),
      (''flow_ids'', jsonMarshal e (string_map_map_val (ShureDevice_FlowIDs x))),
      (''sender_ids'', jsonMarshal e (string_map_map_val (ShureDevice_SenderIDs x))),
      (''created_at'', STime (ShureDevice_CreatedAt x)),
      (''updated_at'', STime (ShureDevice_UpdatedAt x))]"

definition ShureDevice_set :: "string list" where
  "ShureDevice_set = [''device_id'', ''device_oid'', ''device_instance'', ''model_family'', ''last_seen'', ''parameter_oids'', ''channel_oids'', ''source_ids'', ''flow_ids'', ''sender_ids'', ''updated_at'']"

definition ShureDevice_scan :: "row \<Rightarrow> ShureDevice" where
  "ShureDevice_scan r =
     \<lparr> ShureDevice_Address = scan_string (column ''address'' r),
       ShureDevice_DeviceID = scan_string (column ''device_id'' r),
       ShureDevice_DeviceOID = scan_int (column ''device_oid'' r),
       ShureDevice_DeviceInstance = scan_string (column ''device_instance'' r),
       ShureDevice_ModelFamily = scan_string (column ''model_family'' r),
       ShureDevice_LastSeen = time_of (column ''last_seen'' r),
       ShureDevice_ParameterOIDs = jsonUnmarshalIntMap (scan_json (column ''parameter_oids'' r)),
       ShureDevice_ChannelOIDs = jsonUnmarshalIntIntMap (scan_json (column ''channel_oids'' r)),
       ShureDevice_SourceIDs = jsonUnmarshalStringStringMapMap (scan_json (column ''source_ids'' r)),
       ShureDevice_FlowIDs = jsonUnmarshalStringStringMapMap (scan_json (column ''flow_ids'' r)),
       ShureDevice_SenderIDs = jsonUnmarshalStringStringMapMap (scan_json (column ''sender_ids'' r)),
       ShureDevice_CreatedAt = time_of (column ''created_at'' r),
       ShureDevice_UpdatedAt = time_of (column ''updated_at'' r) \<rparr>"

definition NCPObject_row :: "json_env \<Rightarrow> NCPObject \<Rightarrow> row" where
  "NCPObject_row e x =
     [(''oid'', SInt (NCPObject_OID x)),
      (''class_id'', jsonMarshal e (ints_opt (NCPObject_ClassID x))),
      (''role'', SText (NCPObject_Role x)),
      (''label'', SText (NCPObject_Label x)),
      (''properties'', jsonMarshal e (map_opt (NCPObject_Properties x))),
      (''owner_oid'', (case NCPObject_OwnerOID x of None \<Rightarrow> SNull | Some i \<Rightarrow> SInt i)),
      (''created_at'', STime (NCPObject_CreatedAt x)),
      (''updated_at'', STime (NCPObject_UpdatedAt x))]"

definition NCPObject_set :: "string list" where
  "NCPObject_set = [''class_id'', ''role'', ''label'', ''properties'', ''owner_oid'', ''updated_at'']"

definition NCPObject_scan :: "row \<Rightarrow> NCPObject" where
  "NCPObject_scan r =
     \<lparr> NCPObject_OID = scan_int (column ''oid'' r),
       NCPObject_ClassID = jsonUnmarshalIntSlice (scan_json (column ''class_id'' r)),
       NCPObject_Role = scan_string (column ''role'' r),
       NCPObject_Label = scan_string (column ''label'' r),
       NCPObject_Properties = jsonUnmarshalMap (scan_json (column ''properties'' r)),
       NCPObject_OwnerOID = scan_null_int (column ''owner_oid'' r),
       NCPObject_CreatedAt = time_of (column ''created_at'' r),
       NCPObject_UpdatedAt = time_of (column ''updated_at'' r) \<rparr>"

definition IS07Event_row :: "json_env \<Rightarrow> IS07Event \<Rightarrow> row" where
  "IS07Event_row e x =
     [(''source_id'', SText (IS07Event_SourceID x)),
      (''event_type'', SText (IS07Event_EventType x)),
      (''data'', jsonMarshal e (map_opt (IS07Event_Data x))),
      (''timestamp'', STime (IS07Event_Timestamp x)),
      (''updated_at'', STime (IS07Event_UpdatedAt x))]"

definition IS07Event_set :: "string list" where
  "IS07Event_set = [''event_type'', ''data'', ''timestamp'', ''updated_at'']"

definition IS07Event_scan :: "row \<Rightarrow> IS07Event" where
  "IS07Event_scan r =
     \<lparr> IS07Event_SourceID = scan_string (column ''source_id'' r),
       IS07Event_EventType = scan_string (column ''event_type'' r),
       IS07Event_Data = jsonUnmarshalMap (scan_json (column ''data'' r)),
       IS07Event_Timestamp = time_of (column ''timestamp'' r),
       IS07Event_UpdatedAt = time_of (column ''updated_at'' r) \<rparr>"

subsection \<open>State\<close>

text \<open>
  \<open>db_callbacks\<close> is the callbacks of each kind of struct, named by numbers, and \<open>db_calls\<close> the calls started, each in a
  goroutine of its own, with the id of the struct.
\<close>

record database =
  db_mu :: lock
  db_devices :: "row list"
  db_sources :: "row list"
  db_flows :: "row list"
  db_senders :: "row list"
  db_receivers :: "row list"
  db_shure :: "row list"
  db_ncp :: "row list"
  db_events :: "row list"
  db_callbacks :: "string \<Rightarrow> nat list"
  db_calls :: "(nat \<times> string) list"

text \<open>Numbers as JSON, whether the library executes the statement, and the order of rows with equal times.\<close>

record db_env =
  de_json :: json_env
  de_ok :: bool
  de_ties :: "row list \<Rightarrow> row list"

definition initSchema :: database where
  "initSchema =
     \<lparr> db_mu = Unlocked, db_devices = [], db_sources = [], db_flows = [], db_senders = [], db_receivers = [],
       db_shure = [], db_ncp = [], db_events = [], db_callbacks = (\<lambda>_. []), db_calls = [] \<rparr>"

text \<open>An operation under the lock, which is released by a deferred call, and one under the read lock.\<close>

definition locked :: "(database \<Rightarrow> (database, 'a) run) \<Rightarrow> database \<Rightarrow> (database, 'a) run" where
  "locked f db =
     (if db_mu db = Unlocked
      then run_bind (f (db\<lparr> db_mu := WriteLocked \<rparr>)) (\<lambda>db a. Done (db\<lparr> db_mu := Unlocked \<rparr>) a)
      else Deadlock db)"

definition read_locked :: "(database \<Rightarrow> 'a) \<Rightarrow> database \<Rightarrow> (database, 'a) run" where
  "read_locked f db = (if db_mu db = WriteLocked then Deadlock db else Done db (f db))"

text \<open>The answer of a statement is whether it had no error; that of a query is absent on an error.\<close>

definition exec :: "db_env \<Rightarrow> (database \<Rightarrow> database) \<Rightarrow> database \<Rightarrow> (database, bool) run" where
  "exec env f = locked (\<lambda>db. if de_ok env then Done (f db) True else Done db False)"

definition query :: "db_env \<Rightarrow> (database \<Rightarrow> row list) \<Rightarrow> (row \<Rightarrow> 's) \<Rightarrow> database \<Rightarrow> (database, 's list option) run" where
  "query env rows scan = read_locked (\<lambda>db. if de_ok env then Some (map scan (rows db)) else None)"

definition query_row :: "db_env \<Rightarrow> (database \<Rightarrow> row list) \<Rightarrow> (row \<Rightarrow> 's) \<Rightarrow> database \<Rightarrow> (database, 's option option) run" where
  "query_row env rows scan =
     read_locked (\<lambda>db. if de_ok env then Some (map_option scan (first_row (rows db))) else None)"

definition call_back :: "string \<Rightarrow> string \<Rightarrow> database \<Rightarrow> database" where
  "call_back kind i db = db\<lparr> db_calls := db_calls db @ map (\<lambda>cb. (cb, i)) (db_callbacks db kind) \<rparr>"

definition add_callback :: "string \<Rightarrow> nat \<Rightarrow> database \<Rightarrow> database" where
  "add_callback kind cb db = db\<lparr> db_callbacks := (db_callbacks db)(kind := db_callbacks db kind @ [cb]) \<rparr>"

subsection \<open>Devices\<close>

definition GetDevices :: "db_env \<Rightarrow> database \<Rightarrow> (database, Device list option) run" where
  "GetDevices env = query env (\<lambda>db. newest_first (de_ties env) (db_devices db)) Device_scan"

definition GetDevice :: "db_env \<Rightarrow> string \<Rightarrow> database \<Rightarrow> (database, Device option option) run" where
  "GetDevice env k = query_row env (\<lambda>db. sql_where ''id'' (SText k) (db_devices db)) Device_scan"

definition Device_stamp :: "int \<Rightarrow> Device \<Rightarrow> Device" where
  "Device_stamp now x = x\<lparr> Device_CreatedAt := (if Device_CreatedAt x = 0 then now else Device_CreatedAt x), Device_UpdatedAt := now \<rparr>"

definition UpsertDevice :: "db_env \<Rightarrow> int \<Rightarrow> Device \<Rightarrow> database \<Rightarrow> (database, bool) run" where
  "UpsertDevice env now x =
     exec env (\<lambda>db. call_back ''device'' (Device_ID x) (db\<lparr> db_devices := sql_upsert ''id'' Device_set (Device_row (de_json env) (Device_stamp now x)) (db_devices db) \<rparr>))"

definition UpdateDeviceTags :: "db_env \<Rightarrow> int \<Rightarrow> string \<Rightarrow> (string \<times> goval) list option \<Rightarrow> database \<Rightarrow> (database, bool) run" where
  "UpdateDeviceTags env now k tags =
     exec env (\<lambda>db. db\<lparr> db_devices := sql_update ''id'' (SText k)
       [(''tags'', jsonMarshal (de_json env) (map_opt tags)), (''updated_at'', STime now)] (db_devices db) \<rparr>)"

definition DeleteDevice :: "db_env \<Rightarrow> string \<Rightarrow> database \<Rightarrow> (database, bool) run" where
  "DeleteDevice env k = exec env (\<lambda>db. db\<lparr> db_devices := sql_delete ''id'' (SText k) (db_devices db) \<rparr>)"

subsection \<open>Sources\<close>

definition GetSources :: "db_env \<Rightarrow> database \<Rightarrow> (database, Source list option) run" where
  "GetSources env = query env (\<lambda>db. newest_first (de_ties env) (db_sources db)) Source_scan"

definition GetSource :: "db_env \<Rightarrow> string \<Rightarrow> database \<Rightarrow> (database, Source option option) run" where
  "GetSource env k = query_row env (\<lambda>db. sql_where ''id'' (SText k) (db_sources db)) Source_scan"

definition GetSourcesByDevice :: "db_env \<Rightarrow> string \<Rightarrow> database \<Rightarrow> (database, Source list option) run" where
  "GetSourcesByDevice env k = query env (\<lambda>db. newest_first (de_ties env) (sql_where ''device_id'' (SText k) (db_sources db))) Source_scan"

definition Source_stamp :: "int \<Rightarrow> Source \<Rightarrow> Source" where
  "Source_stamp now x = x\<lparr> Source_CreatedAt := (if Source_CreatedAt x = 0 then now else Source_CreatedAt x), Source_UpdatedAt := now \<rparr>"

definition UpsertSource :: "db_env \<Rightarrow> int \<Rightarrow> Source \<Rightarrow> database \<Rightarrow> (database, bool) run" where
  "UpsertSource env now x =
     exec env (\<lambda>db. call_back ''source'' (Source_ID x) (db\<lparr> db_sources := sql_upsert ''id'' Source_set (Source_row (de_json env) (Source_stamp now x)) (db_sources db) \<rparr>))"

definition DeleteSource :: "db_env \<Rightarrow> string \<Rightarrow> database \<Rightarrow> (database, bool) run" where
  "DeleteSource env k = exec env (\<lambda>db. db\<lparr> db_sources := sql_delete ''id'' (SText k) (db_sources db) \<rparr>)"

subsection \<open>Flows\<close>

definition GetFlows :: "db_env \<Rightarrow> database \<Rightarrow> (database, Flow list option) run" where
  "GetFlows env = query env (\<lambda>db. newest_first (de_ties env) (db_flows db)) Flow_scan"

definition GetFlow :: "db_env \<Rightarrow> string \<Rightarrow> database \<Rightarrow> (database, Flow option option) run" where
  "GetFlow env k = query_row env (\<lambda>db. sql_where ''id'' (SText k) (db_flows db)) Flow_scan"

definition GetFlowsBySource :: "db_env \<Rightarrow> string \<Rightarrow> database \<Rightarrow> (database, Flow list option) run" where
  "GetFlowsBySource env k = query env (\<lambda>db. newest_first (de_ties env) (sql_where ''source_id'' (SText k) (db_flows db))) Flow_scan"

definition Flow_stamp :: "int \<Rightarrow> Flow \<Rightarrow> Flow" where
  "Flow_stamp now x = x\<lparr> Flow_CreatedAt := (if Flow_CreatedAt x = 0 then now else Flow_CreatedAt x), Flow_UpdatedAt := now \<rparr>"

definition UpsertFlow :: "db_env \<Rightarrow> int \<Rightarrow> Flow \<Rightarrow> database \<Rightarrow> (database, bool) run" where
  "UpsertFlow env now x =
     exec env (\<lambda>db. call_back ''flow'' (Flow_ID x) (db\<lparr> db_flows := sql_upsert ''id'' Flow_set (Flow_row (de_json env) (Flow_stamp now x)) (db_flows db) \<rparr>))"

definition DeleteFlow :: "db_env \<Rightarrow> string \<Rightarrow> database \<Rightarrow> (database, bool) run" where
  "DeleteFlow env k = exec env (\<lambda>db. db\<lparr> db_flows := sql_delete ''id'' (SText k) (db_flows db) \<rparr>)"

subsection \<open>Senders\<close>

definition GetSenders :: "db_env \<Rightarrow> database \<Rightarrow> (database, Sender list option) run" where
  "GetSenders env = query env (\<lambda>db. newest_first (de_ties env) (db_senders db)) Sender_scan"

definition GetSender :: "db_env \<Rightarrow> string \<Rightarrow> database \<Rightarrow> (database, Sender option option) run" where
  "GetSender env k = query_row env (\<lambda>db. sql_where ''id'' (SText k) (db_senders db)) Sender_scan"

definition GetSendersByDevice :: "db_env \<Rightarrow> string \<Rightarrow> database \<Rightarrow> (database, Sender list option) run" where
  "GetSendersByDevice env k = query env (\<lambda>db. newest_first (de_ties env) (sql_where ''device_id'' (SText k) (db_senders db))) Sender_scan"

definition Sender_stamp :: "int \<Rightarrow> Sender \<Rightarrow> Sender" where
  "Sender_stamp now x = x\<lparr> Sender_CreatedAt := (if Sender_CreatedAt x = 0 then now else Sender_CreatedAt x), Sender_UpdatedAt := now \<rparr>"

definition UpsertSender :: "db_env \<Rightarrow> int \<Rightarrow> Sender \<Rightarrow> database \<Rightarrow> (database, bool) run" where
  "UpsertSender env now x =
     exec env (\<lambda>db. call_back ''sender'' (Sender_ID x) (db\<lparr> db_senders := sql_upsert ''id'' Sender_set (Sender_row (de_json env) (Sender_stamp now x)) (db_senders db) \<rparr>))"

definition DeleteSender :: "db_env \<Rightarrow> string \<Rightarrow> database \<Rightarrow> (database, bool) run" where
  "DeleteSender env k = exec env (\<lambda>db. db\<lparr> db_senders := sql_delete ''id'' (SText k) (db_senders db) \<rparr>)"

subsection \<open>Receivers\<close>

definition GetReceivers :: "db_env \<Rightarrow> database \<Rightarrow> (database, Receiver list option) run" where
  "GetReceivers env = query env (\<lambda>db. newest_first (de_ties env) (db_receivers db)) Receiver_scan"

definition GetReceiver :: "db_env \<Rightarrow> string \<Rightarrow> database \<Rightarrow> (database, Receiver option option) run" where
  "GetReceiver env k = query_row env (\<lambda>db. sql_where ''id'' (SText k) (db_receivers db)) Receiver_scan"

definition Receiver_stamp :: "int \<Rightarrow> Receiver \<Rightarrow> Receiver" where
  "Receiver_stamp now x = x\<lparr> Receiver_CreatedAt := (if Receiver_CreatedAt x = 0 then now else Receiver_CreatedAt x), Receiver_UpdatedAt := now \<rparr>"

definition UpsertReceiver :: "db_env \<Rightarrow> int \<Rightarrow> Receiver \<Rightarrow> database \<Rightarrow> (database, bool) run" where
  "UpsertReceiver env now x =
     exec env (\<lambda>db. db\<lparr> db_receivers := sql_upsert ''id'' Receiver_set (Receiver_row (de_json env) (Receiver_stamp now x)) (db_receivers db) \<rparr>)"

definition DeleteReceiver :: "db_env \<Rightarrow> string \<Rightarrow> database \<Rightarrow> (database, bool) run" where
  "DeleteReceiver env k = exec env (\<lambda>db. db\<lparr> db_receivers := sql_delete ''id'' (SText k) (db_receivers db) \<rparr>)"

subsection \<open>Shure devices\<close>

definition GetShureDevices :: "db_env \<Rightarrow> database \<Rightarrow> (database, ShureDevice list option) run" where
  "GetShureDevices env = query env (\<lambda>db. newest_first (de_ties env) (db_shure db)) ShureDevice_scan"

definition GetShureDevice :: "db_env \<Rightarrow> string \<Rightarrow> database \<Rightarrow> (database, ShureDevice option option) run" where
  "GetShureDevice env k = query_row env (\<lambda>db. sql_where ''address'' (SText k) (db_shure db)) ShureDevice_scan"

definition ShureDevice_stamp :: "int \<Rightarrow> ShureDevice \<Rightarrow> ShureDevice" where
  "ShureDevice_stamp now x = x\<lparr> ShureDevice_CreatedAt := (if ShureDevice_CreatedAt x = 0 then now else ShureDevice_CreatedAt x), ShureDevice_UpdatedAt := now \<rparr>"

definition UpsertShureDevice :: "db_env \<Rightarrow> int \<Rightarrow> ShureDevice \<Rightarrow> database \<Rightarrow> (database, bool) run" where
  "UpsertShureDevice env now x =
     exec env (\<lambda>db. db\<lparr> db_shure := sql_upsert ''address'' ShureDevice_set (ShureDevice_row (de_json env) (ShureDevice_stamp now x)) (db_shure db) \<rparr>)"

definition UpdateShureDeviceLastSeen :: "db_env \<Rightarrow> int \<Rightarrow> int \<Rightarrow> string \<Rightarrow> database \<Rightarrow> (database, bool) run" where
  "UpdateShureDeviceLastSeen env now now' k =
     exec env (\<lambda>db. db\<lparr> db_shure := sql_update ''address'' (SText k)
       [(''last_seen'', STime now), (''updated_at'', STime now')] (db_shure db) \<rparr>)"

definition DeleteShureDevice :: "db_env \<Rightarrow> string \<Rightarrow> database \<Rightarrow> (database, bool) run" where
  "DeleteShureDevice env k = exec env (\<lambda>db. db\<lparr> db_shure := sql_delete ''address'' (SText k) (db_shure db) \<rparr>)"

subsection \<open>Control objects\<close>

definition db_GetNCPObject :: "db_env \<Rightarrow> int \<Rightarrow> database \<Rightarrow> (database, NCPObject option option) run" where
  "db_GetNCPObject env k = query_row env (\<lambda>db. sql_where ''oid'' (SInt k) (db_ncp db)) NCPObject_scan"

definition GetNCPObjectsByOwner :: "db_env \<Rightarrow> int \<Rightarrow> database \<Rightarrow> (database, NCPObject list option) run" where
  "GetNCPObjectsByOwner env k = query env (\<lambda>db. sql_where ''owner_oid'' (SInt k) (db_ncp db)) NCPObject_scan"

definition NCPObject_stamp :: "int \<Rightarrow> NCPObject \<Rightarrow> NCPObject" where
  "NCPObject_stamp now x = x\<lparr> NCPObject_CreatedAt := (if NCPObject_CreatedAt x = 0 then now else NCPObject_CreatedAt x), NCPObject_UpdatedAt := now \<rparr>"

definition UpsertNCPObject :: "db_env \<Rightarrow> int \<Rightarrow> NCPObject \<Rightarrow> database \<Rightarrow> (database, bool) run" where
  "UpsertNCPObject env now x =
     exec env (\<lambda>db. call_back ''ncpObject'' (itoa (NCPObject_OID x)) (db\<lparr> db_ncp := sql_upsert ''oid'' NCPObject_set (NCPObject_row (de_json env) (NCPObject_stamp now x)) (db_ncp db) \<rparr>))"

text \<open>The object is read under the lock by an operation that takes the read lock.\<close>

definition UpdateNCPObjectProperty :: "db_env \<Rightarrow> int \<Rightarrow> int \<Rightarrow> string \<Rightarrow> goval \<Rightarrow> database \<Rightarrow> (database, bool) run" where
  "UpdateNCPObjectProperty env now oid propertyID value =
     locked (\<lambda>db. run_bind (db_GetNCPObject env oid db) (\<lambda>db obj.
       case obj of
         None \<Rightarrow> Done db False
       | Some None \<Rightarrow> Done db True
       | Some (Some x) \<Rightarrow>
           (let ps = map_put propertyID value (case NCPObject_Properties x of None \<Rightarrow> [] | Some ps \<Rightarrow> ps) in
            if de_ok env
            then Done (db\<lparr> db_ncp := sql_update ''oid'' (SInt oid)
              [(''properties'', jsonMarshal (de_json env) (VMap ps)), (''updated_at'', STime now)] (db_ncp db) \<rparr>) True
            else Done db False)))"

definition DeleteNCPObject :: "db_env \<Rightarrow> int \<Rightarrow> database \<Rightarrow> (database, bool) run" where
  "DeleteNCPObject env k = exec env (\<lambda>db. db\<lparr> db_ncp := sql_delete ''oid'' (SInt k) (db_ncp db) \<rparr>)"

subsection \<open>Events\<close>

definition GetLastEvent :: "db_env \<Rightarrow> string \<Rightarrow> database \<Rightarrow> (database, IS07Event option option) run" where
  "GetLastEvent env k = query_row env (\<lambda>db. sql_where ''source_id'' (SText k) (db_events db)) IS07Event_scan"

definition IS07Event_stamp :: "int \<Rightarrow> IS07Event \<Rightarrow> IS07Event" where
  "IS07Event_stamp now x = (if IS07Event_UpdatedAt x = 0 then x\<lparr> IS07Event_UpdatedAt := now \<rparr> else x)"

definition UpsertIS07Event :: "db_env \<Rightarrow> int \<Rightarrow> IS07Event \<Rightarrow> database \<Rightarrow> (database, bool) run" where
  "UpsertIS07Event env now x =
     exec env (\<lambda>db. db\<lparr> db_events := sql_upsert ''source_id'' IS07Event_set (IS07Event_row (de_json env) (IS07Event_stamp now x)) (db_events db) \<rparr>)"

end
