(* ===== verification/Database_Laws.thy ===== *)
theory Database_Laws
  imports Database
begin

text \<open>
  What the database promises: every table behaves as a map from keys to structs, where an upsert keeps the time of
  creation; which fields of a struct are read back as they were written; and that one operation
  waits for itself.
\<close>

subsection \<open>Columns\<close>

lemma column_set_columns:
  "column c (set_columns cs new r) = (if c \<in> set cs \<and> c \<in> fst ` set r then column c new else column c r)"
proof -
  have "map_of (map (\<lambda>(c, v). (c, if c \<in> set cs then column c new else v)) r) c =
      map_option (\<lambda>v. if c \<in> set cs then column c new else v) (map_of r c)"
    by (induction r) auto
  moreover have "map_of r c = None \<longleftrightarrow> c \<notin> fst ` set r" by (induction r) auto
  ultimately show ?thesis by (auto simp: column_def set_columns_def split: option.split)
qed

lemma names_set_columns [simp]: "map fst (set_columns cs new r) = map fst r"
  by (induction r) (auto simp: set_columns_def)

definition named :: "string list \<Rightarrow> row list \<Rightarrow> bool" where
  "named cols t \<longleftrightarrow> (\<forall>r\<in>set t. map fst r = cols)"

text \<open>The row of a key, as it is read.\<close>

definition row_of :: "string \<Rightarrow> (row \<Rightarrow> 's) \<Rightarrow> row list \<Rightarrow> sqlval \<Rightarrow> 's option" where
  "row_of key scan t v = map_option scan (first_row (sql_where key v t))"

lemma first_row_where [simp]:
  "first_row (sql_where key v []) = None"
  "first_row (sql_where key v (r # rs)) = (if column key r = v then Some r else first_row (sql_where key v rs))"
  by (simp_all add: sql_where_def)

definition keys_distinct :: "string \<Rightarrow> row list \<Rightarrow> bool" where
  "keys_distinct key t \<longleftrightarrow> distinct (map (column key) t)"

text \<open>
  The contract of a table: \<open>scan\<close> reads a row, \<open>cs\<close> are the columns set on a conflict, and \<open>keep old new\<close> is what is
  then read.
\<close>

locale keyed_table =
  fixes key :: string and cols :: "string list" and cs :: "string list" and scan :: "row \<Rightarrow> 's" and keep :: "'s \<Rightarrow> 's \<Rightarrow> 's"
  assumes key_col: "key \<in> set cols" "key \<notin> set cs"
    and scan_set: "map fst r = cols \<Longrightarrow> map fst new = cols \<Longrightarrow> column key r = column key new \<Longrightarrow> scan (set_columns cs new r) = keep (scan r) (scan new)"
begin

lemma key_kept: "column key (set_columns cs new r) = column key r"
  using key_col by (simp add: column_set_columns)

lemma named_upsert: "named cols t \<Longrightarrow> map fst new = cols \<Longrightarrow> named cols (sql_upsert key cs new t)"
  by (induction t) (auto simp: named_def)

lemma upsert_keys: "column key ` set (sql_upsert key cs new t) = insert (column key new) (column key ` set t)"
  by (induction t) (auto simp: key_kept)

lemma distinct_upsert: "keys_distinct key t \<Longrightarrow> keys_distinct key (sql_upsert key cs new t)"
proof (induction t)
  case Nil
  then show ?case by (simp add: keys_distinct_def)
next
  case (Cons r t)
  show ?case
  proof (cases "column key r = column key new")
    case True
    with Cons.prems show ?thesis by (simp add: keys_distinct_def key_kept)
  next
    case False
    have "column key r \<notin> column key ` set (sql_upsert key cs new t)"
      using Cons.prems False unfolding upsert_keys by (simp add: keys_distinct_def)
    with Cons False show ?thesis by (simp add: keys_distinct_def)
  qed
qed

lemma row_of_upsert:
  assumes "named cols t" "map fst new = cols"
  shows "row_of key scan (sql_upsert key cs new t) = (row_of key scan t)(column key new \<mapsto>
    (case row_of key scan t (column key new) of None \<Rightarrow> scan new | Some old \<Rightarrow> keep old (scan new)))"
proof
  fix v
  show "row_of key scan (sql_upsert key cs new t) v = ((row_of key scan t)(column key new \<mapsto>
    (case row_of key scan t (column key new) of None \<Rightarrow> scan new | Some old \<Rightarrow> keep old (scan new)))) v"
    using assms(1)
  proof (induction t)
    case Nil
    then show ?case by (simp add: row_of_def)
  next
    case (Cons r t)
    have n: "map fst r = cols" "named cols t" using Cons.prems by (simp_all add: named_def)
    show ?case
    proof (cases "column key r = column key new")
      case True
      then show ?thesis by (simp add: row_of_def key_kept scan_set [OF n(1) assms(2) True])
    next
      case False
      then have "row_of key scan (r # t) w = (if column key r = w then Some (scan r) else row_of key scan t w)"
        "row_of key scan (sql_upsert key cs new (r # t)) w =
          (if column key r = w then Some (scan r) else row_of key scan (sql_upsert key cs new t) w)" for w
        by (simp_all add: row_of_def)
      with Cons.IH [OF n(2)] False show ?thesis by auto
    qed
  qed
qed

lemma named_delete: "named cols t \<Longrightarrow> named cols (sql_delete key v t)"
  by (simp add: named_def sql_delete_def)

lemma distinct_delete: "keys_distinct key t \<Longrightarrow> keys_distinct key (sql_delete key v t)"
  by (simp add: keys_distinct_def sql_delete_def distinct_map_filter)

lemma row_of_delete: "row_of key scan (sql_delete key v t) = (row_of key scan t)(v := None)"
proof
  fix w
  show "row_of key scan (sql_delete key v t) w = ((row_of key scan t)(v := None)) w"
    by (induction t) (auto simp: row_of_def sql_delete_def)
qed

text \<open>The rows of a query over the whole table are the rows the keys lead to.\<close>

lemma row_of_iff: "keys_distinct key t \<Longrightarrow> r \<in> set t \<Longrightarrow> row_of key scan t (column key r) = Some (scan r)"
  by (induction t) (auto simp: row_of_def keys_distinct_def)

lemma row_of_from: "row_of key scan t v = Some x \<Longrightarrow> \<exists>r\<in>set t. column key r = v \<and> x = scan r"
  by (induction t) (auto simp: row_of_def split: if_split_asm)

lemma scans_are_rows:
  assumes "keys_distinct key t"
  shows "scan ` set t = ran (row_of key scan t)"
  using row_of_iff [OF assms] row_of_from [of t] unfolding ran_def by fast

end

subsection \<open>The tables\<close>

text \<open>What an upsert keeps of the struct there was: the time of its creation.\<close>

definition Device_cols :: "string list" where
  "Device_cols = [''id'', ''version'', ''label'', ''description'', ''node_id'', ''tags'', ''senders'', ''receivers'', ''controls'', ''created_at'', ''updated_at'']"

definition Device_keep :: "Device \<Rightarrow> Device \<Rightarrow> Device" where
  "Device_keep old new = new\<lparr> Device_CreatedAt := Device_CreatedAt old \<rparr>"

definition Source_cols :: "string list" where
  "Source_cols = [''id'', ''version'', ''label'', ''description'', ''format'', ''device_id'', ''event_type'', ''tags'', ''grain_rate'', ''created_at'', ''updated_at'']"

definition Source_keep :: "Source \<Rightarrow> Source \<Rightarrow> Source" where
  "Source_keep old new = new\<lparr> Source_CreatedAt := Source_CreatedAt old \<rparr>"

definition Flow_cols :: "string list" where
  "Flow_cols = [''id'', ''version'', ''label'', ''description'', ''format'', ''source_id'', ''device_id'', ''parents'', ''tags'', ''media_type'', ''event_type'', ''grain_rate'', ''created_at'', ''updated_at'']"

definition Flow_keep :: "Flow \<Rightarrow> Flow \<Rightarrow> Flow" where
  "Flow_keep old new = new\<lparr> Flow_CreatedAt := Flow_CreatedAt old \<rparr>"

definition Sender_cols :: "string list" where
  "Sender_cols = [''id'', ''version'', ''label'', ''description'', ''device_id'', ''flow_id'', ''transport'', ''interface_bindings'', ''manifest_href'', ''tags'', ''transport_params'', ''created_at'', ''updated_at'']"

definition Sender_keep :: "Sender \<Rightarrow> Sender \<Rightarrow> Sender" where
  "Sender_keep old new = new\<lparr> Sender_CreatedAt := Sender_CreatedAt old \<rparr>"

definition Receiver_cols :: "string list" where
  "Receiver_cols = [''id'', ''version'', ''label'', ''description'', ''device_id'', ''transport'', ''interface_bindings'', ''manifest_href'', ''tags'', ''transport_params'', ''created_at'', ''updated_at'']"

definition Receiver_keep :: "Receiver \<Rightarrow> Receiver \<Rightarrow> Receiver" where
  "Receiver_keep old new = new\<lparr> Receiver_CreatedAt := Receiver_CreatedAt old \<rparr>"

definition ShureDevice_cols :: "string list" where
  "ShureDevice_cols = [''address'', ''device_id'', ''device_oid'', ''device_instance'', ''model_family'', ''last_seen'', ''parameter_oids'', ''channel_oids'', ''source_ids'', ''flow_ids'', ''sender_ids'', ''created_at'', ''updated_at'']"

definition ShureDevice_keep :: "ShureDevice \<Rightarrow> ShureDevice \<Rightarrow> ShureDevice" where
  "ShureDevice_keep old new = new\<lparr> ShureDevice_CreatedAt := ShureDevice_CreatedAt old \<rparr>"

definition NCPObject_cols :: "string list" where
  "NCPObject_cols = [''oid'', ''class_id'', ''role'', ''label'', ''properties'', ''owner_oid'', ''created_at'', ''updated_at'']"

definition NCPObject_keep :: "NCPObject \<Rightarrow> NCPObject \<Rightarrow> NCPObject" where
  "NCPObject_keep old new = new\<lparr> NCPObject_CreatedAt := NCPObject_CreatedAt old \<rparr>"

definition IS07Event_cols :: "string list" where
  "IS07Event_cols = [''source_id'', ''event_type'', ''data'', ''timestamp'', ''updated_at'']"

definition IS07Event_keep :: "IS07Event \<Rightarrow> IS07Event \<Rightarrow> IS07Event" where
  "IS07Event_keep old new = new"

lemmas table_cols = Device_cols_def Device_set_def Source_cols_def Source_set_def Flow_cols_def Flow_set_def Sender_cols_def Sender_set_def Receiver_cols_def Receiver_set_def ShureDevice_cols_def ShureDevice_set_def NCPObject_cols_def NCPObject_set_def IS07Event_cols_def IS07Event_set_def

lemma names_of_cols: "map fst r = cols \<Longrightarrow> fst ` set r = set cols"
  by (metis list.set_map)

interpretation devices_table: keyed_table "''id''" Device_cols Device_set Device_scan Device_keep
  by unfold_locales (simp_all add: table_cols names_of_cols column_set_columns Device_scan_def Device_keep_def)

interpretation sources_table: keyed_table "''id''" Source_cols Source_set Source_scan Source_keep
  by unfold_locales (simp_all add: table_cols names_of_cols column_set_columns Source_scan_def Source_keep_def)

interpretation flows_table: keyed_table "''id''" Flow_cols Flow_set Flow_scan Flow_keep
  by unfold_locales (simp_all add: table_cols names_of_cols column_set_columns Flow_scan_def Flow_keep_def)

interpretation senders_table: keyed_table "''id''" Sender_cols Sender_set Sender_scan Sender_keep
  by unfold_locales (simp_all add: table_cols names_of_cols column_set_columns Sender_scan_def Sender_keep_def)

interpretation receivers_table: keyed_table "''id''" Receiver_cols Receiver_set Receiver_scan Receiver_keep
  by unfold_locales (simp_all add: table_cols names_of_cols column_set_columns Receiver_scan_def Receiver_keep_def)

interpretation shure_table: keyed_table "''address''" ShureDevice_cols ShureDevice_set ShureDevice_scan ShureDevice_keep
  by unfold_locales (simp_all add: table_cols names_of_cols column_set_columns ShureDevice_scan_def ShureDevice_keep_def)

interpretation ncp_table: keyed_table "''oid''" NCPObject_cols NCPObject_set NCPObject_scan NCPObject_keep
  by unfold_locales (simp_all add: table_cols names_of_cols column_set_columns NCPObject_scan_def NCPObject_keep_def)

interpretation events_table: keyed_table "''source_id''" IS07Event_cols IS07Event_set IS07Event_scan IS07Event_keep
  by unfold_locales (simp_all add: table_cols names_of_cols column_set_columns IS07Event_scan_def IS07Event_keep_def)

subsection \<open>Maps\<close>

text \<open>A table whose rows have the columns of the table, with distinct keys of one type.\<close>

definition table_ok :: "string \<Rightarrow> string list \<Rightarrow> ('k \<Rightarrow> sqlval) \<Rightarrow> row list \<Rightarrow> bool" where
  "table_ok key cols mk t \<longleftrightarrow> named cols t \<and> keys_distinct key t \<and> column key ` set t \<subseteq> range mk"

definition db_inv :: "database \<Rightarrow> bool" where
  "db_inv db \<longleftrightarrow> db_mu db = Unlocked \<and>
     table_ok ''id'' Device_cols SText (db_devices db) \<and>
     table_ok ''id'' Source_cols SText (db_sources db) \<and>
     table_ok ''id'' Flow_cols SText (db_flows db) \<and>
     table_ok ''id'' Sender_cols SText (db_senders db) \<and>
     table_ok ''id'' Receiver_cols SText (db_receivers db) \<and>
     table_ok ''address'' ShureDevice_cols SText (db_shure db) \<and>
     table_ok ''oid'' NCPObject_cols SInt (db_ncp db) \<and>
     table_ok ''source_id'' IS07Event_cols SText (db_events db)"

lemma initSchema_inv: "db_inv initSchema"
  by (simp add: db_inv_def initSchema_def table_ok_def named_def keys_distinct_def)

text \<open>What the database holds of each kind.\<close>

definition device_map :: "database \<Rightarrow> string \<Rightarrow> Device option" where
  "device_map db k = row_of ''id'' Device_scan (db_devices db) (SText k)"

definition source_map :: "database \<Rightarrow> string \<Rightarrow> Source option" where
  "source_map db k = row_of ''id'' Source_scan (db_sources db) (SText k)"

definition flow_map :: "database \<Rightarrow> string \<Rightarrow> Flow option" where
  "flow_map db k = row_of ''id'' Flow_scan (db_flows db) (SText k)"

definition sender_map :: "database \<Rightarrow> string \<Rightarrow> Sender option" where
  "sender_map db k = row_of ''id'' Sender_scan (db_senders db) (SText k)"

definition receiver_map :: "database \<Rightarrow> string \<Rightarrow> Receiver option" where
  "receiver_map db k = row_of ''id'' Receiver_scan (db_receivers db) (SText k)"

definition shure_map :: "database \<Rightarrow> string \<Rightarrow> ShureDevice option" where
  "shure_map db k = row_of ''address'' ShureDevice_scan (db_shure db) (SText k)"

definition ncp_map :: "database \<Rightarrow> int \<Rightarrow> NCPObject option" where
  "ncp_map db k = row_of ''oid'' NCPObject_scan (db_ncp db) (SInt k)"

definition last_event_map :: "database \<Rightarrow> string \<Rightarrow> IS07Event option" where
  "last_event_map db k = row_of ''source_id'' IS07Event_scan (db_events db) (SText k)"

text \<open>
  A store that is a map: a lookup reads the map, an upsert puts what is written, keeping what \<open>keep\<close> takes from a
  struct that is there, and a deletion removes the key.
\<close>

definition implements_map ::
  "(database \<Rightarrow> 'k \<Rightarrow> 's option) \<Rightarrow> ('k \<Rightarrow> database \<Rightarrow> (database, 's option option) run) \<Rightarrow>
   (int \<Rightarrow> 's \<Rightarrow> database \<Rightarrow> (database, bool) run) \<Rightarrow> ('k \<Rightarrow> database \<Rightarrow> (database, bool) run) \<Rightarrow>
   ('s \<Rightarrow> 'k) \<Rightarrow> (int \<Rightarrow> 's \<Rightarrow> 's) \<Rightarrow> ('s \<Rightarrow> 's \<Rightarrow> 's) \<Rightarrow> bool" where
  "implements_map held get put del idx written keep \<longleftrightarrow> (\<forall>db. db_inv db \<longrightarrow>
     (\<forall>k. get k db = Done db (Some (held db k))) \<and>
     (\<forall>now x. \<exists>db'. put now x db = Done db' True \<and> db_inv db' \<and>
        held db' = (held db)(idx x \<mapsto> (case held db (idx x) of None \<Rightarrow> written now x | Some old \<Rightarrow> keep old (written now x)))) \<and>
     (\<forall>k. \<exists>db'. del k db = Done db' True \<and> db_inv db' \<and> held db' = (held db)(k := None)))"

text \<open>What is read after a struct was stamped and written.\<close>

definition device_written :: "db_env \<Rightarrow> int \<Rightarrow> Device \<Rightarrow> Device" where
  "device_written env now x = Device_scan (Device_row (de_json env) (Device_stamp now x))"

definition source_written :: "db_env \<Rightarrow> int \<Rightarrow> Source \<Rightarrow> Source" where
  "source_written env now x = Source_scan (Source_row (de_json env) (Source_stamp now x))"

definition flow_written :: "db_env \<Rightarrow> int \<Rightarrow> Flow \<Rightarrow> Flow" where
  "flow_written env now x = Flow_scan (Flow_row (de_json env) (Flow_stamp now x))"

definition sender_written :: "db_env \<Rightarrow> int \<Rightarrow> Sender \<Rightarrow> Sender" where
  "sender_written env now x = Sender_scan (Sender_row (de_json env) (Sender_stamp now x))"

definition receiver_written :: "db_env \<Rightarrow> int \<Rightarrow> Receiver \<Rightarrow> Receiver" where
  "receiver_written env now x = Receiver_scan (Receiver_row (de_json env) (Receiver_stamp now x))"

definition shure_written :: "db_env \<Rightarrow> int \<Rightarrow> ShureDevice \<Rightarrow> ShureDevice" where
  "shure_written env now x = ShureDevice_scan (ShureDevice_row (de_json env) (ShureDevice_stamp now x))"

definition ncp_written :: "db_env \<Rightarrow> int \<Rightarrow> NCPObject \<Rightarrow> NCPObject" where
  "ncp_written env now x = NCPObject_scan (NCPObject_row (de_json env) (NCPObject_stamp now x))"

definition last_event_written :: "db_env \<Rightarrow> int \<Rightarrow> IS07Event \<Rightarrow> IS07Event" where
  "last_event_written env now x = IS07Event_scan (IS07Event_row (de_json env) (IS07Event_stamp now x))"

lemma exec_done:
  "de_ok env \<Longrightarrow> db_mu db = Unlocked \<Longrightarrow> exec env f db = Done ((f (db\<lparr> db_mu := WriteLocked \<rparr>))\<lparr> db_mu := Unlocked \<rparr>) True"
  by (simp add: exec_def locked_def)

lemma query_done: "de_ok env \<Longrightarrow> db_mu db = Unlocked \<Longrightarrow> query env rows scan db = Done db (Some (map scan (rows db)))"
  by (simp add: query_def read_locked_def)

lemma query_row_done:
  "de_ok env \<Longrightarrow> db_mu db = Unlocked \<Longrightarrow> query_row env rows scan db = Done db (Some (map_option scan (first_row (rows db))))"
  by (simp add: query_row_def read_locked_def)

lemma device_row_key:
  "map fst (Device_row e (Device_stamp now x)) = Device_cols" "column ''id'' (Device_row e (Device_stamp now x)) = SText (Device_ID x)"
  by (simp_all add: Device_row_def Device_cols_def Device_stamp_def column_def)

lemma source_row_key:
  "map fst (Source_row e (Source_stamp now x)) = Source_cols" "column ''id'' (Source_row e (Source_stamp now x)) = SText (Source_ID x)"
  by (simp_all add: Source_row_def Source_cols_def Source_stamp_def column_def)

lemma flow_row_key:
  "map fst (Flow_row e (Flow_stamp now x)) = Flow_cols" "column ''id'' (Flow_row e (Flow_stamp now x)) = SText (Flow_ID x)"
  by (simp_all add: Flow_row_def Flow_cols_def Flow_stamp_def column_def)

lemma sender_row_key:
  "map fst (Sender_row e (Sender_stamp now x)) = Sender_cols" "column ''id'' (Sender_row e (Sender_stamp now x)) = SText (Sender_ID x)"
  by (simp_all add: Sender_row_def Sender_cols_def Sender_stamp_def column_def)

lemma receiver_row_key:
  "map fst (Receiver_row e (Receiver_stamp now x)) = Receiver_cols" "column ''id'' (Receiver_row e (Receiver_stamp now x)) = SText (Receiver_ID x)"
  by (simp_all add: Receiver_row_def Receiver_cols_def Receiver_stamp_def column_def)

lemma shure_row_key:
  "map fst (ShureDevice_row e (ShureDevice_stamp now x)) = ShureDevice_cols" "column ''address'' (ShureDevice_row e (ShureDevice_stamp now x)) = SText (ShureDevice_Address x)"
  by (simp_all add: ShureDevice_row_def ShureDevice_cols_def ShureDevice_stamp_def column_def)

lemma ncp_row_key:
  "map fst (NCPObject_row e (NCPObject_stamp now x)) = NCPObject_cols" "column ''oid'' (NCPObject_row e (NCPObject_stamp now x)) = SInt (NCPObject_OID x)"
  by (simp_all add: NCPObject_row_def NCPObject_cols_def NCPObject_stamp_def column_def)

lemma last_event_row_key:
  "map fst (IS07Event_row e (IS07Event_stamp now x)) = IS07Event_cols" "column ''source_id'' (IS07Event_row e (IS07Event_stamp now x)) = SText (IS07Event_SourceID x)"
  by (simp_all add: IS07Event_row_def IS07Event_cols_def IS07Event_stamp_def column_def)

text \<open>
  A table of the database: where it is (\<open>fld\<close>, \<open>upd\<close>), the value of a key, the row of a struct, and what an upsert does
  besides (\<open>after\<close>).
\<close>

locale stored_table = keyed_table key cols cs scan keep
  for key :: string and cols :: "string list" and cs :: "string list" and scan :: "row \<Rightarrow> 's" and keep :: "'s \<Rightarrow> 's \<Rightarrow> 's" +
  fixes fld :: "database \<Rightarrow> row list" and upd :: "row list \<Rightarrow> database \<Rightarrow> database" and mk :: "'k \<Rightarrow> sqlval"
    and to_row :: "db_env \<Rightarrow> int \<Rightarrow> 's \<Rightarrow> row" and idx :: "'s \<Rightarrow> 'k" and after :: "'s \<Rightarrow> database \<Rightarrow> database"
  assumes fld_simps: "fld (upd t db) = t" "fld (db\<lparr> db_mu := m \<rparr>) = fld db" "fld (after x db) = fld db"
    and mu_simps: "upd t (db\<lparr> db_mu := m \<rparr>) = (upd t db)\<lparr> db_mu := m \<rparr>" "after x (db\<lparr> db_mu := m \<rparr>) = (after x db)\<lparr> db_mu := m \<rparr>"
    and inv_fld: "db_inv db \<Longrightarrow> table_ok key cols mk (fld db)"
    and inv_upd: "db_inv db \<Longrightarrow> table_ok key cols mk t \<Longrightarrow> db_inv (upd t db)"
    and inv_after: "db_inv db \<Longrightarrow> db_inv (after x db)"
    and row: "map fst (to_row env now x) = cols" "column key (to_row env now x) = mk (idx x)"
    and mk_inj: "mk i = mk j \<longleftrightarrow> i = j"
begin

lemma ok_upsert: "table_ok key cols mk t \<Longrightarrow> table_ok key cols mk (sql_upsert key cs (to_row env now x) t)"
  unfolding table_ok_def upsert_keys by (auto simp: named_upsert distinct_upsert row)

lemma ok_delete: "table_ok key cols mk t \<Longrightarrow> table_ok key cols mk (sql_delete key v t)"
  unfolding table_ok_def by (auto simp: named_delete distinct_delete) (auto simp: sql_delete_def)

lemma implements:
  assumes "de_ok env"
  shows "implements_map (\<lambda>db k. row_of key scan (fld db) (mk k)) (\<lambda>k. query_row env (\<lambda>db. sql_where key (mk k) (fld db)) scan)
    (\<lambda>now x. exec env (\<lambda>db. after x (upd (sql_upsert key cs (to_row env now x) (fld db)) db)))
    (\<lambda>k. exec env (\<lambda>db. upd (sql_delete key (mk k) (fld db)) db)) idx (\<lambda>now x. scan (to_row env now x)) keep"
  unfolding implements_map_def
proof (intro allI impI conjI)
  fix db k now x
  assume inv: "db_inv db"
  then have mu: "db_mu db = Unlocked" by (simp add: db_inv_def)
  note ok = inv_fld [OF inv]
  then have t: "named cols (fld db)" by (simp add: table_ok_def)
  show "query_row env (\<lambda>db. sql_where key (mk k) (fld db)) scan db = Done db (Some (row_of key scan (fld db) (mk k)))"
    by (simp add: query_row_done [OF assms mu] row_of_def)
  let ?up = "after x (upd (sql_upsert key cs (to_row env now x) (fld db)) db)"
  have up: "db_inv ?up"
    by (intro inv_after inv_upd [OF inv] ok_upsert ok)
  then have "?up\<lparr> db_mu := Unlocked \<rparr> = ?up" by (simp add: db_inv_def)
  then have "exec env (\<lambda>db. after x (upd (sql_upsert key cs (to_row env now x) (fld db)) db)) db = Done ?up True"
    by (simp add: exec_done [OF assms mu] fld_simps mu_simps)
  moreover have "(\<lambda>k. row_of key scan (fld ?up) (mk k)) = (\<lambda>k. row_of key scan (fld db) (mk k))(idx x \<mapsto>
      (case row_of key scan (fld db) (mk (idx x)) of None \<Rightarrow> scan (to_row env now x) | Some old \<Rightarrow> keep old (scan (to_row env now x))))"
    using t by (auto simp: fun_eq_iff fld_simps row_of_upsert row mk_inj)
  ultimately show "\<exists>db'. exec env (\<lambda>db. after x (upd (sql_upsert key cs (to_row env now x) (fld db)) db)) db = Done db' True \<and>
      db_inv db' \<and> (\<lambda>k. row_of key scan (fld db') (mk k)) = (\<lambda>k. row_of key scan (fld db) (mk k))(idx x \<mapsto>
      (case row_of key scan (fld db) (mk (idx x)) of None \<Rightarrow> scan (to_row env now x) | Some old \<Rightarrow> keep old (scan (to_row env now x))))"
    using up by blast
  let ?del = "upd (sql_delete key (mk k) (fld db)) db"
  have del: "db_inv ?del" by (intro inv_upd [OF inv] ok_delete ok)
  then have "?del\<lparr> db_mu := Unlocked \<rparr> = ?del" by (simp add: db_inv_def)
  then have "exec env (\<lambda>db. upd (sql_delete key (mk k) (fld db)) db) db = Done ?del True"
    by (simp add: exec_done [OF assms mu] fld_simps mu_simps)
  moreover have "(\<lambda>k. row_of key scan (fld ?del) (mk k)) = (\<lambda>k. row_of key scan (fld db) (mk k))(k := None)"
    by (auto simp: fun_eq_iff fld_simps row_of_delete mk_inj)
  ultimately show "\<exists>db'. exec env (\<lambda>db. upd (sql_delete key (mk k) (fld db)) db) db = Done db' True \<and> db_inv db' \<and>
      (\<lambda>k. row_of key scan (fld db') (mk k)) = (\<lambda>k. row_of key scan (fld db) (mk k))(k := None)"
    using del by blast
qed

text \<open>A query over the whole table, newest first.\<close>

lemma newest_scans:
  assumes "db_inv db" "mset (ties (fld db)) = mset (fld db)" "\<And>r. created (scan r) = time_of (column ''created_at'' r)"
    and "\<And>r. mk (idx (scan r)) = column key r \<or> column key r \<notin> range mk"
  shows "let xs = map scan (newest_first ties (fld db)) in
    set xs = ran (\<lambda>k. row_of key scan (fld db) (mk k)) \<and> distinct (map idx xs) \<and> sorted_wrt (\<lambda>x y. created y \<le> created x) xs"
proof -
  let ?rs = "newest_first ties (fld db)" and ?t = "fld db"
  have ok: "keys_distinct key ?t" "column key ` set ?t \<subseteq> range mk" using inv_fld [OF assms(1)] by (simp_all add: table_ok_def)
  have m: "mset ?rs = mset ?t" by (simp add: newest_first_def assms(2))
  then have rs: "set ?rs = set ?t" by (metis set_mset_mset)
  have "set (map scan ?rs) = ran (row_of key scan ?t)" using scans_are_rows [OF ok(1)] by (simp add: rs)
  also have "ran (row_of key scan ?t) = ran (\<lambda>k. row_of key scan ?t (mk k))"
  proof -
    have "v \<in> range mk" if "row_of key scan ?t v = Some x" for v x using row_of_from [OF that] ok(2) by auto
    then show ?thesis unfolding ran_def by fast
  qed
  finally have set: "set (map scan ?rs) = ran (\<lambda>k. row_of key scan ?t (mk k))" .
  have "distinct (map (column key) ?rs)"
    using ok(1) m unfolding keys_distinct_def by (metis mset_map mset_eq_imp_distinct_iff)
  moreover have "mk (idx (scan r)) = column key r" if "r \<in> set ?rs" for r
    using assms(4) [of r] ok(2) rs that by blast
  then have "map (mk \<circ> idx \<circ> scan) ?rs = map (column key) ?rs" by simp
  ultimately have "distinct (map idx (map scan ?rs))"
    by (metis (no_types, lifting) comp_assoc distinct_map map_map)
  moreover have "sorted_wrt (\<lambda>x y. created y \<le> created x) (map scan ?rs)"
  proof -
    have "sorted (map (\<lambda>r. - time_of (column ''created_at'' r)) ?rs)" by (simp add: newest_first_def)
    then show ?thesis by (simp add: sorted_wrt_map assms(3) sorted_map)
  qed
  ultimately show ?thesis using set by (simp add: Let_def)
qed

end

interpretation devices_store: stored_table "''id''" Device_cols Device_set Device_scan Device_keep db_devices "\<lambda>t db. db\<lparr> db_devices := t \<rparr>" SText
    "\<lambda>env now x. Device_row (de_json env) (Device_stamp now x)" Device_ID "\<lambda>x. call_back ''device'' (Device_ID x)"
  by unfold_locales (simp_all add: db_inv_def call_back_def device_row_key)

interpretation sources_store: stored_table "''id''" Source_cols Source_set Source_scan Source_keep db_sources "\<lambda>t db. db\<lparr> db_sources := t \<rparr>" SText
    "\<lambda>env now x. Source_row (de_json env) (Source_stamp now x)" Source_ID "\<lambda>x. call_back ''source'' (Source_ID x)"
  by unfold_locales (simp_all add: db_inv_def call_back_def source_row_key)

interpretation flows_store: stored_table "''id''" Flow_cols Flow_set Flow_scan Flow_keep db_flows "\<lambda>t db. db\<lparr> db_flows := t \<rparr>" SText
    "\<lambda>env now x. Flow_row (de_json env) (Flow_stamp now x)" Flow_ID "\<lambda>x. call_back ''flow'' (Flow_ID x)"
  by unfold_locales (simp_all add: db_inv_def call_back_def flow_row_key)

interpretation senders_store: stored_table "''id''" Sender_cols Sender_set Sender_scan Sender_keep db_senders "\<lambda>t db. db\<lparr> db_senders := t \<rparr>" SText
    "\<lambda>env now x. Sender_row (de_json env) (Sender_stamp now x)" Sender_ID "\<lambda>x. call_back ''sender'' (Sender_ID x)"
  by unfold_locales (simp_all add: db_inv_def call_back_def sender_row_key)

interpretation receivers_store: stored_table "''id''" Receiver_cols Receiver_set Receiver_scan Receiver_keep db_receivers "\<lambda>t db. db\<lparr> db_receivers := t \<rparr>" SText
    "\<lambda>env now x. Receiver_row (de_json env) (Receiver_stamp now x)" Receiver_ID "\<lambda>x db. db"
  by unfold_locales (simp_all add: db_inv_def call_back_def receiver_row_key)

interpretation shure_store: stored_table "''address''" ShureDevice_cols ShureDevice_set ShureDevice_scan ShureDevice_keep db_shure "\<lambda>t db. db\<lparr> db_shure := t \<rparr>" SText
    "\<lambda>env now x. ShureDevice_row (de_json env) (ShureDevice_stamp now x)" ShureDevice_Address "\<lambda>x db. db"
  by unfold_locales (simp_all add: db_inv_def call_back_def shure_row_key)

interpretation ncp_store: stored_table "''oid''" NCPObject_cols NCPObject_set NCPObject_scan NCPObject_keep db_ncp "\<lambda>t db. db\<lparr> db_ncp := t \<rparr>" SInt
    "\<lambda>env now x. NCPObject_row (de_json env) (NCPObject_stamp now x)" NCPObject_OID "\<lambda>x. call_back ''ncpObject'' (itoa (NCPObject_OID x))"
  by unfold_locales (simp_all add: db_inv_def call_back_def ncp_row_key)

lemma device_implements:
  "de_ok env \<Longrightarrow> implements_map device_map (GetDevice env) (UpsertDevice env) (DeleteDevice env) Device_ID (device_written env) Device_keep"
  unfolding device_map_def [abs_def] GetDevice_def [abs_def] UpsertDevice_def [abs_def] DeleteDevice_def [abs_def] device_written_def [abs_def]
  by (rule devices_store.implements)

lemma source_implements:
  "de_ok env \<Longrightarrow> implements_map source_map (GetSource env) (UpsertSource env) (DeleteSource env) Source_ID (source_written env) Source_keep"
  unfolding source_map_def [abs_def] GetSource_def [abs_def] UpsertSource_def [abs_def] DeleteSource_def [abs_def] source_written_def [abs_def]
  by (rule sources_store.implements)

lemma flow_implements:
  "de_ok env \<Longrightarrow> implements_map flow_map (GetFlow env) (UpsertFlow env) (DeleteFlow env) Flow_ID (flow_written env) Flow_keep"
  unfolding flow_map_def [abs_def] GetFlow_def [abs_def] UpsertFlow_def [abs_def] DeleteFlow_def [abs_def] flow_written_def [abs_def]
  by (rule flows_store.implements)

lemma sender_implements:
  "de_ok env \<Longrightarrow> implements_map sender_map (GetSender env) (UpsertSender env) (DeleteSender env) Sender_ID (sender_written env) Sender_keep"
  unfolding sender_map_def [abs_def] GetSender_def [abs_def] UpsertSender_def [abs_def] DeleteSender_def [abs_def] sender_written_def [abs_def]
  by (rule senders_store.implements)

lemma receiver_implements:
  "de_ok env \<Longrightarrow> implements_map receiver_map (GetReceiver env) (UpsertReceiver env) (DeleteReceiver env) Receiver_ID (receiver_written env) Receiver_keep"
  unfolding receiver_map_def [abs_def] GetReceiver_def [abs_def] UpsertReceiver_def [abs_def] DeleteReceiver_def [abs_def] receiver_written_def [abs_def]
  by (rule receivers_store.implements)

lemma shure_implements:
  "de_ok env \<Longrightarrow> implements_map shure_map (GetShureDevice env) (UpsertShureDevice env) (DeleteShureDevice env) ShureDevice_Address (shure_written env) ShureDevice_keep"
  unfolding shure_map_def [abs_def] GetShureDevice_def [abs_def] UpsertShureDevice_def [abs_def] DeleteShureDevice_def [abs_def] shure_written_def [abs_def]
  by (rule shure_store.implements)

lemma ncp_implements:
  "de_ok env \<Longrightarrow> implements_map ncp_map (db_GetNCPObject env) (UpsertNCPObject env) (DeleteNCPObject env) NCPObject_OID (ncp_written env) NCPObject_keep"
  unfolding ncp_map_def [abs_def] db_GetNCPObject_def [abs_def] UpsertNCPObject_def [abs_def] DeleteNCPObject_def [abs_def] ncp_written_def [abs_def]
  by (rule ncp_store.implements)

text \<open>
  C18. The database implements maps, one for each kind of struct: a lookup answers the struct of the key or nothing, an
  upsert writes the struct under its key and keeps the time of creation of the one there was, a deletion
  removes the key, and each operation ends with the lock free and the tables well formed.
\<close>

theorem database_implements_maps:
  assumes "de_ok env"
  shows "implements_map device_map (GetDevice env) (UpsertDevice env) (DeleteDevice env) Device_ID (device_written env) Device_keep \<and>
    implements_map source_map (GetSource env) (UpsertSource env) (DeleteSource env) Source_ID (source_written env) Source_keep \<and>
    implements_map flow_map (GetFlow env) (UpsertFlow env) (DeleteFlow env) Flow_ID (flow_written env) Flow_keep \<and>
    implements_map sender_map (GetSender env) (UpsertSender env) (DeleteSender env) Sender_ID (sender_written env) Sender_keep \<and>
    implements_map receiver_map (GetReceiver env) (UpsertReceiver env) (DeleteReceiver env) Receiver_ID (receiver_written env) Receiver_keep \<and>
    implements_map shure_map (GetShureDevice env) (UpsertShureDevice env) (DeleteShureDevice env) ShureDevice_Address (shure_written env) ShureDevice_keep \<and>
    implements_map ncp_map (db_GetNCPObject env) (UpsertNCPObject env) (DeleteNCPObject env) NCPObject_OID (ncp_written env) NCPObject_keep"
  using assms by (intro conjI device_implements source_implements flow_implements sender_implements receiver_implements
      shure_implements ncp_implements)

definition test_json :: json_env where
  "test_json = \<lparr> je_float = (\<lambda>i. word_of_int i), je_whole = (\<lambda>w. Some (Some (sint w))) \<rparr>"

definition test_db_env :: db_env where
  "test_db_env = \<lparr> de_json = test_json, de_ok = True, de_ties = (\<lambda>rs. rs) \<rparr>"

definition test_source :: Source where
  "test_source = \<lparr> Source_ID = ''s1'', Source_Version = ''1:0'', Source_Label = ''l'', Source_Description = ''d'', Source_Format = ''f'',
     Source_DeviceID = ''d1'', Source_EventType = ''number'', Source_Tags = Some [], Source_GrainRate = Some [(''numerator'', 1), (''denominator'', 5)],
     Source_CreatedAt = 0, Source_UpdatedAt = 0 \<rparr>"

theorem database_implements_maps_witness:
  "\<exists>db'. UpsertSource test_db_env 7 test_source initSchema = Done db' True \<and> db_inv db' \<and> source_map db' ''s1'' \<noteq> None"
proof -
  have "implements_map source_map (GetSource test_db_env) (UpsertSource test_db_env) (DeleteSource test_db_env) Source_ID
      (source_written test_db_env) Source_keep"
    using database_implements_maps [of test_db_env] by (simp add: test_db_env_def)
  with initSchema_inv show ?thesis unfolding implements_map_def by (fastforce simp: test_source_def)
qed

subsection \<open>Lists\<close>

text \<open>
  The lists of devices, sources, flows, senders and receivers are what the maps hold, each struct once, the newest
  first, whatever the order of rows with equal times.
\<close>

lemma database_lists:
  assumes "db_inv db" "de_ok env" "\<And>t. mset (de_ties env t) = mset t"
  shows "\<exists>devices sources flows senders receivers.
    GetDevices env db = Done db (Some devices) \<and> set devices = ran (device_map db) \<and> distinct (map Device_ID devices) \<and>
      sorted_wrt (\<lambda>x y. Device_CreatedAt y \<le> Device_CreatedAt x) devices \<and>
    GetSources env db = Done db (Some sources) \<and> set sources = ran (source_map db) \<and> distinct (map Source_ID sources) \<and>
      sorted_wrt (\<lambda>x y. Source_CreatedAt y \<le> Source_CreatedAt x) sources \<and>
    GetFlows env db = Done db (Some flows) \<and> set flows = ran (flow_map db) \<and> distinct (map Flow_ID flows) \<and>
      sorted_wrt (\<lambda>x y. Flow_CreatedAt y \<le> Flow_CreatedAt x) flows \<and>
    GetSenders env db = Done db (Some senders) \<and> set senders = ran (sender_map db) \<and> distinct (map Sender_ID senders) \<and>
      sorted_wrt (\<lambda>x y. Sender_CreatedAt y \<le> Sender_CreatedAt x) senders \<and>
    GetReceivers env db = Done db (Some receivers) \<and> set receivers = ran (receiver_map db) \<and> distinct (map Receiver_ID receivers) \<and>
      sorted_wrt (\<lambda>x y. Receiver_CreatedAt y \<le> Receiver_CreatedAt x) receivers"
proof -
  have mu: "db_mu db = Unlocked" using assms(1) by (simp add: db_inv_def)
  have key: "SText (scan_string v) = v \<or> v \<notin> range SText" for v by (cases v) auto
  have c_device: "Device_CreatedAt (Device_scan r) = time_of (column ''created_at'' r)"
    "SText (Device_ID (Device_scan r)) = column ''id'' r \<or> column ''id'' r \<notin> range SText" for r by (simp_all add: Device_scan_def key)
  note devices = devices_store.newest_scans [where db = db and ties = "de_ties env" and created = Device_CreatedAt, OF assms(1) assms(3) c_device,
      unfolded Let_def, folded device_map_def]
  have c_source: "Source_CreatedAt (Source_scan r) = time_of (column ''created_at'' r)"
    "SText (Source_ID (Source_scan r)) = column ''id'' r \<or> column ''id'' r \<notin> range SText" for r by (simp_all add: Source_scan_def key)
  note sources = sources_store.newest_scans [where db = db and ties = "de_ties env" and created = Source_CreatedAt, OF assms(1) assms(3) c_source,
      unfolded Let_def, folded source_map_def]
  have c_flow: "Flow_CreatedAt (Flow_scan r) = time_of (column ''created_at'' r)"
    "SText (Flow_ID (Flow_scan r)) = column ''id'' r \<or> column ''id'' r \<notin> range SText" for r by (simp_all add: Flow_scan_def key)
  note flows = flows_store.newest_scans [where db = db and ties = "de_ties env" and created = Flow_CreatedAt, OF assms(1) assms(3) c_flow,
      unfolded Let_def, folded flow_map_def]
  have c_sender: "Sender_CreatedAt (Sender_scan r) = time_of (column ''created_at'' r)"
    "SText (Sender_ID (Sender_scan r)) = column ''id'' r \<or> column ''id'' r \<notin> range SText" for r by (simp_all add: Sender_scan_def key)
  note senders = senders_store.newest_scans [where db = db and ties = "de_ties env" and created = Sender_CreatedAt, OF assms(1) assms(3) c_sender,
      unfolded Let_def, folded sender_map_def]
  have c_receiver: "Receiver_CreatedAt (Receiver_scan r) = time_of (column ''created_at'' r)"
    "SText (Receiver_ID (Receiver_scan r)) = column ''id'' r \<or> column ''id'' r \<notin> range SText" for r by (simp_all add: Receiver_scan_def key)
  note receivers = receivers_store.newest_scans [where db = db and ties = "de_ties env" and created = Receiver_CreatedAt, OF assms(1) assms(3) c_receiver,
      unfolded Let_def, folded receiver_map_def]
  have "GetDevices env db = Done db (Some (map Device_scan (newest_first (de_ties env) (db_devices db))))"
    "GetSources env db = Done db (Some (map Source_scan (newest_first (de_ties env) (db_sources db))))"
    "GetFlows env db = Done db (Some (map Flow_scan (newest_first (de_ties env) (db_flows db))))"
    "GetSenders env db = Done db (Some (map Sender_scan (newest_first (de_ties env) (db_senders db))))"
    "GetReceivers env db = Done db (Some (map Receiver_scan (newest_first (de_ties env) (db_receivers db))))"
    by (simp_all add: GetDevices_def GetSources_def GetFlows_def GetSenders_def GetReceivers_def query_done [OF assms(2) mu])
  with devices sources flows senders receivers show ?thesis by blast
qed

lemma database_lists_witness:
  "\<exists>db' sources. UpsertSource test_db_env 7 test_source initSchema = Done db' True \<and> GetSources test_db_env db' = Done db' (Some sources) \<and>
     set sources = {source_written test_db_env 7 test_source} \<and> distinct (map Source_ID sources)"
proof -
  have ok: "de_ok test_db_env" and ties: "mset (de_ties test_db_env t) = mset t" for t by (simp_all add: test_db_env_def)
  have none: "source_map initSchema = Map.empty" by (simp add: source_map_def row_of_def initSchema_def fun_eq_iff)
  obtain db' where db': "UpsertSource test_db_env 7 test_source initSchema = Done db' True" "db_inv db'"
    "source_map db' = [Source_ID test_source \<mapsto> source_written test_db_env 7 test_source]"
    using source_implements [OF ok, unfolded implements_map_def] initSchema_inv by (fastforce simp: none)
  from database_lists [OF db'(2) ok ties] db'(1,3) show ?thesis by (auto simp: ran_def)
qed

subsection \<open>What is read back\<close>

lemma string_or_zero_JStr [simp]: "string_or_zero (JStr s) = s"
  by (simp add: string_or_zero_def)

lemma int_or_zero_JNum [simp]: "int_or_zero (JNum (Some i) w) = i"
  by (simp add: int_or_zero_def)

lemma read_strings [simp]: "jsonUnmarshalSlice (json_of e (str_opt x)) = x"
  by (cases x) (simp_all add: jsonUnmarshalSlice_def str_opt_def comp_def)

lemma read_ints [simp]: "jsonUnmarshalIntSlice (json_of e (ints_opt x)) = x"
  by (cases x) (simp_all add: jsonUnmarshalIntSlice_def ints_opt_def comp_def)

lemma map_of_fold_put:
  "distinct (map fst kvs) \<Longrightarrow> map_of (fold (\<lambda>(k, v) m. map_put k (f v) m) kvs m) k =
    (case map_of kvs k of None \<Rightarrow> map_of m k | Some v \<Rightarrow> Some (f v))"
proof (induction kvs arbitrary: m)
  case Nil
  then show ?case by simp
next
  case (Cons kv kvs)
  obtain k' v where kv: "kv = (k', v)" by (cases kv)
  have "map_of kvs k' = None" using Cons.prems by (simp add: kv map_of_eq_None_iff)
  moreover have "distinct (map fst kvs)" using Cons.prems by simp
  ultimately show ?case using Cons.IH [of "map_put k' (f v) m"] by (auto simp: kv split: option.split)
qed

lemma map_of_sort_key: "distinct (map fst kvs) \<Longrightarrow> map_of (sort_key fst kvs) = map_of kvs"
proof -
  assume d: "distinct (map fst kvs)"
  have "mset (map fst (sort_key fst kvs)) = mset (map fst kvs)" by (metis mset_map mset_sort)
  then have "distinct (map fst (sort_key fst kvs))" using d mset_eq_imp_distinct_iff by metis
  then show ?thesis using d by (intro map_of_inject_set [THEN iffD2]) simp_all
qed

lemma distinct_sort_key: "distinct (map fst kvs) \<Longrightarrow> distinct (map fst (sort_key fst kvs))"
  by (metis mset_eq_imp_distinct_iff mset_map mset_sort)

definition same_map :: "('k \<times> 'v) list option \<Rightarrow> ('k \<times> 'v) list option \<Rightarrow> bool" where
  "same_map a b \<longleftrightarrow> map_option map_of a = map_option map_of b"

lemma read_int_map:
  assumes "\<And>m. x = Some m \<Longrightarrow> distinct (map fst m)"
  shows "same_map (jsonUnmarshalIntMap (json_of e (int_map_opt x))) x"
proof (cases x)
  case None
  then show ?thesis by (simp add: same_map_def int_map_opt_def jsonUnmarshalIntMap_def)
next
  case (Some m)
  let ?f = "\<lambda>i. JNum (Some i) (je_float e i)"
  let ?js = "map (\<lambda>(k, i). (k, ?f i)) m"
  have d: "distinct (map fst ?js)" using assms [OF Some] by (simp add: case_prod_unfold comp_def)
  have "map_of (fold (\<lambda>(k, j) m. map_put k (int_or_zero j) m) (sort_key fst ?js) []) k = map_of m k" for k
    unfolding map_of_fold_put [OF distinct_sort_key [OF d]] map_of_sort_key [OF d]
    by (simp add: map_of_map split: option.split)
  then show ?thesis by (auto simp: Some same_map_def int_map_opt_def jsonUnmarshalIntMap_def fun_eq_iff)
qed

text \<open>Strings and slices of strings are the values the gateway puts into tags: a slice comes back as an array.\<close>

fun reread :: "goval \<Rightarrow> goval" where
  "reread (VStrs ss) = VArr (map VStr ss)"
| "reread v = v"

definition text_values :: "(string \<times> goval) list option \<Rightarrow> bool" where
  "text_values x \<longleftrightarrow> (\<forall>m. x = Some m \<longrightarrow> distinct (map fst m) \<and> (\<forall>v\<in>snd ` set m. (\<exists>s. v = VStr s) \<or> (\<exists>ss. v = VStrs ss)))"

lemma opt_map_texts:
  assumes "\<forall>v\<in>snd ` set m. (\<exists>s. v = VStr s) \<or> (\<exists>ss. v = VStrs ss)"
  obtains js where "opt_map (\<lambda>(k, v). map_option (Pair k) (json_of e v)) m = Some js" "map fst js = map fst m"
    "map (\<lambda>(k, j). (k, any_of_json j)) js = map (\<lambda>(k, v). (k, reread v)) m"
proof -
  have "\<exists>js. opt_map (\<lambda>(k, v). map_option (Pair k) (json_of e v)) m = Some js \<and> map fst js = map fst m \<and>
      map (\<lambda>(k, j). (k, any_of_json j)) js = map (\<lambda>(k, v). (k, reread v)) m"
    using assms by (induction m) (auto simp: comp_def)
  with that show thesis by blast
qed

lemma read_tags:
  assumes "text_values x"
  shows "same_map (jsonUnmarshalMap (json_of e (map_opt x))) (map_option (map (\<lambda>(k, v). (k, reread v))) x)"
proof (cases x)
  case None
  then show ?thesis by (simp add: same_map_def map_opt_def jsonUnmarshalMap_def)
next
  case (Some m)
  have "\<forall>v\<in>snd ` set m. (\<exists>s. v = VStr s) \<or> (\<exists>ss. v = VStrs ss)" using assms by (simp add: Some text_values_def)
  then obtain js where js: "opt_map (\<lambda>(k, v). map_option (Pair k) (json_of e v)) m = Some js" "map fst js = map fst m"
    "map (\<lambda>(k, j). (k, any_of_json j)) js = map (\<lambda>(k, v). (k, reread v)) m"
    by (rule opt_map_texts)
  have d: "distinct (map fst js)" using assms js(2) by (simp add: Some text_values_def)
  let ?as = "map (\<lambda>(k, v). (k, any_of_json v)) (sort_key fst js)"
  have da: "distinct (map fst ?as)" using distinct_sort_key [OF d] by (simp add: case_prod_unfold comp_def)
  have "map_of (fold (\<lambda>(k, v) m. map_put k v m) ?as []) k = map_of ?as k" for k
    using map_of_fold_put [OF da, of "\<lambda>v. v" "[]" k] by (simp split: option.split)
  moreover have "map_of ?as = map_of (map (\<lambda>(k, v). (k, reread v)) m)"
    unfolding js(3) [symmetric] using map_of_sort_key [OF d] by (simp add: map_of_map fun_eq_iff)
  ultimately show ?thesis by (auto simp: Some same_map_def map_opt_def jsonUnmarshalMap_def js(1) fun_eq_iff)
qed

text \<open>
  C19. A flow that was not there is read back as it was written: its texts and its parents are the same, its rate and its
  tags are the same maps, where a slice of strings among the tags comes back as an array; both times are
  that of the upsert.
\<close>

theorem flow_roundtrip:
  assumes "db_inv db" "de_ok env" "flow_map db (Flow_ID x) = None" "Flow_CreatedAt x = 0"
    and "text_values (Flow_Tags x)" "\<And>m. Flow_GrainRate x = Some m \<Longrightarrow> distinct (map fst m)"
  shows "\<exists>db' tags rate. UpsertFlow env now x db = Done db' True \<and>
    GetFlow env (Flow_ID x) db' = Done db' (Some (Some
      (x\<lparr> Flow_Tags := tags, Flow_GrainRate := rate, Flow_CreatedAt := now, Flow_UpdatedAt := now \<rparr>))) \<and>
    same_map rate (Flow_GrainRate x) \<and> same_map tags (map_option (map (\<lambda>(k, v). (k, reread v))) (Flow_Tags x))"
proof -
  note flow_implements [OF assms(2), unfolded implements_map_def]
  then obtain db' where db': "UpsertFlow env now x db = Done db' True" "db_inv db'"
    "flow_map db' = (flow_map db)(Flow_ID x \<mapsto> flow_written env now x)"
    "GetFlow env (Flow_ID x) db' = Done db' (Some (flow_map db' (Flow_ID x)))"
    using assms(1,3) by fastforce
  let ?tags = "jsonUnmarshalMap (json_of (de_json env) (map_opt (Flow_Tags x)))"
  let ?rate = "jsonUnmarshalIntMap (json_of (de_json env) (int_map_opt (Flow_GrainRate x)))"
  have "flow_written env now x =
      x\<lparr> Flow_Tags := ?tags, Flow_GrainRate := ?rate, Flow_CreatedAt := now, Flow_UpdatedAt := now \<rparr>"
    by (simp add: flow_written_def Flow_scan_def Flow_row_def Flow_stamp_def column_def jsonMarshal_def time_of_def
        jsonUnmarshalStringIntMap_def assms(4))
  with db' read_tags [OF assms(5), where e = "de_json env"] read_int_map [OF assms(6), where e = "de_json env"] show ?thesis by auto
qed

definition test_flow :: Flow where
  "test_flow = \<lparr> Flow_ID = ''f1'', Flow_Version = ''1:0'', Flow_Label = ''l'', Flow_Description = ''d'', Flow_Format = ''f'',
     Flow_SourceID = ''s1'', Flow_DeviceID = ''d1'', Flow_Parents = Some [''p''], Flow_Tags = Some [(''b'', VStr ''1''), (''a'', VStrs [''2''])],
     Flow_MediaType = ''m'', Flow_EventType = ''number'', Flow_GrainRate = Some [(''numerator'', 1), (''denominator'', 5)],
     Flow_CreatedAt = 0, Flow_UpdatedAt = 0 \<rparr>"

theorem flow_roundtrip_witness:
  "\<exists>db' y. UpsertFlow test_db_env 7 test_flow initSchema = Done db' True \<and> GetFlow test_db_env ''f1'' db' = Done db' (Some (Some y)) \<and>
     Flow_Parents y = Some [''p''] \<and> same_map (Flow_GrainRate y) (Flow_GrainRate test_flow)"
proof -
  have "flow_map initSchema (Flow_ID test_flow) = None" by (simp add: flow_map_def row_of_def initSchema_def)
  moreover have "text_values (Flow_Tags test_flow)" by (simp add: text_values_def test_flow_def)
  moreover have "distinct (map fst m)" if "Flow_GrainRate test_flow = Some m" for m using that by (auto simp: test_flow_def)
  ultimately obtain db' tags rate where r: "UpsertFlow test_db_env 7 test_flow initSchema = Done db' True"
    "GetFlow test_db_env (Flow_ID test_flow) db' = Done db' (Some (Some
      (test_flow\<lparr> Flow_Tags := tags, Flow_GrainRate := rate, Flow_CreatedAt := 7, Flow_UpdatedAt := 7 \<rparr>)))"
    "same_map rate (Flow_GrainRate test_flow)"
    using flow_roundtrip [OF initSchema_inv, of test_db_env test_flow 7] by (auto simp: test_db_env_def test_flow_def)
  then show ?thesis by (auto simp: test_flow_def)
qed

subsection \<open>An operation that waits for itself\<close>

text \<open>
  No update of a property of a stored control object ever returns: it takes the lock and then calls an
  operation that waits for it. The lock stays taken, so no later operation returns either.
\<close>

lemma UpdateNCPObjectProperty_hangs:
  assumes "db_mu db = Unlocked"
  shows "\<exists>db'. UpdateNCPObjectProperty env now oid p v db = Deadlock db' \<and> db_mu db' = WriteLocked \<and> db_ncp db' = db_ncp db \<and>
    (\<forall>env' oid'. db_GetNCPObject env' oid' db' = Deadlock db') \<and> (\<forall>env' now' x. UpsertNCPObject env' now' x db' = Deadlock db') \<and>
    (\<forall>env' k. GetDevice env' k db' = Deadlock db')"
  using assms by (simp add: UpdateNCPObjectProperty_def locked_def db_GetNCPObject_def query_row_def read_locked_def
      UpsertNCPObject_def exec_def GetDevice_def)

lemma UpdateNCPObjectProperty_hangs_witness:
  "\<exists>db'. UpdateNCPObjectProperty test_db_env 7 1 ''gain'' (VInt 3) initSchema = Deadlock db' \<and> db_mu db' = WriteLocked"
  using UpdateNCPObjectProperty_hangs [of initSchema test_db_env 7 1 "''gain''" "VInt 3"] by (auto simp: initSchema_def)

end
