(* ===== verification/Node_Api.thy ===== *)
theory Node_Api
  imports Database_Laws Is07_Events
begin

text \<open>
  The Node API in \<open>internal/infrastructure/nmos_controller.go\<close>: what a registration writes to the database and what the
  GET handlers answer, from the database when there is one and from the resources in memory otherwise; the node
  itself; and the controls of a device.

  A handler that waits for the lock of the node, or for that of the database, is a deadlock when the holder does not
  return.
\<close>

subsection \<open>Rows of a registration\<close>







subsection \<open>Lists\<close>

text \<open>What a handler answers: structs of the database or resources in memory.\<close>

datatype 's listing = Structs "'s list" | InMemory "goval list"

definition node_list :: "(database \<Rightarrow> (database, 's list option) run) \<Rightarrow> string \<Rightarrow> database \<Rightarrow> nmos_state \<Rightarrow> (nmos_state, 's listing) run" where
  "node_list get t db s =
     run_bind (mu_RLock s) (\<lambda>s _. run_bind (mu_RUnlock s) (\<lambda>s _.
       if has_db s then
         (case get db of
            Done db' (Some xs) \<Rightarrow> Done s (Structs xs)
          | Done db' None \<Rightarrow> Done s (Structs [])
          | Deadlock db' \<Rightarrow> Deadlock s
          | FatalError \<Rightarrow> FatalError)
       else run_bind (mu_RLock s) (\<lambda>s _. run_bind (mu_RUnlock s) (\<lambda>s _. Done s (InMemory (resources s t))))))"

definition handleNodeDevices :: "db_env \<Rightarrow> database \<Rightarrow> nmos_state \<Rightarrow> (nmos_state, Device listing) run" where
  "handleNodeDevices env = node_list (GetDevices env) ''devices''"

definition handleNodeSources :: "db_env \<Rightarrow> database \<Rightarrow> nmos_state \<Rightarrow> (nmos_state, Source listing) run" where
  "handleNodeSources env = node_list (GetSources env) ''sources''"

definition handleNodeFlows :: "db_env \<Rightarrow> database \<Rightarrow> nmos_state \<Rightarrow> (nmos_state, Flow listing) run" where
  "handleNodeFlows env = node_list (GetFlows env) ''flows''"

definition handleNodeSenders :: "db_env \<Rightarrow> database \<Rightarrow> nmos_state \<Rightarrow> (nmos_state, Sender listing) run" where
  "handleNodeSenders env = node_list (GetSenders env) ''senders''"

definition handleNodeReceivers :: "db_env \<Rightarrow> database \<Rightarrow> nmos_state \<Rightarrow> (nmos_state, Receiver listing) run" where
  "handleNodeReceivers env = node_list (GetReceivers env) ''receivers''"

subsection \<open>Single resources\<close>

datatype 's found = Found 's | FoundInMemory goval | Missing

definition node_by_id ::
  "(string \<Rightarrow> database \<Rightarrow> (database, 's option option) run) \<Rightarrow> string \<Rightarrow> string \<Rightarrow> database \<Rightarrow> nmos_state \<Rightarrow> (nmos_state, 's found) run" where
  "node_by_id get t i db s =
     run_bind (mu_RLock s) (\<lambda>s _. run_bind (mu_RUnlock s) (\<lambda>s _.
       if has_db s then
         (case get i db of
            Done db' (Some (Some x)) \<Rightarrow> Done s (Found x)
          | Done db' _ \<Rightarrow> Done s Missing
          | Deadlock db' \<Rightarrow> Deadlock s
          | FatalError \<Rightarrow> FatalError)
       else run_bind (mu_RLock s) (\<lambda>s _.
         (let answer = (case find_resource i (resources s t) of Some r \<Rightarrow> FoundInMemory r | None \<Rightarrow> Missing) in
          run_bind (mu_RUnlock s) (\<lambda>s _. Done s answer)))))"

definition handleNodeDeviceById :: "db_env \<Rightarrow> string \<Rightarrow> database \<Rightarrow> nmos_state \<Rightarrow> (nmos_state, Device found) run" where
  "handleNodeDeviceById env = node_by_id (GetDevice env) ''devices''"

definition handleNodeSourceById :: "db_env \<Rightarrow> string \<Rightarrow> database \<Rightarrow> nmos_state \<Rightarrow> (nmos_state, Source found) run" where
  "handleNodeSourceById env = node_by_id (GetSource env) ''sources''"

definition handleNodeFlowById :: "db_env \<Rightarrow> string \<Rightarrow> database \<Rightarrow> nmos_state \<Rightarrow> (nmos_state, Flow found) run" where
  "handleNodeFlowById env = node_by_id (GetFlow env) ''flows''"

definition handleNodeSenderById :: "db_env \<Rightarrow> string \<Rightarrow> database \<Rightarrow> nmos_state \<Rightarrow> (nmos_state, Sender found) run" where
  "handleNodeSenderById env = node_by_id (GetSender env) ''senders''"

definition handleNodeReceiverById :: "db_env \<Rightarrow> string \<Rightarrow> database \<Rightarrow> nmos_state \<Rightarrow> (nmos_state, Receiver found) run" where
  "handleNodeReceiverById env = node_by_id (GetReceiver env) ''receivers''"

text \<open>The list of senders of the connection API comes from memory. No sender gives a nil slice.\<close>

definition handleConnectionSendersList :: "nmos_state \<Rightarrow> (nmos_state, string list) run" where
  "handleConnectionSendersList s =
     run_bind (mu_RLock s) (\<lambda>s _.
       (let ids = List.map_filter (\<lambda>r. case as_map r of None \<Rightarrow> None
          | Some m \<Rightarrow> map_option (\<lambda>i. i @ ''/'') (as_string (field_of ''id'' m))) (resources s ''senders'') in
        run_bind (mu_RUnlock s) (\<lambda>s _. Done s ids)))"

subsection \<open>The node\<close>

text \<open>The last colon separates host and port.\<close>

definition splitHostPort :: "string \<Rightarrow> string \<times> string" where
  "splitHostPort addr =
     (if CHR '':'' \<in> set addr
      then (butlast (rev (dropWhile (\<lambda>c. c \<noteq> CHR '':'') (rev addr))), rev (takeWhile (\<lambda>c. c \<noteq> CHR '':'') (rev addr)))
      else (addr, []))"

definition port_number :: "string \<Rightarrow> int" where
  "port_number p = (case atoi p of Some n \<Rightarrow> n | None \<Rightarrow> 8080)"

text \<open>
  \<open>nodeAddr\<close>, \<open>advertisedAddr\<close> and the interfaces of the node; \<open>ver\<close> is the text of the version. The resource for the
  registry takes the listen address, the handler the configured one, and it adds the address of the node.
\<close>

definition node_fields ::
  "string \<Rightarrow> string \<Rightarrow> string \<Rightarrow> (string \<times> goval) list list \<Rightarrow> string \<Rightarrow> (string \<times> goval) list \<times> (string \<times> goval) list" where
  "node_fields addr advertisedAddr nid interfaces ver =
     (let host = fst (splitHostPort addr); port = port_number (snd (splitHostPort addr));
          hostname = (if advertisedAddr \<noteq> [] then advertisedAddr else host) in
      ([(''id'', VStr nid), (''version'', VStr ver), (''label'', VStr ''Shure-NMOS Gateway Node''),
        (''description'', VStr ''Gateway connecting Shure Axient to NMOS''), (''tags'', VMap []), (''caps'', VMap [])],
       [(''api'', VMap [(''versions'', VStrs [''v1.3'']),
          (''endpoints'', VMaps [[(''host'', VStr host), (''port'', VInt port), (''protocol'', VStr ''http'')]])]),
        (''hostname'', VStr hostname), (''interfaces'', VMaps interfaces), (''services'', VMaps []),
        (''clocks'', VMaps [[(''name'', VStr ''clk0''), (''ref_type'', VStr ''internal'')]])]))"

definition buildNodeResource ::
  "string \<Rightarrow> string \<Rightarrow> string \<Rightarrow> (string \<times> goval) list list \<Rightarrow> string \<Rightarrow> (string \<times> goval) list" where
  "buildNodeResource listenAddr advertisedAddr nid interfaces ver =
     (case node_fields listenAddr advertisedAddr nid interfaces ver of (a, b) \<Rightarrow> a @ b)"

definition handleNodeSelf ::
  "string \<Rightarrow> string \<Rightarrow> string \<Rightarrow> (string \<times> goval) list list \<Rightarrow> string \<Rightarrow> (string \<times> goval) list" where
  "handleNodeSelf nodeAddr advertisedAddr nid interfaces ver =
     (case node_fields nodeAddr advertisedAddr nid interfaces ver of (a, b) \<Rightarrow>
        a @ [(''href'', VStr (''http://'' @ fst (splitHostPort nodeAddr) @ '':'' @ itoa (port_number (snd (splitHostPort nodeAddr))) @ ''/''))] @ b)"

text \<open>The lists of links, by the path of the request.\<close>

definition handleNodeRoot :: "string \<Rightarrow> string list" where
  "handleNodeRoot path =
     (if path = ''/x-nmos'' \<or> path = ''/x-nmos/'' then [''node/'']
      else if path = ''/x-nmos/node'' \<or> path = ''/x-nmos/node/'' then [''v1.3/'']
      else [''self/'', ''sources/'', ''flows/'', ''devices/'', ''senders/'', ''receivers/''])"

subsection \<open>Controls of a device\<close>

datatype verb = Get | Post | Put | Patch

datatype controls_reply =
    InvalidPath
  | InvalidBody
  | Accepted
  | ControlList "(string \<times> goval) list list"

definition dec_body_value :: "json option \<Rightarrow> goval option" where
  "dec_body_value body = unmarshal (\<lambda>k j v. if equal_fold k ''value'' then Some (any_of_json j) else Some v) body VNil"

definition node_controls :: "string \<Rightarrow> (string \<times> goval) list list" where
  "node_controls nodeAddr =
     (let at = (\<lambda>scheme path. VStr (scheme @ ''://'' @ fst (splitHostPort nodeAddr) @ '':'' @ itoa (port_number (snd (splitHostPort nodeAddr))) @ path)) in
      [[(''type'', VStr ''urn:x-nmos:control:ncp/v1.0''), (''href'', at ''ws'' ''/x-nmos/node/v1.3/ncp'')],
       [(''type'', VStr ''urn:x-nmos:control:events/v1.0''), (''href'', at ''http'' ''/x-nmos/events/v1.0/'')],
       [(''type'', VStr ''urn:x-nmos:control:sr-ctrl/v1.0''), (''href'', at ''http'' ''/x-nmos/connection/v1.1/'')]])"

text \<open>
  The reply, the event state with the frames written, and the call of the callback, which is there when \<open>cb\<close> is set. A
  device without controls and one with an empty list are the same.
\<close>

definition handleDeviceControls ::
  "(int \<Rightarrow> string) \<Rightarrow> int \<Rightarrow> (conn \<Rightarrow> bool) \<Rightarrow> string \<Rightarrow> bool \<Rightarrow> (string \<Rightarrow> (string \<times> goval) list list) \<Rightarrow> string \<Rightarrow> verb \<Rightarrow> json option \<Rightarrow>
   is07_state \<Rightarrow> is07_state \<times> writes \<times> (string \<times> string \<times> goval) option \<times> controls_reply" where
  "handleDeviceControls stamp now ok nodeAddr cb controls path m body s =
     (let parts = split_byte (CHR ''/'') path; answer = (\<lambda>d. (s, [], None, ControlList (node_controls nodeAddr @ controls d))) in
      if length parts < 6 then (s, [], None, InvalidPath)
      else if m \<noteq> Get \<and> 8 \<le> length parts \<and> parts ! 7 \<noteq> [] then
        (case dec_body_value body of
           None \<Rightarrow> (s, [], None, InvalidBody)
         | Some v \<Rightarrow>
             (case BroadcastEvent stamp now ok (parts ! 5 @ ''/controls/'' @ parts ! 7) (parts ! 7) ''number'' v s of
                (s', ws) \<Rightarrow> (s', ws, if cb then Some (parts ! 5, parts ! 7, v) else None, Accepted)))
      else answer (parts ! 5))"

text \<open>The paths the router passes to the handler.\<close>

definition controls_path :: "string \<Rightarrow> bool \<Rightarrow> string" where
  "controls_path i slash = ''/x-nmos/node/v1.3/devices/'' @ i @ ''/controls'' @ (if slash then ''/'' else [])"

subsection \<open>What the handlers answer\<close>

lemma relock: "mu s = Unlocked \<Longrightarrow> s\<lparr> mu := Unlocked \<rparr> = s"
  by (cases s) simp


lemma node_list_db:
  assumes "mu s = Unlocked" "has_db s" "get db = Done db' (Some xs)"
  shows "node_list get t db s = Done s (Structs xs)"
  using assms by (simp add: node_list_def lock_free relock)

lemma handlers_wait:
  assumes "mu s = WriteLocked"
  shows "node_list get t db s = Deadlock s" "node_by_id get' t i db s = Deadlock s"
  using assms by (simp_all add: node_list_def node_by_id_def lock_free)



definition test_node :: nmos_state where
  "test_node = empty_node\<lparr> has_db := True, resources := (\<lambda>_. [])(''devices'' := [VMap [(''id'', VStr ''d1''), (''label'', VStr ''old'')]]) \<rparr>"


text \<open>
  The first registration of a resource blocks the Node API: it leaves the lock of the node taken, and from
  then on every GET of a list or of a resource waits for good, with or without a database.
\<close>

lemma registration_blocks_node_api:
  assumes "mu s = Unlocked" "as_string (field_of ''id'' m) = Some i"
  shows "\<exists>s'. RegisterResource t (VMap m) s = Deadlock s' \<and>
    handleNodeDevices env db s' = Deadlock s' \<and> handleNodeSources env db s' = Deadlock s' \<and> handleNodeFlows env db s' = Deadlock s' \<and>
    handleNodeSenders env db s' = Deadlock s' \<and> handleNodeReceivers env db s' = Deadlock s' \<and>
    handleNodeDeviceById env k db s' = Deadlock s' \<and> handleNodeSourceById env k db s' = Deadlock s' \<and>
    handleNodeFlowById env k db s' = Deadlock s' \<and> handleNodeSenderById env k db s' = Deadlock s' \<and>
    handleNodeReceiverById env k db s' = Deadlock s' \<and> handleConnectionSendersList s' = Deadlock s'"
proof -
  from RegisterResource_hangs [OF assms(1), where r = "VMap m" and t = t] assms(2)
  obtain s' where "RegisterResource t (VMap m) s = Deadlock s'" "mu s' = WriteLocked" by auto
  then show ?thesis
    by (simp add: handlers_wait handleNodeDevices_def handleNodeSources_def handleNodeFlows_def handleNodeSenders_def handleNodeReceivers_def
        handleNodeDeviceById_def handleNodeSourceById_def handleNodeFlowById_def handleNodeSenderById_def handleNodeReceiverById_def
        handleConnectionSendersList_def lock_free)
qed

lemma registration_blocks_node_api_witness:
  "\<exists>s'. RegisterResource ''device'' (VMap [(''id'', VStr ''d1'')]) test_node = Deadlock s' \<and> handleNodeDevices test_db_env initSchema s' = Deadlock s'"
proof -
  have "mu test_node = Unlocked" "as_string (field_of ''id'' [(''id'', VStr ''d1'')]) = Some ''d1''"
    by (simp_all add: test_node_def empty_node_def field_of_def)
  from registration_blocks_node_api [OF this] show ?thesis by blast
qed

subsection \<open>Controls\<close>

lemma split_acc_word: "c \<notin> set w \<Longrightarrow> split_acc c cur (w @ c # s) = (cur @ w) # split_acc c [] s"
  by (induction w arbitrary: cur) auto

lemma split_acc_last: "c \<notin> set w \<Longrightarrow> split_acc c cur w = [cur @ w]"
  by (induction w arbitrary: cur) auto

lemma split_controls_path:
  assumes "CHR ''/'' \<notin> set i"
  shows "split_byte (CHR ''/'') (controls_path i slash) =
    [[], ''x-nmos'', ''node'', ''v1.3'', ''devices'', i, ''controls''] @ (if slash then [[]] else [])"
proof -
  have "split_acc (CHR ''/'') [] (i @ CHR ''/'' # ''controls'' @ (if slash then ''/'' else [])) =
      i # split_acc (CHR ''/'') [] (''controls'' @ (if slash then ''/'' else []))"
    using split_acc_word [OF assms, of "[]"] by simp
  then show ?thesis by (cases slash) (simp_all add: split_byte_def controls_path_def)
qed

text \<open>
  On the paths the router passes to it the handler of the controls of a device answers the list of controls to
  every method, a PUT, POST or PATCH with a body included: no control is set, no callback called, no event sent.
\<close>

lemma controls_never_updated:
  assumes "CHR ''/'' \<notin> set i"
  shows "handleDeviceControls stamp now ok nodeAddr cb controls (controls_path i slash) m body s =
    (s, [], None, ControlList (node_controls nodeAddr @ controls i))"
  using split_controls_path [OF assms, of slash] by (simp add: handleDeviceControls_def Let_def)

lemma controls_never_updated_witness:
  "handleDeviceControls (\<lambda>t. []) 0 (\<lambda>c. True) ''0.0.0.0:8080'' True (\<lambda>_. []) (controls_path ''d1'' True) Put (Some (JObj [(''value'', JBool True)]))
     no_events = (no_events, [], None, ControlList (node_controls ''0.0.0.0:8080''))"
  using controls_never_updated [of "''d1''" "\<lambda>t. []" 0 "\<lambda>c. True" "''0.0.0.0:8080''" True "\<lambda>_. []" True Put] by simp

end
