(* ===== verification/Node_Lifecycle.thy ===== *)
theory Node_Lifecycle
  imports Registry_Client Node_Api
begin

text \<open>
  The start and the end of the node in \<open>internal/infrastructure/nmos_controller.go\<close> and the addresses it goes by: the
  interface and the address of the machine (also \<open>discoverLocalIP\<close> of \<open>internal/module/gateway.go\<close>), the services announced by
  mDNS, \<open>Start\<close> and \<open>Stop\<close>.
\<close>

subsection \<open>Interfaces and addresses\<close>

text \<open>An address of an interface: the text of its IPv4 form, if it has one, and whether it is a loopback address.\<close>

record iface_addr =
  ia_ip4 :: "string option"
  ia_loopback :: bool

text \<open>\<open>if_addrs\<close> is \<open>None\<close> when the addresses cannot be read.\<close>

record iface =
  if_name :: string
  if_up :: bool
  if_loopback :: bool
  if_addrs :: "iface_addr list option"
  if_mac :: string

definition suitable :: "iface_addr \<Rightarrow> bool" where
  "suitable a \<longleftrightarrow> ia_ip4 a \<noteq> None \<and> \<not> ia_loopback a"

fun local_ip :: "iface list \<Rightarrow> string" where
  "local_ip [] = []"
| "local_ip (i # is) =
     (if \<not> if_up i \<or> if_loopback i then local_ip is
      else (case if_addrs i of
          None \<Rightarrow> local_ip is
        | Some as \<Rightarrow> (case List.find suitable as of
              Some a \<Rightarrow> (case ia_ip4 a of Some ip \<Rightarrow> ip | None \<Rightarrow> [])
            | None \<Rightarrow> local_ip is)))"

text \<open>\<open>None\<close>: the interfaces cannot be listed.\<close>

definition discoverLocalIP :: "iface list option \<Rightarrow> string" where
  "discoverLocalIP ifs = (case ifs of None \<Rightarrow> [] | Some is \<Rightarrow> local_ip is)"

fun primaryInterface :: "iface list \<Rightarrow> iface option" where
  "primaryInterface [] = None"
| "primaryInterface (i # is) =
     (if \<not> if_up i \<or> if_loopback i then primaryInterface is
      else (case if_addrs i of
          None \<Rightarrow> primaryInterface is
        | Some [] \<Rightarrow> primaryInterface is
        | Some as \<Rightarrow> if list_ex suitable as then Some i else primaryInterface is))"

definition discoverNodeInterfaces :: "iface list option \<Rightarrow> (string \<times> goval) list list" where
  "discoverNodeInterfaces ifs =
     (case ifs of
        None \<Rightarrow> [[(''name'', VStr ''eth0''), (''port'', VInt 8080), (''mac'', VStr ''00:00:00:00:00:00''), (''enabled'', VBool True),
                  (''mtu'', VInt 1500), (''type'', VStr ''ethernet''), (''primary'', VBool True)]]
      | Some is \<Rightarrow> (case primaryInterface is of
          None \<Rightarrow> [[(''name'', VStr ''eth0''), (''chassis_id'', VNil), (''port_id'', VStr ''00:00:00:00:00:00'')]]
        | Some i \<Rightarrow> [[(''name'', VStr (if_name i)), (''chassis_id'', VNil), (''port_id'', VStr (if_mac i))]]))"

definition GetPrimaryInterfaceName :: "(string \<times> goval) list list \<Rightarrow> string" where
  "GetPrimaryInterfaceName nodeInterfaces =
     (case nodeInterfaces of
        [] \<Rightarrow> ''eth0''
      | m # _ \<Rightarrow> (case as_string (field_of ''name'' m) of Some name \<Rightarrow> name | None \<Rightarrow> ''eth0''))"

definition joinHostPort :: "string \<Rightarrow> string \<Rightarrow> string" where
  "joinHostPort host port = (if CHR '':'' \<in> set host then ''['' @ host @ '']:'' @ port else host @ '':'' @ port)"

text \<open>The text of a listener's address has its port behind the last colon.\<close>

definition GetListenAddr :: "string \<Rightarrow> string \<Rightarrow> string \<Rightarrow> string" where
  "GetListenAddr advertisedAddr listenAddr nodeAddr =
     (if advertisedAddr \<noteq> [] \<and> listenAddr \<noteq> [] then joinHostPort advertisedAddr (snd (splitHostPort listenAddr))
      else if listenAddr \<noteq> [] then listenAddr
      else nodeAddr)"

subsection \<open>Announced services\<close>

datatype service = NodeService | NcpService | EventsService | ConnectionService

text \<open>The instance, the type and the TXT records of a service.\<close>

fun service_record :: "string \<Rightarrow> service \<Rightarrow> string \<times> string \<times> string list" where
  "service_record nid NodeService = (''nmos-node-'' @ nid, ''_nmos-node._tcp'', [''api_ver=v1.3'', ''api_proto=http''])"
| "service_record nid NcpService = (''nmos-ncp-'' @ nid, ''_nmos-ncp._tcp'', [''api_ver=v1.0'', ''api_proto=ws''])"
| "service_record nid EventsService = (''nmos-events-'' @ nid, ''_nmos-events._tcp'', [''api_ver=v1.0'', ''api_proto=http''])"
| "service_record nid ConnectionService = (''nmos-connection-'' @ nid, ''_nmos-connection._tcp'', [''api_ver=v1.1'', ''api_proto=http''])"

text \<open>
  \<open>nl_announced\<close>: the services on the network; \<open>nl_servers\<close>: those whose servers are kept in \<open>nodeServer\<close>, \<open>ncpServer\<close> and \<open>eventsServer\<close>;
  \<open>nl_deletes\<close>: the requests sent to the registry at the end.
\<close>

record node_life =
  nl_nodeAddr :: string
  nl_advertisedAddr :: string
  nl_listenAddr :: string
  nl_serving :: bool
  nl_done :: bool
  nl_announced :: "service list"
  nl_servers :: "service list"
  nl_deletes :: "(string \<times> string) list"

definition announce :: "service \<Rightarrow> bool \<Rightarrow> node_life \<Rightarrow> node_life" where
  "announce v kept l =
     l\<lparr> nl_announced := nl_announced l @ [v], nl_servers := (if kept then nl_servers l @ [v] else nl_servers l) \<rparr>"

text \<open>\<open>ok v\<close>: whether the library registers the service. The answer is whether there was no error.\<close>

definition startMDNS :: "(service \<Rightarrow> bool) \<Rightarrow> node_life \<Rightarrow> node_life \<times> bool" where
  "startMDNS ok l =
     (if \<not> ok NodeService then (l, False)
      else
        (let l1 = announce NodeService True l;
             l2 = (if ok NcpService then announce NcpService True l1 else l1) in
         if \<not> ok EventsService then (l2, False)
         else
           (let l3 = announce EventsService True l2 in
            (if ok ConnectionService then announce ConnectionService False l3 else l3, True))))"

subsection \<open>Start and stop\<close>

text \<open>
  \<open>listen\<close> is the address listened at, \<open>None\<close> when that fails; an error of mDNS is only logged. The registration, a goroutine
  that \<open>Start\<close> waits for up to thirty seconds, is taken to end first. The answer is whether there was no error.
\<close>

definition node_Start ::
  "string option \<Rightarrow> (service \<Rightarrow> bool) \<Rightarrow> string option \<Rightarrow> bool \<times> bool \<Rightarrow> goval \<Rightarrow> node_life \<times> nmos_state \<Rightarrow> (node_life \<times> nmos_state, bool) run" where
  "node_Start listen ok discovered oks node s =
     (case s of (l, n) \<Rightarrow>
        if isRunning n then Done (l, n) True
        else
          (let n1 = n\<lparr> isRunning := True \<rparr> in
           case listen of
             None \<Rightarrow> Done (l, n1) False
           | Some a \<Rightarrow>
               (let l1 = fst (startMDNS ok (l\<lparr> nl_listenAddr := a, nl_serving := True \<rparr>)) in
                case discoverAndRegister discovered oks node (new_client n1) of
                  Done c u \<Rightarrow> Done (l1, rg_node c) True
                | Deadlock c \<Rightarrow> Deadlock (l1, rg_node c)
                | FatalError \<Rightarrow> FatalError)))"

text \<open>\<open>reqs\<close> lists the requests of the unregistration in the order they are sent.\<close>

definition node_Stop :: "(string \<times> string) list \<Rightarrow> node_life \<times> nmos_state \<Rightarrow> (node_life \<times> nmos_state, unit) run" where
  "node_Stop reqs s =
     (case s of (l, n) \<Rightarrow>
        if \<not> isRunning n then Done (l, n) ()
        else if nl_done l then FatalError
        else
          (let n1 = n\<lparr> isRunning := False \<rparr>; l1 = l\<lparr> nl_done := True \<rparr> in
           if mu n1 = WriteLocked \<and> registered n1 then Deadlock (l1, n1)
           else
             (let l2 = l1\<lparr> nl_deletes := nl_deletes l1 @ reqs \<rparr>;
                  l3 = l2\<lparr> nl_announced := filter (\<lambda>v. \<not> (v \<in> set (nl_servers l2) \<and> (v = NodeService \<or> v = EventsService))) (nl_announced l2) \<rparr> in
              if mu n1 \<noteq> Unlocked then Deadlock (l3, n1)
              else Done (l3\<lparr> nl_serving := False \<rparr>, n1) ())))"

subsection \<open>What the node goes by\<close>

text \<open>
  The address the gateway advertises is an address of the interface the node names; without a suitable interface there
  is no address and the name is eth0.
\<close>

lemma find_suitable: "list_ex suitable as = (List.find suitable as \<noteq> None)"
  by (induction as) auto

lemma primary_interface_address:
  "local_ip ifs = (case primaryInterface ifs of
      None \<Rightarrow> []
    | Some i \<Rightarrow> (case if_addrs i of None \<Rightarrow> [] | Some as \<Rightarrow> (case List.find suitable as of
        Some a \<Rightarrow> (case ia_ip4 a of Some ip \<Rightarrow> ip | None \<Rightarrow> []) | None \<Rightarrow> [])))"
  by (induction ifs) (auto simp: find_suitable split: option.split list.split)

lemma primary_interface_suits:
  "primaryInterface ifs = Some i \<Longrightarrow> i \<in> set ifs \<and> if_up i \<and> \<not> if_loopback i \<and> (\<exists>as. if_addrs i = Some as \<and> list_ex suitable as)"
  by (induction ifs) (auto split: if_split_asm option.split_asm list.split_asm)

lemma advertised_on_primary:
  assumes "discoverLocalIP ifs \<noteq> []"
  shows "\<exists>is i as a. ifs = Some is \<and> i \<in> set is \<and> if_addrs i = Some as \<and> a \<in> set as \<and> ia_ip4 a = Some (discoverLocalIP ifs) \<and>
    GetPrimaryInterfaceName (discoverNodeInterfaces ifs) = if_name i"
proof -
  from assms obtain "is" where ifs: "ifs = Some is" "local_ip is \<noteq> []" by (auto simp: discoverLocalIP_def split: option.splits)
  then obtain i "as" a where i: "primaryInterface is = Some i" "if_addrs i = Some as" "List.find suitable as = Some a" "ia_ip4 a = Some (local_ip is)"
    by (auto simp: primary_interface_address split: option.splits)
  from i(3) have "a \<in> set as" by (auto simp: find_Some_iff)
  moreover have "GetPrimaryInterfaceName (discoverNodeInterfaces ifs) = if_name i"
    by (simp add: ifs(1) i(1) discoverNodeInterfaces_def GetPrimaryInterfaceName_def field_of_def)
  ultimately show ?thesis using ifs i primary_interface_suits [OF i(1)] by (auto simp: discoverLocalIP_def)
qed

text \<open>The node comes up when its address can be listened at, whatever mDNS and the registry answer.\<close>

lemma node_Start_done:
  assumes "\<not> isRunning n" "mu n = Unlocked"
  obtains l' n' where "node_Start (Some a) services discovered oks node (l, n) = Done (l', n') True" "nl_serving l'"
    "nl_done l' = nl_done l" "nl_deletes l' = nl_deletes l" "mu n' = Unlocked" "isRunning n'" "resources n' = resources n"
proof -
  let ?n = "n\<lparr> isRunning := True \<rparr>" and ?l = "fst (startMDNS services (l\<lparr> nl_listenAddr := a, nl_serving := True \<rparr>))"
  have "mu (rg_node (new_client ?n)) = Unlocked" "isRunning (rg_node (new_client ?n))" "resources (rg_node (new_client ?n)) = resources n"
    using assms(2) by (simp_all add: new_client_def)
  from this(3) registration_outcome [OF this(1,2), of discovered "fst oks" "snd oks" node]
  obtain c where c: "discoverAndRegister discovered oks node (new_client ?n) = Done c ()" "mu (rg_node c) = Unlocked"
    "isRunning (rg_node c)" "resources (rg_node c) = resources n" by auto
  show thesis
    by (rule that [of ?l "rg_node c"])
      (use assms(1) c in \<open>simp_all add: node_Start_def startMDNS_def announce_def Let_def\<close>)
qed

text \<open>
  When the address cannot be listened at the start fails but the node counts as running: a later start answers success and
  does nothing.
\<close>

lemma failed_listen_sticks:
  assumes "\<not> isRunning n"
  shows "node_Start None ok discovered oks node (l, n) = Done (l, n\<lparr> isRunning := True \<rparr>) False \<and>
    node_Start listen ok' discovered' oks' node' (l, n\<lparr> isRunning := True \<rparr>) = Done (l, n\<lparr> isRunning := True \<rparr>) True"
  using assms by (simp add: node_Start_def Let_def)

text \<open>
  The end: with the lock free it sends the requests of the unregistration, ends the server and withdraws the services of the
  node and of the events, when their servers are kept; those of the control server and of the connections stay announced. A
  node that is started again and stopped again closes a closed channel.
\<close>

lemma node_Stop_done:
  assumes "isRunning n" "\<not> nl_done l" "mu n = Unlocked"
  obtains l' where "node_Stop reqs (l, n) = Done (l', n\<lparr> isRunning := False \<rparr>) ()" "\<not> nl_serving l'" "nl_done l'"
    "nl_deletes l' = nl_deletes l @ reqs" "nl_servers l' = nl_servers l"
    "set (nl_announced l') = set (nl_announced l) - (set (nl_servers l) \<inter> {NodeService, EventsService})"
  using assms by (auto simp: node_Stop_def Let_def)

lemma stop_leaves_announced:
  assumes "\<And>v. ok v" "nl_announced l = []" "nl_servers l = []" "\<not> nl_done l" "isRunning n" "mu n = Unlocked"
  shows "\<exists>l'. node_Stop reqs (fst (startMDNS ok l), n) = Done (l', n\<lparr> isRunning := False \<rparr>) () \<and>
    set (nl_announced l') = {NcpService, ConnectionService}"
proof -
  let ?l = "fst (startMDNS ok l)"
  have l: "\<not> nl_done ?l" "nl_announced ?l = [NodeService, NcpService, EventsService, ConnectionService]"
    "nl_servers ?l = [NodeService, NcpService, EventsService]"
    using assms by (simp_all add: startMDNS_def announce_def Let_def)
  from node_Stop_done [OF assms(5) l(1) assms(6), of reqs] obtain l' where "node_Stop reqs (?l, n) = Done (l', n\<lparr> isRunning := False \<rparr>) ()"
    "set (nl_announced l') = set (nl_announced ?l) - (set (nl_servers ?l) \<inter> {NodeService, EventsService})" by blast
  then show ?thesis by (auto simp: l)
qed

lemma second_stop_panics: "isRunning n \<Longrightarrow> nl_done l \<Longrightarrow> node_Stop reqs (l, n) = FatalError"
  by (simp add: node_Stop_def)

text \<open>While the lock of the node is taken for good, the end of a registered node waits before it has sent anything.\<close>

lemma node_Stop_waits:
  assumes "isRunning n" "\<not> nl_done l" "mu n = WriteLocked" "registered n"
  shows "node_Stop reqs (l, n) = Deadlock (l\<lparr> nl_done := True \<rparr>, n\<lparr> isRunning := False \<rparr>)"
  using assms by (simp add: node_Stop_def Let_def)

end
