(* ===== verification/Gateway_Lifecycle.thy ===== *)
theory Gateway_Lifecycle
  imports Gateway_Pipeline Node_Lifecycle
begin

text \<open>
  \<open>Start\<close> and \<open>Stop\<close> of the gateway in \<open>internal/module/gateway.go\<close>, over the models of the components they call: the message bus,
  the database, the node, the discovery and the controllers of the receivers.
\<close>

subsection \<open>State\<close>

text \<open>\<open>gr_discovering\<close> and \<open>gr_processing\<close>: the discovery and \<open>processMessages\<close> are started.\<close>

record gateway_run =
  gr_bus :: "message bus"
  gr_gateway :: gateway
  gr_life :: node_life
  gr_discovering :: bool
  gr_processing :: bool
  gr_db_open :: bool

text \<open>
  What the outside answers at the start: whether the database opens, the id made for the node, the interfaces of the machine,
  the arguments of the start of the node, whether the receiver can be connected to, and the text of a parsed address.
\<close>

record start_env =
  se_db :: bool
  se_uuid :: string
  se_interfaces :: "iface list option"
  se_listen :: "string option"
  se_services :: "service \<Rightarrow> bool"
  se_discovered :: "string option"
  se_oks :: "bool \<times> bool"
  se_node :: goval
  se_connects :: bool
  se_parseIP :: "string \<Rightarrow> string"

text \<open>The controller of a node as it is made; it has its own objects of the control server, events and controls.\<close>

definition new_node :: "string \<Rightarrow> nmos_state" where
  "new_node uuid =
     \<lparr> mu = Unlocked, resources = (\<lambda>_. []), has_db = False, upserts = [], posts = [], async_posts = [], updates = [],
       peerToPeerMode = False, versionCounters = (\<lambda>_. 0), isRunning = False, registered = False, nodeID = uuid, nodes = [] \<rparr>"

definition new_life :: "string \<Rightarrow> node_life" where
  "new_life addr =
     \<lparr> nl_nodeAddr = (if addr = [] then ''0.0.0.0:8080'' else addr), nl_advertisedAddr = [], nl_listenAddr = [], nl_serving = False,
       nl_done = False, nl_announced = [], nl_servers = [], nl_deletes = [] \<rparr>"

definition NewNMOSControllerWithConfig :: "string \<Rightarrow> string \<Rightarrow> gateway_run \<Rightarrow> gateway_run" where
  "NewNMOSControllerWithConfig addr uuid r =
     r\<lparr> gr_life := new_life addr,
        gr_gateway := (gr_gateway r)\<lparr> g_nmos := new_node uuid, g_ncp := new_ncp_state, g_events := no_events, g_controls := (\<lambda>_. []) \<rparr> \<rparr>"

definition SetDatabase :: "gateway_run \<Rightarrow> gateway_run" where
  "SetDatabase r = r\<lparr> gr_gateway := (gr_gateway r)\<lparr> g_nmos := (g_nmos (gr_gateway r))\<lparr> has_db := True \<rparr> \<rparr> \<rparr>"

definition SetAdvertisedAddr :: "string \<Rightarrow> gateway_run \<Rightarrow> gateway_run" where
  "SetAdvertisedAddr addr r = r\<lparr> gr_life := (gr_life r)\<lparr> nl_advertisedAddr := addr \<rparr> \<rparr>"

definition on_life :: "(node_life \<times> nmos_state \<Rightarrow> (node_life \<times> nmos_state, 'a) run) \<Rightarrow> gateway_run \<Rightarrow> (gateway_run, 'a) run" where
  "on_life f r =
     (let put = (\<lambda>(l, n). r\<lparr> gr_life := l, gr_gateway := (gr_gateway r)\<lparr> g_nmos := n \<rparr> \<rparr>) in
      case f (gr_life r, g_nmos (gr_gateway r)) of
        Done s a \<Rightarrow> Done (put s) a
      | Deadlock s \<Rightarrow> Deadlock (put s)
      | FatalError \<Rightarrow> FatalError)"

definition on_gateway :: "(gateway \<Rightarrow> (gateway, 'a) run) \<Rightarrow> gateway_run \<Rightarrow> (gateway_run, 'a) run" where
  "on_gateway f r =
     (case f (gr_gateway r) of
        Done g a \<Rightarrow> Done (r\<lparr> gr_gateway := g \<rparr>) a
      | Deadlock g \<Rightarrow> Deadlock (r\<lparr> gr_gateway := g \<rparr>)
      | FatalError \<Rightarrow> FatalError)"

subsection \<open>Start\<close>

definition manual_device :: "(string \<Rightarrow> string) \<Rightarrow> string \<Rightarrow> discovered_device" where
  "manual_device parseIP shureAddr =
     \<lparr> dv_Instance = ''manual'', dv_Host = [], dv_Address = parseIP (hd (split_byte (CHR '':'') shureAddr)), dv_Port = 2202,
       dv_Info = [(''source'', ''manual'')] \<rparr>"

text \<open>The answer is whether there was no error. A receiver given by address is added before the messages are processed.\<close>

definition gateway_Start ::
  "register \<Rightarrow> gw_env \<Rightarrow> int \<Rightarrow> string \<Rightarrow> start_env \<Rightarrow> string \<Rightarrow> string \<Rightarrow> gateway_run \<Rightarrow> (gateway_run, bool) run" where
  "gateway_Start reg env now ver e shureAddr nmosAddr r =
     (let r0 = r\<lparr> gr_bus := NewInMemoryMessageBus \<rparr> in
      if \<not> se_db e then Done r0 False
      else
        (let r1 = SetDatabase (NewNMOSControllerWithConfig nmosAddr (se_uuid e) (r0\<lparr> gr_db_open := True \<rparr>));
             localIP = discoverLocalIP (se_interfaces e);
             r2 = (if localIP \<noteq> [] then SetAdvertisedAddr localIP r1 else r1) in
         run_bind (on_life (node_Start (se_listen e) (se_services e) (se_discovered e) (se_oks e) (se_node e)) r2) (\<lambda>r3 ok.
           if \<not> ok then Done r3 False
           else
             (let r4 = r3\<lparr> gr_discovering := True \<rparr> in
              run_bind
                (if shureAddr = [] then Done r4 ()
                 else on_gateway (addShureController reg env now ver (se_connects e) shureAddr (manual_device (se_parseIP e) shureAddr)) r4)
                (\<lambda>r5 _. Done (r5\<lparr> gr_processing := True \<rparr>) True)))))"

subsection \<open>Stop\<close>

text \<open>Closing the bus, with the forwarder gone in between.\<close>

definition closed :: "'m bus \<Rightarrow> 'm bus" where
  "closed b = b\<lparr> bus_cancelled := True, forwarder := Gone, bus_closed := True \<rparr>"

lemma closed_is_reached: "\<not> bus_closed b \<Longrightarrow> bus_life\<^sup>*\<^sup>* b (closed b)"
proof -
  assume alive: "\<not> bus_closed b"
  let ?c = "Close_cancel b" and ?g = "(Close_cancel b)\<lparr> forwarder := Gone \<rparr>"
  have "bus_life b ?c" by (rule bus_life.cancel)
  moreover have "bus_life\<^sup>*\<^sup>* ?c ?g"
  proof (cases "forwarder b = Gone")
    case True
    then have "?g = ?c" by (simp add: Close_cancel_def)
    then show ?thesis by simp
  next
    case False
    then have "?g \<in> set (forwarder_stops ?c)" by (simp add: forwarder_stops_def Close_cancel_def)
    then show ?thesis by (blast intro: bus_life.stops)
  qed
  moreover have "bus_life ?g (closed b)"
    using alive by (intro bus_life.finish) (simp_all add: Close_finish_def Close_cancel_def closed_def)
  ultimately show ?thesis by (meson converse_rtranclp_into_rtranclp rtranclp.rtrancl_into_rtrancl)
qed

text \<open>
  \<open>stops addr\<close>: whether stopping the controller of the receiver returns; all receivers are visited, in any order. \<open>reqs\<close> lists the requests of the
  unregistration. A second call closes a closed channel.
\<close>

definition gateway_Stop :: "(string \<Rightarrow> bool) \<Rightarrow> (string \<times> string) list \<Rightarrow> gateway_run \<Rightarrow> (gateway_run, unit) run" where
  "gateway_Stop stops reqs r =
     (if bus_closed (gr_bus r) then FatalError
      else
        (let r1 = r\<lparr> gr_bus := closed (gr_bus r) \<rparr> in
         if g_mu (gr_gateway r1) \<noteq> Unlocked then Deadlock r1
         else
           (let r2 = r1\<lparr> gr_discovering := False, gr_gateway := (gr_gateway r1)\<lparr> g_mu := WriteLocked \<rparr> \<rparr> in
            if \<not> list_all (stops \<circ> fst) (g_ctrls (gr_gateway r2)) then Deadlock r2
            else run_bind (on_life (node_Stop reqs) r2) (\<lambda>r _.
              Done (r\<lparr> gr_db_open := False, gr_gateway := (gr_gateway r)\<lparr> g_mu := Unlocked \<rparr> \<rparr>) ()))))"

subsection \<open>How a run ends\<close>

definition prepared :: "start_env \<Rightarrow> string \<Rightarrow> gateway_run \<Rightarrow> gateway_run" where
  "prepared e nmosAddr r =
     (let r1 = SetDatabase (NewNMOSControllerWithConfig nmosAddr (se_uuid e) (r\<lparr> gr_bus := NewInMemoryMessageBus, gr_db_open := True \<rparr>));
          localIP = discoverLocalIP (se_interfaces e) in
      if localIP \<noteq> [] then SetAdvertisedAddr localIP r1 else r1)"

lemma gateway_Start_prepared:
  assumes "se_db e"
  shows "gateway_Start reg env now ver e shureAddr nmosAddr r =
    run_bind (on_life (node_Start (se_listen e) (se_services e) (se_discovered e) (se_oks e) (se_node e)) (prepared e nmosAddr r)) (\<lambda>r3 ok.
      if \<not> ok then Done r3 False
      else run_bind
        (if shureAddr = [] then Done (r3\<lparr> gr_discovering := True \<rparr>) ()
         else on_gateway (addShureController reg env now ver (se_connects e) shureAddr (manual_device (se_parseIP e) shureAddr))
           (r3\<lparr> gr_discovering := True \<rparr>))
        (\<lambda>r5 _. Done (r5\<lparr> gr_processing := True \<rparr>) True))"
  using assms unfolding gateway_Start_def prepared_def Let_def by simp

lemma prepared_simps:
  "gr_bus (prepared e addr r) = NewInMemoryMessageBus" "gr_processing (prepared e addr r) = gr_processing r"
  "g_nmos (gr_gateway (prepared e addr r)) = (new_node (se_uuid e))\<lparr> has_db := True \<rparr>"
  "g_mu (gr_gateway (prepared e addr r)) = g_mu (gr_gateway r)" "g_ctrls (gr_gateway (prepared e addr r)) = g_ctrls (gr_gateway r)"
  by (simp_all add: prepared_def Let_def SetDatabase_def SetAdvertisedAddr_def NewNMOSControllerWithConfig_def)

text \<open>The node comes up when its address can be listened at, whatever mDNS and the registry answer.\<close>

lemma node_starts:
  assumes "se_listen e = Some a"
  obtains r' where "on_life (node_Start (se_listen e) (se_services e) (se_discovered e) (se_oks e) (se_node e)) (prepared e addr r) = Done r' True"
    "nl_serving (gr_life r')" "gr_bus r' = NewInMemoryMessageBus" "gr_processing r' = gr_processing r" "mu (g_nmos (gr_gateway r')) = Unlocked"
    "g_mu (gr_gateway r') = g_mu (gr_gateway r)" "g_ctrls (gr_gateway r') = g_ctrls (gr_gateway r)"
    "isRunning (g_nmos (gr_gateway r'))" "\<not> nl_done (gr_life r')" "nl_deletes (gr_life r') = []"
proof -
  let ?n = "(new_node (se_uuid e))\<lparr> has_db := True \<rparr>" and ?p = "prepared e addr r"
  have "\<not> isRunning ?n" "mu ?n = Unlocked" by (simp_all add: new_node_def)
  then obtain l' n' where run: "node_Start (Some a) (se_services e) (se_discovered e) (se_oks e) (se_node e) (gr_life ?p, ?n) = Done (l', n') True"
    "nl_serving l'" "nl_done l' = nl_done (gr_life ?p)" "nl_deletes l' = nl_deletes (gr_life ?p)" "mu n' = Unlocked" "isRunning n'"
    by (rule node_Start_done)
  have "\<not> nl_done (gr_life ?p)" "nl_deletes (gr_life ?p) = []"
    by (simp_all add: prepared_def Let_def SetDatabase_def SetAdvertisedAddr_def NewNMOSControllerWithConfig_def new_life_def)
  with run assms show thesis
    by (intro that [of "?p\<lparr> gr_life := l', gr_gateway := (gr_gateway ?p)\<lparr> g_nmos := n' \<rparr> \<rparr>"])
      (simp_all add: on_life_def prepared_simps)
qed

text \<open>
  Once a receiver has been found the gateway cannot be stopped: the addition of the receiver holds its lock, so \<open>Stop\<close>
  closes the bus and then waits for good. Neither the controllers nor the node are stopped, the registry is not
  told, and a second call panics.
\<close>

lemma stop_after_receiver_hangs:
  assumes "g_mu g = Unlocked" "mu (g_nmos g) = Unlocked" "map_of (g_ctrls g) addr = None" "\<not> bus_closed (gr_bus r)"
  shows "\<exists>g'. addShureController RegisterResource env now ver True addr dev g = Deadlock g' \<and>
    gateway_Stop stops reqs (r\<lparr> gr_gateway := g' \<rparr>) = Deadlock (r\<lparr> gr_gateway := g', gr_bus := closed (gr_bus r) \<rparr>) \<and>
    gateway_Stop stops reqs (r\<lparr> gr_gateway := g', gr_bus := closed (gr_bus r) \<rparr>) = FatalError"
proof -
  obtain n where "addShureController RegisterResource env now ver True addr dev g =
      Deadlock ((enter_receiver env now dev addr g)\<lparr> g_mu := WriteLocked, g_nmos := n \<rparr>)"
    by (rule adding_deadlocks [OF assms(1-3)])
  then show ?thesis using assms(4) by (simp add: gateway_Stop_def closed_def)
qed

text \<open>
  With a receiver given by address that can be connected to, the gateway does not start: the start waits for good in
  the addition of the receiver, after the node is up and discovery runs, and before messages are processed; \<open>Stop\<close> waits too.
\<close>

lemma start_with_address_hangs:
  assumes "g_mu (gr_gateway r) = Unlocked" "map_of (g_ctrls (gr_gateway r)) shureAddr = None"
    and "se_db e" "se_listen e = Some a" "se_connects e" "shureAddr \<noteq> []"
  shows "\<exists>r'. gateway_Start RegisterResource env now ver e shureAddr nmosAddr r = Deadlock r' \<and>
    nl_serving (gr_life r') \<and> gr_discovering r' \<and> gr_processing r' = gr_processing r \<and>
    gateway_Stop stops reqs r' = Deadlock (r'\<lparr> gr_bus := closed (gr_bus r') \<rparr>)"
proof -
  let ?dev = "manual_device (se_parseIP e) shureAddr"
  obtain r' where r': "on_life (node_Start (se_listen e) (se_services e) (se_discovered e) (se_oks e) (se_node e)) (prepared e nmosAddr r) = Done r' True"
    "nl_serving (gr_life r')" "gr_bus r' = NewInMemoryMessageBus" "gr_processing r' = gr_processing r" "mu (g_nmos (gr_gateway r')) = Unlocked"
    "g_mu (gr_gateway r') = g_mu (gr_gateway r)" "g_ctrls (gr_gateway r') = g_ctrls (gr_gateway r)"
    by (rule node_starts [of e a nmosAddr r, OF assms(4)]) (rule that)
  obtain n where add: "addShureController RegisterResource env now ver True shureAddr ?dev (gr_gateway r') =
      Deadlock ((enter_receiver env now ?dev shureAddr (gr_gateway r'))\<lparr> g_mu := WriteLocked, g_nmos := n \<rparr>)"
    by (rule adding_deadlocks [of "gr_gateway r'" shureAddr]) (use assms(1,2) r'(5-7) in auto)
  let ?r = "r'\<lparr> gr_discovering := True,
    gr_gateway := (enter_receiver env now ?dev shureAddr (gr_gateway r'))\<lparr> g_mu := WriteLocked, g_nmos := n \<rparr> \<rparr>"
  have "gateway_Start RegisterResource env now ver e shureAddr nmosAddr r = Deadlock ?r"
    using assms(3,5,6) by (simp add: gateway_Start_prepared r'(1) on_gateway_def add)
  moreover have "gateway_Stop stops reqs ?r = Deadlock (?r\<lparr> gr_bus := closed (gr_bus ?r) \<rparr>)"
    by (simp add: gateway_Stop_def r'(3) NewInMemoryMessageBus_def)
  ultimately show ?thesis using r'(2,4) by (intro exI [of _ ?r]) simp
qed

definition test_run :: gateway_run where
  "test_run = \<lparr> gr_bus = NewInMemoryMessageBus, gr_gateway = no_receivers, gr_life = new_life [],
     gr_discovering = False, gr_processing = False, gr_db_open = False \<rparr>"

lemma stop_after_receiver_hangs_witness:
  "\<exists>g' r'. addShureController RegisterResource test_gw_env 0 ''1:1'' True ''h:1'' test_device no_receivers = Deadlock g' \<and>
     gateway_Stop (\<lambda>_. True) [] (test_run\<lparr> gr_gateway := g' \<rparr>) = Deadlock r' \<and> gr_life r' = gr_life test_run"
proof -
  have "g_mu no_receivers = Unlocked" "mu (g_nmos no_receivers) = Unlocked" "map_of (g_ctrls no_receivers) ''h:1'' = None"
    using no_receivers_inv by (simp_all add: gateway_inv_def) (simp add: no_receivers_def)
  moreover have "\<not> bus_closed (gr_bus test_run)" by (simp add: test_run_def NewInMemoryMessageBus_def)
  ultimately obtain g' where "addShureController RegisterResource test_gw_env 0 ''1:1'' True ''h:1'' test_device no_receivers = Deadlock g'"
    "gateway_Stop (\<lambda>_. True) [] (test_run\<lparr> gr_gateway := g' \<rparr>) =
       Deadlock (test_run\<lparr> gr_gateway := g', gr_bus := closed (gr_bus test_run) \<rparr>)"
    using stop_after_receiver_hangs by blast
  then show ?thesis by auto
qed

definition test_start :: start_env where
  "test_start = \<lparr> se_db = True, se_uuid = ''n'', se_interfaces = None, se_listen = Some ''0.0.0.0:8080'', se_services = (\<lambda>_. True), se_discovered = None,
     se_oks = (False, False), se_node = VNil, se_connects = True, se_parseIP = (\<lambda>s. s) \<rparr>"

lemma start_with_address_hangs_witness:
  "\<exists>r'. gateway_Start RegisterResource test_gw_env 0 ''1:1'' test_start ''h:1'' [] test_run = Deadlock r' \<and> nl_serving (gr_life r') \<and> \<not> gr_processing r'"
proof -
  have "g_mu (gr_gateway test_run) = Unlocked" using no_receivers_inv by (simp add: gateway_inv_def test_run_def)
  moreover have "map_of (g_ctrls (gr_gateway test_run)) ''h:1'' = None" by (simp add: test_run_def no_receivers_def)
  moreover have "se_db test_start" "se_listen test_start = Some ''0.0.0.0:8080''" "se_connects test_start" "''h:1'' \<noteq> []"
    by (simp_all add: test_start_def)
  ultimately obtain r' where "gateway_Start RegisterResource test_gw_env 0 ''1:1'' test_start ''h:1'' [] test_run = Deadlock r'"
    "nl_serving (gr_life r')" "gr_processing r' = gr_processing test_run"
    using start_with_address_hangs by blast
  then show ?thesis by (auto simp: test_run_def)
qed



end
