(* ===== verification/Gateway_Program.thy ===== *)
theory Gateway_Program
  imports Gateway_Lifecycle
begin

text \<open>
  The program of \<open>cmd/gateway/main.go\<close>: its flags, the address it listens at, and a run from the start of the gateway over the
  signal to its end, over the model of \<open>Start\<close> and \<open>Stop\<close> in \<open>Gateway_Lifecycle\<close>.
\<close>

subsection \<open>Flags\<close>

record flags =
  fl_shureAddr :: string
  fl_nmosAddr :: string
  fl_nmosPort :: int
  fl_registryDiscovery :: string
  fl_registryDomain :: string
  fl_registryURL :: string
  fl_logLevel :: string

definition default_flags :: flags where
  "default_flags =
     \<lparr> fl_shureAddr = [], fl_nmosAddr = ''0.0.0.0:8080'', fl_nmosPort = 0, fl_registryDiscovery = ''mdns'',
       fl_registryDomain = ''local.'', fl_registryURL = [], fl_logLevel = ''debug'' \<rparr>"

text \<open>The host \<open>net.SplitHostPort\<close> returns; it is empty when the function returns an error.\<close>

definition split_host :: "string \<Rightarrow> string" where
  "split_host s =
     (if CHR '':'' \<notin> set s then []
      else
        (let before = fst (splitHostPort s) in
         if hd s = CHR ''['' then
           (case str_index s '']'' of
              None \<Rightarrow> []
            | Some e \<Rightarrow>
                if e + 1 \<noteq> length before \<or> CHR ''['' \<in> set (tl s) \<or> CHR '']'' \<in> set (drop (e + 1) s) then []
                else take (e - 1) (tl s))
         else if CHR '':'' \<in> set before \<or> CHR ''['' \<in> set s \<or> CHR '']'' \<in> set s then []
         else before))"

definition listen_address :: "flags \<Rightarrow> string" where
  "listen_address fl =
     (if fl_nmosPort fl \<noteq> 0
      then joinHostPort (if split_host (fl_nmosAddr fl) = [] then ''0.0.0.0'' else split_host (fl_nmosAddr fl)) (itoa (fl_nmosPort fl))
      else fl_nmosAddr fl)"

datatype slog_level = LevelDebug | LevelInfo | LevelWarn | LevelError

definition log_level :: "flags \<Rightarrow> slog_level" where
  "log_level fl =
     (if fl_logLevel fl = ''debug'' then LevelDebug
      else if fl_logLevel fl = ''info'' then LevelInfo
      else if fl_logLevel fl = ''warn'' then LevelWarn
      else if fl_logLevel fl = ''error'' then LevelError
      else LevelDebug)"

definition registry_config :: "flags \<Rightarrow> RegistryDiscoveryConfig" where
  "registry_config fl =
     \<lparr> rc_Mode = fl_registryDiscovery fl, rc_Domain = fl_registryDomain fl, rc_StaticRegistry = fl_registryURL fl \<rparr>"

subsection \<open>A run\<close>

text \<open>The gateway as it is made; the bus, the node and the rest are placeholders until \<open>Start\<close> makes them.\<close>

definition NewGateway :: gateway_run where
  "NewGateway =
     \<lparr> gr_bus = NewInMemoryMessageBus,
       gr_gateway = \<lparr> g_mu = Unlocked, g_ncp = new_ncp_state, g_events = no_events, g_nmos = new_node [], g_controls = (\<lambda>_. []),
         g_ctrls = [], g_log = [] \<rparr>,
       gr_life = new_life [], gr_discovering = False, gr_processing = False, gr_db_open = False \<rparr>"

text \<open>
  How the program ends: with an exit status, with a panic, or not at all. \<open>meanwhile\<close> is what the goroutines of the gateway do
  between the start and the signal. What discovery finds is read from the flags and the answers of the DNS.
\<close>

datatype 's program_end = Hangs 's | Panics | Exits int 's

definition gateway_main ::
  "register \<Rightarrow> gw_env \<Rightarrow> int \<Rightarrow> string \<Rightarrow> start_env \<Rightarrow> dns_env \<Rightarrow> flags \<Rightarrow> (gateway_run \<Rightarrow> gateway_run) \<Rightarrow> (string \<Rightarrow> bool) \<Rightarrow>
   (string \<times> string) list \<Rightarrow> gateway_run program_end" where
  "gateway_main reg env now ver e dns fl meanwhile stops reqs =
     (case gateway_Start reg env now ver (e\<lparr> se_discovered := discoverRegistry dns (registry_config fl) \<rparr>)
        (fl_shureAddr fl) (listen_address fl) NewGateway of
        Deadlock r \<Rightarrow> Hangs r
      | FatalError \<Rightarrow> Panics
      | Done r ok \<Rightarrow>
          if \<not> ok then Exits 1 r
          else (case gateway_Stop stops reqs (meanwhile r) of
              Deadlock r' \<Rightarrow> Hangs r'
            | FatalError \<Rightarrow> Panics
            | Done r' _ \<Rightarrow> Exits 0 r'))"


subsection \<open>The address\<close>

lemma split_last_colon:
  "CHR '':'' \<notin> set p \<Longrightarrow> splitHostPort (h @ CHR '':'' # p) = (h, p)"
proof -
  assume p: "CHR '':'' \<notin> set p"
  then have "dropWhile (\<lambda>c. c \<noteq> CHR '':'') (rev p @ CHR '':'' # rev h) = CHR '':'' # rev h"
    "takeWhile (\<lambda>c. c \<noteq> CHR '':'') (rev p @ CHR '':'' # rev h) = rev p"
    by (subst dropWhile_append2 takeWhile_append2; auto)+
  then show ?thesis by (simp add: splitHostPort_def)
qed

lemma bracket_index: "CHR '']'' \<notin> set h \<Longrightarrow> str_index (h @ CHR '']'' # s) '']'' = Some (length h)"
  by (induction h) (auto simp: has_prefix_def)

lemma split_host_join:
  assumes "CHR ''['' \<notin> set h" "CHR '']'' \<notin> set h" "\<forall>c \<in> set p. c \<noteq> CHR '':'' \<and> c \<noteq> CHR ''['' \<and> c \<noteq> CHR '']''"
  shows "split_host (joinHostPort h p) = h"
proof (cases "CHR '':'' \<in> set h")
  case True
  let ?s = "CHR ''['' # h @ CHR '']'' # CHR '':'' # p"
  have "splitHostPort ((CHR ''['' # h @ '']'') @ CHR '':'' # p) = (CHR ''['' # h @ '']'', p)"
    using assms(3) by (intro split_last_colon) auto
  then have sp: "splitHostPort ?s = (CHR ''['' # h @ '']'', p)" by simp
  have "str_index ?s '']'' = Some (length h + 1)" using bracket_index [OF assms(2)] by (simp add: has_prefix_def)
  then have "split_host ?s = h" using assms by (auto simp: split_host_def sp Let_def)
  with True show ?thesis by (simp add: joinHostPort_def)
next
  case False
  have sp: "splitHostPort (h @ CHR '':'' # p) = (h, p)" using assms(3) by (intro split_last_colon) auto
  have "hd (h @ CHR '':'' # p) \<noteq> CHR ''[''" using assms(1) by (cases h) auto
  then have "split_host (h @ CHR '':'' # p) = h" using assms False by (auto simp: split_host_def sp Let_def)
  with False show ?thesis by (simp add: joinHostPort_def)
qed

text \<open>
  The port flag replaces the port of the listen address and keeps its host, IPv6 or not; an address without a port loses
  its host: the program then listens at all addresses.
\<close>

lemma port_flag:
  assumes "fl_nmosPort fl \<noteq> 0" "CHR ''['' \<notin> set h" "CHR '']'' \<notin> set h" "h \<noteq> []"
    and "\<forall>c \<in> set p. c \<noteq> CHR '':'' \<and> c \<noteq> CHR ''['' \<and> c \<noteq> CHR '']''"
  shows "listen_address (fl\<lparr> fl_nmosAddr := joinHostPort h p \<rparr>) = joinHostPort h (itoa (fl_nmosPort fl)) \<and>
    (CHR '':'' \<notin> set h \<longrightarrow> listen_address (fl\<lparr> fl_nmosAddr := h \<rparr>) = joinHostPort ''0.0.0.0'' (itoa (fl_nmosPort fl)))"
  using split_host_join [OF assms(2,3,5)] assms(1,4) by (simp add: listen_address_def split_host_def)

lemma port_flag_witness:
  "listen_address (default_flags\<lparr> fl_nmosPort := 9090, fl_nmosAddr := ''[::1]:8080'' \<rparr>) = ''[::1]:9090'' \<and>
   listen_address (default_flags\<lparr> fl_nmosPort := 9090, fl_nmosAddr := ''10.0.0.5'' \<rparr>) = ''0.0.0.0:9090''"
proof -
  have i: "itoa 9090 = ''9090''"
    by (simp add: itoa_def nat_text.simps [of 9090] nat_text.simps [of 909] nat_text.simps [of 90] nat_text.simps [of 9] digit_char_def) code_simp
  have n: "fl_nmosPort (default_flags\<lparr> fl_nmosPort := 9090 \<rparr>) \<noteq> 0" by simp
  have "listen_address ((default_flags\<lparr> fl_nmosPort := 9090 \<rparr>)\<lparr> fl_nmosAddr := joinHostPort ''::1'' ''8080'' \<rparr>) = joinHostPort ''::1'' (itoa 9090)"
    using port_flag [OF n, of "''::1''" "''8080''"] by simp
  moreover have "listen_address ((default_flags\<lparr> fl_nmosPort := 9090 \<rparr>)\<lparr> fl_nmosAddr := ''10.0.0.5'' \<rparr>) = joinHostPort ''0.0.0.0'' (itoa 9090)"
    using port_flag [OF n, of "''10.0.0.5''" "''1''"] by simp
  ultimately show ?thesis by (simp add: i joinHostPort_def)
qed

subsection \<open>How the program ends\<close>


lemma program_fails:
  assumes "\<not> se_db e \<or> se_listen e = None"
  shows "\<exists>r. gateway_main reg env now ver e dns fl meanwhile stops reqs = Exits 1 r"
proof (cases "se_db e")
  case False
  then show ?thesis by (simp add: gateway_main_def gateway_Start_def)
next
  case True
  with assms have "se_listen e = None" by simp
  with True show ?thesis
    by (auto simp: gateway_main_def gateway_Start_prepared on_life_def node_Start_def prepared_simps new_node_def Let_def split: prod.split)
qed




end
