(* ===== verification/Http_Router.thy ===== *)
theory Http_Router
  imports Gateway_Device_Laws Node_Api Is05_Connection
begin

text \<open>
  The HTTP side of the node in \<open>internal/infrastructure/nmos_controller.go\<close>: the table of routes of \<open>setupRouter\<close>, the
  middleware for CORS, the answer for unknown paths, and the handlers that list links.

  The matching of a path to a pattern is done by the library chi, which is a parameter: \<open>router_ok\<close> is what its
  documentation promises. Whether the links and the addresses the node gives out are routes at all is a
  property of the table.
\<close>

subsection \<open>The table of routes\<close>

text \<open>A request has one of the methods the table names, asks for the options, or has another one (DELETE, HEAD).\<close>

datatype request_method = Verb verb | Options | OtherMethod

datatype handler =
    NodeRoot | NodeSelf | NodeDevices | NodeDeviceById | DeviceControls
  | NodeSources | NodeSourceById | NodeFlows | NodeFlowById | NodeSenders | NodeSenderById
  | NodeReceivers | NodeReceiverById | NCP
  | EventsRoot | EventsWebsocket | EventsSourcesList | EventsSourceState | EventsSourceType
  | ConnectionRoot | ConnectionSingleRoot | ConnectionSendersList
  | ConnectionSenderActive | ConnectionSenderStaged | ConnectionSenderConstraints

type_synonym route_entry = "verb \<times> string \<times> handler"

text \<open>A router mounted under a pattern.\<close>

definition under :: "string \<Rightarrow> route_entry list \<Rightarrow> route_entry list" where
  "under base rs = map (\<lambda>(v, p, h). (v, base @ p, h)) rs"

definition setupRouter :: "route_entry list" where
  "setupRouter =
     [(Get, ''/x-nmos'', NodeRoot), (Get, ''/x-nmos/'', NodeRoot),
      (Get, ''/x-nmos/node'', NodeRoot), (Get, ''/x-nmos/node/'', NodeRoot),
      (Get, ''/x-nmos/node/v1.3'', NodeRoot), (Get, ''/x-nmos/node/v1.3/'', NodeRoot),
      (Get, ''/x-nmos/node/v1.3/self'', NodeSelf), (Get, ''/x-nmos/node/v1.3/self/'', NodeSelf),
      (Get, ''/x-nmos/node/v1.3/devices'', NodeDevices), (Get, ''/x-nmos/node/v1.3/devices/'', NodeDevices),
      (Get, ''/x-nmos/node/v1.3/devices/{id}'', NodeDeviceById), (Get, ''/x-nmos/node/v1.3/devices/{id}/'', NodeDeviceById)] @
     under ''/x-nmos/node/v1.3/devices/{id}/controls''
       [(Get, ''/'', DeviceControls), (Post, ''/'', DeviceControls), (Put, ''/'', DeviceControls), (Patch, ''/'', DeviceControls)] @
     [(Get, ''/x-nmos/node/v1.3/sources'', NodeSources), (Get, ''/x-nmos/node/v1.3/sources/'', NodeSources),
      (Get, ''/x-nmos/node/v1.3/sources/{id}'', NodeSourceById), (Get, ''/x-nmos/node/v1.3/sources/{id}/'', NodeSourceById),
      (Get, ''/x-nmos/node/v1.3/flows'', NodeFlows), (Get, ''/x-nmos/node/v1.3/flows/'', NodeFlows),
      (Get, ''/x-nmos/node/v1.3/flows/{id}'', NodeFlowById), (Get, ''/x-nmos/node/v1.3/flows/{id}/'', NodeFlowById),
      (Get, ''/x-nmos/node/v1.3/senders'', NodeSenders), (Get, ''/x-nmos/node/v1.3/senders/'', NodeSenders),
      (Get, ''/x-nmos/node/v1.3/senders/{id}'', NodeSenderById), (Get, ''/x-nmos/node/v1.3/senders/{id}/'', NodeSenderById),
      (Get, ''/x-nmos/node/v1.3/receivers'', NodeReceivers), (Get, ''/x-nmos/node/v1.3/receivers/'', NodeReceivers),
      (Get, ''/x-nmos/node/v1.3/receivers/{id}'', NodeReceiverById), (Get, ''/x-nmos/node/v1.3/receivers/{id}/'', NodeReceiverById),
      (Get, ''/x-nmos/node/v1.3/ncp'', NCP), (Get, ''/x-nmos/node/v1.3/ncp/'', NCP)] @
     under ''/x-nmos/events/v1.0''
       ([(Get, ''/'', EventsRoot), (Get, ''/ws'', EventsWebsocket), (Get, ''/events'', EventsWebsocket),
         (Get, ''/devices/{deviceId}'', EventsWebsocket)] @
        under ''/sources''
          ([(Get, ''/'', EventsSourcesList)] @
           under ''/{sourceId}'' [(Get, ''/state'', EventsSourceState), (Get, ''/type'', EventsSourceType)])) @
     under ''/x-nmos/connection/v1.1''
       ([(Get, ''/'', ConnectionRoot)] @
        under ''/single''
          ([(Get, ''/'', ConnectionSingleRoot)] @
           under ''/senders''
             ([(Get, ''/'', ConnectionSendersList)] @
              under ''/{senderId}''
                [(Get, ''/active'', ConnectionSenderActive), (Get, ''/staged'', ConnectionSenderStaged),
                 (Patch, ''/staged'', ConnectionSenderStaged), (Get, ''/constraints'', ConnectionSenderConstraints)])))"

subsection \<open>Paths and patterns\<close>

text \<open>The segments of a path after cleaning: empty and \<open>.\<close> segments are dropped, \<open>..\<close> drops the one before.\<close>

fun clean_acc :: "string list \<Rightarrow> string list \<Rightarrow> string list" where
  "clean_acc acc [] = rev acc"
| "clean_acc acc (s # ss) =
     (if s = [] \<or> s = ''.'' then clean_acc acc ss
      else if s = ''..'' then clean_acc (tl acc) ss
      else clean_acc (s # acc) ss)"

definition clean_segs :: "string \<Rightarrow> string list" where
  "clean_segs path = clean_acc [] (split_byte (CHR ''/'') path)"

datatype pat_seg = Lit string | Par string

definition pattern :: "string \<Rightarrow> pat_seg list" where
  "pattern p = map (\<lambda>s. if hd s = CHR ''{'' then Par (butlast (tl s)) else Lit s) (filter (\<lambda>s. s \<noteq> []) (split_byte (CHR ''/'') p))"

fun match_segs :: "pat_seg list \<Rightarrow> string list \<Rightarrow> (string \<times> string) list option" where
  "match_segs [] [] = Some []"
| "match_segs (Lit l # ps) (s # ss) = (if l = s then match_segs ps ss else None)"
| "match_segs (Par x # ps) (s # ss) = map_option (\<lambda>bs. (x, s) # bs) (match_segs ps ss)"
| "match_segs _ _ = None"

text \<open>
  What chi answers for a table, a method and a path. A documented router picks a route of the method whose pattern
  matches the cleaned path, and tells a path without a route from one whose routes have other methods.
\<close>

datatype routed = Routed handler "(string \<times> string) list" | WrongMethod | NoRoute

type_synonym router = "route_entry list \<Rightarrow> request_method \<Rightarrow> string \<Rightarrow> routed"

definition path_matches :: "route_entry list \<Rightarrow> string \<Rightarrow> bool" where
  "path_matches rs path \<longleftrightarrow> list_ex (\<lambda>(v, p, h). match_segs (pattern p) (clean_segs path) \<noteq> None) rs"

definition method_matches :: "route_entry list \<Rightarrow> request_method \<Rightarrow> string \<Rightarrow> bool" where
  "method_matches rs m path \<longleftrightarrow> list_ex (\<lambda>(v, p, h). m = Verb v \<and> match_segs (pattern p) (clean_segs path) \<noteq> None) rs"

definition router_ok :: "router \<Rightarrow> bool" where
  "router_ok mx \<longleftrightarrow> (\<forall>rs m path. case mx rs m path of
      Routed h bs \<Rightarrow> \<exists>v p. m = Verb v \<and> (v, p, h) \<in> set rs \<and> match_segs (pattern p) (clean_segs path) = Some bs
    | WrongMethod \<Rightarrow> \<not> method_matches rs m path \<and> path_matches rs path
    | NoRoute \<Rightarrow> \<not> path_matches rs path)"

subsection \<open>Serving a request\<close>

datatype reply = Preflight | NotFound | MethodNotAllowed | Handled handler "(string \<times> string) list"

text \<open>The middleware answers a request for the options before anything is routed.\<close>

definition corsMiddleware :: "(request_method \<Rightarrow> string \<Rightarrow> reply) \<Rightarrow> request_method \<Rightarrow> string \<Rightarrow> reply" where
  "corsMiddleware next m path = (if m = Options then Preflight else next m path)"

definition serve :: "router \<Rightarrow> request_method \<Rightarrow> string \<Rightarrow> reply" where
  "serve mx =
     corsMiddleware (\<lambda>m path. case mx setupRouter m path of
         Routed h bs \<Rightarrow> Handled h bs | WrongMethod \<Rightarrow> MethodNotAllowed | NoRoute \<Rightarrow> NotFound)"

subsection \<open>Handlers that list links\<close>

definition handleEventsRoot :: "string list" where "handleEventsRoot = [''sources/'']"
definition handleConnectionRoot :: "string list" where "handleConnectionRoot = [''single/'']"
definition handleConnectionSingleRoot :: "string list" where "handleConnectionSingleRoot = [''senders/'']"

text \<open>\<open>None\<close>: the method is refused.\<close>

definition handleConnectionSenderConstraints :: "request_method \<Rightarrow> goval list option" where
  "handleConnectionSenderConstraints m = (if m = Verb Get then Some [] else None)"

subsection \<open>The table is unambiguous\<close>

definition entries :: "(verb \<times> pat_seg list \<times> handler) list" where
  "entries = remdups (map (\<lambda>(v, p, h). (v, pattern p, h)) setupRouter)"

fun unifiable :: "pat_seg list \<Rightarrow> pat_seg list \<Rightarrow> bool" where
  "unifiable [] [] = True"
| "unifiable (Lit a # ps) (Lit b # qs) = (a = b \<and> unifiable ps qs)"
| "unifiable (p # ps) (q # qs) = unifiable ps qs"
| "unifiable _ _ = False"

lemma match_Cons_Lit: "match_segs (Lit l # ps) s = Some a \<longleftrightarrow> (\<exists>ss. s = l # ss \<and> match_segs ps ss = Some a)"
  by (cases s) auto

lemma match_Cons_Par:
  "match_segs (Par x # ps) s = Some a \<longleftrightarrow> (\<exists>t ss b. s = t # ss \<and> match_segs ps ss = Some b \<and> a = (x, t) # b)"
  by (cases s) auto

lemma match_Nil: "match_segs [] s = Some a \<longleftrightarrow> s = [] \<and> a = []"
  by (cases s) auto

lemmas match_simps = match_Cons_Lit match_Cons_Par match_Nil

lemma match_Lits: "match_segs (map Lit ls) s = Some a \<longleftrightarrow> s = ls \<and> a = []"
  by (induction ls arbitrary: s) (auto simp: match_simps)

lemma match_tail: "match_segs (p # ps) (t # ss) = Some a \<Longrightarrow> \<exists>b. match_segs ps ss = Some b"
  by (cases p) (auto split: if_split_asm)

lemma match_unifiable: "match_segs p s = Some a \<Longrightarrow> match_segs q s = Some b \<Longrightarrow> unifiable p q"
  by (induction p q arbitrary: s a b rule: unifiable.induct) (auto simp: match_simps dest: match_tail)

lemma entries_disjoint:
  "list_all (\<lambda>(v, p, h). list_all (\<lambda>(v', q, h'). v = v' \<and> unifiable p q \<longrightarrow> p = q \<and> h = h') entries) entries"
  by code_simp

lemma entries_unambiguous:
  assumes "(v, p, h) \<in> set entries" "(v, q, h') \<in> set entries" "match_segs p s = Some a" "match_segs q s = Some b"
  shows "h = h' \<and> a = b"
  using entries_disjoint assms match_unifiable [OF assms(3,4)] by (fastforce simp: list_all_iff)

lemma set_entries: "set entries = (\<lambda>(v, p, h). (v, pattern p, h)) ` set setupRouter"
  by (simp add: entries_def)

text \<open>The first route of the table that matches: the reference a documented router agrees with.\<close>

fun find_route :: "(verb \<times> pat_seg list \<times> handler) list \<Rightarrow> verb \<Rightarrow> string list \<Rightarrow> (handler \<times> (string \<times> string) list) option" where
  "find_route [] v segs = None"
| "find_route ((v', p, h) # es) v segs =
     (if v = v' then (case match_segs p segs of Some bs \<Rightarrow> Some (h, bs) | None \<Rightarrow> find_route es v segs)
      else find_route es v segs)"

definition served :: "request_method \<Rightarrow> string list \<Rightarrow> reply" where
  "served m segs =
     (let other = (if list_ex (\<lambda>(v, p, h). match_segs p segs \<noteq> None) entries then MethodNotAllowed else NotFound) in
      case m of
        Options \<Rightarrow> Preflight
      | OtherMethod \<Rightarrow> other
      | Verb v \<Rightarrow> (case find_route entries v segs of Some (h, bs) \<Rightarrow> Handled h bs | None \<Rightarrow> other))"

lemma find_route_Some: "find_route es v segs = Some (h, bs) \<Longrightarrow> \<exists>p. (v, p, h) \<in> set es \<and> match_segs p segs = Some bs"
  by (induction es v segs rule: find_route.induct) (auto split: if_split_asm option.split_asm)

lemma find_route_None: "find_route es v segs = None \<longleftrightarrow> (\<forall>p h. (v, p, h) \<in> set es \<longrightarrow> match_segs p segs = None)"
  by (induction es v segs rule: find_route.induct) (auto split: option.split)

lemma path_matches_entries: "path_matches setupRouter path = list_ex (\<lambda>(v, p, h). match_segs p (clean_segs path) \<noteq> None) entries"
  unfolding path_matches_def list_ex_iff set_entries by force

lemma method_matches_entries:
  "method_matches setupRouter (Verb v) path \<longleftrightarrow> find_route entries v (clean_segs path) \<noteq> None"
  unfolding method_matches_def list_ex_iff find_route_None set_entries by force

lemma method_matches_other: "m = Options \<or> m = OtherMethod \<Longrightarrow> \<not> method_matches setupRouter m path"
  by (auto simp: method_matches_def list_ex_iff)

lemma router_cases:
  assumes "router_ok mx"
  shows "mx rs m path = Routed h bs \<Longrightarrow> \<exists>v p. m = Verb v \<and> (v, p, h) \<in> set rs \<and> match_segs (pattern p) (clean_segs path) = Some bs"
    and "mx rs m path = WrongMethod \<Longrightarrow> \<not> method_matches rs m path \<and> path_matches rs path"
    and "mx rs m path = NoRoute \<Longrightarrow> \<not> path_matches rs path"
  using assms unfolding router_ok_def by (force split: routed.split_asm)+

lemma request_routes:
  assumes "router_ok mx"
  shows "serve mx m path = served m (clean_segs path)"
proof (cases "m = Options")
  case True
  then show ?thesis by (simp add: serve_def corsMiddleware_def served_def)
next
  case False
  have none: "method_matches setupRouter m path \<Longrightarrow> \<exists>v. m = Verb v \<and> find_route entries v (clean_segs path) \<noteq> None"
    using False by (cases m) (auto simp: method_matches_entries method_matches_other)
  have sub: "method_matches setupRouter m path \<Longrightarrow> path_matches setupRouter path"
    by (auto simp: method_matches_def path_matches_def list_ex_iff)
  show ?thesis
  proof (cases "mx setupRouter m path")
    case (Routed h bs)
    from router_cases(1) [OF assms this] obtain v p where m: "m = Verb v" and p: "(v, pattern p, h) \<in> set entries"
      "match_segs (pattern p) (clean_segs path) = Some bs" by (force simp: set_entries)
    then obtain h' bs' where f: "find_route entries v (clean_segs path) = Some (h', bs')"
      by (cases "find_route entries v (clean_segs path)") (auto simp: find_route_None)
    from find_route_Some [OF this] p entries_unambiguous have "h' = h" "bs' = bs" by blast+
    with Routed m f show ?thesis by (simp add: serve_def corsMiddleware_def served_def)
  next
    case WrongMethod
    from router_cases(2) [OF assms this] have "\<not> method_matches setupRouter m path" "path_matches setupRouter path" by auto
    with WrongMethod False show ?thesis
      by (cases m) (auto simp: serve_def corsMiddleware_def served_def method_matches_entries path_matches_entries split: option.split)
  next
    case NoRoute
    from router_cases(3) [OF assms this] sub have "\<not> method_matches setupRouter m path" "\<not> path_matches setupRouter path" by auto
    with NoRoute False show ?thesis
      by (cases m) (auto simp: serve_def corsMiddleware_def served_def method_matches_entries path_matches_entries split: option.split)
  qed
qed

text \<open>
  C21. The table decides: every router that keeps to its documentation serves every request the same way, namely by the first
  route of the table whose pattern matches the cleaned path, because no two routes of a method match the same path with
  different handlers.
\<close>

theorem request_routing:
  assumes "router_ok mx"
  shows "serve mx m path = served m (clean_segs path)"
  using assms by (rule request_routes)

definition first_match :: router where
  "first_match rs m path =
     (if m = Options then (if path_matches rs path then WrongMethod else NoRoute)
      else (case m of Verb v \<Rightarrow> (case find_route (map (\<lambda>(v, p, h). (v, pattern p, h)) rs) v (clean_segs path) of
          Some (h, bs) \<Rightarrow> Routed h bs | None \<Rightarrow> if path_matches rs path then WrongMethod else NoRoute)
        | _ \<Rightarrow> if path_matches rs path then WrongMethod else NoRoute))"

lemma first_match_ok: "router_ok first_match"
proof -
  have "\<not> method_matches rs (Verb v) path" if "find_route (map (\<lambda>(v, p, h). (v, pattern p, h)) rs) v (clean_segs path) = None" for rs v path
    using that by (force simp: find_route_None method_matches_def list_ex_iff)
  moreover have "\<not> method_matches rs m path" if "m = Options \<or> m = OtherMethod" for rs m path
    using that by (auto simp: method_matches_def list_ex_iff)
  ultimately show ?thesis
    unfolding router_ok_def first_match_def
    by (auto split: request_method.split option.split dest!: find_route_Some)
qed

text \<open>The table without the double entries for a final slash.\<close>

lemma entries_list: "entries =
   [(Get, [Lit ''x-nmos''], NodeRoot),
    (Get, [Lit ''x-nmos'', Lit ''node''], NodeRoot),
    (Get, [Lit ''x-nmos'', Lit ''node'', Lit ''v1.3''], NodeRoot),
    (Get, [Lit ''x-nmos'', Lit ''node'', Lit ''v1.3'', Lit ''self''], NodeSelf),
    (Get, [Lit ''x-nmos'', Lit ''node'', Lit ''v1.3'', Lit ''devices''], NodeDevices),
    (Get, [Lit ''x-nmos'', Lit ''node'', Lit ''v1.3'', Lit ''devices'', Par ''id''], NodeDeviceById),
    (Get, [Lit ''x-nmos'', Lit ''node'', Lit ''v1.3'', Lit ''devices'', Par ''id'', Lit ''controls''], DeviceControls),
    (Post, [Lit ''x-nmos'', Lit ''node'', Lit ''v1.3'', Lit ''devices'', Par ''id'', Lit ''controls''], DeviceControls),
    (Put, [Lit ''x-nmos'', Lit ''node'', Lit ''v1.3'', Lit ''devices'', Par ''id'', Lit ''controls''], DeviceControls),
    (Patch, [Lit ''x-nmos'', Lit ''node'', Lit ''v1.3'', Lit ''devices'', Par ''id'', Lit ''controls''], DeviceControls),
    (Get, [Lit ''x-nmos'', Lit ''node'', Lit ''v1.3'', Lit ''sources''], NodeSources),
    (Get, [Lit ''x-nmos'', Lit ''node'', Lit ''v1.3'', Lit ''sources'', Par ''id''], NodeSourceById),
    (Get, [Lit ''x-nmos'', Lit ''node'', Lit ''v1.3'', Lit ''flows''], NodeFlows),
    (Get, [Lit ''x-nmos'', Lit ''node'', Lit ''v1.3'', Lit ''flows'', Par ''id''], NodeFlowById),
    (Get, [Lit ''x-nmos'', Lit ''node'', Lit ''v1.3'', Lit ''senders''], NodeSenders),
    (Get, [Lit ''x-nmos'', Lit ''node'', Lit ''v1.3'', Lit ''senders'', Par ''id''], NodeSenderById),
    (Get, [Lit ''x-nmos'', Lit ''node'', Lit ''v1.3'', Lit ''receivers''], NodeReceivers),
    (Get, [Lit ''x-nmos'', Lit ''node'', Lit ''v1.3'', Lit ''receivers'', Par ''id''], NodeReceiverById),
    (Get, [Lit ''x-nmos'', Lit ''node'', Lit ''v1.3'', Lit ''ncp''], NCP),
    (Get, [Lit ''x-nmos'', Lit ''events'', Lit ''v1.0''], EventsRoot),
    (Get, [Lit ''x-nmos'', Lit ''events'', Lit ''v1.0'', Lit ''ws''], EventsWebsocket),
    (Get, [Lit ''x-nmos'', Lit ''events'', Lit ''v1.0'', Lit ''events''], EventsWebsocket),
    (Get, [Lit ''x-nmos'', Lit ''events'', Lit ''v1.0'', Lit ''devices'', Par ''deviceId''], EventsWebsocket),
    (Get, [Lit ''x-nmos'', Lit ''events'', Lit ''v1.0'', Lit ''sources''], EventsSourcesList),
    (Get, [Lit ''x-nmos'', Lit ''events'', Lit ''v1.0'', Lit ''sources'', Par ''sourceId'', Lit ''state''], EventsSourceState),
    (Get, [Lit ''x-nmos'', Lit ''events'', Lit ''v1.0'', Lit ''sources'', Par ''sourceId'', Lit ''type''], EventsSourceType),
    (Get, [Lit ''x-nmos'', Lit ''connection'', Lit ''v1.1''], ConnectionRoot),
    (Get, [Lit ''x-nmos'', Lit ''connection'', Lit ''v1.1'', Lit ''single''], ConnectionSingleRoot),
    (Get, [Lit ''x-nmos'', Lit ''connection'', Lit ''v1.1'', Lit ''single'', Lit ''senders''], ConnectionSendersList),
    (Get, [Lit ''x-nmos'', Lit ''connection'', Lit ''v1.1'', Lit ''single'', Lit ''senders'', Par ''senderId'', Lit ''active''], ConnectionSenderActive),
    (Get, [Lit ''x-nmos'', Lit ''connection'', Lit ''v1.1'', Lit ''single'', Lit ''senders'', Par ''senderId'', Lit ''staged''], ConnectionSenderStaged),
    (Patch, [Lit ''x-nmos'', Lit ''connection'', Lit ''v1.1'', Lit ''single'', Lit ''senders'', Par ''senderId'', Lit ''staged''], ConnectionSenderStaged),
    (Get, [Lit ''x-nmos'', Lit ''connection'', Lit ''v1.1'', Lit ''single'', Lit ''senders'', Par ''senderId'', Lit ''constraints''], ConnectionSenderConstraints)]"
  by code_simp

declare entries_list [code]

theorem request_routing_witness:
  "serve first_match (Verb Get) ''/x-nmos//node/v1.3/../v1.3/self/'' = Handled NodeSelf [] \<and> serve first_match Options ''/y'' = Preflight"
proof -
  have "served (Verb Get) (clean_segs ''/x-nmos//node/v1.3/../v1.3/self/'') = Handled NodeSelf []" "served Options (clean_segs ''/y'') = Preflight"
    by code_simp+
  then show ?thesis using request_routing [OF first_match_ok] by simp
qed

subsection \<open>Links\<close>

definition path_of :: "string list \<Rightarrow> string" where
  "path_of segs = concat (map (\<lambda>s. CHR ''/'' # s) segs)"

definition plain_seg :: "string \<Rightarrow> bool" where
  "plain_seg s \<longleftrightarrow> CHR ''/'' \<notin> set s \<and> s \<noteq> [] \<and> s \<noteq> ''.'' \<and> s \<noteq> ''..''"

lemma split_acc_through: "c \<notin> set w \<Longrightarrow> split_acc c cur (w @ s) = split_acc c (cur @ w) s"
  by (induction w arbitrary: cur) auto

lemma split_path_of: "list_all plain_seg segs \<Longrightarrow> CHR ''/'' \<notin> set cur \<Longrightarrow>
    split_acc (CHR ''/'') cur (path_of segs @ (if slash then ''/'' else [])) = cur # segs @ (if slash then [[]] else [])"
proof (induction segs arbitrary: cur)
  case Nil
  then show ?case by (simp add: path_of_def)
next
  case (Cons x segs)
  let ?t = "path_of segs @ (if slash then ''/'' else [])"
  have "split_acc (CHR ''/'') [] (x @ ?t) = split_acc (CHR ''/'') x ?t"
    using Cons.prems(1) split_acc_through [of "CHR ''/''" x "[]" ?t] by (simp add: plain_seg_def)
  with Cons.IH [of x] Cons.prems show ?case by (simp add: path_of_def plain_seg_def)
qed

lemma clean_acc_plain: "list_all plain_seg segs \<Longrightarrow> clean_acc acc (segs @ (if slash then [[]] else [])) = rev acc @ segs"
  by (induction segs arbitrary: acc) (auto simp: plain_seg_def)

lemma clean_path_of [simp]:
  assumes "list_all plain_seg segs"
  shows "clean_segs (path_of segs @ (if slash then ''/'' else [])) = segs"
  using split_path_of [OF assms, of "[]" slash] clean_acc_plain [OF assms, of "[]" slash]
  by (simp add: clean_segs_def split_byte_def)

lemmas clean_open = clean_path_of [where slash = False, simplified]
lemmas clean_slash = clean_path_of [where slash = True, simplified]

lemma digit_char_no_slash: "n < 16 \<Longrightarrow> digit_char n \<noteq> CHR ''/''"
proof
  assume "n < 16" "digit_char n = CHR ''/''"
  then have "code_of (char_of (if n < 10 then 48 + n else 87 + n)) = code_of (CHR ''/'')" by (simp only: digit_char_def)
  with \<open>n < 16\<close> show False by (simp add: of_char_of split: if_split_asm)
qed

lemma uuid_plain: "plain_seg (DeriveUUID sha s)"
proof -
  have "CHR ''/'' \<notin> set (hex_byte c)" for c
    using digit_char_no_slash [of "code_of c div 16"] digit_char_no_slash [of "code_of c mod 16"] less_mult_imp_div_less [of "code_of c" 16 16]
    by (auto simp: hex_byte_def)
  then have hex: "CHR ''/'' \<notin> set (hex_text h)" for h by simp
  then have part: "CHR ''/'' \<notin> set (take n (drop m (hex_text h)))" for n m h by (meson in_set_dropD in_set_takeD)
  have "CHR ''/'' \<notin> set (uuidFromHash h)" for h
    using part [of 8 0 h] part [of 4 8 h] part [of 4 12 h] part [of 4 16 h] part [of 12 20 h]
    by (simp add: uuidFromHash_def Let_def del: set_concat set_map)
  moreover have "uuidFromHash h \<notin> {[], ''.'', ''..''}" for h
  proof -
    have "4 \<le> length (uuidFromHash h)" by (simp add: uuidFromHash_def Let_def)
    then show ?thesis by auto
  qed
  ultimately show ?thesis unfolding DeriveUUID_def plain_seg_def by blast
qed

lemma served_path:
  assumes "router_ok mx" "list_all plain_seg segs"
  shows "serve mx m (path_of segs @ (if slash then ''/'' else [])) = served m segs"
  using request_routes [OF assms(1)] clean_path_of [OF assms(2)] by simp

lemma served_at:
  assumes "router_ok mx" "list_all plain_seg segs" "path = path_of segs \<or> path = path_of segs @ ''/''"
  shows "serve mx m path = served m segs"
  using assms(3) served_path [OF assms(1,2), of m True] served_path [OF assms(1,2), of m False] by auto

definition links_of :: "handler \<Rightarrow> string \<Rightarrow> string list" where
  "links_of h path =
     (case h of
        NodeRoot \<Rightarrow> handleNodeRoot path
      | EventsRoot \<Rightarrow> handleEventsRoot
      | ConnectionRoot \<Rightarrow> handleConnectionRoot
      | ConnectionSingleRoot \<Rightarrow> handleConnectionSingleRoot
      | _ \<Rightarrow> [])"

definition indices :: "(handler \<times> string list) list" where
  "indices =
     [(NodeRoot, [''x-nmos'']), (NodeRoot, [''x-nmos'', ''node'']), (NodeRoot, [''x-nmos'', ''node'', ''v1.3'']),
      (EventsRoot, [''x-nmos'', ''events'', ''v1.0'']), (ConnectionRoot, [''x-nmos'', ''connection'', ''v1.1'']),
      (ConnectionSingleRoot, [''x-nmos'', ''connection'', ''v1.1'', ''single''])]"

lemma index_entries:
  "list_all (\<lambda>(v, p, h). list_ex (\<lambda>(h', segs). h = h') indices \<longrightarrow> list_ex (\<lambda>(h', segs). h = h' \<and> p = map Lit segs) indices) entries"
  by code_simp

lemma index_children:
  "list_all (\<lambda>(h, segs). list_all (\<lambda>l. l = butlast l @ ''/'' \<and> plain_seg (butlast l) \<and>
     (case served (Verb Get) (segs @ [butlast l]) of Handled h' bs \<Rightarrow> bs = [] | _ \<Rightarrow> False)) (links_of h (path_of segs @ ''/''))) indices"
  by code_simp

lemma index_child:
  assumes "(h, segs) \<in> set indices" "l \<in> set (links_of h (path_of segs @ ''/''))"
  obtains h' where "l = butlast l @ ''/''" "plain_seg (butlast l)" "served (Verb Get) (segs @ [butlast l]) = Handled h' []"
  using index_children [unfolded list_all_iff, THEN bspec, OF assms(1), simplified prod.case, THEN bspec, OF assms(2)]
  by (cases "served (Verb Get) (segs @ [butlast l])") auto

lemma index_paths:
  assumes "served (Verb Get) segs = Handled h bs" "l \<in> set (links_of h path)"
  shows "(h, segs) \<in> set indices"
proof -
  from assms(1) have "find_route entries Get segs = Some (h, bs)"
    by (auto simp: served_def Let_def split: option.split_asm if_split_asm)
  then obtain p where p: "(Get, p, h) \<in> set entries" "match_segs p segs = Some bs" using find_route_Some by blast
  have "list_ex (\<lambda>(h', segs). h = h') indices" using assms(2) by (cases h) (simp_all add: links_of_def indices_def)
  with index_entries p(1) obtain ss where "(h, ss) \<in> set indices" "p = map Lit ss"
    unfolding list_all_iff list_ex_iff by fastforce
  with p(2) show ?thesis by (simp add: match_Lits)
qed

text \<open>
  Every link an index of the API lists is a route: following it from the path of the index, with its slash, is served.
\<close>

lemma index_links_served:
  assumes "router_ok mx" "list_all plain_seg segs"
    and "serve mx (Verb Get) (path_of segs @ ''/'') = Handled h bs" "l \<in> set (links_of h (path_of segs @ ''/''))"
  shows "\<exists>h'. serve mx (Verb Get) (path_of segs @ ''/'' @ l) = Handled h' []"
proof -
  have "served (Verb Get) segs = Handled h bs" using served_at [OF assms(1,2)] assms(3) by simp
  from index_child [OF index_paths [OF this assms(4)] assms(4)] obtain h'
    where x: "l = butlast l @ ''/''" "plain_seg (butlast l)" "served (Verb Get) (segs @ [butlast l]) = Handled h' []" .
  have "serve mx (Verb Get) (path_of (segs @ [butlast l]) @ ''/'') = served (Verb Get) (segs @ [butlast l])"
    by (rule served_at [OF assms(1)]) (use assms(2) x(2) in simp_all)
  moreover have "path_of segs @ ''/'' @ l = path_of (segs @ [butlast l]) @ ''/''" using x(1) by (simp add: path_of_def)
  ultimately show ?thesis using x(3) by simp
qed

lemma index_links_served_witness:
  "serve first_match (Verb Get) ''/x-nmos/node/'' = Handled NodeRoot [] \<and> (\<exists>h. serve first_match (Verb Get) ''/x-nmos/node/v1.3/'' = Handled h [])"
proof -
  let ?segs = "[''x-nmos'', ''node'']"
  have plain: "list_all plain_seg ?segs" by (simp add: plain_seg_def)
  have "served (Verb Get) ?segs = Handled NodeRoot []" by code_simp
  then have root: "serve first_match (Verb Get) (path_of ?segs @ ''/'') = Handled NodeRoot []"
    using served_at [OF first_match_ok plain] by simp
  have "''v1.3/'' \<in> set (links_of NodeRoot (path_of ?segs @ ''/''))" by (simp add: links_of_def path_of_def handleNodeRoot_def)
  from index_links_served [OF first_match_ok plain root this] root show ?thesis by (simp add: path_of_def)
qed

lemma served_source: "served m [''x-nmos'', ''events'', ''v1.0'', ''sources'', i] = (if m = Options then Preflight else NotFound)"
  by (cases m) (simp_all add: served_def entries_list)

lemma served_connection_sender:
  "served m [''x-nmos'', ''connection'', ''v1.1'', ''single'', ''senders'', i] = (if m = Options then Preflight else NotFound)"
  by (cases m) (simp_all add: served_def entries_list)

text \<open>
  C23. The links in the list of sources of the events API and in the list of senders of the connection API lead nowhere: the
  table has routes below a source or a sender, but none for the source or the sender itself.
\<close>

theorem listed_links_dead:
  assumes "router_ok mx" "m \<noteq> Options"
    and "l \<in> set (handleEventsSourcesList rs)" "plain_seg (butlast l)"
    and "handleConnectionSendersList s = Done s' ls" "k \<in> set ls" "plain_seg (butlast k)"
  shows "serve mx m (''/x-nmos/events/v1.0/sources/'' @ l) = NotFound \<and>
    serve mx m (''/x-nmos/connection/v1.1/single/senders/'' @ k) = NotFound"
proof -
  have l: "l = butlast l @ ''/''" using assms(3) by (auto simp: handleEventsSourcesList_def List.map_filter_def split: option.split_asm)
  have k: "k = butlast k @ ''/''" using assms(5,6)
    by (auto simp: handleConnectionSendersList_def List.map_filter_def mu_RLock_def mu_RUnlock_def Let_def split: option.split_asm lock.split_asm nat.split_asm if_split_asm)
  let ?sl = "[''x-nmos'', ''events'', ''v1.0'', ''sources'', butlast l]"
    and ?sk = "[''x-nmos'', ''connection'', ''v1.1'', ''single'', ''senders'', butlast k]"
  have pl: "''/x-nmos/events/v1.0/sources/'' @ l = path_of ?sl @ ''/''" by (subst l) (simp add: path_of_def)
  have pk: "''/x-nmos/connection/v1.1/single/senders/'' @ k = path_of ?sk @ ''/''" by (subst k) (simp add: path_of_def)
  have "list_all plain_seg ?sl" "list_all plain_seg ?sk" using assms(4,7) by (simp_all add: plain_seg_def)
  from served_at [OF assms(1) this(1) disjI2 [OF pl]] served_at [OF assms(1) this(2) disjI2 [OF pk]] assms(2)
  show ?thesis by (simp only: served_source served_connection_sender if_False simp_thms)
qed

theorem listed_links_dead_witness:
  "serve first_match (Verb Get) ''/x-nmos/events/v1.0/sources/s1/'' = NotFound \<and>
   serve first_match (Verb Get) ''/x-nmos/connection/v1.1/single/senders/s1/'' = NotFound"
proof -
  obtain s' where "handleConnectionSendersList node_with_sender = Done s' [''s1/'']"
    by (simp add: handleConnectionSendersList_def node_with_sender_def empty_node_def mu_RLock_def mu_RUnlock_def field_of_def List.map_filter_simps)
  moreover have "''s1/'' \<in> set (handleEventsSourcesList [VMap [(''id'', VStr ''s1'')]])"
    by (simp add: handleEventsSourcesList_def List.map_filter_simps field_of_def)
  ultimately show ?thesis
    using listed_links_dead [OF first_match_ok, of "Verb Get" "''s1/''" "[VMap [(''id'', VStr ''s1'')]]" node_with_sender s' "[''s1/'']" "''s1/''"]
    by (simp add: plain_seg_def)
qed

subsection \<open>Addresses given out\<close>

definition url_path :: "string \<Rightarrow> string" where
  "url_path u = (case str_index u ''://'' of None \<Rightarrow> [] | Some i \<Rightarrow> dropWhile (\<lambda>c. c \<noteq> CHR ''/'') (drop (i + 3) u))"

lemma drop_host: "CHR ''/'' \<notin> set host \<Longrightarrow> dropWhile (\<lambda>c. c \<noteq> CHR ''/'') (host @ CHR ''/'' # p) = CHR ''/'' # p"
  by (induction host) auto

lemma url_path_simps [simp]:
  assumes "CHR ''/'' \<notin> set host"
  shows "url_path (''http://'' @ host @ CHR ''/'' # p) = CHR ''/'' # p" "url_path (''ws://'' @ host @ CHR ''/'' # p) = CHR ''/'' # p"
  using drop_host [OF assms] by (simp_all add: url_path_def has_prefix_def)

text \<open>The addresses in the controls of a device.\<close>

definition hrefs :: "goval \<Rightarrow> string list" where
  "hrefs v = (case as_array v of None \<Rightarrow> []
     | Some cs \<Rightarrow> List.map_filter (\<lambda>c. case as_map c of None \<Rightarrow> None | Some m \<Rightarrow> as_string (field_of ''href'' m)) cs)"

text \<open>
  C22. The addresses the gateway gives out for a receiver: its controls lead to the connection API, the events API and the
  control server, and its senders to the websocket of the events; but the REST address of every sender, in its
  parameters and in its tags, is not found.
\<close>

theorem advertised_addresses:
  assumes "router_ok mx" "CHR ''/'' \<notin> set (ge_listen env)"
  shows "map (serve mx (Verb Get) \<circ> url_path) (hrefs (field_of ''controls'' (device_resource env ver addr d dev))) =
      [Handled ConnectionRoot [], Handled EventsRoot [], Handled NCP []] \<and>
    (\<exists>p uri url. field_of ''transport_params'' (sender_resource env ver ch param d inst) = VMaps [p] \<and>
      field_of ''connection_uri'' p = VStr uri \<and> serve mx (Verb Get) (url_path uri) = Handled EventsWebsocket [] \<and>
      field_of ''ext_is_07_rest_api_url'' p = VStr url \<and> serve mx (Verb Get) (url_path url) = NotFound)"
proof -
  have at: "serve mx (Verb Get) path = served (Verb Get) segs" if "path = path_of segs \<or> path = path_of segs @ ''/''" "list_all plain_seg segs" for path segs
    using served_at [OF assms(1) that(2,1)] .
  let ?id = "resource_id env ''source'' d ch param"
  have "serve mx (Verb Get) ''/x-nmos/connection/v1.1/'' = served (Verb Get) [''x-nmos'', ''connection'', ''v1.1'']"
    "serve mx (Verb Get) ''/x-nmos/events/v1.0/'' = served (Verb Get) [''x-nmos'', ''events'', ''v1.0'']"
    "serve mx (Verb Get) ''/x-nmos/node/v1.3/ncp'' = served (Verb Get) [''x-nmos'', ''node'', ''v1.3'', ''ncp'']"
    "serve mx (Verb Get) ''/x-nmos/events/v1.0/ws'' = served (Verb Get) [''x-nmos'', ''events'', ''v1.0'', ''ws'']"
    "serve mx (Verb Get) (''/x-nmos/events/v1.0/sources/'' @ ?id @ ''/'') = served (Verb Get) [''x-nmos'', ''events'', ''v1.0'', ''sources'', ?id]"
    using uuid_plain unfolding resource_id_def by (intro at; simp add: path_of_def plain_seg_def)+
  moreover have "served (Verb Get) [''x-nmos'', ''connection'', ''v1.1''] = Handled ConnectionRoot []"
    "served (Verb Get) [''x-nmos'', ''events'', ''v1.0''] = Handled EventsRoot []"
    "served (Verb Get) [''x-nmos'', ''node'', ''v1.3'', ''ncp''] = Handled NCP []"
    "served (Verb Get) [''x-nmos'', ''events'', ''v1.0'', ''ws''] = Handled EventsWebsocket []"
    by code_simp+
  ultimately show ?thesis
    using assms(2) url_path_simps [OF assms(2)]
    by (simp add: device_resource_def sender_resource_def field_of_def hrefs_def List.map_filter_simps rest_api_url_def Let_def served_source)
qed

theorem advertised_addresses_witness:
  "map (serve first_match (Verb Get) \<circ> url_path) (hrefs (field_of ''controls'' (device_resource test_gw_env ''1:1'' ''h:1'' ''d'' test_device))) =
     [Handled ConnectionRoot [], Handled EventsRoot [], Handled NCP []]"
proof -
  have "CHR ''/'' \<notin> set (ge_listen test_gw_env)" by (simp add: test_gw_env_def)
  from advertised_addresses [OF first_match_ok this] show ?thesis by blast
qed

subsection \<open>Controls\<close>








end
