(* ===== verification/Dummy_Node.thy ===== *)
theory Dummy_Node
  imports Gateway_Program Http_Router
begin

text \<open>
  The program of \<open>cmd/dummy_node/main.go\<close>: a node without receivers that registers a device with five event sources, two workers
  of the control server and two controls, and sends events every second. It runs on the model of the node; a registration is
  an argument, so that what the program sets up can be stated beside how it hangs.
\<close>

subsection \<open>State\<close>

record dummy_state =
  du_life :: node_life
  du_nmos :: nmos_state
  du_ncp :: ncp_state
  du_events :: is07_state
  du_controls :: "string \<Rightarrow> (string \<times> goval) list list"
  du_callback :: bool
  du_ticking :: bool

text \<open>The node without a database; a registry is looked for by mDNS.\<close>

definition NewNMOSController :: "string \<Rightarrow> string \<Rightarrow> dummy_state" where
  "NewNMOSController addr uuid =
     \<lparr> du_life = new_life addr, du_nmos = new_node uuid, du_ncp = new_ncp_state, du_events = no_events, du_controls = (\<lambda>_. []),
       du_callback = False, du_ticking = False \<rparr>"

definition default_registry :: RegistryDiscoveryConfig where
  "default_registry = \<lparr> rc_Mode = DiscoveryModeMDNS, rc_Domain = ''local.'', rc_StaticRegistry = [] \<rparr>"

definition SetControls :: "string \<Rightarrow> (string \<times> goval) list list \<Rightarrow> dummy_state \<Rightarrow> dummy_state" where
  "SetControls deviceID controls s = s\<lparr> du_controls := (du_controls s)(deviceID := controls) \<rparr>"


definition OnControlChange :: "dummy_state \<Rightarrow> dummy_state" where
  "OnControlChange s = s\<lparr> du_callback := True \<rparr>"

subsection \<open>Resources\<close>

definition dummy_id :: string where "dummy_id = ''dummy-device-1''"

text \<open>\<open>ver\<close>: the version of a resource by its id, the time it is made.\<close>

definition dummy_device :: "(string \<Rightarrow> string) \<Rightarrow> string \<Rightarrow> string \<Rightarrow> (string \<times> goval) list" where
  "dummy_device ver nid nmosAddr =
     [(''id'', VStr dummy_id), (''version'', VStr (ver dummy_id)), (''label'', VStr ''Dummy Audio Node''),
      (''description'', VStr ''A simulated NMOS node with gain and fader controls''),
      (''tags'', VMap [(''type'', VStrs [''dummy''])]), (''node_id'', VStr nid), (''senders'', VStrs []), (''receivers'', VStrs []),
      (''controls'', VArr
        [VMap [(''type'', VStr ''urn:x-nmos:control:sr-ctrl/v1.0''), (''href'', VStr (''http://'' @ nmosAddr @ ''/x-nmos/connection/v1.1/''))],
         VMap [(''type'', VStr ''urn:x-nmos:control:events/v1.0''), (''href'', VStr (''http://'' @ nmosAddr @ ''/x-nmos/events/v1.0/''))],
         VMap [(''type'', VStr ''urn:x-nmos:control:ncp/v1.0''), (''href'', VStr (''ws://'' @ nmosAddr @ ''/x-nmos/node/v1.3/ncp''))]])]"

definition dummy_source :: "string \<Rightarrow> string" where "dummy_source p = ''dummy-source-'' @ p"
definition dummy_flow :: "string \<Rightarrow> string" where "dummy_flow p = ''dummy-flow-'' @ p"
definition dummy_sender :: "string \<Rightarrow> string" where "dummy_sender p = ''dummy-sender-'' @ p"

definition registerParam :: "(string \<Rightarrow> string) \<Rightarrow> string \<Rightarrow> string \<Rightarrow> (string \<times> (string \<times> goval) list) list" where
  "registerParam ver p eventType =
     [(''sources'',
       [(''id'', VStr (dummy_source p)), (''version'', VStr (ver (dummy_source p))), (''label'', VStr (''Dummy '' @ p @ '' Source'')),
        (''format'', VStr ''urn:x-nmos:format:data''), (''device_id'', VStr dummy_id), (''event_type'', VStr eventType)]),
      (''flows'',
       [(''id'', VStr (dummy_flow p)), (''version'', VStr (ver (dummy_flow p))), (''label'', VStr (''Dummy '' @ p @ '' Flow'')),
        (''format'', VStr ''urn:x-nmos:format:data''), (''source_id'', VStr (dummy_source p)), (''device_id'', VStr dummy_id),
        (''media_type'', VStr ''application/json''), (''event_type'', VStr eventType)]),
      (''senders'',
       [(''id'', VStr (dummy_sender p)), (''version'', VStr (ver (dummy_sender p))), (''label'', VStr (''Dummy '' @ p @ '' Sender'')),
        (''device_id'', VStr dummy_id), (''flow_id'', VStr (dummy_flow p)), (''transport'', VStr ''urn:x-nmos:transport:websocket''),
        (''manifest_href'', VNil)])]"

definition dummy_params :: "(string \<times> string) list" where
  "dummy_params =
     [(''volume'', ''number''), (''chan_quality'', ''number''), (''audio_peak'', ''number''), (''rf_rssi_a'', ''number''),
      (''mic_mute'', ''boolean'')]"

definition dummy_resources :: "(string \<Rightarrow> string) \<Rightarrow> string \<Rightarrow> string \<Rightarrow> (string \<times> (string \<times> goval) list) list" where
  "dummy_resources ver nid nmosAddr =
     (''devices'', dummy_device ver nid nmosAddr) # concat (map (\<lambda>(p, ty). registerParam ver p ty) dummy_params)"

text \<open>The error of a registration is ignored.\<close>

definition dummy_register :: "register \<Rightarrow> string \<times> (string \<times> goval) list \<Rightarrow> dummy_state \<Rightarrow> (dummy_state, unit) run" where
  "dummy_register reg r s =
     (case reg (fst r) (VMap (snd r)) (du_nmos s) of
        Done n b \<Rightarrow> Done (s\<lparr> du_nmos := n \<rparr>) ()
      | Deadlock n \<Rightarrow> Deadlock (s\<lparr> du_nmos := n \<rparr>)
      | FatalError \<Rightarrow> FatalError)"

subsection \<open>Control objects and controls\<close>

definition dummy_class :: "int \<Rightarrow> string \<Rightarrow> string \<Rightarrow> NcClassDescriptor" where
  "dummy_class n name prop = NcClassDescriptor [] [1, 2, 1, n] name None [Described [] (prop_d 3 1 prop ''NcFloat32'' False False False)] [] []"

text \<open>The hook of a worker only writes to the log.\<close>

definition dummy_worker :: "int \<Rightarrow> int \<Rightarrow> string \<Rightarrow> string \<Rightarrow> int \<Rightarrow> nc_worker" where
  "dummy_worker oid n role label v = (NewWorker oid [1, 2, 1, n] None role label)\<lparr> wk_Value := VInt v, wk_OnSet := NoOnSet \<rparr>"

definition dummy_objects :: "ncp_state \<Rightarrow> ncp_state" where
  "dummy_objects st =
     (let st1 = RegisterClass (dummy_class 2 ''FaderWorker'' ''fader'') (RegisterClass (dummy_class 1 ''GainWorker'' ''gain'') st);
          st2 = block_add_item 1 100 (RegisterNCPObject 100 (OBlock (NewBlock 100 None ''Device'' ''Dummy Device'')) st1);
          st3 = block_add_item 100 101 (RegisterNCPObject 101 (OWorker (dummy_worker 101 1 ''gain'' ''Audio Gain'' 0)) st2) in
      block_add_item 100 102 (RegisterNCPObject 102 (OWorker (dummy_worker 102 2 ''fader'' ''Audio Fader'' 50)) st3))"

definition dummy_controls :: "(string \<times> goval) list list" where
  "dummy_controls =
     [[(''name'', VStr ''gain''), (''type'', VStr ''number''), (''value'', VInt 0), (''min'', VInt (-18)), (''max'', VInt 42), (''step'', VInt 1),
       (''unit'', VStr ''dB''), (''description'', VStr ''Audio gain control''), (''read_only'', VBool False)],
      [(''name'', VStr ''fader''), (''type'', VStr ''number''), (''value'', VInt 50), (''min'', VInt 0), (''max'', VInt 100), (''step'', VInt 1),
       (''unit'', VStr ''%''), (''description'', VStr ''Audio fader control''), (''read_only'', VBool False)]]"

text \<open>What \<open>main\<close> does once the node is up, before it waits for the signal.\<close>

definition dummy_setup :: "register \<Rightarrow> (string \<Rightarrow> string) \<Rightarrow> string \<Rightarrow> dummy_state \<Rightarrow> (dummy_state, unit) run" where
  "dummy_setup reg ver nmosAddr s =
     run_bind (fold_run (dummy_register reg) (dummy_resources ver (nodeID (du_nmos s)) nmosAddr) s) (\<lambda>s _.
       Done ((OnControlChange (SetControls dummy_id dummy_controls (s\<lparr> du_ncp := dummy_objects (du_ncp s) \<rparr>)))\<lparr> du_ticking := True \<rparr>) ())"

text \<open>\<open>meanwhile\<close>: what happens between the setup and the signal. The error of \<open>Stop\<close> is ignored.\<close>

definition dummy_main ::
  "register \<Rightarrow> start_env \<Rightarrow> dns_env \<Rightarrow> (string \<Rightarrow> string) \<Rightarrow> string \<Rightarrow> (dummy_state \<Rightarrow> dummy_state) \<Rightarrow> (string \<times> string) list \<Rightarrow> dummy_state program_end" where
  "dummy_main reg e dns ver nmosAddr meanwhile reqs =
     (let s = NewNMOSController nmosAddr (se_uuid e); put = (\<lambda>s (l, n). s\<lparr> du_life := l, du_nmos := n \<rparr>) in
      case node_Start (se_listen e) (se_services e) (discoverRegistry dns default_registry) (se_oks e) (se_node e) (du_life s, du_nmos s) of
        Deadlock ln \<Rightarrow> Hangs (put s ln)
      | FatalError \<Rightarrow> Panics
      | Done ln ok \<Rightarrow>
          if \<not> ok then Exits 1 (put s ln)
          else (case dummy_setup reg ver nmosAddr (put s ln) of
              Deadlock s' \<Rightarrow> Hangs s'
            | FatalError \<Rightarrow> Panics
            | Done s' _ \<Rightarrow>
                (let t = meanwhile s' in
                 case node_Stop reqs (du_life t, du_nmos t) of
                   Deadlock ln \<Rightarrow> Hangs (put t ln)
                 | FatalError \<Rightarrow> Panics
                 | Done ln _ \<Rightarrow> Exits 0 (put t ln))))"

subsection \<open>A control changes\<close>






subsection \<open>Events\<close>

text \<open>The events of a tick: source, flow, type and value; the random numbers are arguments.\<close>

definition dummy_events :: "64 word \<Rightarrow> int \<Rightarrow> int \<Rightarrow> int \<Rightarrow> bool \<Rightarrow> (string \<times> string \<times> goval) list" where
  "dummy_events volume quality peak rssi mute =
     [(''volume'', ''number'', VFloat volume), (''chan_quality'', ''number'', VStr (fmt_0d 3 quality)),
      (''audio_peak'', ''number'', VStr (fmt_0d 3 peak)), (''rf_rssi_a'', ''number'', VStr (fmt_0d 3 rssi)),
      (''mic_mute'', ''boolean'', VBool mute)]"

definition dummy_tick ::
  "(int \<Rightarrow> string) \<Rightarrow> int \<Rightarrow> (conn \<Rightarrow> bool) \<Rightarrow> 64 word \<Rightarrow> int \<Rightarrow> int \<Rightarrow> int \<Rightarrow> bool \<Rightarrow> dummy_state \<Rightarrow> dummy_state \<times> writes" where
  "dummy_tick stamp now ok volume quality peak rssi mute s =
     (case fold (\<lambda>(p, ty, v) (ev, ws).
         (case BroadcastEvent stamp now ok (dummy_source p) (dummy_flow p) ty v ev of (ev', ws') \<Rightarrow> (ev', ws @ ws')))
         (dummy_events volume quality peak rssi mute) (du_events s, []) of
        (ev, ws) \<Rightarrow> (s\<lparr> du_events := ev \<rparr>, ws))"

subsection \<open>The setup\<close>









subsection \<open>How the program runs\<close>

text \<open>
  The dummy node does not start: when its address can be listened at, the registration of its device hangs, with the server
  up, the lock of the node taken and the device in its list, and before a source, a control or a control object of the
  device exists or an event is sent. It never gets to wait for the signal.
\<close>

lemma dummy_never_ready:
  "case se_listen e of
     None \<Rightarrow> \<exists>s. dummy_main RegisterResource e dns ver addr meanwhile reqs = Exits 1 s
   | Some a \<Rightarrow> \<exists>s. dummy_main RegisterResource e dns ver addr meanwhile reqs = Hangs s \<and> nl_serving (du_life s) \<and>
       mu (du_nmos s) = WriteLocked \<and>
       (\<exists>nid. find_resource dummy_id (resources (du_nmos s) ''devices'') = Some (VMap (dummy_device ver nid addr))) \<and>
       du_ncp s = new_ncp_state \<and> du_controls s = (\<lambda>_. []) \<and> \<not> du_callback s \<and> \<not> du_ticking s"
proof (cases "se_listen e")
  case None
  then show ?thesis by (simp add: dummy_main_def NewNMOSController_def node_Start_def new_node_def Let_def)
next
  case (Some a)
  let ?s = "NewNMOSController addr (se_uuid e)"
  have "\<not> isRunning (du_nmos ?s)" "mu (du_nmos ?s) = Unlocked" by (simp_all add: NewNMOSController_def new_node_def)
  then obtain l n where up: "node_Start (Some a) (se_services e) (discoverRegistry dns default_registry) (se_oks e) (se_node e)
      (du_life ?s, du_nmos ?s) = Done (l, n) True" "nl_serving l" "mu n = Unlocked"
    by (rule node_Start_done)
  let ?m = "dummy_device ver (nodeID n) addr"
  have i: "as_string (field_of ''id'' ?m) = Some dummy_id" by (simp add: dummy_device_def field_of_def)
  from RegisterResource_hangs [OF up(3), where r = "VMap ?m" and t = "''devices''"] i obtain n' where
    n': "RegisterResource ''devices'' (VMap ?m) n = Deadlock n'" "mu n' = WriteLocked"
      "find_resource dummy_id (resources n' ''devices'') = Some (VMap ?m)" by (auto simp: toPlural_def)
  then have "dummy_setup RegisterResource ver addr (?s\<lparr> du_life := l, du_nmos := n \<rparr>) = Deadlock (?s\<lparr> du_life := l, du_nmos := n' \<rparr>)"
    by (simp add: dummy_setup_def dummy_resources_def dummy_register_def)
  then have "dummy_main RegisterResource e dns ver addr meanwhile reqs = Hangs (?s\<lparr> du_life := l, du_nmos := n' \<rparr>)"
    using up(1) Some by (simp add: dummy_main_def Let_def)
  with up(2) n'(2,3) Some show ?thesis by (auto simp: NewNMOSController_def)
qed


subsection \<open>Controls and events\<close>







text \<open>
  Three of the five events of a tick name the type number and carry a text of three digits; the sources of all four
  numbers are registered as number.
\<close>

lemma dummy_number_texts:
  assumes "0 \<le> quality" "quality \<le> 5" "80 \<le> peak" "peak \<le> 120" "90 \<le> rssi" "rssi \<le> 120"
  shows "map (\<lambda>(p, ty, v). (p, ty)) (dummy_events volume quality peak rssi mute) = dummy_params \<and>
    map (\<lambda>(p, ty, v). p) (filter (\<lambda>(p, ty, v). ty = ''number'' \<and> as_string v \<noteq> None) (dummy_events volume quality peak rssi mute)) =
      [''chan_quality'', ''audio_peak'', ''rf_rssi_a'']"
  by (simp add: dummy_events_def dummy_params_def)

end
