(* ===== verification/Registry_Exchange.thy ===== *)
theory Registry_Exchange
  imports Registry_Client
begin

text \<open>
  The exchange with a registry in \<open>internal/infrastructure/nmos_controller.go\<close>: the requests of \<open>registerResourceToRegistry\<close>,
  \<open>unregisterResourceFromRegistry\<close>, \<open>UpdateResourceInRegistry\<close> and the heartbeat, and how their answers are read. The registry
  is a parameter; what IS-04 says of it is that it takes a resource whose parents it has.
\<close>

subsection \<open>Requests\<close>

text \<open>The method, the address and the type with the data of a request.\<close>

datatype http_request =
    HttpPost string string goval
  | HttpDelete string
  | HttpPatch string string goval

definition resource_url :: "string \<Rightarrow> string" where
  "resource_url registry = registry @ ''/x-nmos/registration/v1.3/resource''"

definition register_request :: "string \<Rightarrow> string \<Rightarrow> goval \<Rightarrow> http_request" where
  "register_request registry t r = HttpPost (resource_url registry) (toSingular t) r"

definition unregister_request :: "string \<Rightarrow> string \<Rightarrow> string \<Rightarrow> http_request" where
  "unregister_request registry t i = HttpDelete (resource_url registry @ ''/'' @ toPlural t @ ''/'' @ i)"

definition update_request :: "string \<Rightarrow> string \<Rightarrow> string \<Rightarrow> goval \<Rightarrow> http_request" where
  "update_request registry t i r = HttpPatch (resource_url registry @ ''/'' @ toPlural t @ ''/'' @ i) (toSingular (toPlural t)) r"

subsection \<open>Answers\<close>

text \<open>No answer, or the status with the body, which is \<open>None\<close> when it is no JSON.\<close>

type_synonym answer = "(int \<times> json option) option"

text \<open>The error code in the body of an answer: a member of an object that is a number. \<open>trunc\<close> converts a float to an integer.\<close>

definition error_code :: "(64 word \<Rightarrow> int) \<Rightarrow> json option \<Rightarrow> int option" where
  "error_code trunc body =
     (case body of
        Some (JObj ms) \<Rightarrow> (case map_of (rev ms) ''code'' of Some (JNum i w) \<Rightarrow> Some (trunc w) | _ \<Rightarrow> None)
      | _ \<Rightarrow> None)"

definition register_outcome :: "(64 word \<Rightarrow> int) \<Rightarrow> answer \<Rightarrow> bool" where
  "register_outcome trunc a =
     (case a of
        None \<Rightarrow> False
      | Some (status, body) \<Rightarrow>
          if (case error_code trunc body of Some c \<Rightarrow> 400 \<le> c | None \<Rightarrow> False) then False
          else 200 \<le> status \<and> status < 300)"

definition unregister_outcome :: "answer \<Rightarrow> bool" where
  "unregister_outcome a = (case a of None \<Rightarrow> False | Some (status, body) \<Rightarrow> status = 204 \<or> status = 200 \<or> status = 404)"

definition update_outcome :: "answer \<Rightarrow> bool" where
  "update_outcome a = (case a of None \<Rightarrow> False | Some (status, body) \<Rightarrow> 200 \<le> status \<and> status < 300)"

text \<open>An answer of success with an error in its body is a refusal; a delete counts as done when the resource is not there.\<close>

lemma outcomes:
  "400 \<le> trunc w \<Longrightarrow> \<not> register_outcome trunc (Some (200, Some (JObj [(''code'', JNum i w)])))"
  "unregister_outcome (Some (404, b))"
  "\<not> register_outcome trunc (Some (404, b))" "\<not> update_outcome (Some (404, b))"
  by (simp_all add: register_outcome_def error_code_def unregister_outcome_def update_outcome_def)

subsection \<open>Registration in order\<close>

type_synonym key = "string \<times> string"

definition key_of :: "string \<times> goval \<Rightarrow> key" where
  "key_of p = (fst p, (case as_map (snd p) of Some m \<Rightarrow> getStringField m ''id'' | None \<Rightarrow> []))"

text \<open>The resources a resource refers to as its parents.\<close>

definition parents :: "string \<times> goval \<Rightarrow> key list" where
  "parents p =
     (let at = (\<lambda>k. case as_map (snd p) of Some m \<Rightarrow> getStringField m k | None \<Rightarrow> []) in
      if fst p = ''device'' then [(''node'', at ''node_id'')]
      else if fst p = ''source'' then [(''device'', at ''device_id'')]
      else if fst p = ''flow'' then [(''source'', at ''source_id''), (''device'', at ''device_id'')]
      else if fst p = ''sender'' \<or> fst p = ''receiver'' then [(''device'', at ''device_id'')]
      else [])"

text \<open>The requests of a registration, in order, to a registry that has some resources already: which it takes, and what it has then.\<close>

fun post_all :: "(key set \<Rightarrow> http_request \<Rightarrow> answer) \<Rightarrow> (64 word \<Rightarrow> int) \<Rightarrow> string \<Rightarrow> (string \<times> goval) list \<Rightarrow> key set \<Rightarrow> bool list \<times> key set" where
  "post_all answer trunc url [] has = ([], has)"
| "post_all answer trunc url (p # ps) has =
     (let ok = register_outcome trunc (answer has (register_request url (fst p) (snd p)));
          (oks, has') = post_all answer trunc url ps (if ok then insert (key_of p) has else has) in
      (ok # oks, has'))"

text \<open>What IS-04 says: a resource whose parents are there is taken, with a status of success and no error in the body.\<close>

definition takes_children :: "(key set \<Rightarrow> http_request \<Rightarrow> answer) \<Rightarrow> (64 word \<Rightarrow> int) \<Rightarrow> string \<Rightarrow> bool" where
  "takes_children answer trunc url \<longleftrightarrow>
     (\<forall>has p. set (parents p) \<subseteq> has \<longrightarrow>
        (\<exists>status body. answer has (HttpPost (resource_url url) (fst p) (snd p)) = Some (status, body) \<and> 200 \<le> status \<and> status < 300 \<and>
           error_code trunc body = None))"

definition rank :: "string \<Rightarrow> nat" where
  "rank t = (if t = ''node'' then 0 else if t = ''device'' then 1 else if t = ''source'' then 2 else if t = ''flow'' then 3
     else if t = ''sender'' then 4 else 5)"

lemma parents_below: "k \<in> set (parents p) \<Longrightarrow> rank (fst k) < rank (fst p)"
  by (auto simp: parents_def rank_def Let_def split: if_split_asm)

lemma in_order:
  assumes "takes_children answer trunc url" "sorted (map (rank \<circ> fst) ps)"
    and "\<forall>p \<in> set ps. toSingular (fst p) = fst p \<and> set (parents p) \<subseteq> has \<union> key_of ` set ps"
  shows "post_all answer trunc url ps has = (replicate (length ps) True, has \<union> key_of ` set ps)"
  using assms(2,3)
proof (induction ps arbitrary: has)
  case Nil
  then show ?case by simp
next
  case (Cons p ps)
  have "k \<notin> key_of ` set (p # ps)" if "k \<in> set (parents p)" for k
  proof
    assume "k \<in> key_of ` set (p # ps)"
    then obtain q where "q \<in> set (p # ps)" "fst k = fst q" by (metis fst_conv imageE key_of_def)
    with parents_below [OF that] Cons.prems(1) show False by auto
  qed
  with Cons.prems(2) have "set (parents p) \<subseteq> has" by force
  with assms(1) obtain status body where "answer has (HttpPost (resource_url url) (fst p) (snd p)) = Some (status, body)"
    "200 \<le> status" "status < 300" "error_code trunc body = None" unfolding takes_children_def by blast
  then have "register_outcome trunc (answer has (register_request url (fst p) (snd p)))"
    using Cons.prems(2) by (simp add: register_request_def register_outcome_def)
  moreover have "post_all answer trunc url ps (insert (key_of p) has) =
      (replicate (length ps) True, insert (key_of p) has \<union> key_of ` set ps)"
    by (rule Cons.IH) (use Cons.prems in auto)
  ultimately show ?case by simp
qed

text \<open>The resources of a node are complete: each has its parents among them, or the node itself.\<close>

definition stored :: "(string \<Rightarrow> goval list) \<Rightarrow> (string \<times> goval) list" where
  "stored rs = concat (map (\<lambda>t. map (Pair (toSingular t)) (rs t)) resourceOrder)"

definition posted :: "goval \<Rightarrow> (string \<Rightarrow> goval list) \<Rightarrow> (string \<times> goval) list" where
  "posted node rs = (''node'', node) # stored rs"

definition complete :: "goval \<Rightarrow> (string \<Rightarrow> goval list) \<Rightarrow> bool" where
  "complete node rs \<longleftrightarrow> (\<forall>p \<in> set (posted node rs). set (parents p) \<subseteq> key_of ` set (posted node rs))"

lemma sorted_const: "sorted (map (\<lambda>x. (c :: nat)) xs)"
  by (induction xs) auto

lemma posted_sorted: "sorted (map (rank \<circ> fst) (posted node rs))"
  by (auto simp: sorted_const posted_def stored_def resourceOrder_def toSingular_def rank_def sorted_append comp_def)

lemma posted_types: "p \<in> set (posted node rs) \<Longrightarrow> toSingular (fst p) = fst p"
  by (auto simp: posted_def stored_def resourceOrder_def toSingular_def)

text \<open>
  Registering everything anew works: when the resources of the node are complete, a registry that keeps to IS-04 takes the
  node and then every resource in the order the code sends them, and has them all at the end, whatever it had before.
\<close>

lemma reregistration_posts:
  assumes "takes_children answer trunc url" "mu s = Unlocked" "isRunning s" "complete node (resources s)"
  shows "\<exists>s'. reRegisterAll True node s = Done s' () \<and> mu s' = Unlocked \<and> posts s' = posts s @ posted node (resources s) \<and>
    post_all answer trunc url (posted node (resources s)) has =
      (replicate (length (posted node (resources s))) True, has \<union> key_of ` set (posted node (resources s)))"
proof -
  obtain s1 where s1: "RegisterNode True node s = Done s1 True" "mu s1 = Unlocked" "resources s1 = resources s" "posts s1 = posts s @ [(''node'', node)]"
    using assms(2,3) by (rule RegisterNode_accepted)
  let ?ps = "posted node (resources s)"
  have "\<exists>s'. reRegisterAll True node s = Done s' () \<and> mu s' = Unlocked \<and> posts s' = posts s @ ?ps"
    unfolding reRegisterAll_def fold_register_types by (simp add: s1 lock_free posted_def stored_def)
  moreover have "post_all answer trunc url ?ps has = (replicate (length ?ps) True, has \<union> key_of ` set ?ps)"
    using assms(4) by (intro in_order [OF assms(1) posted_sorted]) (auto simp: complete_def posted_types)
  ultimately show ?thesis by blast
qed

text \<open>A registry that takes a resource when its parents are there.\<close>

definition strict_registry :: "key set \<Rightarrow> http_request \<Rightarrow> answer" where
  "strict_registry has r =
     (case r of
        HttpPost u t d \<Rightarrow> if list_all (\<lambda>k. k \<in> has) (parents (t, d)) then Some (201, None) else Some (400, None)
      | _ \<Rightarrow> None)"

lemma strict_takes: "takes_children strict_registry trunc url"
  by (auto simp: takes_children_def strict_registry_def error_code_def list_all_iff)

end
