(* ===== verification/Discovery_Run.thy ===== *)
theory Discovery_Run
  imports Receiver_Discovery
begin

text \<open>
  The goroutines of the discovery in \<open>internal/infrastructure/mdns_discovery.go\<close>: \<open>Discover\<close>, \<open>browseMDNS\<close> with its reader of
  entries, \<open>listenShureDiscovery\<close> and \<open>Stop\<close>, as a step relation over all interleavings. A step is what happens between two
  points at which another goroutine can be seen: \<open>sendDevice\<close> is the part under the lock and the select.

  What the mDNS library finds, which packets come, whether sockets open and when a reader's channel is closed by the library
  are choices of the relation.
\<close>

subsection \<open>State\<close>

text \<open>A goroutine that browses: before the resolver, with its reader started, waiting for the end of the context.\<close>

datatype browser = Starting | Browsing | Awaiting

text \<open>A goroutine that calls \<open>sendDevice\<close>: between two calls, or at the select with a device.\<close>

datatype sending = Idle | AtSelect discovered_device

datatype listener = Opening | Listening sending

record discovery =
  dc_disc :: discoverer
  dc_cancelled :: bool
  dc_browsers :: "browser list"
  dc_readers :: "sending list"
  dc_listener :: "listener option"
  dc_stopping :: nat
  dc_closed :: bool

definition discovery_services :: "string list" where
  "discovery_services = [''_shure-control._tcp'', ''_shure._tcp'', ''_http._tcp'']"

text \<open>Three goroutines browse, one listens; the readers start later.\<close>

definition Discover :: discovery where
  "Discover =
     \<lparr> dc_disc = NewShureDiscoverer, dc_cancelled = False, dc_browsers = map (\<lambda>s. Starting) discovery_services, dc_readers = [],
       dc_listener = Some Opening, dc_stopping = 0, dc_closed = False \<rparr>"

subsection \<open>Steps\<close>

text \<open>The part of \<open>sendDevice\<close> under the lock.\<close>

definition note_device :: "int \<Rightarrow> discovered_device \<Rightarrow> discoverer \<Rightarrow> discoverer \<times> sending" where
  "note_device now dev d =
     (if recently now (dv_Address dev) d then (d, Idle)
      else (d\<lparr> ds_lastSent := (ds_lastSent d)(dv_Address dev \<mapsto> now) \<rparr>, AtSelect dev))"

text \<open>
  The outcomes of the select: the context has ended; the device is put into the channel; the channel is full and nothing else
  is ready. \<open>None\<close> is the panic of a send on the closed channel.
\<close>

definition select_outcomes :: "discovered_device \<Rightarrow> discovery \<Rightarrow> discoverer option list" where
  "select_outcomes dev s =
     (if dc_cancelled s then [Some (dc_disc s)] else []) @
     (if dc_closed s then [None]
      else (case chan_send devices_cap dev (ds_devices (dc_disc s)) of
          Some q \<Rightarrow> [Some ((dc_disc s)\<lparr> ds_devices := q \<rparr>)]
        | None \<Rightarrow> if dc_cancelled s then [] else [Some (dc_disc s)]))"

datatype 's outcome = Goes_on 's | Panic

inductive discovery_step :: "discovery \<Rightarrow> discovery outcome \<Rightarrow> bool" where
  browse_fails: "dc_browsers s = as @ Starting # bs \<Longrightarrow> discovery_step s (Goes_on (s\<lparr> dc_browsers := as @ bs \<rparr>))"
| browse_starts: "dc_browsers s = as @ Starting # bs \<Longrightarrow>
    discovery_step s (Goes_on (s\<lparr> dc_browsers := as @ Browsing # bs, dc_readers := dc_readers s @ [Idle] \<rparr>))"
| browse_refused: "dc_browsers s = as @ Browsing # bs \<Longrightarrow> discovery_step s (Goes_on (s\<lparr> dc_browsers := as @ bs \<rparr>))"
| browse_awaits: "dc_browsers s = as @ Browsing # bs \<Longrightarrow> discovery_step s (Goes_on (s\<lparr> dc_browsers := as @ Awaiting # bs \<rparr>))"
| browse_ends: "dc_browsers s = as @ Awaiting # bs \<Longrightarrow> dc_cancelled s \<Longrightarrow> discovery_step s (Goes_on (s\<lparr> dc_browsers := as @ bs \<rparr>))"
| entry: "dc_readers s = as @ Idle # bs \<Longrightarrow> browsed_device en = Some dev \<Longrightarrow> note_device now dev (dc_disc s) = (d, w) \<Longrightarrow>
    discovery_step s (Goes_on (s\<lparr> dc_disc := d, dc_readers := as @ w # bs \<rparr>))"
| entry_sent: "dc_readers s = as @ AtSelect dev # bs \<Longrightarrow> Some d \<in> set (select_outcomes dev s) \<Longrightarrow>
    discovery_step s (Goes_on (s\<lparr> dc_disc := d, dc_readers := as @ Idle # bs \<rparr>))"
| entry_panics: "dc_readers s = as @ AtSelect dev # bs \<Longrightarrow> None \<in> set (select_outcomes dev s) \<Longrightarrow> discovery_step s Panic"
| reader_ends: "dc_readers s = as @ Idle # bs \<Longrightarrow> discovery_step s (Goes_on (s\<lparr> dc_readers := as @ bs \<rparr>))"
| listen_fails: "dc_listener s = Some Opening \<Longrightarrow> discovery_step s (Goes_on (s\<lparr> dc_listener := None \<rparr>))"
| listens: "dc_listener s = Some Opening \<Longrightarrow> discovery_step s (Goes_on (s\<lparr> dc_listener := Some (Listening Idle) \<rparr>))"
| packet: "dc_listener s = Some (Listening Idle) \<Longrightarrow> packet_device parseIP payload = Some dev \<Longrightarrow> note_device now dev (dc_disc s) = (d, w) \<Longrightarrow>
    discovery_step s (Goes_on (s\<lparr> dc_disc := d, dc_listener := Some (Listening w) \<rparr>))"
| packet_sent: "dc_listener s = Some (Listening (AtSelect dev)) \<Longrightarrow> Some d \<in> set (select_outcomes dev s) \<Longrightarrow>
    discovery_step s (Goes_on (s\<lparr> dc_disc := d, dc_listener := Some (Listening Idle) \<rparr>))"
| packet_panics: "dc_listener s = Some (Listening (AtSelect dev)) \<Longrightarrow> None \<in> set (select_outcomes dev s) \<Longrightarrow> discovery_step s Panic"
| listen_ends: "dc_listener s = Some (Listening Idle) \<Longrightarrow> dc_cancelled s \<Longrightarrow> discovery_step s (Goes_on (s\<lparr> dc_listener := None \<rparr>))"
| received: "ds_devices (dc_disc s) = dev # q \<Longrightarrow> discovery_step s (Goes_on (s\<lparr> dc_disc := (dc_disc s)\<lparr> ds_devices := q \<rparr> \<rparr>))"
| context_ends: "discovery_step s (Goes_on (s\<lparr> dc_cancelled := True \<rparr>))"
| stop_called: "discovery_step s (Goes_on (s\<lparr> dc_cancelled := True, dc_stopping := dc_stopping s + 1 \<rparr>))"
| stop_finishes: "dc_stopping s = Suc n \<Longrightarrow> dc_browsers s = [] \<Longrightarrow> dc_listener s = None \<Longrightarrow>
    discovery_step s (if dc_closed s then Panic else Goes_on (s\<lparr> dc_stopping := n, dc_closed := True \<rparr>))"

inductive discovery_reachable :: "discovery \<Rightarrow> bool" where
  start: "discovery_reachable Discover"
| step: "discovery_reachable s \<Longrightarrow> discovery_step s (Goes_on s') \<Longrightarrow> discovery_reachable s'"

inductive_cases discovery_stepE: "discovery_step s (Goes_on s')"
inductive_cases discovery_panicE: "discovery_step s Panic"

text \<open>The two parts of \<open>sendDevice\<close> together are the operation of \<open>Receiver_Discovery\<close>.\<close>

lemma sendDevice_parts:
  assumes "note_device now dev (dc_disc s) = (d, AtSelect dev)" "\<not> dc_closed s" "\<not> dc_cancelled s"
  shows "select_outcomes dev (s\<lparr> dc_disc := d \<rparr>) = [Some (sendDevice now False dev (dc_disc s))]"
  using assms by (auto simp: note_device_def select_outcomes_def sendDevice_def Let_def split: if_split_asm option.split)

definition discovery_inv :: "discovery \<Rightarrow> bool" where
  "discovery_inv s \<longleftrightarrow> (dc_closed s \<longrightarrow> dc_cancelled s \<and> dc_browsers s = [] \<and> dc_listener s = None) \<and>
     (0 < dc_stopping s \<longrightarrow> dc_cancelled s) \<and> length (ds_devices (dc_disc s)) \<le> devices_cap"

lemma discovery_step_inv: "discovery_step s (Goes_on s') \<Longrightarrow> discovery_inv s \<Longrightarrow> discovery_inv s'"
  by (erule discovery_stepE)
    (auto simp: discovery_inv_def select_outcomes_def note_device_def chan_send_def split: if_split_asm option.split_asm)

lemma discovery_reachable_inv: "discovery_reachable s \<Longrightarrow> discovery_inv s"
proof (induction rule: discovery_reachable.induct)
  case start
  show ?case by (simp add: discovery_inv_def Discover_def NewShureDiscoverer_def)
next
  case (step s s')
  show ?case using step.hyps(2) step.IH by (rule discovery_step_inv)
qed

subsection \<open>How it ends\<close>

abbreviation discovery_steps :: "discovery \<Rightarrow> discovery \<Rightarrow> bool" where
  "discovery_steps \<equiv> (\<lambda>s s'. discovery_step s (Goes_on s'))\<^sup>*\<^sup>*"

lemma reachable_steps: "discovery_steps s s' \<Longrightarrow> discovery_reachable s \<Longrightarrow> discovery_reachable s'"
  by (induction rule: rtranclp_induct) (auto intro: discovery_reachable.step)

lemma browsers_end:
  "dc_cancelled s \<Longrightarrow> discovery_steps s (s\<lparr> dc_browsers := [] \<rparr>)"
proof (induction "dc_browsers s" arbitrary: s)
  case Nil
  then have "s\<lparr> dc_browsers := [] \<rparr> = s" by simp
  then show ?case by simp
next
  case (Cons b bs)
  let ?t = "s\<lparr> dc_browsers := bs \<rparr>"
  have b: "dc_browsers s = [] @ b # bs" using Cons.hyps(2) by simp
  have "discovery_steps s ?t"
  proof (cases b)
    case Starting
    with b discovery_step.browse_fails [of s "[]" bs] show ?thesis by auto
  next
    case Browsing
    with b discovery_step.browse_refused [of s "[]" bs] show ?thesis by auto
  next
    case Awaiting
    with b discovery_step.browse_ends [of s "[]" bs] Cons.prems show ?thesis by auto
  qed
  moreover have "discovery_steps ?t (?t\<lparr> dc_browsers := [] \<rparr>)" using Cons.hyps(1) [of ?t] Cons.prems by simp
  ultimately show ?case by simp
qed

lemma listener_ends:
  assumes "dc_cancelled s"
  shows "discovery_steps s (s\<lparr> dc_listener := None \<rparr>)"
proof -
  have idle: "discovery_step t (Goes_on (t\<lparr> dc_listener := None \<rparr>))" if "dc_listener t = Some (Listening Idle)" "dc_cancelled t" for t
    using that by (rule discovery_step.listen_ends)
  consider "dc_listener s = None" | "dc_listener s = Some Opening" | "dc_listener s = Some (Listening Idle)"
    | dev where "dc_listener s = Some (Listening (AtSelect dev))" by (metis listener.exhaust option.exhaust sending.exhaust)
  then show ?thesis
  proof cases
    case 1
    then have "s\<lparr> dc_listener := None \<rparr> = s" by simp
    then show ?thesis by simp
  next
    case 2
    then show ?thesis using discovery_step.listen_fails by blast
  next
    case 3
    then show ?thesis using idle assms by blast
  next
    case (4 dev)
    let ?t = "s\<lparr> dc_disc := dc_disc s, dc_listener := Some (Listening Idle) \<rparr>"
    have "Some (dc_disc s) \<in> set (select_outcomes dev s)" using assms by (simp add: select_outcomes_def)
    with 4 have "discovery_step s (Goes_on ?t)" by (rule discovery_step.packet_sent)
    moreover have "discovery_step ?t (Goes_on (?t\<lparr> dc_listener := None \<rparr>))" by (rule idle) (simp_all add: assms)
    ultimately have "discovery_steps s (?t\<lparr> dc_listener := None \<rparr>)" by (blast intro: converse_rtranclp_into_rtranclp r_into_rtranclp)
    then show ?thesis by simp
  qed
qed

text \<open>
  Stopping the discovery can always finish: from every reachable state in which it has been called the goroutines it waits
  for can come to their end, and the channel is closed.
\<close>

lemma discovery_stop_can_finish:
  assumes "discovery_reachable s" "0 < dc_stopping s" "\<not> dc_closed s"
  shows "\<exists>s'. discovery_steps s s' \<and> dc_closed s' \<and> dc_stopping s' = dc_stopping s - 1 \<and> dc_readers s' = dc_readers s"
proof -
  have c: "dc_cancelled s" using discovery_reachable_inv [OF assms(1)] assms(2) by (simp add: discovery_inv_def)
  let ?t = "s\<lparr> dc_browsers := [], dc_listener := None \<rparr>"
  have "discovery_steps s ?t"
    using browsers_end [OF c] listener_ends [of "s\<lparr> dc_browsers := [] \<rparr>"] c by (auto intro: rtranclp_trans)
  moreover obtain n where n: "dc_stopping s = Suc n" using assms(2) gr0_implies_Suc by blast
  have "discovery_step ?t (Goes_on (?t\<lparr> dc_stopping := n, dc_closed := True \<rparr>))"
    using discovery_step.stop_finishes [of ?t n] n assms(3) by simp
  ultimately have "discovery_steps s (?t\<lparr> dc_stopping := n, dc_closed := True \<rparr>)" by (rule rtranclp.rtrancl_into_rtrancl)
  then show ?thesis using n by (intro exI [of _ "?t\<lparr> dc_stopping := n, dc_closed := True \<rparr>"]) simp
qed

text \<open>
  C31. Only two things can panic, and only after the channel is closed: a reader of entries, which nothing waits for, that is at
  the select with a device, and a second call of \<open>Stop\<close>. The listener of the Shure protocol never does.
\<close>

theorem discovery_panics_only:
  assumes "discovery_reachable s" "discovery_step s Panic"
  shows "dc_closed s \<and> ((\<exists>dev. AtSelect dev \<in> set (dc_readers s)) \<or> 0 < dc_stopping s)"
  using assms(2) discovery_reachable_inv [OF assms(1)]
  by (cases rule: discovery_step.cases) (auto simp: discovery_inv_def select_outcomes_def split: if_split_asm option.split_asm)

text \<open>A run in which one call of \<open>Stop\<close> is followed by the panic of a reader.\<close>

definition test_entry :: service_entry where
  "test_entry = \<lparr> en_Instance = ''i'', en_HostName = ''h'', en_Port = 2202, en_AddrIPv4 = [''10.0.0.5''], en_AddrIPv6 = [] \<rparr>"

lemma stop_race: "\<exists>s dev. discovery_reachable s \<and> dc_stopping s = 0 \<and> AtSelect dev \<in> set (dc_readers s) \<and> discovery_step s Panic"
proof -
  obtain dev where dev: "browsed_device test_entry = Some dev" by (simp add: browsed_device_def test_entry_def)
  let ?s1 = "Discover\<lparr> dc_browsers := Browsing # tl (dc_browsers Discover), dc_readers := [Idle] \<rparr>"
  have "discovery_step Discover (Goes_on ?s1)"
    using discovery_step.browse_starts [of Discover "[]" "tl (dc_browsers Discover)"] by (simp add: Discover_def discovery_services_def)
  then have r1: "discovery_reachable ?s1" by (rule discovery_reachable.step [OF discovery_reachable.start])
  obtain d where nd: "note_device 0 dev (dc_disc ?s1) = (d, AtSelect dev)"
    by (simp add: note_device_def Discover_def NewShureDiscoverer_def recently_def)
  let ?s2 = "?s1\<lparr> dc_disc := d, dc_readers := [AtSelect dev] \<rparr>"
  have "discovery_step ?s1 (Goes_on ?s2)" using discovery_step.entry [of ?s1 "[]" "[]", OF _ dev nd] by simp
  with r1 have r2: "discovery_reachable ?s2" by (rule discovery_reachable.step)
  let ?s3 = "?s2\<lparr> dc_cancelled := True, dc_stopping := dc_stopping ?s2 + 1 \<rparr>"
  have r3: "discovery_reachable ?s3" by (rule discovery_reachable.step [OF r2 discovery_step.stop_called])
  have "0 < dc_stopping ?s3" "\<not> dc_closed ?s3" "dc_readers ?s3 = [AtSelect dev]" by (simp_all add: Discover_def)
  from discovery_stop_can_finish [OF r3 this(1,2)] this(3)
  obtain s' where s': "discovery_steps ?s3 s'" "dc_closed s'" "dc_stopping s' = dc_stopping ?s3 - 1" "dc_readers s' = [] @ AtSelect dev # []" by auto
  have "None \<in> set (select_outcomes dev s')" using s'(2) by (simp add: select_outcomes_def)
  with s'(4) have "discovery_step s' Panic" by (rule discovery_step.entry_panics)
  moreover have "dc_stopping s' = 0" using s'(3) by (simp add: Discover_def)
  ultimately show ?thesis using reachable_steps [OF s'(1) r3] s'(4) by (intro exI [of _ s'] exI [of _ dev]) simp
qed

theorem discovery_panics_only_witness:
  "\<exists>s dev. discovery_reachable s \<and> dc_stopping s = 0 \<and> discovery_step s Panic \<and> dc_closed s \<and> AtSelect dev \<in> set (dc_readers s)"
  using stop_race discovery_panics_only by blast

end
