(* ===== verification/Event_Deadlines.thy ===== *)
theory Event_Deadlines
  imports Is07_Events
begin

text \<open>
  The write deadlines of the event connections in \<open>internal/infrastructure/nmos_controller.go\<close>: \<open>handleWebsocket\<close> sets one,
  \<open>pingIS07Clients\<close> and \<open>broadcastUpdate\<close> renew it, the answers to messages and \<open>BroadcastEvent\<close> do not. A write succeeds or
  not by the websocket library, the parameter \<open>wr\<close> of the connection, its deadline and the time; times are in nanoseconds.
\<close>

subsection \<open>State and operations\<close>












subsection \<open>Deadlines\<close>









end
