(* ===== verification/Ncp_Session.thy ===== *)
theory Ncp_Session
  imports Ncp_Laws
begin

text \<open>
  The websocket session of a control client: \<open>handleNCP\<close> of \<open>internal/infrastructure/nmos_controller.go\<close> and the decoding of
  a frame into the \<open>NCPMessage\<close> of \<open>ncp_types.go\<close>. A frame is a JSON document, \<open>None\<close> when it is none.
\<close>

subsection \<open>Decoding\<close>

fun dec_slice :: "(json \<Rightarrow> 'a option) \<Rightarrow> json \<Rightarrow> 'a list option" where
  "dec_slice f (JArr xs) = opt_map f xs"
| "dec_slice f JNull = Some []"
| "dec_slice f _ = None"

definition zero_command :: ncp_command where
  "zero_command = \<lparr> nc_Handle = 0, nc_OID = 0, nc_MethodID = EId 0 0, nc_Arguments = None \<rparr>"

definition dec_command :: "json \<Rightarrow> ncp_command option" where
  "dec_command j = dec_struct (\<lambda>k j c.
     if equal_fold k ''handle'' then map_option (\<lambda>i. c\<lparr> nc_Handle := i \<rparr>) (dec_int j (nc_Handle c))
     else if equal_fold k ''oid'' then map_option (\<lambda>i. c\<lparr> nc_OID := i \<rparr>) (dec_int j (nc_OID c))
     else if equal_fold k ''methodId'' then map_option (\<lambda>e. c\<lparr> nc_MethodID := e \<rparr>) (dec_elem_id j (nc_MethodID c))
     else if equal_fold k ''arguments'' then Some (c\<lparr> nc_Arguments := Some j \<rparr>)
     else Some c) j zero_command"

text \<open>The values of these structs are not looked at, only whether they decode: the handle of a response with its result.\<close>

definition dec_result :: "json \<Rightarrow> int \<times> goval \<Rightarrow> (int \<times> goval) option" where
  "dec_result = dec_struct (\<lambda>k j (st, v).
     if equal_fold k ''status'' then map_option (\<lambda>i. (i, v)) (dec_int j st)
     else if equal_fold k ''value'' then Some (st, any_of_json j)
     else Some (st, v))"

definition dec_response :: "json \<Rightarrow> ncp_response option" where
  "dec_response j = dec_struct (\<lambda>k j r.
     if equal_fold k ''handle'' then map_option (\<lambda>i. r\<lparr> rs_Handle := i \<rparr>) (dec_int j (rs_Handle r))
     else if equal_fold k ''result'' then
       map_option (\<lambda>(st, v). r\<lparr> rs_Status := st, rs_Value := v \<rparr>) (dec_result j (rs_Status r, rs_Value r))
     else Some r) j \<lparr> rs_Handle = 0, rs_Status = 0, rs_Value = VNil \<rparr>"

text \<open>A change of a property: its id, the type of the change, the value and the index.\<close>

fun dec_int_ptr :: "json \<Rightarrow> int option option" where
  "dec_int_ptr (JNum (Some i) w) = Some (Some i)"
| "dec_int_ptr JNull = Some None"
| "dec_int_ptr _ = None"

definition dec_change :: "json \<Rightarrow> elem_id \<times> int \<times> goval \<times> int option \<Rightarrow> (elem_id \<times> int \<times> goval \<times> int option) option" where
  "dec_change = dec_struct (\<lambda>k j (i, ct, v, ix).
     if equal_fold k ''propertyId'' then map_option (\<lambda>e. (e, ct, v, ix)) (dec_elem_id j i)
     else if equal_fold k ''changeType'' then map_option (\<lambda>n. (i, n, v, ix)) (dec_int j ct)
     else if equal_fold k ''value'' then Some (i, ct, any_of_json j, ix)
     else if equal_fold k ''sequenceItemIndex'' then map_option (\<lambda>n. (i, ct, v, n)) (dec_int_ptr j)
     else Some (i, ct, v, ix))"

definition dec_notification :: "json \<Rightarrow> (int \<times> elem_id \<times> (elem_id \<times> int \<times> goval \<times> int option)) option" where
  "dec_notification j = dec_struct (\<lambda>k j (oid, ev, d).
     if equal_fold k ''oid'' then map_option (\<lambda>n. (n, ev, d)) (dec_int j oid)
     else if equal_fold k ''eventId'' then map_option (\<lambda>e. (oid, e, d)) (dec_elem_id j ev)
     else if equal_fold k ''eventData'' then map_option (\<lambda>x. (oid, ev, x)) (dec_change j d)
     else Some (oid, ev, d)) j (0, EId 0 0, (EId 0 0, 0, VNil, None))"

definition dec_error :: "json \<Rightarrow> (int \<times> int \<times> int \<times> string) option" where
  "dec_error j = dec_struct (\<lambda>k j (sub, ty, st, msg).
     if equal_fold k ''subscriptionId'' then map_option (\<lambda>n. (n, ty, st, msg)) (dec_int j sub)
     else if equal_fold k ''messageType'' then map_option (\<lambda>n. (sub, n, st, msg)) (dec_int j ty)
     else if equal_fold k ''status'' then map_option (\<lambda>n. (sub, ty, n, msg)) (dec_int j st)
     else if equal_fold k ''errorMessage'' then map_option (\<lambda>s. (sub, ty, st, s)) (dec_string j msg)
     else Some (sub, ty, st, msg)) j (0, 0, 0, [])"

record NCPMessage =
  MessageType :: int
  Commands :: "ncp_command list"
  Subscriptions :: "int list"

text \<open>The other fields are decoded and dropped: a message whose responses, notifications or errors do not decode fails.\<close>

definition message_step :: "string \<Rightarrow> json \<Rightarrow> NCPMessage \<Rightarrow> NCPMessage option" where
  "message_step k j m =
     (if equal_fold k ''messageType'' then map_option (\<lambda>n. m\<lparr> MessageType := n \<rparr>) (dec_int j (MessageType m))
      else if equal_fold k ''commands'' then map_option (\<lambda>cs. m\<lparr> Commands := cs \<rparr>) (dec_slice dec_command j)
      else if equal_fold k ''subscriptions'' then map_option (\<lambda>is. m\<lparr> Subscriptions := is \<rparr>) (dec_ints j (Subscriptions m))
      else if equal_fold k ''responses'' then map_option (\<lambda>_. m) (dec_slice dec_response j)
      else if equal_fold k ''notifications'' then map_option (\<lambda>_. m) (dec_slice dec_notification j)
      else if equal_fold k ''errors'' then map_option (\<lambda>_. m) (dec_slice dec_error j)
      else Some m)"

definition dec_message :: "json option \<Rightarrow> NCPMessage option" where
  "dec_message frame = unmarshal message_step frame \<lparr> MessageType = 0, Commands = [], Subscriptions = [] \<rparr>"

text \<open>The switch over the type of a message: commands are 0 and subscriptions 3.\<close>

definition message_of :: "NCPMessage \<Rightarrow> ncp_message" where
  "message_of m =
     (if MessageType m = 0 then CommandMessage (Commands m)
      else if MessageType m = 3 then SubscriptionMessage (Subscriptions m)
      else OtherMessage (MessageType m))"

subsection \<open>The session\<close>

definition isWebSocketUpgrade :: "string \<Rightarrow> bool" where
  "isWebSocketUpgrade upgrade \<longleftrightarrow> upgrade \<noteq> [] \<and> str_contains (to_lower upgrade) ''websocket''"

text \<open>
  The frames of the client up to the one whose reading fails, each followed by what the others do to the server before the
  next one. The result lists the replies written to the client.
\<close>

fun ncp_session ::
  "nat \<Rightarrow> nca_env \<Rightarrow> client \<Rightarrow> (json option \<times> (ncp_state \<Rightarrow> ncp_state)) list \<Rightarrow> ncp_state \<Rightarrow> (ncp_state \<times> ncp_reply list) option" where
  "ncp_session n e c [] st = Some (st, [])"
| "ncp_session n e c ((frame, others) # frames) st =
     (case dec_message frame of
        None \<Rightarrow> ncp_session n e c frames (others st)
      | Some m \<Rightarrow>
          (case handle_message n e c st (message_of m) of
             None \<Rightarrow> None
           | Some (st', r, ds, cs) \<Rightarrow>
               map_option (\<lambda>(st'', rs). (st'', (if r = NoReply then rs else r # rs))) (ncp_session n e c frames (others st'))))"

datatype session_end = BadRequest | NotUpgraded | SessionEnds "ncp_reply list"

definition handleNCP ::
  "nat \<Rightarrow> nca_env \<Rightarrow> string \<Rightarrow> bool \<Rightarrow> client \<Rightarrow> (json option \<times> (ncp_state \<Rightarrow> ncp_state)) list \<Rightarrow> ncp_state \<Rightarrow> (ncp_state \<times> session_end) option" where
  "handleNCP n e upgrade upgraded c frames st =
     (if \<not> isWebSocketUpgrade upgrade then Some (st, BadRequest)
      else if \<not> upgraded then Some (st, NotUpgraded)
      else map_option (\<lambda>(st', rs). (disconnect_client c st', SessionEnds rs)) (ncp_session n e c frames (connect_client c st)))"

subsection \<open>Laws\<close>

text \<open>The replies a list of frames asks for: how many responses, in order, with which handles.\<close>

fun answers :: "ncp_reply \<Rightarrow> ncp_message \<Rightarrow> bool" where
  "answers (CommandResponses rs) (CommandMessage cmds) = (map rs_Handle rs = map nc_Handle cmds)"
| "answers (SubscriptionResponse ids) (SubscriptionMessage oids) = (length ids \<le> length oids)"
| "answers _ _ = False"

fun has_reply :: "ncp_message \<Rightarrow> bool" where
  "has_reply (OtherMessage k) = False"
| "has_reply _ = True"

definition asked :: "json option list \<Rightarrow> ncp_message list" where
  "asked frames = filter has_reply (map message_of (List.map_filter dec_message frames))"

text \<open>The others take steps of the server; they do not end the session of this client.\<close>

definition others_step :: "nca_env \<Rightarrow> client \<Rightarrow> (ncp_state \<Rightarrow> ncp_state) \<Rightarrow> bool" where
  "others_step e c g \<longleftrightarrow> (\<forall>st. (ncp_step e)\<^sup>*\<^sup>* st (g st) \<and> (c \<in> set (ns_clients st) \<longrightarrow> c \<in> set (ns_clients (g st))))"

lemma dispatch_clients: "dispatchNCPCommand n e st cmd = Some (st', r, ds, cs) \<Longrightarrow> ns_clients st' = ns_clients st"
  by (auto simp: dispatchNCPCommand_def put_object_def split: option.splits if_split_asm prod.splits)

lemma dispatch_all_clients: "dispatch_all n e st cmds = Some (st', rs, ds, cs) \<Longrightarrow> ns_clients st' = ns_clients st"
  by (induction cmds arbitrary: st st' rs ds cs) (auto split: option.splits prod.splits dest!: dispatch_clients)

lemma subscribe_clients: "handleSubscriptions c oids st = (st', ids) \<Longrightarrow> ns_clients st' = ns_clients st \<and> length ids \<le> length oids"
proof (induction oids arbitrary: st st' ids)
  case (Cons oid oids)
  show ?case
  proof (cases "ns_objects st oid = None")
    case True
    with Cons.prems Cons.IH [of st st' ids] show ?thesis by simp
  next
    case False
    obtain st2 ids2 where r: "handleSubscriptions c oids (add_subscription c oid st) = (st2, ids2)" by force
    with False Cons.prems have "st' = st2" "ids = ns_nextSub st # ids2" by (auto split: if_split_asm)
    with Cons.IH [OF r] show ?thesis by (simp add: add_subscription_def)
  qed
qed simp

text \<open>A message is answered, in a state with the invariant, by a reply of its kind.\<close>

lemma message_reply:
  assumes "ncp_inv st"
  obtains st' r ds cs where "handle_message (Suc n) e c st m = Some (st', r, ds, cs)" "ns_clients st' = ns_clients st"
    "if has_reply m then r \<noteq> NoReply \<and> answers r m else r = NoReply"
proof (cases m)
  case (CommandMessage cmds)
  with dispatch_all_total_inv [OF assms, of n e cmds] show ?thesis by (auto intro: that dest: dispatch_all_clients)
next
  case (SubscriptionMessage oids)
  obtain st' ids where "handleSubscriptions c oids st = (st', ids)" by force
  with SubscriptionMessage subscribe_clients [OF this] show ?thesis by (auto intro: that)
next
  case (OtherMessage k)
  then show ?thesis by (auto intro: that)
qed

lemma session_runs:
  assumes "ncp_reachable e st" "c \<in> set (ns_clients st)" "\<forall>(f, g) \<in> set frames. others_step e c g"
  shows "\<exists>st' rs. ncp_session (Suc n) e c frames st = Some (st', rs) \<and> list_all2 answers rs (asked (map fst frames)) \<and>
    ncp_reachable e st' \<and> c \<in> set (ns_clients st')"
  using assms
proof (induction frames arbitrary: st)
  case Nil
  then show ?case by (simp add: asked_def List.map_filter_simps)
next
  case (Cons x frames)
  obtain f g where x: "x = (f, g)" by force
  have g: "others_step e c g" using Cons.prems(3) x by simp
  have others: "ncp_reachable e (g t) \<and> c \<in> set (ns_clients (g t))" if "ncp_reachable e t" "c \<in> set (ns_clients t)" for t
    using g that unfolding others_step_def ncp_reachable_def by (meson rtranclp_trans)
  show ?case
  proof (cases "dec_message f")
    case None
    have "asked (map fst (x # frames)) = asked (map fst frames)" using None x by (simp add: asked_def List.map_filter_simps)
    with None x Cons.IH [of "g st"] others [OF Cons.prems(1,2)] Cons.prems(3) show ?thesis by simp
  next
    case (Some m)
    obtain t r ds cs where t: "handle_message (Suc n) e c st (message_of m) = Some (t, r, ds, cs)" "ns_clients t = ns_clients st"
      "if has_reply (message_of m) then r \<noteq> NoReply \<and> answers r (message_of m) else r = NoReply"
      by (rule message_reply [OF reachable_inv [OF Cons.prems(1)], of n e c "message_of m"]) (rule that)
    have "ncp_step e st t" using Cons.prems(2) t(1) by (rule ncp_step.message)
    then have "ncp_reachable e t" using Cons.prems(1) unfolding ncp_reachable_def by (rule rtranclp.rtrancl_into_rtrancl [rotated])
    from others [OF this] t(2) Cons.prems(2) have "ncp_reachable e (g t)" "c \<in> set (ns_clients (g t))" by simp_all
    with Cons.IH [of "g t"] Cons.prems(3) obtain st' rs where
      r: "ncp_session (Suc n) e c frames (g t) = Some (st', rs)" "list_all2 answers rs (asked (map fst frames))"
        "ncp_reachable e st'" "c \<in> set (ns_clients st')" by auto
    have "asked (map fst (x # frames)) = (if has_reply (message_of m) then message_of m # asked (map fst frames) else asked (map fst frames))"
      using Some x by (simp add: asked_def List.map_filter_simps)
    with t r Some x show ?thesis by (auto simp del: handle_message.simps split: if_split_asm)
  qed
qed

text \<open>
  C3. A session of a control client, whatever its frames are and whatever the others do between them, ends without an error
  and leaves neither the client nor a subscription of it behind. The client gets, in order, one reply for each frame that
  decodes to commands or to subscriptions, with one response for each command under its handle; a frame that does not
  decode is skipped without an answer. One unit of fuel is enough for the searches.
\<close>

theorem ncp_session_answered:
  assumes "ncp_reachable e st" "c \<notin> set (ns_clients st)" "isWebSocketUpgrade upgrade" "\<forall>(f, g) \<in> set frames. others_step e c g"
  shows "\<exists>st' rs. handleNCP (Suc n) e upgrade True c frames st = Some (st', SessionEnds rs) \<and>
    list_all2 answers rs (asked (map fst frames)) \<and>
    ncp_reachable e st' \<and> c \<notin> set (ns_clients st') \<and> ns_subs st' c = Map.empty"
proof -
  have "ncp_reachable e (connect_client c st)"
    using assms(1,2) ncp_step.connect unfolding ncp_reachable_def by (meson rtranclp.rtrancl_into_rtrancl)
  moreover have "c \<in> set (ns_clients (connect_client c st))" by (simp add: connect_client_def)
  ultimately obtain st' rs where s: "ncp_session (Suc n) e c frames (connect_client c st) = Some (st', rs)"
    "list_all2 answers rs (asked (map fst frames))" "ncp_reachable e st'" "c \<in> set (ns_clients st')"
    using session_runs assms(4) by meson
  have "ncp_reachable e (disconnect_client c st')"
    using s(3,4) ncp_step.disconnect unfolding ncp_reachable_def by (meson rtranclp.rtrancl_into_rtrancl)
  with s assms(3) show ?thesis by (simp add: handleNCP_def disconnect_client_def)
qed

text \<open>A session of three frames: a Get of the members of the root block, one that is no JSON, and a subscription.\<close>

definition test_frames :: "json option list" where
  "test_frames =
     [Some (JObj [(''messageType'', JNum (Some 0) 0),
        (''commands'', JArr [JObj [(''handle'', JNum (Some 7) 0), (''oid'', JNum (Some 1) 0),
           (''methodId'', JObj [(''level'', JNum (Some 2) 0), (''index'', JNum (Some 1) 0)]), (''arguments'', JNull)]])]),
      None,
      Some (JObj [(''messageType'', JNum (Some 3) 0), (''subscriptions'', JArr [JNum (Some 1) 0])])]"

theorem ncp_session_answered_witness:
  "\<exists>st' rs ids. handleNCP 1 test_env ''WebSocket'' True 0 (map (\<lambda>f. (f, id)) test_frames) new_ncp_state =
     Some (st', SessionEnds [CommandResponses rs, SubscriptionResponse ids]) \<and> map rs_Handle rs = [7]"
proof -
  have r: "ncp_reachable test_env new_ncp_state" by (simp add: ncp_reachable_def)
  have c: "0 \<notin> set (ns_clients new_ncp_state)" by code_simp
  have u: "isWebSocketUpgrade ''WebSocket''" by code_simp
  have o: "\<forall>(f, g) \<in> set (map (\<lambda>f. (f, id)) test_frames). others_step test_env 0 g" by (auto simp: others_step_def)
  have a: "asked (map fst (map (\<lambda>f. (f, id :: ncp_state \<Rightarrow> ncp_state)) test_frames)) =
      [CommandMessage [\<lparr> nc_Handle = 7, nc_OID = 1, nc_MethodID = EId 2 1, nc_Arguments = Some JNull \<rparr>], SubscriptionMessage [1]]"
    by code_simp
  from ncp_session_answered [OF r c u o, of 0, unfolded a] show ?thesis
    by (fastforce simp: list_all2_Cons2 elim!: answers.elims)
qed

end
