(* ===== verification/Class_Contract.thy ===== *)
theory Class_Contract
  imports Ncp_Session
begin

text \<open>
  The ids of properties and methods (the constants of \<open>internal/nca/nca_model.go\<close> and of
  \<open>internal/infrastructure/ncp_types.go\<close>) and the contract of the classes: what the class manager says of the classes of an object,
  against what the object answers.
\<close>

subsection \<open>Ids\<close>

text \<open>The pairs of the constants \<open>...Level\<close> and \<open>...Index\<close>, in the order of the code.\<close>

definition EventPropertyChanged :: elem_id where "EventPropertyChanged = EId 1 1"

definition object_methods :: "(string \<times> elem_id) list" where
  "object_methods =
     [(''Get'', EId 1 1), (''Set'', EId 1 2), (''GetSequenceItem'', EId 1 3), (''SetSequenceItem'', EId 1 4),
      (''AddSequenceItem'', EId 1 5), (''RemoveSequenceItem'', EId 1 6), (''GetSequenceLength'', EId 1 7)]"

definition object_properties :: "(string \<times> elem_id) list" where
  "object_properties =
     [(''ClassID'', EId 1 1), (''OID'', EId 1 2), (''ConstantOID'', EId 1 3), (''Owner'', EId 1 4), (''Role'', EId 1 5),
      (''UserLabel'', EId 1 6), (''Touchpoints'', EId 1 7), (''RuntimeConstraints'', EId 1 8)]"

definition block_properties :: "(string \<times> elem_id) list" where
  "block_properties = [(''Enabled'', EId 2 1), (''Members'', EId 2 2)]"

definition block_methods :: "(string \<times> elem_id) list" where
  "block_methods =
     [(''GetMemberDescriptors'', EId 2 1), (''FindMembersByPath'', EId 2 2), (''FindMembersByRole'', EId 2 3),
      (''FindMembersByClassID'', EId 2 4)]"

definition worker_properties :: "(string \<times> elem_id) list" where
  "worker_properties = [(''Enabled'', EId 2 1)]"

definition device_manager_properties :: "(string \<times> elem_id) list" where
  "device_manager_properties =
     [(''NcVersion'', EId 3 1), (''Manufacturer'', EId 3 2), (''Product'', EId 3 3), (''SerialNumber'', EId 3 4),
      (''UserInventory'', EId 3 5), (''DeviceName'', EId 3 6), (''DeviceRole'', EId 3 7), (''Operational'', EId 3 8),
      (''ResetCause'', EId 3 9), (''Message'', EId 3 10)]"

definition class_manager_properties :: "(string \<times> elem_id) list" where
  "class_manager_properties = [(''ControlClasses'', EId 3 1), (''Datatypes'', EId 3 2)]"

definition class_manager_methods :: "(string \<times> elem_id) list" where
  "class_manager_methods = [(''GetControlClass'', EId 3 1), (''GetDatatype'', EId 3 2)]"

text \<open>The server has its own copies of the ids of objects.\<close>

definition NCMethods :: "(string \<times> elem_id) list" where
  "NCMethods =
     [(''Get'', EId 1 1), (''Set'', EId 1 2), (''GetSequenceItem'', EId 1 3), (''SetSequenceItem'', EId 1 4),
      (''AddSequenceItem'', EId 1 5), (''RemoveSequenceItem'', EId 1 6), (''GetSequenceLength'', EId 1 7)]"

definition NCProperties :: "(string \<times> elem_id) list" where
  "NCProperties =
     [(''ClassID'', EId 1 1), (''OID'', EId 1 2), (''ConstantOID'', EId 1 3), (''Owner'', EId 1 4), (''Role'', EId 1 5),
      (''UserLabel'', EId 1 6)]"

definition message_types :: "(string \<times> int) list" where
  "message_types =
     [(''Command'', 0), (''Response'', 1), (''Notification'', 2), (''Subscription'', 3), (''SubscriptionResponse'', 4), (''Error'', 5)]"

definition method_statuses :: "(string \<times> int) list" where
  "method_statuses =
     [(''Ok'', 200), (''PropertyDeprecated'', 298), (''MethodDeprecated'', 299), (''BadCommandFormat'', 400), (''Unauthorized'', 401),
      (''BadOid'', 404), (''Readonly'', 405), (''InvalidRequest'', 406), (''Conflict'', 409), (''BufferOverflow'', 413),
      (''IndexOutOfBounds'', 414), (''ParameterError'', 417), (''Locked'', 423), (''DeviceError'', 500), (''MethodNotImplemented'', 501),
      (''PropertyNotImplemented'', 502), (''NotReady'', 503), (''Timeout'', 504)]"

text \<open>The statuses the objects answer are among them; the names are distinct, and so are the numbers.\<close>

lemma statuses_used:
  "[(''Ok'', StatusOk), (''BadCommandFormat'', StatusBadCommandFormat), (''BadOid'', StatusBadOid), (''IndexOutOfBounds'', StatusIndexOutOfBounds),
    (''DeviceError'', StatusDeviceError), (''MethodNotImplemented'', StatusMethodNotImplemented),
    (''PropertyNotImplemented'', StatusPropertyNotImplemented)] = map (\<lambda>i. method_statuses ! i) [0, 3, 5, 10, 13, 14, 15]"
  "distinct (map fst method_statuses)" "distinct (map snd method_statuses)"
  by (simp_all add: method_statuses_def)

lemma server_ids: "NCMethods = object_methods" "NCProperties = take 6 object_properties"
  by (simp_all add: NCMethods_def object_methods_def NCProperties_def object_properties_def)

lemma message_of_types:
  "message_of m = (case map_of (map (\<lambda>(n, k). (k, n)) message_types) (MessageType m) of
      Some n \<Rightarrow> (if n = ''Command'' then CommandMessage (Commands m)
        else if n = ''Subscription'' then SubscriptionMessage (Subscriptions m) else OtherMessage (MessageType m))
    | None \<Rightarrow> OtherMessage (MessageType m))"
  by (simp add: message_of_def message_types_def)

subsection \<open>What a class declares\<close>

text \<open>The descriptors of a class and of the classes it derives from, the prefixes of its id.\<close>

definition class_chain :: "class_manager \<Rightarrow> int list \<Rightarrow> ClassDescriptor list" where
  "class_chain m cid = List.map_filter (\<lambda>k. map_of (cm_Classes m) (classIDToKey (take k cid))) [1..<Suc (length cid)]"

definition declared :: "class_manager \<Rightarrow> int list \<Rightarrow> PropertyDescriptor list" where
  "declared m cid = concat (map cd_properties (class_chain m cid))"

definition declared_methods :: "class_manager \<Rightarrow> int list \<Rightarrow> MethodDescriptor list" where
  "declared_methods m cid = concat (map cd_methods (class_chain m cid))"

definition readable :: "nca_env \<Rightarrow> registry \<Rightarrow> nc_object \<Rightarrow> elem_id set" where
  "readable e reg ob = {i. obj_GetProperty e reg ob i \<noteq> None}"

definition writable :: "nca_env \<Rightarrow> nc_object \<Rightarrow> elem_id set" where
  "writable e ob = {i. \<exists>v. snd (snd (snd (obj_SetProperty e ob i v)))}"

lemma declared_ids:
  "map pd_id (declared (NewClassManager 3 None) [1, 1]) = map snd (object_properties @ block_properties)"
  "map pd_id (declared (NewClassManager 3 None) [1, 2]) = map snd (object_properties @ worker_properties)"
  "map pd_id (declared (NewClassManager 3 None) [1, 3, 1]) = map snd (object_properties @ device_manager_properties)"
  "map pd_id (declared (NewClassManager 3 None) [1, 3, 2]) = map snd (object_properties @ class_manager_properties)"
  by code_simp+

lemma declared_writable:
  "map pd_id (filter (\<lambda>p. \<not> pd_readonly p) (declared (NewClassManager 3 None) [1, 1])) = [EId 1 6]"
  "map pd_id (filter (\<lambda>p. \<not> pd_readonly p) (declared (NewClassManager 3 None) [1, 2])) = [EId 1 6, EId 2 1]"
  "map pd_id (filter (\<lambda>p. \<not> pd_readonly p) (declared (NewClassManager 3 None) [1, 3, 1])) = [EId 1 6, EId 3 5, EId 3 6, EId 3 7]"
  "map pd_id (filter (\<lambda>p. \<not> pd_readonly p) (declared (NewClassManager 3 None) [1, 3, 2])) = [EId 1 6]"
  by code_simp+

lemma readable_ids:
  "readable e reg (OBlock b) = set (map snd (object_properties @ block_properties))"
  "readable e reg (OWorker w) = insert (EId 3 1) (set (map snd (object_properties @ worker_properties)))"
  "readable e reg (ODeviceManager d) = set (map snd (object_properties @ device_manager_properties))"
  "readable e reg (OClassManager c) = set (map snd (object_properties @ class_manager_properties))"
  by (auto simp: readable_def block_GetProperty_def worker_GetProperty_def dm_GetProperty_def cm_GetProperty_def base_GetProperty_def
      object_properties_def block_properties_def worker_properties_def device_manager_properties_def class_manager_properties_def
      split: if_split_asm)

lemma base_writable: "snd (snd (base_SetProperty b i v)) \<longleftrightarrow> i = EId 1 6 \<and> (\<exists>s. v = VStr s)"
  by (cases v) (simp_all add: base_SetProperty_def)

lemma base_writable_ex: "(\<exists>v. snd (snd (base_SetProperty b i v))) \<longleftrightarrow> i = EId 1 6"
  by (auto simp: base_writable)

lemma writable_ids:
  "writable e (OBlock b) = {EId 1 6}"
  "writable e (OClassManager c) = {EId 1 6}"
  "writable e (ODeviceManager d) = {EId 1 6, EId 3 5, EId 3 6, EId 3 7}"
  "writable e (OWorker w) = insert (EId 1 6)
     (if \<exists>v. case hook_command (ne_float e) (wk_OnSet w) v of None \<Rightarrow> True | Some (addr, cmd) \<Rightarrow> ne_send e addr cmd then {EId 3 1} else {})"
proof -
  show "writable e (OBlock b) = {EId 1 6}" "writable e (OClassManager c) = {EId 1 6}"
    using base_writable_ex by (auto simp: writable_def block_SetProperty_def cm_SetProperty_def split_beta)
  have "(\<exists>v. snd (snd (dm_SetProperty d i v))) \<longleftrightarrow> i \<in> {EId 1 6, EId 3 5, EId 3 6, EId 3 7}" for i
  proof (cases "i \<in> {EId 3 5, EId 3 6, EId 3 7}")
    case True
    then have "snd (snd (dm_SetProperty d i (VStr [])))" by (auto simp: dm_SetProperty_def)
    with True show ?thesis by blast
  next
    case False
    with base_writable_ex [of "dm_base d" i] show ?thesis by (simp add: dm_SetProperty_def split_beta)
  qed
  then show "writable e (ODeviceManager d) = {EId 1 6, EId 3 5, EId 3 6, EId 3 7}" by (auto simp: writable_def split_beta)
  have one: "snd (snd (snd (worker_SetProperty ff send w i v))) \<longleftrightarrow>
      (if i = EId 3 1 then (case hook_command ff (wk_OnSet w) v of None \<Rightarrow> True | Some (addr, cmd) \<Rightarrow> send addr cmd)
       else snd (snd (base_SetProperty (wk_base w) i v)))" for i ff send v
    by (simp add: worker_SetProperty_def split_beta split: option.split)
  have "(\<exists>v. snd (snd (snd (worker_SetProperty ff send w i v)))) \<longleftrightarrow> i = EId 1 6 \<or>
      i = EId 3 1 \<and> (\<exists>v. case hook_command ff (wk_OnSet w) v of None \<Rightarrow> True | Some (addr, cmd) \<Rightarrow> send addr cmd)" for i ff send
    by (cases "i = EId 3 1") (simp_all add: one base_writable_ex)
  then show "writable e (OWorker w) = insert (EId 1 6)
     (if \<exists>v. case hook_command (ne_float e) (wk_OnSet w) v of None \<Rightarrow> True | Some (addr, cmd) \<Rightarrow> ne_send e addr cmd then {EId 3 1} else {})"
    by (auto simp: writable_def split_beta)
qed

text \<open>
  C37. Blocks and managers keep the contract of their classes: they answer exactly the properties the class manager declares for
  their class and the classes above it, and a write can succeed for exactly those not declared read-only. A worker answers
  its value besides, which only the classes derived from NcWorker declare; but the property enabled, which NcWorker
  declares writable, refuses every write.
\<close>

theorem class_contract:
  "let m = NewClassManager 3 None; ids = (\<lambda>cid. set (map pd_id (declared m cid)));
       open_ids = (\<lambda>cid. set (map pd_id (filter (\<lambda>p. \<not> pd_readonly p) (declared m cid)))) in
   readable e reg (OBlock b) = ids [1, 1] \<and> writable e (OBlock b) = open_ids [1, 1] \<and>
   readable e reg (ODeviceManager d) = ids [1, 3, 1] \<and> writable e (ODeviceManager d) = open_ids [1, 3, 1] \<and>
   readable e reg (OClassManager c) = ids [1, 3, 2] \<and> writable e (OClassManager c) = open_ids [1, 3, 2] \<and>
   readable e reg (OWorker w) = insert (EId 3 1) (ids [1, 2]) \<and> EId 2 1 \<in> open_ids [1, 2] \<and> EId 2 1 \<notin> writable e (OWorker w)"
  unfolding Let_def declared_ids declared_writable readable_ids writable_ids by simp

text \<open>The methods on sequences, which NcObject declares for every class, are not implemented by the workers of the gateway.\<close>

lemma workers_no_sequences:
  assumes "i \<in> set (map snd (drop 2 object_methods))" "wk_OnMethod w = NoOnMethod \<or> (\<exists>addr ch. wk_OnMethod w = GainMethods addr ch)"
  shows "i \<in> md_id ` set (declared_methods (NewClassManager 3 None) [1, 2]) \<and>
    obj_InvokeMethod n e reg (OWorker w) i args = Some (OWorker w, [], [], Some (VResult StatusMethodNotImplemented VNil))"
proof -
  have "map md_id (declared_methods (NewClassManager 3 None) [1, 2]) = map snd object_methods" by code_simp
  then have "md_id ` set (declared_methods (NewClassManager 3 None) [1, 2]) = set (map snd object_methods)"
    by (metis list.set_map)
  moreover have "i \<in> set (map snd object_methods)" using assms(1) in_set_dropD by (fastforce simp: drop_map)
  moreover have "i \<in> {EId 1 3, EId 1 4, EId 1 5, EId 1 6, EId 1 7}" using assms(1) by (simp add: object_methods_def)
  then have "worker_InvokeMethod (ne_float e) (ne_send e) w i args = (w, [], [], Some (VResult StatusMethodNotImplemented VNil))"
    using assms(2) by (auto simp: worker_InvokeMethod_def)
  ultimately show ?thesis by simp
qed

end
