(* ===== verification/Spec2Isabelle.thy ===== *)
theory Spec2Isabelle
  imports Shure_Catalogue Tpci_Parse Nca_Laws Worker_Laws Ncp_Laws Is05_Connection Is07_Events
    Message_Bus Shure_Link Nmos_Resources Gateway_Lifecycle Registry_Client
    Dummy_Node Registry_Gateway Discovery_Run Event_Deadlines Class_Contract
begin

text \<open>
  A verification library for shure-nmos-bridge, a Go program that makes Shure wireless receivers
  controllable over NMOS. It speaks the text protocol TPCI to the receivers, and to its clients
  the device model of MS-05 over the websocket protocol of IS-12, connection management of IS-05
  and events of IS-07. All paths are under \<open>src/\<close>.

  Theories.

  \<^item> \<open>Go_Prelude\<close>: the Go library the code uses (trimming, fields, case, decimal and hexadecimal
    numbers, 64-bit wrap-around) and the lemmas on them that the parsers share.
  \<^item> \<open>Shure_Model\<close>, \<open>Shure_Commands\<close>, \<open>Shure_Catalogue\<close>, \<open>Tpci_Parse\<close>:
    \<open>internal/infrastructure/shure_commands.go\<close>. Model families, the two command builders, all the
    commands with their texts, and the parsers of reports. The lemmas show what the
    builder writes, that the parsers read it back, and where the text depends on the order of a map.
  \<^item> \<open>Go_Values\<close>: the values of an \<open>interface{}\<close> the program stores, JSON documents and the
    decoding of \<open>encoding/json\<close> into the argument structs of the handlers.
  \<^item> \<open>Nca_Object\<close>, \<open>Nca_Managers\<close>, \<open>Nca_Block\<close>: \<open>internal/nca/nca_model.go\<close>, one record for
    each struct, and the sum \<open>nc_object\<close> for the interface \<open>NcObject\<close> of
    \<open>internal/infrastructure/ncp_types.go\<close>; the wrappers of \<open>ncp_objects.go\<close> convert types of
    equal shape and are the identity, except the resolver, which is modelled.
  \<^item> \<open>Nca_Contract\<close>: the locale \<open>settable\<close>, the contract of an object whose properties can be read
    and written, and its interpretation on the five kinds of object. \<open>Nca_Laws\<close> interprets it on the
    sum and holds the laws of the searches, of the classes and of the gain methods.
  \<^item> \<open>Ncp_Workers\<close>, \<open>Worker_Laws\<close>: \<open>internal/infrastructure/ncp_workers.go\<close>, the class id tables,
    the worker configurations of every family and the factories.
  \<^item> \<open>Ncp_Dispatch\<close>, \<open>Ncp_Laws\<close>: the control server of \<open>internal/infrastructure/nmos_controller.go\<close>
    (\<open>RegisterNCPObject\<close>, \<open>dispatchNCPCommand\<close>, \<open>handleSubscriptions\<close>,
    \<open>BroadcastNCPNotification\<close>, \<open>handleNCP\<close>), with its invariant over the step relation \<open>ncp_step\<close>.
    \<open>Ncp_Session\<close>: the decoding of a frame and the session of a client from its upgrade to its end. \<open>Class_Contract\<close>: the id
    constants, and what the classes declare against what the objects answer.
  \<^item> \<open>Is05_Connection\<close>: staged and active parameters of a sender.
  \<^item> \<open>Is07_Events\<close>: subscriptions, cached events, broadcasts and heartbeats. \<open>Event_Deadlines\<close>: the same with the time,
    the pings and the write deadline of each connection.
  \<^item> \<open>Nmos_Resources\<close>: the store of IS-04 resources with its lock, the order of registration and
    unregistration (\<open>RegisterResource\<close>, \<open>UpdateResource\<close>, \<open>reRegisterAll\<close>, \<open>unregisterAll\<close>).
  \<^item> \<open>Registry_Client\<close>: the search for a registry, the registration at the start (\<open>discoverAndRegister\<close>), the heartbeat, the
    monitor and the polling. \<open>registry_step\<close> is what can happen after the start; the laws say what no step changes.
    \<open>Registry_Exchange\<close>: the requests to the registry and how its answers are read. \<open>Registry_Gateway\<close>: the gateway, the node and a
    registry together, that what receivers leave in the node can be registered in the order the node sends it.
  \<^item> \<open>Sql_Table\<close>, \<open>Database\<close>, \<open>Database_Laws\<close>: \<open>internal/infrastructure/database.go\<close>. A table is a list of rows, and an
    operation one of four kinds of statement under the lock. The locales \<open>keyed_table\<close> and \<open>stored_table\<close> are the contract of a
    table with a key; their interpretations give, for each kind of struct, the map the operations implement.
  \<^item> \<open>Node_Api\<close>: the rows a registration writes, the GET handlers of the node, and the controls of a device.
  \<^item> \<open>Http_Router\<close>: the table of routes of \<open>setupRouter\<close>, the middleware, and the handlers that list links; the laws show that the
    table decides how a request is served, and which of the links and addresses the program gives out are routes.
  \<^item> \<open>Receiver_Discovery\<close>: \<open>internal/infrastructure/mdns_discovery.go\<close>, what is read from a packet and when a device is passed on.
    \<open>Discovery_Run\<close>: its goroutines and \<open>Stop\<close> as a step relation, and what can panic in it.
  \<^item> \<open>Gateway_Setup\<close>, \<open>Gateway_Tree\<close>, \<open>Gateway_Routes\<close>, \<open>Gateway_Classes\<close>: \<open>setupDeviceNCP\<close> of
    \<open>internal/module/gateway.go\<close>, the control tree of a receiver. \<open>Gateway_Tree\<close> is its abstract specification, a
    list of nodes (parent, id, object), and shows that the registry after the setup is the one the list
    describes; \<open>Gateway_Routes\<close> shows which ids receivers get and that every parameter leads to its worker.
  \<^item> \<open>Gateway_Events\<close>, \<open>Gateway_Event_Laws\<close>: \<open>handleShureDevice\<close>, what a report of a receiver does to the
    events, the control server and the node.
  \<^item> \<open>Gateway_Devices\<close>, \<open>Gateway_Device_Laws\<close>: \<open>handleDiscovery\<close>, \<open>addShureController\<close>,
    \<open>ensureIS07Resources\<close> and \<open>reapStaleDevices\<close>, how receivers come and go.
  \<^item> \<open>Gateway_Pipeline\<close>: \<open>listenToShureEvents\<close> and \<open>processMessages\<close>, the way of a report from the reader of a receiver over the bus
    to its handler, and the way of an announcement from discovery to the removal of receivers: what spans components.
  \<^item> \<open>Node_Lifecycle\<close>: \<open>Start\<close> and \<open>Stop\<close> of the node, the services it announces by mDNS, and the interface and the addresses
    it goes by. \<open>Gateway_Lifecycle\<close>: \<open>Start\<close> and \<open>Stop\<close> of the gateway over the models of what they call, and how such runs end.
  \<^item> \<open>Gateway_Program\<close>: \<open>cmd/gateway/main.go\<close>, from the flags to the exit status. \<open>Dummy_Node\<close>: \<open>cmd/dummy_node/main.go\<close>, a node with two
    controls, two workers and five event sources, its setup, its callback for a control and its events.
  \<^item> \<open>Message_Bus\<close>: \<open>internal/infrastructure/message_bus.go\<close>; the locale \<open>fifo\<close> is the contract of a
    queue, interpreted on a channel and on the bus.
  \<^item> \<open>Shure_Link\<close>: \<open>internal/infrastructure/shure_controller_impl.go\<close>, framing, sending and lifecycle.

  How the state corresponds. A Go map is a partial map where only lookups matter and an
  association list where the code ranges over it; a pointer that may be nil is an option; an error is
  the absence of a result or a status. The registry of control objects is \<open>ns_objects\<close> of
  \<open>ncp_state\<close>, keyed by object id; a callback is a flag of the object, and an operation returns the
  notifications it sends and the commands it passes to \<open>SendCommand\<close>. Numbers are unbounded
  integers, wrapped to 64 bits where the code computes with them.

  Parameters. The text of a float, SHA-256, the clock, the order in which Go visits a map, whether
  a write to a receiver or a connection succeeds, what the DNS and the registry answer, how \<open>net.ParseIP\<close> reads an
  address, how chi matches a path to a table, and whether the SQL library executes a statement and how it orders rows with equal
  times are arguments of the definitions; \<open>router_ok\<close> states what chi documents, and
  \<open>takes_children\<close> what IS-04 says of a registry. The registration of a resource is a parameter where a property is about what
  happens when it returns, which the code's does not.

  Fuel. The recursive searches of a block follow object ids through a resolver and need not
  end, so they take fuel and answer \<open>None\<close> when it runs out. One unit is enough behind
  the resolver the server installs, because it wraps what it finds and the type test on a block
  fails; with direct resolvers any amount above the rank of the block is enough when
  membership is acyclic, and none is on a cycle.

  Steps. A step of the control server is a whole message, of the event server a whole message, a
  broadcast or a check: the locks of the code are held for parts of these steps only. The bus and
  the receiver connection step as finely as their selects and goroutines. In \<open>Nmos_Resources\<close> a call
  runs on one goroutine and the lock is part of its state.

  Not modelled: sockets, files and the mDNS library; the text of HTTP and JSON; timers, whose ticks are steps, and the
  deadlines but for the writes of events; the control wrappers that only convert types of equal shape; the
  programs under \<open>cmd\<close> that print what mDNS finds. A database statement that fails is one that the library refuses as a whole.
\<close>

end
